(* ===== verification/Prelude.thy ===== *)
theory Prelude
  imports Main "HOL-Library.Word"
begin

text \<open>
  Shared vocabulary of the development. Identifiers are 128-bit words
  (\<^verbatim>\<open>uuid.UUID\<close>, with \<^verbatim>\<open>uuid.Nil\<close> the zero word), instants and
  durations are integers counting nanoseconds, texts and byte strings are HOL strings.
  A fallible operation returns \<open>'e + 'a\<close>, the error on the left. A relational table is
  the list of its rows in insertion order; SELECT, EXISTS, count, UPDATE and DELETE are the
  list functions below, and the locale \<open>db_table\<close> states what the components rely on
  when they read a table after writing it.
\<close>

section \<open>Types\<close>

type_synonym uuid = "128 word"
type_synonym instant = int
type_synonym duration = int

abbreviation uuid_nil :: uuid where
  "uuid_nil \<equiv> 0"

definition second :: duration where "second = 1000000000"
definition minute :: duration where "minute = 60 * second"
definition hour :: duration where "hour = 60 * minute"

datatype json =
    JNull
  | JBool bool
  | JNum int
  | JStr string
  | JArr "json list"
  | JObj "(string \<times> json) list"

named_theorems table_simps \<open>reading a table after writing it\<close>
named_theorems op_defs \<open>definitions of the operations that change the database\<close>

section \<open>Results\<close>

definition bindR :: "'e + 'a \<Rightarrow> ('a \<Rightarrow> 'e + 'b) \<Rightarrow> 'e + 'b" where
  "bindR m f = (case m of Inl e \<Rightarrow> Inl e | Inr x \<Rightarrow> f x)"

definition guardR :: "bool \<Rightarrow> 'e \<Rightarrow> 'e + unit" where
  "guardR ok e = (if ok then Inr () else Inl e)"

lemma bindR_simps [simp]:
  "bindR (Inl e) f = Inl e"
  "bindR (Inr x) f = f x"
  by (simp_all add: bindR_def)

lemma bindR_eq_Inr [simp]: "bindR m f = Inr y \<longleftrightarrow> (\<exists>x. m = Inr x \<and> f x = Inr y)"
  by (cases m) auto

lemma bindR_eq_Inl: "bindR m f = Inl e \<longleftrightarrow> m = Inl e \<or> (\<exists>x. m = Inr x \<and> f x = Inl e)"
  by (cases m) auto

lemma guardR_simps [simp]:
  "guardR True e = Inr ()"
  "guardR False e = Inl e"
  by (simp_all add: guardR_def)

lemma guardR_eq_Inr [simp]: "guardR ok e = Inr u \<longleftrightarrow> ok"
  by (cases ok) auto

lemma guardR_eq_Inl [simp]: "guardR ok e = Inl e' \<longleftrightarrow> \<not> ok \<and> e' = e"
  by (cases ok) auto

lemma bindR_assoc: "bindR (bindR m f) g = bindR m (\<lambda>x. bindR (f x) g)"
  by (cases m) auto

section \<open>Tables\<close>

definition exists_row :: "('r \<Rightarrow> bool) \<Rightarrow> 'r list \<Rightarrow> bool" where
  "exists_row p t = list_ex p t"

definition count_rows :: "('r \<Rightarrow> bool) \<Rightarrow> 'r list \<Rightarrow> nat" where
  "count_rows p t = length (filter p t)"

definition update_rows :: "('r \<Rightarrow> bool) \<Rightarrow> ('r \<Rightarrow> 'r) \<Rightarrow> 'r list \<Rightarrow> 'r list" where
  "update_rows p f t = map (\<lambda>r. if p r then f r else r) t"

definition delete_rows :: "('r \<Rightarrow> bool) \<Rightarrow> 'r list \<Rightarrow> 'r list" where
  "delete_rows p t = filter (\<lambda>r. \<not> p r) t"

definition lookup_row :: "('r \<Rightarrow> 'k) \<Rightarrow> 'k \<Rightarrow> 'r list \<Rightarrow> 'r option" where
  "lookup_row key k t = find (\<lambda>r. key r = k) t"

text \<open>\<^verbatim>\<open>ORDER BY key LIMIT 1\<close>: the first row with the least key.\<close>

fun least_row :: "('r \<Rightarrow> 'k::linorder) \<Rightarrow> 'r list \<Rightarrow> 'r option" where
  "least_row key [] = None"
| "least_row key (r # rs) =
     (case least_row key rs of
        None \<Rightarrow> Some r
      | Some s \<Rightarrow> if key r \<le> key s then Some r else Some s)"

lemma exists_row_iff [simp]: "exists_row p t \<longleftrightarrow> (\<exists>r \<in> set t. p r)"
  by (simp add: exists_row_def list_ex_iff)

lemma set_update_rows: "set (update_rows p f t) = (\<lambda>r. if p r then f r else r) ` set t"
  by (simp add: update_rows_def)

lemma update_rowsE:
  assumes "r' \<in> set (update_rows p f t)"
  obtains (hit) r where "r \<in> set t" "p r" "r' = f r" | (miss) "r' \<in> set t" "\<not> p r'"
  using assms by (auto simp: update_rows_def split: if_splits)

lemma update_rows_hit: "r \<in> set t \<Longrightarrow> p r \<Longrightarrow> f r \<in> set (update_rows p f t)"
  by (force simp: update_rows_def)

lemma update_rows_miss: "r \<in> set t \<Longrightarrow> \<not> p r \<Longrightarrow> r \<in> set (update_rows p f t)"
  by (force simp: update_rows_def)

lemma set_delete_rows [simp]: "set (delete_rows p t) = {r \<in> set t. \<not> p r}"
  by (simp add: delete_rows_def)

lemma update_rows_Nil [simp]: "update_rows p f [] = []"
  by (simp add: update_rows_def)

lemma update_rows_Cons [simp]:
  "update_rows p f (r # t) = (if p r then f r else r) # update_rows p f t"
  by (simp add: update_rows_def)

lemma update_rows_append [simp]:
  "update_rows p f (t @ u) = update_rows p f t @ update_rows p f u"
  by (simp add: update_rows_def)

lemma length_update_rows [simp]: "length (update_rows p f t) = length t"
  by (simp add: update_rows_def)

lemma update_rows_none: "(\<And>r. r \<in> set t \<Longrightarrow> \<not> p r) \<Longrightarrow> update_rows p f t = t"
  by (induction t) auto

lemma map_key_update_rows:
  "(\<And>r. p r \<Longrightarrow> key (f r) = key r) \<Longrightarrow> map key (update_rows p f t) = map key t"
  by (simp add: update_rows_def)

lemma count_rows_0 [simp]: "count_rows p t = 0 \<longleftrightarrow> (\<forall>r \<in> set t. \<not> p r)"
  by (simp add: count_rows_def filter_empty_conv)

lemma count_rows_append [simp]: "count_rows p (t @ u) = count_rows p t + count_rows p u"
  by (simp add: count_rows_def)

lemma count_rows_Nil [simp]: "count_rows p [] = 0"
  by (simp add: count_rows_def)

lemma count_rows_Cons [simp]:
  "count_rows p (r # t) = (if p r then Suc (count_rows p t) else count_rows p t)"
  by (simp add: count_rows_def)

lemma lookup_row_Nil [simp]: "lookup_row key k [] = None"
  by (simp add: lookup_row_def)

lemma lookup_row_Cons [simp]:
  "lookup_row key k (r # t) = (if key r = k then Some r else lookup_row key k t)"
  by (simp add: lookup_row_def)

lemma lookup_row_None: "lookup_row key k t = None \<longleftrightarrow> k \<notin> key ` set t"
  by (induction t) auto

lemma lookup_row_Some: "lookup_row key k t = Some r \<Longrightarrow> r \<in> set t \<and> key r = k"
  by (induction t) (auto split: if_splits)

lemma lookup_row_in_set: "lookup_row key k t = Some r \<Longrightarrow> r \<in> set t"
  by (drule lookup_row_Some) simp

lemma lookup_row_key: "lookup_row key k t = Some r \<Longrightarrow> key r = k"
  by (drule lookup_row_Some) simp

lemma lookup_row_append:
  "lookup_row key k (t @ u) =
     (case lookup_row key k t of None \<Rightarrow> lookup_row key k u | Some r \<Rightarrow> Some r)"
  by (induction t) auto

lemma lookup_row_distinct:
  assumes "distinct (map key t)" and "r \<in> set t"
  shows "lookup_row key (key r) t = Some r"
  using assms by (induction t) (auto simp: rev_image_eqI)

lemma lookup_row_update_rows:
  assumes "\<And>r. p r \<Longrightarrow> key (f r) = key r"
  shows "lookup_row key k (update_rows p f t) =
    map_option (\<lambda>r. if p r then f r else r) (lookup_row key k t)"
  by (induction t) (auto simp: assms)

lemma distinct_key_update_rows:
  "(\<And>r. p r \<Longrightarrow> key (f r) = key r) \<Longrightarrow> distinct (map key (update_rows p f t)) = distinct (map key t)"
  by (simp add: map_key_update_rows)

lemma distinct_key_delete_rows:
  "distinct (map key t) \<Longrightarrow> distinct (map key (delete_rows p t))"
  by (simp add: delete_rows_def distinct_map_filter)

lemma distinct_key_eq:
  "distinct (map key t) \<Longrightarrow> r \<in> set t \<Longrightarrow> s \<in> set t \<Longrightarrow> key r = key s \<Longrightarrow> r = s"
  by (auto simp: distinct_map dest: inj_onD)

lemma least_row_None [simp]: "least_row key t = None \<longleftrightarrow> t = []"
  by (induction t) (auto split: option.splits)

lemma least_row_Some:
  "least_row key t = Some r \<Longrightarrow> r \<in> set t \<and> (\<forall>s \<in> set t. key r \<le> key s)"
  by (induction t arbitrary: r) (force split: option.splits if_splits)+

lemma least_row_exists: "t \<noteq> [] \<Longrightarrow> \<exists>r. least_row key t = Some r"
  by (cases "least_row key t") auto

lemma find_SomeD: "find p xs = Some x \<Longrightarrow> x \<in> set xs \<and> p x"
  by (induction xs) (auto split: if_splits)

lemma find_in_set: "find p xs = Some x \<Longrightarrow> x \<in> set xs"
  by (drule find_SomeD) simp

section \<open>The table interface\<close>

text \<open>
  A table of a state: how its rows are read and written, and the column that is its primary
  key. The laws are those of a record field; what the components use of a keyed table (a row
  inserted under a fresh key is found again, an update that keeps the key keeps the keys
  distinct) follows once for every table.
\<close>

locale db_table =
  fixes rows :: "'s \<Rightarrow> 'r list"
    and rows_update :: "('r list \<Rightarrow> 'r list) \<Rightarrow> 's \<Rightarrow> 's"
    and key :: "'r \<Rightarrow> 'k"
  assumes rows_rows_update: "rows (rows_update f s) = f (rows s)"
begin

definition keyed :: "'s \<Rightarrow> bool" where
  "keyed s \<longleftrightarrow> distinct (map key (rows s))"

lemma keyed_insert:
  "keyed s \<Longrightarrow> lookup_row key (key r) (rows s) = None \<Longrightarrow> keyed (rows_update (\<lambda>t. t @ [r]) s)"
  by (auto simp: keyed_def rows_rows_update lookup_row_None)

lemma keyed_update:
  "keyed s \<Longrightarrow> (\<And>r. p r \<Longrightarrow> key (f r) = key r) \<Longrightarrow> keyed (rows_update (update_rows p f) s)"
  by (simp add: keyed_def rows_rows_update map_key_update_rows)

lemma keyed_delete: "keyed s \<Longrightarrow> keyed (rows_update (delete_rows p) s)"
  by (simp add: keyed_def rows_rows_update distinct_key_delete_rows)

lemma lookup_insert:
  "lookup_row key k (rows s) = None \<Longrightarrow>
   lookup_row key k (rows (rows_update (\<lambda>t. t @ [r]) s)) = (if key r = k then Some r else None)"
  by (simp add: rows_rows_update lookup_row_append)

lemma lookup_insert_other:
  "key r \<noteq> k \<Longrightarrow> lookup_row key k (rows (rows_update (\<lambda>t. t @ [r]) s)) = lookup_row key k (rows s)"
  by (simp add: rows_rows_update lookup_row_append split: option.splits)

lemma lookup_update:
  "(\<And>r. p r \<Longrightarrow> key (f r) = key r) \<Longrightarrow>
   lookup_row key k (rows (rows_update (update_rows p f) s)) =
     map_option (\<lambda>r. if p r then f r else r) (lookup_row key k (rows s))"
  by (simp add: rows_rows_update lookup_row_update_rows)

lemma lookup_in_rows:
  "keyed s \<Longrightarrow> lookup_row key k (rows s) = Some r \<longleftrightarrow> r \<in> set (rows s) \<and> key r = k"
  by (auto simp: keyed_def dest: lookup_row_Some lookup_row_distinct)

end

section \<open>Guarantees along a history\<close>

text \<open>
  A relation \<open>K\<close> between earlier and later states that every step from a good state
  respects, and that composes, holds along every history.
\<close>

locale guarantee =
  fixes R :: "'s \<Rightarrow> 's \<Rightarrow> bool" and inv :: "'s \<Rightarrow> bool" and K :: "'s \<Rightarrow> 's \<Rightarrow> bool"
  assumes kept_refl: "K s s"
    and kept_trans: "K s t \<Longrightarrow> K t u \<Longrightarrow> K s u"
    and step_kept: "R s t \<Longrightarrow> inv s \<Longrightarrow> K s t"
    and kept_inv: "K s t \<Longrightarrow> inv s \<Longrightarrow> inv t"
begin

lemma run_kept: "R\<^sup>*\<^sup>* s t \<Longrightarrow> inv s \<Longrightarrow> K s t \<and> inv t"
  by (induction rule: rtranclp_induct) (blast intro: kept_refl kept_trans step_kept kept_inv)+

end

end
