(* ===== verification/Opt_Values.thy ===== *)
theory Opt_Values
  imports Prelude
begin

text \<open>
  \<^verbatim>\<open>internal/opt/opt.go\<close> and \<^verbatim>\<open>internal/ref/ref.go\<close>: optional
  values. \<^verbatim>\<open>Opt[x]\<close> carries a value and an \<^verbatim>\<open>isSet\<close> flag and every
  constructor leaves the value at its zero when the flag is false, so Go's struct equality on
  \<^verbatim>\<open>Opt\<close> is equality of HOL options. A nil pointer is \<open>None\<close> as well.
\<close>

section \<open>Constructors and accessors\<close>

definition opt_of_non_zero :: "'x \<Rightarrow> 'x \<Rightarrow> 'x option" where
  "opt_of_non_zero zero v = (if v = zero then None else Some v)"

text \<open>\<^verbatim>\<open>Must\<close> panics on an unset value; the panic message is the error.\<close>

definition opt_must :: "'x option \<Rightarrow> string + 'x" where
  "opt_must ov = (case ov of Some v \<Rightarrow> Inr v | None \<Rightarrow> Inl ''optional value is not set'')"

definition opt_is_set :: "'x option \<Rightarrow> bool" where
  "opt_is_set ov = (case ov of Some _ \<Rightarrow> True | None \<Rightarrow> False)"

definition opt_or :: "'x option \<Rightarrow> 'x \<Rightarrow> 'x" where
  "opt_or ov d = (case ov of Some v \<Rightarrow> v | None \<Rightarrow> d)"

definition opt_or_opt :: "'x option \<Rightarrow> 'x option \<Rightarrow> 'x option" where
  "opt_or_opt ov p = (case ov of Some v \<Rightarrow> Some v | None \<Rightarrow> p)"

definition opt_or_func :: "'x option \<Rightarrow> (unit \<Rightarrow> 'x) \<Rightarrow> 'x" where
  "opt_or_func ov f = (case ov of Some v \<Rightarrow> v | None \<Rightarrow> f ())"

definition opt_map :: "('x \<Rightarrow> 'x) \<Rightarrow> 'x option \<Rightarrow> 'x option" where
  "opt_map f ov = (case ov of Some v \<Rightarrow> Some (f v) | None \<Rightarrow> None)"

definition deref_or :: "'x option \<Rightarrow> 'x \<Rightarrow> 'x" where
  "deref_or p d = (case p of None \<Rightarrow> d | Some v \<Rightarrow> v)"

definition ref_string_empty_nil :: "string \<Rightarrow> string option" where
  "ref_string_empty_nil v = (if v = '''' then None else Some v)"

section \<open>Comparison and JSON\<close>

definition cmp_compare :: "'x::linorder \<Rightarrow> 'x \<Rightarrow> int" where
  "cmp_compare a b = (if a < b then - 1 else if b < a then 1 else 0)"

definition opt_compare :: "'x::linorder option \<Rightarrow> 'x option \<Rightarrow> int" where
  "opt_compare a b =
     (case a of
        Some x \<Rightarrow> (case b of Some y \<Rightarrow> cmp_compare x y | None \<Rightarrow> 1)
      | None \<Rightarrow> (case b of Some y \<Rightarrow> - 1 | None \<Rightarrow> 0))"

text \<open>
  \<open>enc\<close> and \<open>dec\<close> are \<^verbatim>\<open>json.Marshal\<close> and
  \<^verbatim>\<open>json.Unmarshal\<close> at the element type.
\<close>

definition opt_marshal_json :: "('x \<Rightarrow> string) \<Rightarrow> 'x option \<Rightarrow> string" where
  "opt_marshal_json enc ov = (case ov of Some v \<Rightarrow> enc v | None \<Rightarrow> ''null'')"

definition opt_unmarshal_json :: "(string \<Rightarrow> 'e + 'x) \<Rightarrow> string \<Rightarrow> 'e + 'x option" where
  "opt_unmarshal_json dec data =
     (if data = ''null'' then Inr None
      else (case dec data of Inl e \<Rightarrow> Inl e | Inr v \<Rightarrow> Inr (Some v)))"

section \<open>Properties\<close>

lemma opt_or_simps [simp]: "opt_or (Some v) d = v" "opt_or None d = d"
  by (simp_all add: opt_or_def)

lemma opt_is_set_iff [simp]: "opt_is_set ov \<longleftrightarrow> ov \<noteq> None"
  by (simp add: opt_is_set_def split: option.splits)

lemma opt_must_eq: "opt_must ov = Inr v \<longleftrightarrow> ov = Some v"
  by (simp add: opt_must_def split: option.splits)

lemma cmp_compare_neg: "cmp_compare a b < 0 \<longleftrightarrow> a < b"
  by (simp add: cmp_compare_def)

lemma cmp_compare_sym: "cmp_compare b a = - cmp_compare a b"
  by (auto simp: cmp_compare_def)

text \<open>The comparator is a strict weak order in which an unset value comes before every set one.\<close>

lemma opt_compare_neg:
  "opt_compare a b < 0 \<longleftrightarrow> (case (a, b) of (None, Some _) \<Rightarrow> True | (Some x, Some y) \<Rightarrow> x < y | _ \<Rightarrow> False)"
  by (auto simp: opt_compare_def cmp_compare_neg split: option.splits)

lemma opt_compare_sym: "opt_compare b a = - opt_compare a b"
  by (cases a; cases b) (auto simp: opt_compare_def cmp_compare_def)

lemma opt_compare_trans: "opt_compare a b < 0 \<Longrightarrow> opt_compare b c < 0 \<Longrightarrow> opt_compare a c < 0"
  by (auto simp: opt_compare_neg split: option.splits)

end
