(* ===== verification/Model_Errors.thy ===== *)
theory Model_Errors
  imports Opt_Values
begin

text \<open>
  \<^verbatim>\<open>internal/model/errors.go\<close> and the error values of the model package. The
  three typed errors keep their fields. \<open>ErrNoRows\<close> is \<^verbatim>\<open>sql.ErrNoRows\<close>,
  \<open>ErrInternal\<close> an untyped error: a violated database constraint or an
  \<^verbatim>\<open>errors.New\<close>. Connection failures abort the transaction, leave the state as it
  was and are not represented.
\<close>

section \<open>Codes\<close>

definition CodeEnvironmentBusy :: string where "CodeEnvironmentBusy = ''environment_busy''"
definition CodeOutcomeUnreconciled :: string where "CodeOutcomeUnreconciled = ''outcome_unreconciled''"
definition CodeEnvironmentDeleting :: string where "CodeEnvironmentDeleting = ''environment_deleting''"
definition CodeDeploymentQueueFull :: string where "CodeDeploymentQueueFull = ''deployment_queue_full''"
definition CodeDeploymentBaseChanged :: string where
  "CodeDeploymentBaseChanged = ''deployment_base_changed''"
definition CodeQueueItemDispatching :: string where "CodeQueueItemDispatching = ''queue_item_dispatching''"
definition CodeQueueItemSettled :: string where "CodeQueueItemSettled = ''queue_item_settled''"

lemmas code_defs = CodeEnvironmentBusy_def CodeOutcomeUnreconciled_def CodeEnvironmentDeleting_def
  CodeDeploymentQueueFull_def CodeDeploymentBaseChanged_def CodeQueueItemDispatching_def
  CodeQueueItemSettled_def

section \<open>Errors\<close>

datatype model_error =
    ErrBadRequest string
  | ErrConflict (err_message: string) (err_code: string) (err_deployment: "uuid option")
  | ErrNotFound string
  | ErrRunnerCapacityFull
  | ErrObservationRequestSealed
  | ErrNoRows
  | ErrInternal string

type_synonym 'a result = "model_error + 'a"

definition NewErrConflict :: "string \<Rightarrow> model_error" where
  "NewErrConflict message = ErrConflict message '''' None"

definition NewErrCodedConflict :: "string \<Rightarrow> string \<Rightarrow> model_error" where
  "NewErrCodedConflict code message = ErrConflict message code None"

fun AboutDeployment :: "model_error \<Rightarrow> uuid \<Rightarrow> model_error" where
  "AboutDeployment (ErrConflict m c d) i = (if i \<noteq> uuid_nil then ErrConflict m c (Some i) else ErrConflict m c d)"
| "AboutDeployment e i = e"

fun error_text :: "model_error \<Rightarrow> string" where
  "error_text (ErrBadRequest m) = ''bad request: '' @ m"
| "error_text (ErrConflict m _ _) = ''conflict: '' @ m"
| "error_text (ErrNotFound m) = ''not found: '' @ m"
| "error_text ErrRunnerCapacityFull = ''runner has no available job capacity''"
| "error_text ErrObservationRequestSealed = ''observation request was sealed without starting''"
| "error_text ErrNoRows = ''sql: no rows in result set''"
| "error_text (ErrInternal m) = m"

text \<open>
  \<^verbatim>\<open>errors.Is(err, sentinel)\<close> with the \<^verbatim>\<open>Is\<close> method of
  \<^verbatim>\<open>ErrConflict\<close>: a non-empty code that is the sentinel's.
\<close>

fun conflict_Is :: "model_error \<Rightarrow> model_error \<Rightarrow> bool" where
  "conflict_Is (ErrConflict _ c _) (ErrConflict _ sc _) \<longleftrightarrow> sc \<noteq> '''' \<and> sc = c"
| "conflict_Is _ _ \<longleftrightarrow> False"

definition ErrEnvironmentBusy :: model_error where
  "ErrEnvironmentBusy = ErrConflict '''' CodeEnvironmentBusy None"

definition ErrOutcomeUnreconciled :: model_error where
  "ErrOutcomeUnreconciled = ErrConflict '''' CodeOutcomeUnreconciled None"

fun IsErrConflict :: "model_error \<Rightarrow> bool" where
  "IsErrConflict (ErrConflict _ _ _) = True"
| "IsErrConflict _ = False"

fun IsErrNotFound :: "model_error \<Rightarrow> bool" where
  "IsErrNotFound (ErrNotFound _) = True"
| "IsErrNotFound _ = False"

fun IsErrBadRequest :: "model_error \<Rightarrow> bool" where
  "IsErrBadRequest (ErrBadRequest _) = True"
| "IsErrBadRequest _ = False"

section \<open>Properties\<close>

lemmas conflict_defs = NewErrConflict_def NewErrCodedConflict_def

lemma busy_Is [simp]:
  "conflict_Is (NewErrCodedConflict CodeEnvironmentBusy m) ErrEnvironmentBusy"
  "\<not> conflict_Is (NewErrCodedConflict CodeEnvironmentBusy m) ErrOutcomeUnreconciled"
  "conflict_Is (NewErrCodedConflict CodeOutcomeUnreconciled m) ErrOutcomeUnreconciled"
  "\<not> conflict_Is (NewErrCodedConflict CodeOutcomeUnreconciled m) ErrEnvironmentBusy"
  by (simp_all add: conflict_defs ErrEnvironmentBusy_def ErrOutcomeUnreconciled_def code_defs)

lemma AboutDeployment_Is [simp]: "conflict_Is (AboutDeployment e i) s = conflict_Is e s"
  by (cases e; cases s) auto

lemma conflict_Is_code: "conflict_Is e (ErrConflict m c d) \<Longrightarrow> err_code e = c"
  by (cases e) auto

lemma conflict_Is_IsErrConflict: "conflict_Is e s \<Longrightarrow> IsErrConflict e"
  by (cases e; cases s) auto

end
