(* ===== verification/Schema.thy ===== *)
theory Schema
  imports Model_Errors
begin

text \<open>
  The tables of the Data Plane and the structs of \<^verbatim>\<open>internal/model\<close> that its
  operations take and return. A row is a record with the columns of the table (the migrations
  under \<^verbatim>\<open>internal/model/migrations\<close>), the database a record with one list of rows
  per table. An operation takes the database and returns the changed one; the transaction of the
  Go code is this threading, its rollback is keeping the old state. A NULL column is \<open>None\<close>.
\<close>

section \<open>Deployments\<close>

datatype deployment_mode =
    ModeObservation | ModeDeployPlan | ModeDeploy | ModeRollback | ModeRollbackPlan | ModeDestroy

datatype deployment_status = StatusExecuting | StatusFailed | StatusSucceeded

definition IsPlanDeployment :: "deployment_mode \<Rightarrow> bool" where
  "IsPlanDeployment m \<longleftrightarrow> m = ModeDeployPlan \<or> m = ModeRollbackPlan \<or> m = ModeObservation"

definition RequiresEnvironmentLease :: "deployment_mode \<Rightarrow> bool" where
  "RequiresEnvironmentLease m \<longleftrightarrow>
     m = ModeDeploy \<or> m = ModeRollback \<or> m = ModeDestroy \<or> m = ModeObservation"

definition idempotencyDigestTimeLimit :: duration where
  "idempotencyDigestTimeLimit = 24 * hour"

definition DefaultEnvironmentLeaseTTL :: duration where
  "DefaultEnvironmentLeaseTTL = 65 * minute"

definition RunnerExecutionBudget :: duration where
  "RunnerExecutionBudget = hour"

record metrics =
  m_workloads :: int
  m_resource_nodes :: int
  m_tf_total :: int
  m_tf_added :: int
  m_tf_removed :: int
  m_tf_changed :: int

definition zero_metrics :: metrics where
  "zero_metrics = \<lparr>m_workloads = 0, m_resource_nodes = 0, m_tf_total = 0, m_tf_added = 0,
     m_tf_removed = 0, m_tf_changed = 0\<rparr>"

record draft_test_reference =
  dt_snapshot :: uuid
  dt_module :: uuid
  dt_draft :: uuid
  dt_revision :: int
  dt_project :: uuid
  dt_environment :: uuid

record module_artifact =
  art_draft_test :: "draft_test_reference option"
  art_module_id :: string
  art_module_uuid :: uuid
  art_version :: string
  art_version_uuid :: uuid
  art_semantic_version :: string
  art_migration_generation :: string
  art_source :: string
  art_digest :: string
  art_retained_exception :: bool
  art_resource_type_version :: "int option"
  art_resource_type_version_uuid :: "uuid option"
  art_output_schema :: "json option"
  art_confirmed_restricted :: "uuid option"

record deployment_row =
  dep_id :: uuid
  dep_de_id :: uuid
  dep_created_at :: instant
  dep_created_by :: uuid
  dep_completed_at :: "instant option"
  dep_mode :: deployment_mode
  dep_status :: deployment_status
  dep_status_message :: string
  dep_manifest :: string
  dep_graph :: string
  dep_tofu :: string
  dep_runner_id :: string
  dep_idempotency_key_digest :: "string option"
  dep_outputs_recipient :: "string option"
  dep_logs_recipient :: "string option"
  dep_outputs :: "string option"
  dep_metrics :: metrics
  dep_runner_log_level :: string
  dep_revision :: int
  dep_rollback_to :: "uuid option"
  dep_module_artifacts :: "module_artifact list"
  dep_module_version_request_digest :: string

record environment_row =
  env_id :: uuid
  env_org :: string
  env_project :: string
  env_name :: string
  env_last_executing :: uuid
  env_last_executing_at :: instant
  env_last_state :: uuid
  env_last_state_at :: instant

record lease_row =
  lease_environment :: uuid
  lease_org :: string
  lease_project :: string
  lease_env :: string
  lease_holder :: uuid
  lease_purpose :: string
  lease_deployment :: "uuid option"
  lease_acquired_at :: instant
  lease_heartbeat_at :: instant
  lease_expires_at :: instant

record budget_row =
  bud_deployment :: uuid
  bud_revision :: int
  bud_first_attempt_at :: "instant option"
  bud_deadline :: "instant option"
  bud_completion_received_at :: "instant option"
  bud_legacy :: bool

record reservation_row =
  res_deployment :: uuid
  res_org :: string
  res_runner :: string
  res_reserved_at :: instant
  res_released_at :: "instant option"

record inbox_row =
  inb_event :: string
  inb_org :: string
  inb_runner :: string
  inb_deployment :: uuid
  inb_type :: string

record late_result_row =
  late_deployment :: uuid
  late_event :: string
  late_org :: string
  late_runner :: string
  late_payload_sha256 :: string
  late_success :: bool
  late_occurred_at :: instant
  late_received_at :: instant
  late_outputs :: "string option"
  late_recipient :: "string option"

record completion_receipt_row =
  cmp_deployment :: uuid
  cmp_org :: string
  cmp_runner :: string
  cmp_payload_sha256 :: string

record acknowledgement_row =
  ack_deployment :: uuid
  ack_org :: string
  ack_environment :: uuid
  ack_plugin :: string
  ack_operation_ref :: string
  ack_actor :: uuid
  ack_reason :: string
  ack_at :: instant

section \<open>Plugin receipts\<close>

record external_receipt_row =
  ext_org :: string
  ext_plugin :: string
  ext_operation_ref :: string
  ext_fence :: int
  ext_request :: string
  ext_assertion_action :: string
  ext_service_action :: string
  ext_body_sha256 :: string
  ext_actor :: string
  ext_project :: string
  ext_env :: string
  ext_project_uuid :: "uuid option"
  ext_environment_uuid :: "uuid option"
  ext_plan_snapshot :: "uuid option"
  ext_base_deployment :: "uuid option"
  ext_deployment :: uuid
  ext_forward_deployment :: "uuid option"
  ext_retry_of_rollback :: "uuid option"
  ext_created_at :: instant

datatype receipt_disposition = DispositionAccepted | DispositionSkipped

datatype receipt_reason =
    ReasonAccepted | ReasonBusy | ReasonExpired | ReasonNoBaseline | ReasonOutcomeUnreconciled
  | ReasonRunnerFull | ReasonUnsupported

record observation_receipt =
  rec_request :: uuid
  rec_disposition :: receipt_disposition
  rec_reason :: receipt_reason
  rec_recorded_at :: instant
  rec_run :: "uuid option"
  rec_baseline :: "uuid option"
  rec_fingerprint :: "string option"

text \<open>The result a Runner reports for an observation; a nil slice is \<open>None\<close>.\<close>

record observation_change =
  ch_actions :: "string list"
  ch_id :: string
  ch_resource_type :: string

record observation_result =
  or_complete :: bool
  or_observed :: "observation_change list option"
  or_output_changes :: int
  or_proposed :: "observation_change list option"
  or_schema_version :: string
  or_tool :: string
  or_tool_version :: string

record observation_receipt_row =
  obs_org :: string
  obs_plugin :: string
  obs_request :: uuid
  obs_request_sha256 :: string
  obs_environment :: uuid
  obs_actor :: uuid
  obs_grant :: uuid
  obs_grant_revision :: int
  obs_receipt :: observation_receipt
  obs_deployment :: "uuid option"
  obs_baseline :: "uuid option"
  obs_completion_sha256 :: "string option"
  obs_result :: "observation_result option"
  obs_result_expires_at :: "instant option"

datatype observation_request_kind = KindObservation | KindRedeploy

record seal_row =
  seal_org :: string
  seal_plugin :: string
  seal_kind :: observation_request_kind
  seal_request :: uuid
  seal_actor :: uuid
  seal_request_sha256 :: string
  seal_run :: "uuid option"

record redeploy_receipt_row =
  rdp_org :: string
  rdp_plugin :: string
  rdp_request :: uuid
  rdp_run :: uuid
  rdp_actor :: uuid
  rdp_request_sha256 :: string
  rdp_deployment :: uuid
  rdp_baseline :: uuid

section \<open>The deployment queue\<close>

datatype queue_state = Queued | Dispatched | Cancelled | Expired | Rejected

record queue_row =
  q_id :: uuid
  q_seq :: int
  q_org :: string
  q_project :: string
  q_env :: string
  q_environment :: uuid
  q_mode :: deployment_mode
  q_intent :: string
  q_intent_sha256 :: string
  q_key_digest :: "string option"
  q_expected_base :: "uuid option"
  q_halt_on_failure :: bool
  q_enqueued_after :: "uuid option"
  q_created_by :: uuid
  q_created_at :: instant
  q_expires_at :: instant
  q_state :: queue_state
  q_attempts :: int
  q_next_attempt_at :: instant
  q_last_error :: "string option"
  q_reason_code :: "string option"
  q_reason_message :: "string option"
  q_reason_deployment :: "uuid option"
  q_settled_by :: "uuid option"
  q_settled_at :: "instant option"
  q_deployment :: "uuid option"

section \<open>Core admission receipts\<close>

datatype admission_disposition = Pending | Committed | Absent

record admission_row =
  adm_org :: string
  adm_id :: uuid
  adm_project :: uuid
  adm_environment :: uuid
  adm_actor :: uuid
  adm_request_digest :: string
  adm_mode :: deployment_mode
  adm_module_versions :: "(string \<times> uuid) list"
  adm_carry_forward :: "(string \<times> uuid) list"
  adm_confirmed_restricted :: "uuid list"
  adm_draft_tests :: "(string \<times> uuid) list"
  adm_core_epoch :: int
  adm_disposition :: admission_disposition
  adm_deployment :: "uuid option"
  adm_terminal_outcome :: "string option"
  adm_core_settled_at :: "instant option"
  adm_created_at :: instant

section \<open>The database\<close>

record history_row =
  his_id :: uuid
  his_org :: string
  his_project :: string
  his_env :: string
  his_env_uuid :: uuid
  his_mode :: deployment_mode
  his_created_by :: uuid
  his_created_at :: instant
  his_completed_at :: instant
  his_status :: deployment_status
  his_metrics :: metrics

record material_row =
  mat_org :: string
  mat_plugin :: string
  mat_operation_ref :: uuid
  mat_recipient :: string
  mat_identity :: string
  mat_created_at :: instant

record anchor_row =
  anc_org :: string
  anc_plugin :: string
  anc_operation_ref :: string
  anc_environment :: uuid
  anc_project_uuid :: uuid
  anc_project :: string
  anc_env :: string
  anc_first_forward :: uuid
  anc_rollback_base :: uuid

record plan_target =
  tgt_module_id :: string
  tgt_module_uuid :: uuid
  tgt_version :: string
  tgt_version_uuid :: uuid
  tgt_semantic_version :: string
  tgt_digest :: string

record plan_row =
  pln_id :: uuid
  pln_org :: string
  pln_plugin :: string
  pln_request :: string
  pln_actor :: uuid
  pln_body_sha256 :: string
  pln_project :: string
  pln_project_uuid :: uuid
  pln_env :: string
  pln_environment :: uuid
  pln_base :: uuid
  pln_fingerprint :: string
  pln_manifest :: string
  pln_graph :: string
  pln_diff :: string
  pln_artifacts :: "module_artifact list"
  pln_targets :: "plan_target list"
  pln_created_at :: instant

record node_row =
  nod_hash :: string
  nod_environment :: uuid
  nod_type :: string
  nod_class :: string
  nod_resource :: string
  nod_deployment :: uuid
  nod_module :: string
  nod_module_version :: string
  nod_metadata :: json

record edge_row =
  edg_subject :: string
  edg_target :: string
  edg_deployment :: uuid
  edg_alias :: string

record metadata_key_row =
  mk_org :: string
  mk_name :: string
  mk_description :: "string option"
  mk_type :: string
  mk_format :: "string option"
  mk_pattern :: "string option"
  mk_created_at :: instant

record database =
  deployments :: "deployment_row list"
  environments :: "environment_row list"
  leases :: "lease_row list"
  budgets :: "budget_row list"
  reservations :: "reservation_row list"
  runner_inbox :: "inbox_row list"
  late_results :: "late_result_row list"
  completion_receipts :: "completion_receipt_row list"
  acknowledgements :: "acknowledgement_row list"
  external_receipts :: "external_receipt_row list"
  observation_receipts :: "observation_receipt_row list"
  seals :: "seal_row list"
  redeploy_receipts :: "redeploy_receipt_row list"
  queue :: "queue_row list"
  queue_next_seq :: int
  admissions :: "admission_row list"
  history :: "history_row list"
  materials :: "material_row list"
  anchors :: "anchor_row list"
  plans :: "plan_row list"
  nodes :: "node_row list"
  edges :: "edge_row list"
  metadata_keys :: "metadata_key_row list"

definition empty_database :: database where
  "empty_database = \<lparr>deployments = [], environments = [], leases = [], budgets = [],
     reservations = [], runner_inbox = [], late_results = [], completion_receipts = [],
     acknowledgements = [], external_receipts = [], observation_receipts = [], seals = [],
     redeploy_receipts = [], queue = [], queue_next_seq = 1, admissions = [], history = [],
     materials = [], anchors = [], plans = [], nodes = [], edges = [], metadata_keys = []\<rparr>"

section \<open>The tables as keyed tables\<close>

interpretation dep_tab: db_table deployments deployments_update dep_id
  by unfold_locales simp
interpretation env_tab: db_table environments environments_update env_id
  by unfold_locales simp
interpretation lease_tab: db_table leases leases_update lease_environment
  by unfold_locales simp
interpretation budget_tab: db_table budgets budgets_update bud_deployment
  by unfold_locales simp
interpretation reservation_tab: db_table reservations reservations_update res_deployment
  by unfold_locales simp
interpretation inbox_tab: db_table runner_inbox runner_inbox_update inb_event
  by unfold_locales simp
interpretation queue_tab: db_table queue queue_update q_id
  by unfold_locales simp
interpretation ack_tab: db_table acknowledgements acknowledgements_update ack_deployment
  by unfold_locales simp
interpretation admission_tab: db_table admissions admissions_update "\<lambda>r. (adm_org r, adm_id r)"
  by unfold_locales simp

interpretation node_tab: db_table nodes nodes_update nod_hash
  by unfold_locales simp
interpretation edge_tab: db_table edges edges_update "\<lambda>e. (edg_subject e, edg_target e)"
  by unfold_locales simp
interpretation metadata_tab: db_table metadata_keys metadata_keys_update "\<lambda>k. (mk_org k, mk_name k)"
  by unfold_locales simp

section \<open>What operations take and return\<close>

record environment_fence =
  fence_deployment :: uuid
  fence_since :: instant
  fence_remedy_at :: "instant option"

record deployment_summary =
  sum_org :: string
  sum_project :: string
  sum_env :: string
  sum_env_uuid :: uuid
  sum_id :: uuid
  sum_revision :: int
  sum_mode :: deployment_mode
  sum_rollback_to :: "uuid option"
  sum_created_at :: instant
  sum_created_by :: uuid
  sum_completed_at :: "instant option"
  sum_status :: deployment_status
  sum_status_message :: string
  sum_runner_id :: string
  sum_metrics :: metrics
  sum_outputs_recipient :: "string option"
  sum_logs_recipient :: "string option"
  sum_runner_log_level :: string
  sum_module_artifacts :: "module_artifact list"
  sum_module_version_request_digest :: string
  sum_fence :: "environment_fence option"

record create_params =
  cp_created_by :: uuid
  cp_env_uuid :: uuid
  cp_mode :: deployment_mode
  cp_manifest :: string
  cp_rollback_to :: "uuid option"
  cp_graph :: string
  cp_tofu :: string
  cp_key_digest :: "string option"
  cp_runner_id :: string
  cp_outputs_recipient :: "string option"
  cp_logs_recipient :: "string option"
  cp_metrics :: metrics
  cp_runner_log_level :: string
  cp_module_artifacts :: "module_artifact list"
  cp_module_version_request_digest :: string
  cp_expected_current :: "uuid option"
  cp_retry_of_rollback :: "uuid option"
  cp_expected_base :: "uuid option"
  cp_queue_item :: "uuid option"

record update_params =
  up_status :: deployment_status
  up_status_message :: string
  up_outputs :: "string option"
  up_metrics :: metrics
  up_expected_revision :: "int option"
  up_completion_proven :: bool

text \<open>The environment of a logical (organization, project, environment) name.\<close>

definition same_env :: "string \<Rightarrow> string \<Rightarrow> string \<Rightarrow> environment_row \<Rightarrow> bool" where
  "same_env org project env e \<longleftrightarrow> env_org e = org \<and> env_project e = project \<and> env_name e = env"

definition find_env :: "string \<Rightarrow> string \<Rightarrow> string \<Rightarrow> database \<Rightarrow> environment_row option" where
  "find_env org project env db = find (same_env org project env) (environments db)"

definition find_deployment :: "uuid \<Rightarrow> database \<Rightarrow> deployment_row option" where
  "find_deployment i db = lookup_row dep_id i (deployments db)"

lemma find_env_Some:
  "find_env org project env db = Some e \<Longrightarrow> e \<in> set (environments db) \<and> same_env org project env e"
  by (auto simp: find_env_def find_Some_iff)

lemma find_env_None:
  "find_env org project env db = None \<longleftrightarrow> (\<forall>e \<in> set (environments db). \<not> same_env org project env e)"
  by (auto simp: find_env_def find_None_iff)

lemma find_deployment_Some:
  "find_deployment i db = Some d \<Longrightarrow> d \<in> set (deployments db) \<and> dep_id d = i"
  unfolding find_deployment_def by (rule lookup_row_Some)

end
