(* ===== verification/Dispatch.thy ===== *)
theory Dispatch
  imports Schema
begin

text \<open>
  \<^verbatim>\<open>internal/model/deployment_dispatch.go\<close>: the immutable one-hour budget of a
  Runner dispatch, the evidence that an attempt stopped, and the fence it puts on an Environment;
  with \<^verbatim>\<open>RequireObservationStopped\<close> of
  \<^verbatim>\<open>environment_observations.go\<close>, the fence of an observation that failed without
  proof of stop. \<open>now\<close> is the transaction time of the database, \<open>wall\<close> the
  process clock.
\<close>

section \<open>Stop evidence\<close>

record stop_evidence =
  ev_failed :: bool
  ev_capacity_reserved :: bool
  ev_plugin_dispatched :: bool
  ev_dispatched :: bool
  ev_stop_proven :: bool
  ev_acknowledged :: bool

definition OutcomeUnreconciled :: "stop_evidence \<Rightarrow> bool" where
  "OutcomeUnreconciled e \<longleftrightarrow> ev_dispatched e \<and> \<not> ev_stop_proven e \<and> \<not> ev_acknowledged e"

definition BlocksReplacement :: "stop_evidence \<Rightarrow> bool" where
  "BlocksReplacement e \<longleftrightarrow> ev_failed e \<and> ev_plugin_dispatched e \<and> OutcomeUnreconciled e"

definition live_reservation :: "uuid \<Rightarrow> reservation_row \<Rightarrow> bool" where
  "live_reservation i r \<longleftrightarrow> res_deployment r = i \<and> res_released_at r = None"

definition ReadDeploymentDispatchBudget :: "database \<Rightarrow> uuid \<Rightarrow> budget_row result" where
  "ReadDeploymentDispatchBudget db i =
     (case lookup_row bud_deployment i (budgets db) of None \<Rightarrow> Inl ErrNoRows | Some b \<Rightarrow> Inr b)"

definition result_received :: "database \<Rightarrow> string \<Rightarrow> string \<Rightarrow> uuid \<Rightarrow> bool" where
  "result_received db org runner i \<longleftrightarrow>
     exists_row (\<lambda>r. inb_deployment r = i \<and> inb_type r = ''deployment-result'' \<and>
       inb_org r = org \<and> inb_runner r = runner) (runner_inbox db)"

definition ReadDeploymentStopEvidence :: "database \<Rightarrow> uuid \<Rightarrow> stop_evidence result" where
  "ReadDeploymentStopEvidence db i =
     (case find_deployment i db of
        None \<Rightarrow> Inl (ErrNotFound ''deployment not found for stop evidence'')
      | Some d \<Rightarrow>
          (case lookup_row env_id (dep_de_id d) (environments db) of
             None \<Rightarrow> Inl (ErrNotFound ''deployment not found for stop evidence'')
           | Some e \<Rightarrow>
               let budget = lookup_row bud_deployment i (budgets db) in
               Inr \<lparr>ev_failed = (dep_status d = StatusFailed),
                 ev_capacity_reserved = exists_row (live_reservation i) (reservations db),
                 ev_plugin_dispatched =
                   (exists_row (\<lambda>x. ext_deployment x = i \<and> ext_org x = env_org e) (external_receipts db) \<or>
                    exists_row (\<lambda>x. obs_deployment x = Some i \<and> obs_org x = env_org e) (observation_receipts db)),
                 ev_dispatched =
                   (case budget of None \<Rightarrow> True | Some b \<Rightarrow> bud_first_attempt_at b \<noteq> None),
                 ev_stop_proven =
                   ((case budget of None \<Rightarrow> False | Some b \<Rightarrow> bud_completion_received_at b \<noteq> None) \<or>
                    result_received db (env_org e) (dep_runner_id d) i \<or>
                    exists_row (\<lambda>l. late_deployment l = i \<and> late_org l = env_org e \<and>
                      late_runner l = dep_runner_id d) (late_results db)),
                 ev_acknowledged =
                   exists_row (\<lambda>a. ack_deployment a = i \<and> ack_org a = env_org e) (acknowledgements db)\<rparr>))"

definition DeploymentOutcomeUnreconciled :: "database \<Rightarrow> uuid \<Rightarrow> bool result" where
  "DeploymentOutcomeUnreconciled db i =
     bindR (ReadDeploymentStopEvidence db i) (\<lambda>e. Inr (OutcomeUnreconciled e))"

section \<open>The Environment fences\<close>

definition ReadEnvironmentFence :: "database \<Rightarrow> uuid \<Rightarrow> environment_fence option result" where
  "ReadEnvironmentFence db head =
     (if head = uuid_nil then Inr None
      else case ReadDeploymentStopEvidence db head of
        Inl e \<Rightarrow> Inl e
      | Inr ev \<Rightarrow>
          if \<not> BlocksReplacement ev then Inr None
          else (case find_deployment head db of
             None \<Rightarrow> Inl ErrNoRows
           | Some d \<Rightarrow>
               Inr (Some \<lparr>fence_deployment = head,
                 fence_since = (case dep_completed_at d of Some t \<Rightarrow> t | None \<Rightarrow> dep_created_at d),
                 fence_remedy_at =
                   (case ReadDeploymentDispatchBudget db head of
                      Inl _ \<Rightarrow> None | Inr b \<Rightarrow> bud_deadline b)\<rparr>)))"

definition requireReplaceableStateHead :: "database \<Rightarrow> uuid \<Rightarrow> unit result" where
  "requireReplaceableStateHead db head =
     bindR (ReadEnvironmentFence db head) (\<lambda>fence.
       guardR (fence = None) (AboutDeployment
         (NewErrCodedConflict CodeOutcomeUnreconciled
            ''failed plugin-dispatched Deployment may still have an active Runner; outcome is unreconciled'')
         head))"

definition observation_held :: "database \<Rightarrow> uuid \<Rightarrow> bool" where
  "observation_held db environment \<longleftrightarrow>
     exists_row (\<lambda>x. obs_environment x = environment \<and>
       (case obs_deployment x of
          None \<Rightarrow> False
        | Some i \<Rightarrow>
            exists_row (live_reservation i) (reservations db) \<and>
            exists_row (\<lambda>d. dep_id d = i \<and> dep_status d = StatusFailed) (deployments db)))
       (observation_receipts db)"

definition RequireObservationStopped :: "database \<Rightarrow> uuid \<Rightarrow> unit result" where
  "RequireObservationStopped db environment =
     guardR (\<not> observation_held db environment)
       (NewErrCodedConflict CodeOutcomeUnreconciled ''Environment observation may still own its state lock'')"

section \<open>The dispatch budget\<close>

definition start_budget :: "instant \<Rightarrow> uuid \<Rightarrow> int \<Rightarrow> database \<Rightarrow> database" where
  "start_budget now i revision = budgets_update
     (update_rows (\<lambda>b. bud_deployment b = i \<and> bud_revision b = revision \<and>
          bud_first_attempt_at b = None \<and> \<not> bud_legacy b)
        (\<lambda>b. b\<lparr>bud_first_attempt_at := Some now, bud_deadline := Some (now + hour)\<rparr>))"

text \<open>The whole transaction: the result is the deadline and the committed state.\<close>

definition BeginDeploymentDispatch ::
  "instant \<Rightarrow> instant \<Rightarrow> database \<Rightarrow> deployment_summary \<Rightarrow> (instant \<times> database) result" where
  "BeginDeploymentDispatch now wall db dep =
     (case find_deployment (sum_id dep) db of
        None \<Rightarrow> Inl ErrNoRows
      | Some d \<Rightarrow>
          if dep_revision d \<noteq> sum_revision dep \<or> dep_status d \<noteq> StatusExecuting
          then Inl (NewErrConflict ''deployment changed before Runner dispatch'')
          else
            let db' = start_budget now (sum_id dep) (sum_revision dep) db in
            bindR (ReadDeploymentDispatchBudget db' (sum_id dep)) (\<lambda>budget.
              case bud_deadline budget of
                None \<Rightarrow> Inl (NewErrConflict ''Runner dispatch budget is exhausted or unknown'')
              | Some deadline \<Rightarrow>
                  if bud_revision budget \<noteq> sum_revision dep \<or> \<not> wall < deadline
                  then Inl (NewErrConflict ''Runner dispatch budget is exhausted or unknown'')
                  else Inr (deadline, db')))"

section \<open>Properties\<close>

text \<open>Only the columns the fence reads decide: frame lemmas for the evidence.\<close>

lemma ReadDeploymentStopEvidence_cong:
  assumes "deployments db' = deployments db" "environments db' = environments db"
    and "budgets db' = budgets db" "reservations db' = reservations db"
    and "runner_inbox db' = runner_inbox db" "late_results db' = late_results db"
    and "external_receipts db' = external_receipts db"
    and "observation_receipts db' = observation_receipts db"
    and "acknowledgements db' = acknowledgements db"
  shows "ReadDeploymentStopEvidence db' i = ReadDeploymentStopEvidence db i"
  unfolding ReadDeploymentStopEvidence_def find_deployment_def result_received_def assms ..

lemma requireReplaceableStateHead_cong:
  assumes "deployments db' = deployments db" "budgets db' = budgets db"
    and "ReadDeploymentStopEvidence db' i = ReadDeploymentStopEvidence db i"
  shows "requireReplaceableStateHead db' i = requireReplaceableStateHead db i"
  unfolding requireReplaceableStateHead_def ReadEnvironmentFence_def ReadDeploymentDispatchBudget_def
    find_deployment_def assms ..

lemma requireReplaceableStateHead_nil [simp]: "requireReplaceableStateHead db uuid_nil = Inr ()"
  by (simp add: requireReplaceableStateHead_def ReadEnvironmentFence_def)

lemma requireReplaceableStateHead_Inr:
  "requireReplaceableStateHead db head = Inr u \<longleftrightarrow>
     head = uuid_nil \<or> (\<exists>ev. ReadDeploymentStopEvidence db head = Inr ev \<and> \<not> BlocksReplacement ev)"
proof (cases "head = uuid_nil")
  case True
  then show ?thesis by simp
next
  case False
  then show ?thesis
    by (cases "ReadDeploymentStopEvidence db head"; cases "find_deployment head db")
      (auto simp: requireReplaceableStateHead_def ReadEnvironmentFence_def)
qed

text \<open>A fence that is read is exactly a creation that is refused.\<close>

lemma fence_refuses:
  "ReadEnvironmentFence db head = Inr (Some f) \<Longrightarrow>
   requireReplaceableStateHead db head = Inl (AboutDeployment
     (NewErrCodedConflict CodeOutcomeUnreconciled
        ''failed plugin-dispatched Deployment may still have an active Runner; outcome is unreconciled'') head)"
  by (simp add: requireReplaceableStateHead_def)

lemma fence_names_head: "ReadEnvironmentFence db head = Inr (Some f) \<Longrightarrow> fence_deployment f = head"
  by (auto simp: ReadEnvironmentFence_def split: if_splits sum.splits option.splits)

lemma start_budget_other_tables [simp]:
  "deployments (start_budget now i rv db) = deployments db"
  "environments (start_budget now i rv db) = environments db"
  "leases (start_budget now i rv db) = leases db"
  "reservations (start_budget now i rv db) = reservations db"
  "queue (start_budget now i rv db) = queue db"
  by (simp_all add: start_budget_def)

lemma start_budget_lookup:
  "lookup_row bud_deployment k (budgets (start_budget now i rv db)) =
     map_option (\<lambda>b. if bud_deployment b = i \<and> bud_revision b = rv \<and>
          bud_first_attempt_at b = None \<and> \<not> bud_legacy b
        then b\<lparr>bud_first_attempt_at := Some now, bud_deadline := Some (now + hour)\<rparr> else b)
       (lookup_row bud_deployment k (budgets db))"
  unfolding start_budget_def by (rule budget_tab.lookup_update) simp

lemma BeginDeploymentDispatch_cases:
  assumes "BeginDeploymentDispatch now wall db dep = Inr (deadline, db')"
  obtains d b where "find_deployment (sum_id dep) db = Some d"
    and "dep_revision d = sum_revision dep" and "dep_status d = StatusExecuting"
    and "db' = start_budget now (sum_id dep) (sum_revision dep) db"
    and "lookup_row bud_deployment (sum_id dep) (budgets db') = Some b"
    and "bud_deadline b = Some deadline" and "bud_revision b = sum_revision dep" and "wall < deadline"
  using assms
  by (auto simp: BeginDeploymentDispatch_def Let_def ReadDeploymentDispatchBudget_def
      split: option.splits if_splits)

text \<open>A budget that has started is never changed by a later attempt.\<close>

lemma start_budget_immutable:
  assumes "lookup_row bud_deployment i (budgets db) = Some b"
    and "bud_first_attempt_at b = Some t"
  shows "lookup_row bud_deployment i (budgets (start_budget now k rv db)) = Some b"
  using assms by (simp add: start_budget_lookup)

end
