(* ===== verification/Capacity.thy ===== *)
theory Capacity
  imports Dispatch
begin

text \<open>
  \<^verbatim>\<open>internal/model/runner_capacity.go\<close> and
  \<^verbatim>\<open>RecordDeploymentCompletion\<close>: the persistent reservation of a Runner slot. A
  reservation has no expiry; it is released only by proof that the Runner stopped, by proof that
  no command was ever sent, or by an audited acknowledgement. \<open>sha\<close> stands for the
  SHA-256 digest of the JSON of a Runner payload.
\<close>

section \<open>Configuration\<close>

text \<open>The decoded fields \<^verbatim>\<open>max_parallel_jobs\<close> and \<^verbatim>\<open>supported_protocols\<close>.\<close>

definition RunnerAdmissionConfiguration :: "int option \<Rightarrow> string list \<Rightarrow> (int \<times> bool) result" where
  "RunnerAdmissionConfiguration max_parallel_jobs supported_protocols =
     (let supported = ''environment-observation/v1'' \<in> set supported_protocols in
      case max_parallel_jobs of
        None \<Rightarrow> Inr (0, supported)
      | Some limit \<Rightarrow>
          if limit \<le> 0 then Inl (ErrInternal ''max_parallel_jobs must be positive'')
          else Inr (limit, supported))"

section \<open>Reserving\<close>

definition live_on_runner :: "string \<Rightarrow> string \<Rightarrow> reservation_row \<Rightarrow> bool" where
  "live_on_runner org runner r \<longleftrightarrow> res_org r = org \<and> res_runner r = runner \<and> res_released_at r = None"

definition ReserveRunnerJob ::
  "instant \<Rightarrow> database \<Rightarrow> deployment_summary \<Rightarrow> int \<Rightarrow> database result" where
  "ReserveRunnerJob now db dep limit =
     (if limit < 0 then Inl (ErrBadRequest ''max_parallel_jobs must be positive when configured'')
      else case find_deployment (sum_id dep) db of
        None \<Rightarrow> Inl ErrNoRows
      | Some d \<Rightarrow>
          if dep_runner_id d \<noteq> sum_runner_id dep \<or>
             \<not> exists_row (\<lambda>e. env_id e = dep_de_id d \<and> env_org e = sum_org dep) (environments db)
          then Inl ErrNoRows
          else if dep_revision d \<noteq> sum_revision dep \<or> dep_status d \<noteq> StatusExecuting
          then Inl (NewErrConflict ''deployment changed before Runner capacity admission'')
          else if exists_row (live_reservation (sum_id dep)) (reservations db) then Inr db
          else if exists_row (\<lambda>r. res_deployment r = sum_id dep \<and> res_released_at r \<noteq> None) (reservations db)
          then Inl (NewErrConflict ''Runner job ownership has already been released'')
          else if limit > 0 \<and>
             int (count_rows (live_on_runner (sum_org dep) (sum_runner_id dep)) (reservations db)) \<ge> limit
          then Inl ErrRunnerCapacityFull
          else Inr (db\<lparr>reservations := reservations db @
             [\<lparr>res_deployment = sum_id dep, res_org = sum_org dep, res_runner = sum_runner_id dep,
               res_reserved_at = now, res_released_at = None\<rparr>]\<rparr>))"

section \<open>Releasing\<close>

text \<open>The \<^verbatim>\<open>WHERE\<close> clause: what proves that a reservation may be released.\<close>

definition release_proven :: "database \<Rightarrow> reservation_row \<Rightarrow> bool" where
  "release_proven db r \<longleftrightarrow>
     exists_row (\<lambda>b. bud_deployment b = res_deployment r \<and>
       (bud_completion_received_at b \<noteq> None \<or> (bud_first_attempt_at b = None \<and> \<not> bud_legacy b))) (budgets db) \<or>
     result_received db (res_org r) (res_runner r) (res_deployment r) \<or>
     exists_row (\<lambda>l. late_deployment l = res_deployment r) (late_results db) \<or>
     exists_row (\<lambda>a. ack_deployment a = res_deployment r) (acknowledgements db)"

definition ReleaseRunnerJob :: "instant \<Rightarrow> uuid \<Rightarrow> database \<Rightarrow> database" where
  "ReleaseRunnerJob now i db = db\<lparr>reservations :=
     update_rows (\<lambda>r. res_deployment r = i \<and> release_proven db r)
       (\<lambda>r. r\<lparr>res_released_at := Some (opt_or (res_released_at r) now)\<rparr>) (reservations db)\<rparr>"

definition RecordDeploymentCompletion :: "instant \<Rightarrow> uuid \<Rightarrow> database \<Rightarrow> database" where
  "RecordDeploymentCompletion now i db = ReleaseRunnerJob now i
     (db\<lparr>budgets := update_rows (\<lambda>b. bud_deployment b = i)
        (\<lambda>b. b\<lparr>bud_completion_received_at := Some (opt_or (bud_completion_received_at b) now)\<rparr>)
        (budgets db)\<rparr>)"

definition RecordLateOrdinaryRunnerCompletion ::
  "('p \<Rightarrow> string) \<Rightarrow> instant \<Rightarrow> database \<Rightarrow> deployment_summary \<Rightarrow> 'p \<Rightarrow> (bool \<times> database) result" where
  "RecordLateOrdinaryRunnerCompletion sha now db dep body =
     (if sum_mode dep = ModeObservation \<or> sum_status dep \<noteq> StatusFailed \<or> sum_completed_at dep = None
      then Inr (False, db)
      else if exists_row (\<lambda>x. ext_deployment x = sum_id dep) (external_receipts db) then Inr (False, db)
      else case find (\<lambda>c. cmp_deployment c = sum_id dep \<and> cmp_org c = sum_org dep \<and>
                cmp_runner c = sum_runner_id dep) (completion_receipts db) of
        Some c \<Rightarrow>
          if cmp_payload_sha256 c \<noteq> sha body
          then Inl (NewErrConflict ''late Runner completion conflicts with retained stop receipt'')
          else Inr (True, db)
      | None \<Rightarrow>
          if \<not> exists_row (\<lambda>r. res_deployment r = sum_id dep \<and> res_org r = sum_org dep \<and>
                res_runner r = sum_runner_id dep \<and> res_released_at r = None) (reservations db)
          then Inr (False, db)
          else bindR (ReadDeploymentDispatchBudget db (sum_id dep)) (\<lambda>budget.
            if bud_first_attempt_at budget = None \<or> bud_revision budget + 1 \<noteq> sum_revision dep
            then Inl (NewErrConflict ''late Runner completion does not match retained dispatch attempt'')
            else if exists_row (\<lambda>c. cmp_deployment c = sum_id dep) (completion_receipts db)
            then Inl (ErrInternal ''runner_job_completion_receipts_pkey'')
            else Inr (True, RecordDeploymentCompletion now (sum_id dep)
              (db\<lparr>completion_receipts := completion_receipts db @
                [\<lparr>cmp_deployment = sum_id dep, cmp_org = sum_org dep, cmp_runner = sum_runner_id dep,
                  cmp_payload_sha256 = sha body\<rparr>]\<rparr>))))"

section \<open>Properties\<close>

lemma ReleaseRunnerJob_tables [simp]:
  "deployments (ReleaseRunnerJob now i db) = deployments db"
  "environments (ReleaseRunnerJob now i db) = environments db"
  "leases (ReleaseRunnerJob now i db) = leases db"
  "budgets (ReleaseRunnerJob now i db) = budgets db"
  "runner_inbox (ReleaseRunnerJob now i db) = runner_inbox db"
  "late_results (ReleaseRunnerJob now i db) = late_results db"
  "acknowledgements (ReleaseRunnerJob now i db) = acknowledgements db"
  "external_receipts (ReleaseRunnerJob now i db) = external_receipts db"
  "observation_receipts (ReleaseRunnerJob now i db) = observation_receipts db"
  "queue (ReleaseRunnerJob now i db) = queue db"
  "queue_next_seq (ReleaseRunnerJob now i db) = queue_next_seq db"
  "history (ReleaseRunnerJob now i db) = history db"
  "admissions (ReleaseRunnerJob now i db) = admissions db"
  by (simp_all add: ReleaseRunnerJob_def)

lemma RecordDeploymentCompletion_tables [simp]:
  "deployments (RecordDeploymentCompletion now i db) = deployments db"
  "environments (RecordDeploymentCompletion now i db) = environments db"
  "leases (RecordDeploymentCompletion now i db) = leases db"
  "runner_inbox (RecordDeploymentCompletion now i db) = runner_inbox db"
  "late_results (RecordDeploymentCompletion now i db) = late_results db"
  "acknowledgements (RecordDeploymentCompletion now i db) = acknowledgements db"
  "external_receipts (RecordDeploymentCompletion now i db) = external_receipts db"
  "observation_receipts (RecordDeploymentCompletion now i db) = observation_receipts db"
  "queue (RecordDeploymentCompletion now i db) = queue db"
  "queue_next_seq (RecordDeploymentCompletion now i db) = queue_next_seq db"
  "history (RecordDeploymentCompletion now i db) = history db"
  "admissions (RecordDeploymentCompletion now i db) = admissions db"
  by (simp_all add: RecordDeploymentCompletion_def)

text \<open>Releasing never makes a slot live again and never invents a proof.\<close>

lemma ReleaseRunnerJob_live:
  "r' \<in> set (reservations (ReleaseRunnerJob now i db)) \<Longrightarrow> res_released_at r' = None \<Longrightarrow>
   r' \<in> set (reservations db) \<and> (res_deployment r' = i \<longrightarrow> \<not> release_proven db r')"
  by (auto simp: ReleaseRunnerJob_def set_update_rows split: if_splits)

lemma ReleaseRunnerJob_kept:
  "r \<in> set (reservations db) \<Longrightarrow> res_released_at r = None \<Longrightarrow>
   r \<notin> set (reservations (ReleaseRunnerJob now i db)) \<Longrightarrow> res_deployment r = i \<and> release_proven db r"
  by (auto simp: ReleaseRunnerJob_def set_update_rows)

lemma map_res_deployment_Release [simp]:
  "map res_deployment (reservations (ReleaseRunnerJob now i db)) = map res_deployment (reservations db)"
  by (simp add: ReleaseRunnerJob_def map_key_update_rows)

lemma map_res_deployment_Record [simp]:
  "map res_deployment (reservations (RecordDeploymentCompletion now i db)) =
   map res_deployment (reservations db)"
  by (simp add: RecordDeploymentCompletion_def)

lemma count_live_update_le:
  assumes "\<And>r. p r \<Longrightarrow> live_on_runner org runner (f r) \<Longrightarrow> live_on_runner org runner r"
  shows "count_rows (live_on_runner org runner) (update_rows p f t) \<le> count_rows (live_on_runner org runner) t"
  by (induction t) (auto dest: assms)

lemma ReleaseRunnerJob_count:
  "count_rows (live_on_runner org runner) (reservations (ReleaseRunnerJob now i db))
     \<le> count_rows (live_on_runner org runner) (reservations db)"
  unfolding ReleaseRunnerJob_def
  by (simp, rule count_live_update_le) (simp add: live_on_runner_def)

text \<open>The branches of a successful reservation.\<close>

lemma ReserveRunnerJob_cases:
  assumes "ReserveRunnerJob now db dep limit = Inr db'"
  obtains (held) "db' = db" "exists_row (live_reservation (sum_id dep)) (reservations db)"
  | (claimed) "db' = db\<lparr>reservations := reservations db @
        [\<lparr>res_deployment = sum_id dep, res_org = sum_org dep, res_runner = sum_runner_id dep,
          res_reserved_at = now, res_released_at = None\<rparr>]\<rparr>"
      "sum_id dep \<notin> res_deployment ` set (reservations db)"
      "limit \<le> 0 \<or> int (count_rows (live_on_runner (sum_org dep) (sum_runner_id dep)) (reservations db)) < limit"
      "\<exists>d. find_deployment (sum_id dep) db = Some d \<and> dep_status d = StatusExecuting \<and>
         dep_revision d = sum_revision dep \<and> dep_runner_id d = sum_runner_id dep"
  using assms
  unfolding ReserveRunnerJob_def live_reservation_def
  by (force split: if_splits option.splits)

lemma ReserveRunnerJob_tables:
  assumes "ReserveRunnerJob now db dep limit = Inr db'"
  shows "deployments db' = deployments db" "environments db' = environments db" "leases db' = leases db"
    "budgets db' = budgets db" "queue db' = queue db" "queue_next_seq db' = queue_next_seq db"
    "runner_inbox db' = runner_inbox db" "late_results db' = late_results db"
    "acknowledgements db' = acknowledgements db" "external_receipts db' = external_receipts db"
    "observation_receipts db' = observation_receipts db" "history db' = history db"
    "admissions db' = admissions db"
  using assms by (cases rule: ReserveRunnerJob_cases; simp)+

lemma ReserveRunnerJob_keyed:
  assumes "ReserveRunnerJob now db dep limit = Inr db'" "distinct (map res_deployment (reservations db))"
  shows "distinct (map res_deployment (reservations db'))"
  using assms by (cases rule: ReserveRunnerJob_cases) auto

end
