(* ===== verification/Go_Text.thy ===== *)
theory Go_Text
  imports Prelude "HOL-Library.Sublist"
begin

text \<open>
  What the sources use of Go's \<^verbatim>\<open>strconv\<close>, \<^verbatim>\<open>strings\<close> and
  \<^verbatim>\<open>encoding/json\<close> on byte strings: decimal printing and parsing of 64-bit
  integers, \<^verbatim>\<open>TrimSpace\<close>, \<^verbatim>\<open>Split\<close>, and
  \<^verbatim>\<open>json.Valid\<close> as the byte-driven scanner of the standard library (a step
  function with an explicit parse stack, so that it recurses on the text alone).
\<close>

section \<open>Decimal integers\<close>

definition digit_char :: "nat \<Rightarrow> char" where
  "digit_char d = char_of (48 + d)"

definition digit_value :: "char \<Rightarrow> nat option" where
  "digit_value c = (let n = (of_char c :: nat) in if 48 \<le> n \<and> n \<le> 57 then Some (n - 48) else None)"

fun format_nat :: "nat \<Rightarrow> string" where
  "format_nat n = (if n < 10 then [digit_char n] else format_nat (n div 10) @ [digit_char (n mod 10)])"

declare format_nat.simps [simp del]

definition format_int :: "int \<Rightarrow> string" where
  "format_int i = (if i < 0 then ''-'' @ format_nat (nat (- i)) else format_nat (nat i))"

fun digits_value :: "nat \<Rightarrow> string \<Rightarrow> nat option" where
  "digits_value acc [] = Some acc"
| "digits_value acc (c # cs) =
     (case digit_value c of None \<Rightarrow> None | Some d \<Rightarrow> digits_value (10 * acc + d) cs)"

definition parse_nat :: "string \<Rightarrow> nat option" where
  "parse_nat s = (if s = [] then None else digits_value 0 s)"

text \<open>\<^verbatim>\<open>strconv.ParseInt(s, 10, 64)\<close>: \<open>None\<close> for a syntax or range error.\<close>

definition parse_int64 :: "string \<Rightarrow> int option" where
  "parse_int64 s =
     (case s of
        [] \<Rightarrow> None
      | c # cs \<Rightarrow>
          if c = CHR ''-'' then
            (case parse_nat cs of None \<Rightarrow> None
             | Some n \<Rightarrow> if n \<le> 2 ^ 63 then Some (- int n) else None)
          else
            (case parse_nat (if c = CHR ''+'' then cs else s) of None \<Rightarrow> None
             | Some n \<Rightarrow> if n < 2 ^ 63 then Some (int n) else None))"

lemma of_char_digit_char: "d < 10 \<Longrightarrow> (of_char (digit_char d) :: nat) = 48 + d"
  by (simp add: digit_char_def)

lemma digit_value_digit_char [simp]: "d < 10 \<Longrightarrow> digit_value (digit_char d) = Some d"
  by (simp add: digit_value_def of_char_digit_char Let_def)

lemma digits_value_append:
  "digits_value acc (s @ t) =
     (case digits_value acc s of None \<Rightarrow> None | Some n \<Rightarrow> digits_value n t)"
  by (induction s arbitrary: acc) (auto split: option.splits)

lemma format_nat_nonempty [simp]: "format_nat n \<noteq> []"
  by (subst format_nat.simps) simp

lemma digits_value_format_nat: "digits_value 0 (format_nat n) = Some n"
proof (induction n rule: format_nat.induct)
  case (1 n)
  show ?case
  proof (cases "n < 10")
    case True
    then show ?thesis by (simp add: format_nat.simps [of n])
  next
    case False
    with "1.IH" have "digits_value 0 (format_nat (n div 10)) = Some (n div 10)" by simp
    with False show ?thesis by (simp add: format_nat.simps [of n] digits_value_append)
  qed
qed

lemma parse_nat_format_nat [simp]: "parse_nat (format_nat n) = Some n"
  by (simp add: parse_nat_def digits_value_format_nat)

lemma hd_format_nat: "\<exists>d < 10. hd (format_nat n) = digit_char d"
proof (induction n rule: format_nat.induct)
  case (1 n)
  show ?case
  proof (cases "n < 10")
    case True
    then show ?thesis by (auto simp: format_nat.simps [of n])
  next
    case False
    with "1.IH" show ?thesis by (simp add: format_nat.simps [of n])
  qed
qed

lemma digit_char_not_sign: "d < 10 \<Longrightarrow> digit_char d \<noteq> CHR ''-'' \<and> digit_char d \<noteq> CHR ''+''"
  using of_char_digit_char [of d] by auto

lemma format_nat_no_sign: "\<exists>c cs. format_nat n = c # cs \<and> c \<noteq> CHR ''-'' \<and> c \<noteq> CHR ''+''"
  using hd_format_nat [of n] digit_char_not_sign format_nat_nonempty [of n]
  by (cases "format_nat n") auto

text \<open>A printed 64-bit integer parses back to itself.\<close>

lemma parse_int64_format_int:
  assumes "- (2 ^ 63) \<le> i" and "i < 2 ^ 63"
  shows "parse_int64 (format_int i) = Some i"
proof (cases "i < 0")
  case True
  with assms(1) have "nat (- i) \<le> 2 ^ 63" by simp
  with True show ?thesis by (simp add: parse_int64_def format_int_def)
next
  case False
  obtain c cs where c: "format_nat (nat i) = c # cs" "c \<noteq> CHR ''-''" "c \<noteq> CHR ''+''"
    using format_nat_no_sign by blast
  have "parse_nat (c # cs) = Some (nat i)" using c(1) parse_nat_format_nat [of "nat i"] by simp
  moreover from False assms(2) have "nat i < 2 ^ 63" by simp
  ultimately show ?thesis using False c by (simp add: parse_int64_def format_int_def)
qed

section \<open>Strings\<close>

definition has_prefix :: "string \<Rightarrow> string \<Rightarrow> bool" where
  "has_prefix s p \<longleftrightarrow> prefix p s"

definition has_suffix :: "string \<Rightarrow> string \<Rightarrow> bool" where
  "has_suffix s p \<longleftrightarrow> suffix p s"

text \<open>The UTF-8 encodings of the code points \<^verbatim>\<open>unicode.IsSpace\<close> accepts.\<close>

definition space_encodings :: "string list" where
  "space_encodings = map (map char_of)
     ([[9], [10], [11], [12], [13], [32], [194, 133], [194, 160], [225, 154, 128],
       [226, 128, 168], [226, 128, 169], [226, 128, 175], [226, 129, 159], [227, 128, 128]]
      @ map (\<lambda>k. [226, 128, 128 + k]) [0..<11 :: nat])"

definition strip_one :: "string \<Rightarrow> string option" where
  "strip_one s = (case find (\<lambda>p. prefix p s) space_encodings of
     None \<Rightarrow> None | Some p \<Rightarrow> Some (drop (length p) s))"

text \<open>For evaluation: no encoding starts with any other byte, or ends with one of these printable bytes.\<close>

definition space_lead :: "nat list" where
  "space_lead = [9, 10, 11, 12, 13, 32, 194, 225, 226, 227]"

lemma strip_one_code [code]:
  "strip_one s = (case s of [] \<Rightarrow> None
     | c # cs \<Rightarrow> if of_char c \<in> set space_lead
         then (case find (\<lambda>p. prefix p s) space_encodings of None \<Rightarrow> None | Some p \<Rightarrow> Some (drop (length p) s)) else None)"
proof (cases s)
  case Nil
  have "p \<noteq> []" if "p \<in> set space_encodings" for p using that by (auto simp: space_encodings_def)
  with Nil show ?thesis by (auto simp: strip_one_def find_None_iff split: option.split dest: find_SomeD)
next
  case (Cons c cs)
  have "of_char c \<in> set space_lead" if "p \<in> set space_encodings" "prefix p (c # cs)" for p
    using that by (auto simp: space_encodings_def space_lead_def)
  with Cons show ?thesis by (auto simp: strip_one_def split: option.split dest: find_SomeD)
qed

function trim_left :: "string \<Rightarrow> string" where
  "trim_left s = (case strip_one s of None \<Rightarrow> s | Some t \<Rightarrow> trim_left t)"
  by pat_completeness auto
termination
proof (relation "measure length")
  fix s t assume "strip_one s = Some t"
  then obtain p where p: "p \<in> set space_encodings" "prefix p s" "t = drop (length p) s"
    by (auto simp: strip_one_def split: option.splits dest: find_SomeD)
  from p(1) have "p \<noteq> []" by (auto simp: space_encodings_def)
  with p(2,3) show "(t, s) \<in> measure length"
    by (auto simp: prefix_def)
qed simp

declare trim_left.simps [simp del]

definition strip_one_right :: "string \<Rightarrow> string option" where
  "strip_one_right s = (case find (\<lambda>p. suffix p s) space_encodings of
     None \<Rightarrow> None | Some p \<Rightarrow> Some (take (length s - length p) s))"

lemma strip_one_right_code [code]:
  "strip_one_right s = (if s \<noteq> [] \<and> 33 \<le> (of_char (last s) :: nat) \<and> (of_char (last s) :: nat) < 127 then None
     else case find (\<lambda>p. suffix p s) space_encodings of None \<Rightarrow> None | Some p \<Rightarrow> Some (take (length s - length p) s))"
proof (cases "s \<noteq> [] \<and> 33 \<le> (of_char (last s) :: nat) \<and> (of_char (last s) :: nat) < 127")
  case True
  have "\<not> suffix p s" if "p \<in> set space_encodings" for p
  proof
    assume "suffix p s"
    moreover have "p \<noteq> []" "\<not> (33 \<le> (of_char (last p) :: nat) \<and> (of_char (last p) :: nat) < 127)"
      using that by (auto simp: space_encodings_def)
    ultimately show False using True by (auto simp: suffix_def)
  qed
  then have "find (\<lambda>p. suffix p s) space_encodings = None" unfolding find_None_iff by blast
  with True show ?thesis by (simp add: strip_one_right_def)
qed (simp only: strip_one_right_def if_False)

function trim_right :: "string \<Rightarrow> string" where
  "trim_right s = (case strip_one_right s of None \<Rightarrow> s | Some t \<Rightarrow> trim_right t)"
  by pat_completeness auto
termination
proof (relation "measure length")
  fix s t assume "strip_one_right s = Some t"
  then obtain p where p: "p \<in> set space_encodings" "suffix p s" "t = take (length s - length p) s"
    by (auto simp: strip_one_right_def split: option.splits dest: find_SomeD)
  from p(1) have "p \<noteq> []" by (auto simp: space_encodings_def)
  with p(2,3) show "(t, s) \<in> measure length"
    by (auto simp: suffix_def)
qed simp

declare trim_right.simps [simp del]

definition trim_space :: "string \<Rightarrow> string" where
  "trim_space s = trim_right (trim_left s)"

text \<open>\<^verbatim>\<open>strings.Split(s, sep)\<close> for a one-byte separator: never empty.\<close>

fun split_on :: "char \<Rightarrow> string \<Rightarrow> string list" where
  "split_on sep [] = [[]]"
| "split_on sep (c # cs) =
     (if c = sep then [] # split_on sep cs
      else (case split_on sep cs of [] \<Rightarrow> [[c]] | p # ps \<Rightarrow> (c # p) # ps))"

lemma split_on_nonempty [simp]: "split_on sep s \<noteq> []"
  by (induction s) (auto split: list.splits)

lemma split_on_no_sep: "sep \<notin> set s \<Longrightarrow> split_on sep s = [s]"
  by (induction s) auto

lemma split_on_append:
  "sep \<notin> set s \<Longrightarrow> split_on sep (s @ sep # t) = s # split_on sep t"
  by (induction s) (auto split: list.splits)

section \<open>JSON validity\<close>

datatype scan_state =
    BeginValueOrEmpty | BeginValue | BeginStringOrEmpty | BeginString | EndValue | EndTop
  | InString | InStringEsc | InStringEscU nat
  | Neg | Num1 | Num0 | Dot | Dot0 | Exp | ExpSign | Exp0
  | Literal string

datatype parse_state = ObjectKey | ObjectValue | ArrayValue

type_synonym scanner = "scan_state \<times> parse_state list"

definition maxNestingDepth :: nat where "maxNestingDepth = 10000"

definition json_space :: "char \<Rightarrow> bool" where
  "json_space c \<longleftrightarrow> of_char c \<in> {32, 9, 13, 10 :: nat}"

definition json_digit :: "char \<Rightarrow> bool" where
  "json_digit c \<longleftrightarrow> digit_value c \<noteq> None"

definition json_hex :: "char \<Rightarrow> bool" where
  "json_hex c \<longleftrightarrow> (let n = (of_char c :: nat) in
     (48 \<le> n \<and> n \<le> 57) \<or> (97 \<le> n \<and> n \<le> 102) \<or> (65 \<le> n \<and> n \<le> 70))"

definition push_parse :: "parse_state \<Rightarrow> scan_state \<Rightarrow> parse_state list \<Rightarrow> scanner option" where
  "push_parse p st ps = (if Suc (length ps) \<le> maxNestingDepth then Some (st, p # ps) else None)"

definition pop_parse :: "parse_state list \<Rightarrow> scanner option" where
  "pop_parse ps = (case ps of
     [] \<Rightarrow> None | _ # rest \<Rightarrow> Some (if rest = [] then EndTop else EndValue, rest))"

fun step_end_value :: "parse_state list \<Rightarrow> char \<Rightarrow> scanner option" where
  "step_end_value [] c = (if json_space c then Some (EndTop, []) else None)"
| "step_end_value (p # ps) c =
     (if json_space c then Some (EndValue, p # ps)
      else case p of
        ObjectKey \<Rightarrow> if c = CHR '':'' then Some (BeginValue, ObjectValue # ps) else None
      | ObjectValue \<Rightarrow>
          if c = CHR '','' then Some (BeginString, ObjectKey # ps)
          else if c = CHR ''}'' then pop_parse (p # ps) else None
      | ArrayValue \<Rightarrow>
          if c = CHR '','' then Some (BeginValue, p # ps)
          else if c = CHR '']'' then pop_parse (p # ps) else None)"

definition step_begin_value :: "parse_state list \<Rightarrow> char \<Rightarrow> scanner option" where
  "step_begin_value ps c =
     (if json_space c then Some (BeginValue, ps)
      else if c = CHR ''{'' then push_parse ObjectKey BeginStringOrEmpty ps
      else if c = CHR ''['' then push_parse ArrayValue BeginValueOrEmpty ps
      else if of_char c = (34 :: nat) then Some (InString, ps)
      else if c = CHR ''-'' then Some (Neg, ps)
      else if c = CHR ''0'' then Some (Num0, ps)
      else if c = CHR ''t'' then Some (Literal ''rue'', ps)
      else if c = CHR ''f'' then Some (Literal ''alse'', ps)
      else if c = CHR ''n'' then Some (Literal ''ull'', ps)
      else if json_digit c then Some (Num1, ps)
      else None)"

definition step_num0 :: "parse_state list \<Rightarrow> char \<Rightarrow> scanner option" where
  "step_num0 ps c =
     (if c = CHR ''.'' then Some (Dot, ps)
      else if c = CHR ''e'' \<or> c = CHR ''E'' then Some (Exp, ps)
      else step_end_value ps c)"

fun scan_step :: "scanner \<Rightarrow> char \<Rightarrow> scanner option" where
  "scan_step (BeginValueOrEmpty, ps) c =
     (if json_space c then Some (BeginValueOrEmpty, ps)
      else if c = CHR '']'' then step_end_value ps c else step_begin_value ps c)"
| "scan_step (BeginValue, ps) c = step_begin_value ps c"
| "scan_step (BeginStringOrEmpty, ps) c =
     (if json_space c then Some (BeginStringOrEmpty, ps)
      else if c = CHR ''}'' then step_end_value (ObjectValue # tl ps) c
      else if of_char c = (34 :: nat) then Some (InString, ps) else None)"
| "scan_step (BeginString, ps) c =
     (if json_space c then Some (BeginString, ps)
      else if of_char c = (34 :: nat) then Some (InString, ps) else None)"
| "scan_step (EndValue, ps) c = step_end_value ps c"
| "scan_step (EndTop, ps) c = (if json_space c then Some (EndTop, ps) else None)"
| "scan_step (InString, ps) c =
     (if of_char c = (34 :: nat) then Some (EndValue, ps)
      else if of_char c = (92 :: nat) then Some (InStringEsc, ps)
      else if of_char c < (32 :: nat) then None else Some (InString, ps))"
| "scan_step (InStringEsc, ps) c =
     (if c \<in> set ''bfnrt/'' \<or> of_char c = (92 :: nat) \<or> of_char c = (34 :: nat) then Some (InString, ps)
      else if c = CHR ''u'' then Some (InStringEscU 3, ps) else None)"
| "scan_step (InStringEscU k, ps) c =
     (if json_hex c then Some (case k of 0 \<Rightarrow> InString | Suc j \<Rightarrow> InStringEscU j, ps) else None)"
| "scan_step (Neg, ps) c =
     (if c = CHR ''0'' then Some (Num0, ps) else if json_digit c then Some (Num1, ps) else None)"
| "scan_step (Num1, ps) c = (if json_digit c then Some (Num1, ps) else step_num0 ps c)"
| "scan_step (Num0, ps) c = step_num0 ps c"
| "scan_step (Dot, ps) c = (if json_digit c then Some (Dot0, ps) else None)"
| "scan_step (Dot0, ps) c =
     (if json_digit c then Some (Dot0, ps)
      else if c = CHR ''e'' \<or> c = CHR ''E'' then Some (Exp, ps) else step_end_value ps c)"
| "scan_step (Exp, ps) c =
     (if c = CHR ''+'' \<or> c = CHR ''-'' then Some (ExpSign, ps)
      else if json_digit c then Some (Exp0, ps) else None)"
| "scan_step (ExpSign, ps) c = (if json_digit c then Some (Exp0, ps) else None)"
| "scan_step (Exp0, ps) c = (if json_digit c then Some (Exp0, ps) else step_end_value ps c)"
| "scan_step (Literal l, ps) c =
     (case l of [] \<Rightarrow> None
      | x # xs \<Rightarrow> if c = x then Some (if xs = [] then EndValue else Literal xs, ps) else None)"

fun scan_text :: "scanner \<Rightarrow> string \<Rightarrow> scanner option" where
  "scan_text sc [] = Some sc"
| "scan_text sc (c # cs) = (case scan_step sc c of None \<Rightarrow> None | Some sc' \<Rightarrow> scan_text sc' cs)"

definition json_valid :: "string \<Rightarrow> bool" where
  "json_valid s =
     (case scan_text (BeginValue, []) s of
        None \<Rightarrow> False
      | Some sc \<Rightarrow> fst sc = EndTop \<or>
          (case scan_step sc (CHR '' '') of None \<Rightarrow> False | Some sc' \<Rightarrow> fst sc' = EndTop))"

lemma json_valid_empty [simp]: "\<not> json_valid []"
  by (simp add: json_valid_def step_begin_value_def json_space_def)
end
