(* ===== verification/Queue.thy ===== *)
theory Queue
  imports Capacity Go_Text
begin

text \<open>
  \<^verbatim>\<open>internal/model/deployment_queue.go\<close>: the Environment deployment queue.
  \<open>locked\<close> tells which queue rows another transaction holds (\<^verbatim>\<open>FOR UPDATE\<close>
  with \<^verbatim>\<open>SKIP LOCKED\<close> or \<^verbatim>\<open>NOWAIT\<close>), \<open>sha\<close> is the digest of
  the JSON of the request identity. The constraints of the table (migrations 33 to 35) are checked
  where a statement writes a row; a violated one is an internal error.
\<close>

section \<open>Items\<close>

record new_queue_item =
  nq_org :: string
  nq_project :: string
  nq_env :: string
  nq_environment :: uuid
  nq_mode :: deployment_mode
  nq_intent :: string
  nq_key_digest :: "string option"
  nq_expected_base :: "uuid option"
  nq_halt_on_failure :: bool
  nq_created_by :: uuid
  nq_ttl :: duration

text \<open>The struct that is digested; a false \<^verbatim>\<open>halt_on_failure\<close> is omitted.\<close>

type_synonym intent_identity =
  "string \<times> string \<times> deployment_mode \<times> string \<times> uuid option \<times> bool option"

definition intent_identity :: "new_queue_item \<Rightarrow> intent_identity" where
  "intent_identity n = (nq_project n, nq_env n, nq_mode n, nq_intent n, nq_expected_base n,
     (if nq_halt_on_failure n then Some True else None))"

definition IntentSHA256 :: "(intent_identity \<Rightarrow> string) \<Rightarrow> new_queue_item \<Rightarrow> string" where
  "IntentSHA256 sha n = sha (intent_identity n)"

record settlement =
  st_reason_code :: string
  st_reason_message :: string
  st_reason_deployment :: "uuid option"
  st_settled_by :: "uuid option"
  st_deployment :: "uuid option"

definition no_settlement :: settlement where
  "no_settlement = \<lparr>st_reason_code = '''', st_reason_message = '''', st_reason_deployment = None,
     st_settled_by = None, st_deployment = None\<rparr>"

definition waiting_row :: "uuid \<Rightarrow> queue_row \<Rightarrow> bool" where
  "waiting_row environment q \<longleftrightarrow> q_environment q = environment \<and> q_state q = Queued"

definition queue_position :: "database \<Rightarrow> queue_row \<Rightarrow> nat" where
  "queue_position db q = (if q_state q = Queued
     then count_rows (\<lambda>ahead. waiting_row (q_environment q) ahead \<and> q_seq ahead \<le> q_seq q) (queue db)
     else 0)"

type_synonym queue_item = "queue_row \<times> nat"

definition scanDeploymentQueueItem :: "database \<Rightarrow> queue_row \<Rightarrow> queue_item" where
  "scanDeploymentQueueItem db q = (q, queue_position db q)"

definition queue_head :: "database \<Rightarrow> uuid \<Rightarrow> queue_row option" where
  "queue_head db environment = least_row q_seq (filter (waiting_row environment) (queue db))"

text \<open>The \<^verbatim>\<open>CHECK\<close> constraints of a row.\<close>

definition queue_row_check :: "queue_row \<Rightarrow> bool" where
  "queue_row_check q \<longleftrightarrow>
     (q_mode q = ModeDeploy \<or> q_mode q = ModeRollback) \<and>
     q_attempts q \<ge> 0 \<and>
     q_expires_at q > q_created_at q \<and>
     (q_state q = Dispatched) = (q_deployment q \<noteq> None) \<and>
     (q_state q = Queued) = (q_settled_at q = None) \<and>
     (q_state q \<in> {Queued, Dispatched}) = (q_reason_code q = None) \<and>
     (q_halt_on_failure q \<or> q_enqueued_after q = None) \<and>
     (q_reason_deployment q = None \<or> q_reason_code q \<noteq> None)"

section \<open>Availability\<close>

definition env_leased :: "instant \<Rightarrow> database \<Rightarrow> uuid \<Rightarrow> bool" where
  "env_leased now db environment \<longleftrightarrow>
     exists_row (\<lambda>l. lease_environment l = environment \<and> lease_expires_at l > now) (leases db)"

definition env_executing :: "database \<Rightarrow> string \<Rightarrow> string \<Rightarrow> string \<Rightarrow> bool" where
  "env_executing db org project env \<longleftrightarrow>
     (case find_env org project env db of
        None \<Rightarrow> False
      | Some e \<Rightarrow> exists_row (\<lambda>d. dep_de_id d = env_id e \<and> dep_id d = env_last_executing e \<and>
          dep_status d = StatusExecuting) (deployments db))"

definition state_head :: "database \<Rightarrow> string \<Rightarrow> string \<Rightarrow> string \<Rightarrow> uuid option" where
  "state_head db org project env = map_option env_last_state (find_env org project env db)"

definition CheckEnvironmentAvailable ::
  "instant \<Rightarrow> database \<Rightarrow> string \<Rightarrow> string \<Rightarrow> string \<Rightarrow> uuid \<Rightarrow> uuid \<Rightarrow> unit result" where
  "CheckEnvironmentAvailable now db org project env environment item =
     bindR (RequireObservationStopped db environment) (\<lambda>_.
     bindR (guardR (\<not> (env_leased now db environment \<or> env_executing db org project env))
       (NewErrCodedConflict CodeEnvironmentBusy ''the Environment has a running Deployment'')) (\<lambda>_.
     bindR (requireReplaceableStateHead db (opt_or (state_head db org project env) uuid_nil)) (\<lambda>_.
       guardR (case queue_head db environment of None \<Rightarrow> True | Some q \<Rightarrow> q_id q = item)
         (NewErrCodedConflict CodeEnvironmentBusy ''Deployments are queued for the Environment''))))"

definition requireQueueHead :: "database \<Rightarrow> uuid \<Rightarrow> uuid \<Rightarrow> unit result" where
  "requireQueueHead db environment item =
     (case queue_head db environment of
        None \<Rightarrow> guardR (item = uuid_nil) (NewErrConflict ''the promoted queue item is no longer waiting'')
      | Some q \<Rightarrow> guardR (q_id q = item)
          (NewErrCodedConflict CodeEnvironmentBusy ''Deployments are queued for the Environment''))"

definition HaltingDeploymentQueuePredecessor :: "database \<Rightarrow> queue_row \<Rightarrow> uuid option" where
  "HaltingDeploymentQueuePredecessor db item =
     (if \<not> q_halt_on_failure item then None
      else case find_env (q_org item) (q_project item) (q_env item) db of
        None \<Rightarrow> None
      | Some e \<Rightarrow>
          (case find (\<lambda>d. dep_de_id d = env_id e \<and> dep_id d = env_last_state e \<and>
                dep_mode d \<in> {ModeDeploy, ModeRollback, ModeDestroy}) (deployments db) of
             None \<Rightarrow> None
           | Some d \<Rightarrow>
               if dep_status d \<noteq> StatusFailed \<or> q_enqueued_after item = Some (dep_id d) then None
               else Some (dep_id d)))"

record pending_changes =
  pc_running :: nat
  pc_queued :: nat

definition pending_any :: "pending_changes \<Rightarrow> bool" where
  "pending_any p \<longleftrightarrow> pc_running p > 0 \<or> pc_queued p > 0"

definition ReadPendingEnvironmentChanges ::
  "database \<Rightarrow> string \<Rightarrow> string \<Rightarrow> string \<Rightarrow> uuid \<Rightarrow> pending_changes" where
  "ReadPendingEnvironmentChanges db org project env environment =
     \<lparr>pc_running = (case find_env org project env db of
          None \<Rightarrow> 0
        | Some e \<Rightarrow> count_rows (\<lambda>d. dep_de_id d = env_id e \<and> dep_id d = env_last_state e \<and>
            dep_status d = StatusExecuting \<and> dep_mode d \<in> {ModeDeploy, ModeRollback, ModeDestroy})
            (deployments db)),
      pc_queued = count_rows (waiting_row environment) (queue db)\<rparr>"

section \<open>Enqueueing\<close>

definition FindDeploymentQueueItemByIdempotencyKey ::
  "instant \<Rightarrow> database \<Rightarrow> string \<Rightarrow> uuid \<Rightarrow> string \<Rightarrow> queue_item result" where
  "FindDeploymentQueueItemByIdempotencyKey wall db org environment digest =
     (case least_row (\<lambda>q. - q_seq q) (filter (\<lambda>q. q_org q = org \<and> q_environment q = environment \<and>
          q_key_digest q = Some digest \<and> q_created_at q > wall - idempotencyDigestTimeLimit) (queue db)) of
        None \<Rightarrow> Inl (ErrNotFound ''no deployment queue item for this idempotency key'')
      | Some q \<Rightarrow> Inr (scanDeploymentQueueItem db q))"

definition enqueued_after_head :: "database \<Rightarrow> new_queue_item \<Rightarrow> uuid option" where
  "enqueued_after_head db n =
     (case find_env (nq_org n) (nq_project n) (nq_env n) db of
        None \<Rightarrow> None
      | Some e \<Rightarrow>
          if nq_halt_on_failure n \<and>
             map_option dep_status (find_deployment (env_last_state e) db) \<noteq> Some StatusExecuting
          then Some (env_last_state e) else None)"

definition new_queue_row ::
  "(intent_identity \<Rightarrow> string) \<Rightarrow> instant \<Rightarrow> uuid \<Rightarrow> database \<Rightarrow> new_queue_item \<Rightarrow> queue_row" where
  "new_queue_row sha now i db n =
     \<lparr>q_id = i, q_seq = queue_next_seq db, q_org = nq_org n, q_project = nq_project n, q_env = nq_env n,
      q_environment = nq_environment n, q_mode = nq_mode n, q_intent = nq_intent n,
      q_intent_sha256 = IntentSHA256 sha n, q_key_digest = nq_key_digest n,
      q_expected_base = nq_expected_base n, q_halt_on_failure = nq_halt_on_failure n,
      q_enqueued_after = enqueued_after_head db n, q_created_by = nq_created_by n,
      q_created_at = now, q_expires_at = now + nq_ttl n, q_state = Queued, q_attempts = 0,
      q_next_attempt_at = now, q_last_error = None, q_reason_code = None, q_reason_message = None,
      q_reason_deployment = None, q_settled_by = None, q_settled_at = None, q_deployment = None\<rparr>"

text \<open>The \<^verbatim>\<open>INSERT\<close> with the primary key and the waiting-idempotency index.\<close>

definition insert_queue_row :: "queue_row \<Rightarrow> database \<Rightarrow> database result" where
  "insert_queue_row row db =
     (if lookup_row q_id (q_id row) (queue db) \<noteq> None then Inl (ErrInternal ''environment_deployment_queue_pkey'')
      else if q_key_digest row \<noteq> None \<and> exists_row (\<lambda>q. q_org q = q_org row \<and>
           waiting_row (q_environment row) q \<and> q_key_digest q = q_key_digest row) (queue db)
      then Inl (ErrInternal ''environment_deployment_queue_waiting_idempotency'')
      else if \<not> queue_row_check row then Inl (ErrInternal ''environment_deployment_queue_check'')
      else Inr (db\<lparr>queue := queue db @ [row], queue_next_seq := queue_next_seq db + 1\<rparr>))"

definition EnqueueDeployment ::
  "(intent_identity \<Rightarrow> string) \<Rightarrow> instant \<Rightarrow> instant \<Rightarrow> uuid \<Rightarrow> database \<Rightarrow> new_queue_item \<Rightarrow> int
     \<Rightarrow> (queue_item \<times> bool \<times> database) result" where
  "EnqueueDeployment sha now wall fresh db request maxDepth =
     (if nq_mode request \<noteq> ModeDeploy \<and> nq_mode request \<noteq> ModeRollback
      then Inl (ErrBadRequest ''only deploy and rollback requests can wait in the deployment queue'')
      else if nq_ttl request \<le> 0 \<or> maxDepth \<le> 0
      then Inl (ErrInternal ''deployment queue TTL and depth must be positive'')
      else
        bindR (RequireObservationStopped db (nq_environment request)) (\<lambda>_.
        bindR (case nq_key_digest request of
            None \<Rightarrow> Inr None
          | Some digest \<Rightarrow>
              (case FindDeploymentQueueItemByIdempotencyKey wall db (nq_org request) (nq_environment request) digest of
                 Inr existing \<Rightarrow>
                   if q_intent_sha256 (fst existing) \<noteq> IntentSHA256 sha request
                   then Inl (NewErrConflict ''incorrect request for this idempotency key'')
                   else Inr (Some existing)
               | Inl e \<Rightarrow> if IsErrNotFound e then Inr None else Inl e))
          (\<lambda>replay. case replay of
            Some existing \<Rightarrow> Inr (existing, True, db)
          | None \<Rightarrow>
              bindR (requireReplaceableStateHead db
                (opt_or (state_head db (nq_org request) (nq_project request) (nq_env request)) uuid_nil)) (\<lambda>_.
              let depth = count_rows (waiting_row (nq_environment request)) (queue db) in
              if int depth \<ge> maxDepth
              then Inl (NewErrCodedConflict CodeDeploymentQueueFull
                ''the Environment already has that many queued Deployments'')
              else
                let row = new_queue_row sha now fresh db request in
                bindR (insert_queue_row row db) (\<lambda>db'. Inr ((row, depth + 1), False, db'))))))"

section \<open>Reading\<close>

definition GetDeploymentQueueItem :: "database \<Rightarrow> string \<Rightarrow> uuid \<Rightarrow> queue_item result" where
  "GetDeploymentQueueItem db org i =
     (case find (\<lambda>q. q_org q = org \<and> q_id q = i) (queue db) of
        None \<Rightarrow> Inl (ErrNotFound ''deployment queue item not found'')
      | Some q \<Rightarrow> Inr (scanDeploymentQueueItem db q))"

record list_queue_params =
  lq_project :: "string option"
  lq_env :: "string option"
  lq_state :: "queue_state option"

definition list_match :: "string \<Rightarrow> list_queue_params \<Rightarrow> queue_row \<Rightarrow> bool" where
  "list_match org p q \<longleftrightarrow> q_org q = org \<and>
     (case lq_project p of None \<Rightarrow> True | Some x \<Rightarrow> q_project q = x) \<and>
     (case lq_env p of None \<Rightarrow> True | Some x \<Rightarrow> q_env q = x) \<and>
     (case lq_state p of None \<Rightarrow> True | Some x \<Rightarrow> q_state q = x)"

definition ListDeploymentQueueItems ::
  "database \<Rightarrow> string \<Rightarrow> string \<Rightarrow> int \<Rightarrow> list_queue_params \<Rightarrow> (queue_item list \<times> string) result" where
  "ListDeploymentQueueItems db org pageToken perPage params =
     bindR (if pageToken = '''' then Inr 0
            else case parse_int64 pageToken of
              None \<Rightarrow> Inl (ErrBadRequest ''failed to parse page token'')
            | Some parsed \<Rightarrow> if parsed < 0 then Inl (ErrBadRequest ''failed to parse page token'') else Inr parsed)
       (\<lambda>after.
         let limit = nat (max 1 perPage);
             matches = sort_key q_seq (filter (\<lambda>q. list_match org params q \<and> q_seq q > after) (queue db));
             items = map (scanDeploymentQueueItem db) (take (limit + 1) matches)
         in if length items > limit
            then (let page = take limit items in Inr (page, format_int (q_seq (fst (page ! (limit - 1))))))
            else Inr (items, ''''))"

section \<open>Claiming and settling\<close>

definition ClaimDeploymentQueueHead :: "(uuid \<Rightarrow> bool) \<Rightarrow> database \<Rightarrow> uuid \<Rightarrow> queue_item option" where
  "ClaimDeploymentQueueHead locked db environment =
     (case queue_head db environment of
        None \<Rightarrow> None
      | Some q \<Rightarrow> if locked (q_id q) then None else Some (scanDeploymentQueueItem db q))"

definition nullif_empty :: "string \<Rightarrow> string option" where
  "nullif_empty s = (if s = '''' then None else Some s)"

definition settle_row :: "instant \<Rightarrow> queue_state \<Rightarrow> settlement \<Rightarrow> queue_row \<Rightarrow> queue_row" where
  "settle_row now state s q = q\<lparr>q_state := state, q_reason_code := nullif_empty (st_reason_code s),
     q_reason_message := nullif_empty (st_reason_message s), q_reason_deployment := st_reason_deployment s,
     q_settled_by := st_settled_by s, q_deployment := st_deployment s, q_settled_at := Some now\<rparr>"

definition SettleDeploymentQueueItem ::
  "instant \<Rightarrow> database \<Rightarrow> uuid \<Rightarrow> queue_state \<Rightarrow> settlement \<Rightarrow> database result" where
  "SettleDeploymentQueueItem now db i state s =
     (if state = Queued then Inl (ErrInternal ''a settled queue item cannot be queued'')
      else
        let hit = (\<lambda>q. q_id q = i \<and> q_state q = Queued);
            rows = update_rows hit (settle_row now state s) (queue db)
        in if \<not> exists_row hit (queue db) then Inl (NewErrConflict ''the queue item is no longer waiting'')
           else if \<not> list_all queue_row_check (filter (\<lambda>q. q_id q = i) rows)
           then Inl (ErrInternal ''environment_deployment_queue_check'')
           else if st_deployment s \<noteq> None \<and>
             exists_row (\<lambda>q. q_id q \<noteq> i \<and> q_deployment q = st_deployment s) (queue db)
           then Inl (ErrInternal ''environment_deployment_queue_deployment_id_key'')
           else Inr (db\<lparr>queue := rows\<rparr>))"

definition settle_row_bulk :: "instant \<Rightarrow> queue_state \<Rightarrow> settlement \<Rightarrow> queue_row \<Rightarrow> queue_row" where
  "settle_row_bulk now state s q = q\<lparr>q_state := state, q_reason_code := Some (st_reason_code s),
     q_reason_message := nullif_empty (st_reason_message s), q_reason_deployment := st_reason_deployment s,
     q_settled_by := st_settled_by s, q_settled_at := Some now\<rparr>"

definition SettleQueuedDeployments ::
  "instant \<Rightarrow> database \<Rightarrow> uuid \<Rightarrow> queue_state \<Rightarrow> settlement \<Rightarrow> (nat \<times> database) result" where
  "SettleQueuedDeployments now db environment state s =
     (if state = Queued \<or> state = Dispatched \<or> st_reason_code s = '''' \<or> st_deployment s \<noteq> None
      then Inl (ErrInternal ''bulk queue settlement requires a terminal state without a Deployment and a reason'')
      else Inr (count_rows (waiting_row environment) (queue db),
        db\<lparr>queue := update_rows (waiting_row environment) (settle_row_bulk now state s) (queue db)\<rparr>))"

definition DeferDeploymentQueueItem :: "instant \<Rightarrow> database \<Rightarrow> uuid \<Rightarrow> string \<Rightarrow> duration \<Rightarrow> database" where
  "DeferDeploymentQueueItem now db i lastError delay = db\<lparr>queue :=
     update_rows (\<lambda>q. q_id q = i \<and> q_state q = Queued)
       (\<lambda>q. q\<lparr>q_attempts := q_attempts q + 1, q_last_error := Some lastError,
          q_next_attempt_at := now + delay\<rparr>) (queue db)\<rparr>"

definition QueueReasonCancelled :: string where "QueueReasonCancelled = ''cancelled''"
definition QueueReasonExpired :: string where "QueueReasonExpired = ''expired''"
definition QueueReasonPreviousDeploymentFailed :: string where
  "QueueReasonPreviousDeploymentFailed = ''previous_deployment_failed''"

definition CancelDeploymentQueueItem ::
  "(uuid \<Rightarrow> bool) \<Rightarrow> instant \<Rightarrow> database \<Rightarrow> string \<Rightarrow> uuid \<Rightarrow> uuid \<Rightarrow> string
     \<Rightarrow> (queue_item \<times> bool \<times> database) result" where
  "CancelDeploymentQueueItem locked now db org i actor reason =
     (case find (\<lambda>q. q_org q = org \<and> q_id q = i) (queue db) of
        None \<Rightarrow> Inl (ErrNotFound ''deployment queue item not found'')
      | Some q \<Rightarrow>
          if locked i
          then Inl (NewErrCodedConflict CodeQueueItemDispatching ''the queue item is being promoted; read it again'')
          else if q_state q = Cancelled \<and> q_settled_by q = Some actor \<and> opt_or (q_reason_message q) '''' = reason
          then Inr (scanDeploymentQueueItem db q, True, db)
          else if q_state q \<noteq> Queued
          then Inl (NewErrCodedConflict CodeQueueItemSettled ''the queue item is already settled'')
          else
            bindR (SettleDeploymentQueueItem now db i Cancelled
              (no_settlement\<lparr>st_reason_code := QueueReasonCancelled, st_reason_message := reason,
                 st_settled_by := Some actor\<rparr>)) (\<lambda>db'.
            bindR (GetDeploymentQueueItem db' org i) (\<lambda>item. Inr (item, False, db'))))"

section \<open>Sweeping\<close>

text \<open>\<^verbatim>\<open>scanEnvironmentUUIDs\<close> keeps the first occurrence of each Environment.\<close>

fun scanEnvironmentUUIDs :: "uuid list \<Rightarrow> uuid list \<Rightarrow> uuid list" where
  "scanEnvironmentUUIDs seen [] = []"
| "scanEnvironmentUUIDs seen (i # is) =
     (if i \<in> set seen then scanEnvironmentUUIDs seen is else i # scanEnvironmentUUIDs (i # seen) is)"

definition expire_row :: "instant \<Rightarrow> queue_row \<Rightarrow> queue_row" where
  "expire_row now q = q\<lparr>q_state := Expired, q_reason_code := Some QueueReasonExpired,
     q_reason_message := Some ''the request waited longer than its queue TTL'', q_settled_at := Some now\<rparr>"

definition ExpireDeploymentQueueItems ::
  "(uuid \<Rightarrow> bool) \<Rightarrow> instant \<Rightarrow> database \<Rightarrow> nat \<Rightarrow> uuid list \<times> database" where
  "ExpireDeploymentQueueItems locked now db limit =
     (let chosen = map q_id (take limit (sort_key q_expires_at
            (filter (\<lambda>q. q_state q = Queued \<and> q_expires_at q \<le> now \<and> \<not> locked (q_id q)) (queue db))));
          hit = (\<lambda>q. q_id q \<in> set chosen)
      in (scanEnvironmentUUIDs [] (map q_environment (filter hit (queue db))),
          db\<lparr>queue := update_rows hit (expire_row now) (queue db)\<rparr>))"

definition queue_heads :: "database \<Rightarrow> queue_row list" where
  "queue_heads db =
     List.map_filter (queue_head db)
       (sort (remdups (map q_environment (filter (\<lambda>q. q_state q = Queued) (queue db)))))"

definition DueDeploymentQueueEnvironments :: "instant \<Rightarrow> database \<Rightarrow> nat \<Rightarrow> uuid list" where
  "DueDeploymentQueueEnvironments now db limit = scanEnvironmentUUIDs []
     (map q_environment (take limit (sort_key q_next_attempt_at
        (filter (\<lambda>q. q_next_attempt_at q \<le> now) (queue_heads db)))))"

definition prunable :: "instant \<Rightarrow> queue_row \<Rightarrow> bool" where
  "prunable settledBefore q \<longleftrightarrow> q_state q \<noteq> Queued \<and>
     (case q_settled_at q of None \<Rightarrow> False | Some t \<Rightarrow> t < settledBefore)"

definition PruneDeploymentQueue :: "database \<Rightarrow> instant \<Rightarrow> nat \<times> database" where
  "PruneDeploymentQueue db settledBefore =
     (count_rows (prunable settledBefore) (queue db),
      db\<lparr>queue := delete_rows (prunable settledBefore) (queue db)\<rparr>)"

end
