(* ===== verification/Queue_Order.thy ===== *)
theory Queue_Order
  imports Queue
begin

text \<open>
  What the deployment queue promises: the table constraints as an invariant every operation
  keeps, the queue of an Environment as a list of item identities in arrival order
  (\<open>waiting\<close>), and the interface \<open>fifo_queue\<close> with its consequence: whatever is
  enqueued, settled, expired, deferred or pruned, the waiting items are a subsequence of the
  arrivals, so no item ever overtakes another one, and the head is the item that waited longest.
\<close>

section \<open>The interface of a first-come first-served queue\<close>

locale fifo_queue =
  fixes inv :: "'s \<Rightarrow> bool"
    and waits :: "'s \<Rightarrow> 'e \<Rightarrow> 'i list"
    and enq :: "'s \<Rightarrow> 'e \<Rightarrow> 'i \<Rightarrow> 's \<Rightarrow> bool"
    and settle :: "'s \<Rightarrow> 'i set \<Rightarrow> 's \<Rightarrow> bool"
    and head :: "'s \<Rightarrow> 'e \<Rightarrow> 'i option"
  assumes inv_enq: "inv s \<Longrightarrow> enq s e i s' \<Longrightarrow> inv s'"
    and inv_settle: "inv s \<Longrightarrow> settle s K s' \<Longrightarrow> inv s'"
    and waits_enq: "inv s \<Longrightarrow> enq s e i s' \<Longrightarrow> waits s' = (waits s)(e := waits s e @ [i])"
    and waits_settle: "inv s \<Longrightarrow> settle s K s' \<Longrightarrow> waits s' e = filter (\<lambda>j. j \<notin> K) (waits s e)"
    and waits_distinct: "inv s \<Longrightarrow> distinct (waits s e)"
    and head_waits: "inv s \<Longrightarrow> head s e = (case waits s e of [] \<Rightarrow> None | i # _ \<Rightarrow> Some i)"
begin

text \<open>A run with the arrivals it saw, in order.\<close>

inductive run :: "'s \<Rightarrow> ('e \<times> 'i) list \<Rightarrow> 's \<Rightarrow> bool" where
  run_refl: "run s [] s"
| run_enq: "run s arrivals t \<Longrightarrow> enq t e i u \<Longrightarrow> run s (arrivals @ [(e, i)]) u"
| run_settle: "run s arrivals t \<Longrightarrow> settle t K u \<Longrightarrow> run s arrivals u"

definition arrived :: "'e \<Rightarrow> ('e \<times> 'i) list \<Rightarrow> 'i list" where
  "arrived e arrivals = map snd (filter (\<lambda>a. fst a = e) arrivals)"

lemma run_inv: "run s arrivals t \<Longrightarrow> inv s \<Longrightarrow> inv t"
  by (induction rule: run.induct) (auto intro: inv_enq inv_settle)

lemma run_order:
  "run s arrivals t \<Longrightarrow> inv s \<Longrightarrow> subseq (waits t e) (waits s e @ arrived e arrivals)"
proof (induction rule: run.induct)
  case (run_refl s)
  then show ?case by (simp add: arrived_def)
next
  case (run_enq s arrivals t e' i u)
  then have "inv t" by (blast intro: run_inv)
  from waits_enq [OF this run_enq.hyps(2)]
  have "waits u e = waits t e @ (if e' = e then [i] else [])" by simp
  moreover have "arrived e (arrivals @ [(e', i)]) = arrived e arrivals @ (if e' = e then [i] else [])"
    by (simp add: arrived_def)
  moreover have "subseq (waits t e @ x) ((waits s e @ arrived e arrivals) @ x)" for x
    by (rule list_emb_append_mono [OF run_enq.IH [OF run_enq.prems]]) simp
  ultimately show ?case by simp
next
  case (run_settle s arrivals t K u)
  then have "inv t" by (blast intro: run_inv)
  from waits_settle [OF this run_settle.hyps(2)]
  have "subseq (waits u e) (waits t e)" by simp
  with run_settle.IH [OF run_settle.prems] show ?case
    using subseq_order.order_trans by blast
qed

text \<open>The head of a reached queue is the first of its arrivals that still waits.\<close>

lemma head_first:
  assumes "inv s" "head s e = Some i"
  shows "\<exists>rest. waits s e = i # rest \<and> i \<notin> set rest"
  using assms head_waits [of s e] waits_distinct [of s e] by (auto split: list.splits)

end

section \<open>The table invariant\<close>

definition waiting :: "database \<Rightarrow> uuid \<Rightarrow> uuid list" where
  "waiting db environment = map q_id (filter (waiting_row environment) (queue db))"

definition key_unique :: "queue_row list \<Rightarrow> bool" where
  "key_unique t \<longleftrightarrow> (\<forall>q \<in> set t. \<forall>r \<in> set t. q_state q = Queued \<longrightarrow> q_state r = Queued \<longrightarrow>
     q_key_digest q \<noteq> None \<longrightarrow> q_org q = q_org r \<longrightarrow> q_environment q = q_environment r \<longrightarrow>
     q_key_digest q = q_key_digest r \<longrightarrow> q = r)"

definition dispatch_unique :: "queue_row list \<Rightarrow> bool" where
  "dispatch_unique t \<longleftrightarrow> (\<forall>q \<in> set t. \<forall>r \<in> set t.
     q_deployment q \<noteq> None \<longrightarrow> q_deployment q = q_deployment r \<longrightarrow> q = r)"

definition queue_inv :: "database \<Rightarrow> bool" where
  "queue_inv db \<longleftrightarrow> distinct (map q_id (queue db)) \<and> sorted_wrt (<) (map q_seq (queue db)) \<and>
     (\<forall>q \<in> set (queue db). q_seq q < queue_next_seq db \<and> queue_row_check q) \<and>
     dispatch_unique (queue db) \<and> key_unique (queue db)"

lemma queue_inv_empty: "queue_inv empty_database"
  by (simp add: queue_inv_def empty_database_def dispatch_unique_def key_unique_def)

lemma queue_inv_cong:
  "queue db' = queue db \<Longrightarrow> queue_next_seq db' = queue_next_seq db \<Longrightarrow> queue_inv db' = queue_inv db"
  by (simp add: queue_inv_def)

lemma waiting_cong: "queue db' = queue db \<Longrightarrow> waiting db' = waiting db"
  by (simp add: waiting_def fun_eq_iff)

lemma sorted_filter_seq:
  "sorted_wrt (<) (map q_seq t) \<Longrightarrow> sorted_wrt (<) (map q_seq (filter p t))"
  by (induction t) auto

lemma least_row_sorted:
  "sorted_wrt (<) (map key t) \<Longrightarrow> least_row key t = (case t of [] \<Rightarrow> None | r # _ \<Rightarrow> Some r)"
proof (cases t)
  case (Cons r rs)
  moreover assume "sorted_wrt (<) (map key t)"
  ultimately show ?thesis
    using least_row_Some [of key rs] by (auto split: option.splits dest!: less_imp_le)
qed simp

lemma queue_head_hd:
  "queue_inv db \<Longrightarrow> queue_head db environment =
     (case filter (waiting_row environment) (queue db) of [] \<Rightarrow> None | q # _ \<Rightarrow> Some q)"
  unfolding queue_head_def queue_inv_def by (simp add: least_row_sorted sorted_filter_seq)

lemma queue_head_Some:
  "queue_head db environment = Some q \<Longrightarrow>
   q \<in> set (queue db) \<and> waiting_row environment q \<and>
   (\<forall>r \<in> set (queue db). waiting_row environment r \<longrightarrow> q_seq q \<le> q_seq r)"
  unfolding queue_head_def by (drule least_row_Some) auto

lemma queue_head_None:
  "queue_head db environment = None \<longleftrightarrow> (\<forall>q \<in> set (queue db). \<not> waiting_row environment q)"
  by (simp add: queue_head_def filter_empty_conv)

section \<open>Enqueueing\<close>

lemma insert_queue_row_cases:
  assumes "insert_queue_row row db = Inr db'"
  shows "db' = db\<lparr>queue := queue db @ [row], queue_next_seq := queue_next_seq db + 1\<rparr>"
    and "q_id row \<notin> q_id ` set (queue db)" and "queue_row_check row"
    and "q_key_digest row = None \<or> (\<forall>q \<in> set (queue db). \<not> (q_org q = q_org row \<and>
       waiting_row (q_environment row) q \<and> q_key_digest q = q_key_digest row))"
  using assms by (auto simp: insert_queue_row_def lookup_row_None split: if_splits)

lemma insert_queue_row_inv:
  assumes "insert_queue_row row db = Inr db'" "queue_inv db" "q_seq row = queue_next_seq db"
    and "q_state row = Queued"
  shows "queue_inv db'"
proof -
  note row = insert_queue_row_cases [OF assms(1)]
  have "q_deployment row = None" using row(3) assms(4) by (simp add: queue_row_check_def)
  then have "dispatch_unique (queue db @ [row])"
    using assms(2) by (auto simp: queue_inv_def dispatch_unique_def)
  moreover have "key_unique (queue db @ [row])"
    using assms(2) row(4) by (force simp: queue_inv_def key_unique_def waiting_row_def)
  ultimately show ?thesis
    using assms(2,3) row(1-3) by (auto simp: queue_inv_def sorted_wrt_append less_Suc_eq)
qed

lemma EnqueueDeployment_cases:
  assumes "EnqueueDeployment sha now wall fresh db request maxDepth = Inr (item, replayed, db')"
  obtains (replay) digest where "replayed" "db' = db" "nq_key_digest request = Some digest"
      "FindDeploymentQueueItemByIdempotencyKey wall db (nq_org request) (nq_environment request) digest = Inr item"
      "q_intent_sha256 (fst item) = IntentSHA256 sha request"
  | (appended) "\<not> replayed" "insert_queue_row (new_queue_row sha now fresh db request) db = Inr db'"
      "item = (new_queue_row sha now fresh db request,
         count_rows (waiting_row (nq_environment request)) (queue db) + 1)"
      "int (count_rows (waiting_row (nq_environment request)) (queue db)) < maxDepth"
      "\<not> observation_held db (nq_environment request)" "0 < nq_ttl request"
      "nq_mode request = ModeDeploy \<or> nq_mode request = ModeRollback"
      "requireReplaceableStateHead db
         (opt_or (state_head db (nq_org request) (nq_project request) (nq_env request)) uuid_nil) = Inr ()"
  using assms
  unfolding EnqueueDeployment_def RequireObservationStopped_def
  by (auto simp: Let_def split: if_splits option.splits sum.splits)

lemma EnqueueDeployment_inv:
  assumes "EnqueueDeployment sha now wall fresh db request maxDepth = Inr (item, replayed, db')"
    and "queue_inv db"
  shows "queue_inv db'"
  using assms(1)
proof (cases rule: EnqueueDeployment_cases)
  case replay
  with assms(2) show ?thesis by simp
next
  case appended
  from appended(2) assms(2) show ?thesis
    by (rule insert_queue_row_inv) (simp_all add: new_queue_row_def)
qed

lemma EnqueueDeployment_waiting:
  assumes "EnqueueDeployment sha now wall fresh db request maxDepth = Inr (item, False, db')"
  shows "waiting db' = (waiting db)(nq_environment request := waiting db (nq_environment request) @ [fresh])"
    and "q_id (fst item) = fresh"
  using assms
  by (cases rule: EnqueueDeployment_cases;
      auto simp: waiting_def new_queue_row_def waiting_row_def fun_eq_iff
        dest!: insert_queue_row_cases(1))+

section \<open>Settling\<close>

text \<open>
  What every \<^verbatim>\<open>UPDATE\<close> of the table respects: the identity of a row and its place,
  the row constraints, and that a settled row is never queued again.
\<close>

definition row_keeps :: "queue_row \<Rightarrow> queue_row \<Rightarrow> bool" where
  "row_keeps q r \<longleftrightarrow> q_id r = q_id q \<and> q_seq r = q_seq q \<and> q_org r = q_org q \<and>
     q_environment r = q_environment q \<and> q_key_digest r = q_key_digest q \<and> queue_row_check r \<and>
     (q_state r = Queued \<longrightarrow> q_state q = Queued)"

lemma key_unique_update:
  assumes "key_unique t" and keeps: "\<And>q. q \<in> set t \<Longrightarrow> row_keeps q (g q)"
  shows "key_unique (map g t)"
  unfolding key_unique_def
proof (intro ballI impI)
  fix q r
  assume "q \<in> set (map g t)" "r \<in> set (map g t)"
  then obtain q0 r0 where m: "q0 \<in> set t" "r0 \<in> set t" and g: "q = g q0" "r = g r0" by auto
  assume *: "q_state q = Queued" "q_state r = Queued" "q_key_digest q \<noteq> None" "q_org q = q_org r"
    "q_environment q = q_environment r" "q_key_digest q = q_key_digest r"
  have "q0 = r0"
    using assms(1) m * keeps [OF m(1)] keeps [OF m(2)]
    unfolding key_unique_def row_keeps_def g by metis
  then show "q = r" using g by simp
qed

lemma queue_inv_update:
  assumes "queue_inv db" and "\<And>q. q \<in> set (queue db) \<Longrightarrow> p q \<Longrightarrow> row_keeps q (f q)"
    and "dispatch_unique (update_rows p f (queue db))"
  shows "queue_inv (db\<lparr>queue := update_rows p f (queue db)\<rparr>)"
proof -
  let ?g = "\<lambda>q. if p q then f q else q"
  have keeps: "row_keeps q (?g q)" if "q \<in> set (queue db)" for q
    using assms(1,2) that by (auto simp: queue_inv_def row_keeps_def)
  have "map q_id (update_rows p f (queue db)) = map q_id (queue db)"
    "map q_seq (update_rows p f (queue db)) = map q_seq (queue db)"
    using keeps by (auto simp: update_rows_def row_keeps_def)
  moreover have "key_unique (update_rows p f (queue db))"
    unfolding update_rows_def using assms(1) keeps by (auto simp: queue_inv_def intro: key_unique_update)
  moreover have "q_seq r < queue_next_seq db \<and> queue_row_check r" if "r \<in> set (update_rows p f (queue db))" for r
    using that keeps assms(1) by (force simp: set_update_rows row_keeps_def queue_inv_def)
  ultimately show ?thesis using assms(1,3) by (simp add: queue_inv_def)
qed

lemma dispatch_unique_update:
  assumes "dispatch_unique t" and "\<And>q. q \<in> set t \<Longrightarrow> p q \<Longrightarrow> q_deployment (f q) = q_deployment q"
  shows "dispatch_unique (update_rows p f t)"
  unfolding dispatch_unique_def
proof (intro ballI impI)
  fix q r
  assume "q \<in> set (update_rows p f t)" "r \<in> set (update_rows p f t)"
  then obtain q0 r0 where m: "q0 \<in> set t" "r0 \<in> set t"
    and g: "q = (if p q0 then f q0 else q0)" "r = (if p r0 then f r0 else r0)"
    by (auto simp: set_update_rows)
  assume "q_deployment q \<noteq> None" "q_deployment q = q_deployment r"
  then have "q0 = r0"
    using assms(1,2) m unfolding g dispatch_unique_def by (metis (full_types))
  then show "q = r" using g by simp
qed

lemma filter_update_rows_settled:
  assumes "\<And>q. q \<in> set t \<Longrightarrow> p q \<Longrightarrow> q_state (f q) \<noteq> Queued \<and> q_id (f q) = q_id q"
    and "\<And>q. q \<in> set t \<Longrightarrow> waiting_row environment q \<Longrightarrow> p q \<longleftrightarrow> q_id q \<in> K"
  shows "map q_id (filter (waiting_row environment) (update_rows p f t)) =
     filter (\<lambda>j. j \<notin> K) (map q_id (filter (waiting_row environment) t))"
  using assms by (induction t) (auto simp: waiting_row_def)

lemma settle_row_fields [simp]:
  "q_id (settle_row now state s q) = q_id q" "q_seq (settle_row now state s q) = q_seq q"
  "q_state (settle_row now state s q) = state" "q_deployment (settle_row now state s q) = st_deployment s"
  "q_environment (settle_row now state s q) = q_environment q" "q_org (settle_row now state s q) = q_org q"
  "q_key_digest (settle_row now state s q) = q_key_digest q"
  by (simp_all add: settle_row_def)

lemma SettleDeploymentQueueItem_cases:
  assumes "SettleDeploymentQueueItem now db i state s = Inr db'"
  shows "state \<noteq> Queued"
    and "db' = db\<lparr>queue := update_rows (\<lambda>q. q_id q = i \<and> q_state q = Queued) (settle_row now state s) (queue db)\<rparr>"
    and "\<exists>q \<in> set (queue db). q_id q = i \<and> q_state q = Queued"
    and "\<And>q. q \<in> set (queue db) \<Longrightarrow> q_id q = i \<Longrightarrow> q_state q = Queued \<Longrightarrow> queue_row_check (settle_row now state s q)"
    and "st_deployment s = None \<or> (\<forall>q \<in> set (queue db). q_id q \<noteq> i \<longrightarrow> q_deployment q \<noteq> st_deployment s)"
proof -
  let ?hit = "\<lambda>q. q_id q = i \<and> q_state q = Queued"
  let ?rows = "update_rows ?hit (settle_row now state s) (queue db)"
  have c: "state \<noteq> Queued \<and> exists_row ?hit (queue db) \<and>
      list_all queue_row_check (filter (\<lambda>q. q_id q = i) ?rows) \<and>
      (st_deployment s = None \<or> \<not> exists_row (\<lambda>q. q_id q \<noteq> i \<and> q_deployment q = st_deployment s) (queue db)) \<and>
      db' = db\<lparr>queue := ?rows\<rparr>"
    using assms unfolding SettleDeploymentQueueItem_def Let_def
    by (simp only: split: if_splits) simp_all
  from c show "state \<noteq> Queued" "db' = db\<lparr>queue := ?rows\<rparr>" "\<exists>q \<in> set (queue db). ?hit q"
    "st_deployment s = None \<or> (\<forall>q \<in> set (queue db). q_id q \<noteq> i \<longrightarrow> q_deployment q \<noteq> st_deployment s)"
    by auto
  fix q assume "q \<in> set (queue db)" "q_id q = i" "q_state q = Queued"
  then have "settle_row now state s q \<in> set (filter (\<lambda>q. q_id q = i) ?rows)"
    by (auto simp: set_update_rows intro!: rev_image_eqI [of q])
  with c show "queue_row_check (settle_row now state s q)" by (simp add: list_all_iff)
qed

lemma SettleDeploymentQueueItem_inv:
  assumes "SettleDeploymentQueueItem now db i state s = Inr db'" "queue_inv db"
  shows "queue_inv db'"
proof -
  note c = SettleDeploymentQueueItem_cases [OF assms(1)]
  let ?p = "\<lambda>q. q_id q = i \<and> q_state q = Queued" and ?f = "settle_row now state s"
  have id: "distinct (map q_id (queue db))" and du: "dispatch_unique (queue db)"
    using assms(2) by (simp_all add: queue_inv_def)
  have "dispatch_unique (update_rows ?p ?f (queue db))"
    unfolding dispatch_unique_def
  proof (intro ballI impI)
    fix q r
    assume "q \<in> set (update_rows ?p ?f (queue db))" "r \<in> set (update_rows ?p ?f (queue db))"
    then obtain q0 r0 where m: "q0 \<in> set (queue db)" "r0 \<in> set (queue db)"
      and g: "q = (if ?p q0 then ?f q0 else q0)" "r = (if ?p r0 then ?f r0 else r0)"
      by (auto simp: set_update_rows)
    assume d: "q_deployment q \<noteq> None" "q_deployment q = q_deployment r"
    have "q0 = r0"
      using distinct_key_eq [OF id m] c(5) m du d unfolding g dispatch_unique_def
      by (auto split: if_splits)
    then show "q = r" using g by simp
  qed
  then show ?thesis
    unfolding c(2) using assms(2) c(1,4) by (intro queue_inv_update) (auto simp: row_keeps_def)
qed

lemma SettleDeploymentQueueItem_waiting:
  assumes "SettleDeploymentQueueItem now db i state s = Inr db'"
  shows "waiting db' environment = filter (\<lambda>j. j \<notin> {i}) (waiting db environment)"
proof -
  have "queue db' = update_rows (\<lambda>q. q_id q = i \<and> q_state q = Queued) (settle_row now state s) (queue db)"
    by (simp add: SettleDeploymentQueueItem_cases(2) [OF assms])
  with SettleDeploymentQueueItem_cases(1) [OF assms] show ?thesis
    unfolding waiting_def by (simp only:) (rule filter_update_rows_settled, auto simp: waiting_row_def)
qed

lemma settle_row_bulk_fields [simp]:
  "q_id (settle_row_bulk now state s q) = q_id q" "q_seq (settle_row_bulk now state s q) = q_seq q"
  "q_state (settle_row_bulk now state s q) = state"
  "q_deployment (settle_row_bulk now state s q) = q_deployment q"
  by (simp_all add: settle_row_bulk_def)

lemma SettleQueuedDeployments_cases:
  assumes "SettleQueuedDeployments now db environment state s = Inr (n, db')"
  shows "state \<noteq> Queued" "state \<noteq> Dispatched" "st_reason_code s \<noteq> ''''"
    and "db' = db\<lparr>queue := update_rows (waiting_row environment) (settle_row_bulk now state s) (queue db)\<rparr>"
    and "n = length (waiting db environment)"
  using assms
  by (auto simp: SettleQueuedDeployments_def count_rows_def waiting_def split: if_splits)

lemma SettleQueuedDeployments_inv:
  assumes "SettleQueuedDeployments now db environment state s = Inr (n, db')" "queue_inv db"
  shows "queue_inv db'"
proof -
  note c = SettleQueuedDeployments_cases [OF assms(1)]
  have "row_keeps q (settle_row_bulk now state s q)" if "q \<in> set (queue db)" "waiting_row environment q" for q
  proof -
    from that assms(2) have "queue_row_check q" "q_state q = Queued"
      by (auto simp: queue_inv_def waiting_row_def)
    with c(1-3) show ?thesis
      by (auto simp: row_keeps_def queue_row_check_def settle_row_bulk_def)
  qed
  moreover have "dispatch_unique (update_rows (waiting_row environment) (settle_row_bulk now state s) (queue db))"
    by (rule dispatch_unique_update) (use assms(2) in \<open>auto simp: queue_inv_def\<close>)
  ultimately show ?thesis unfolding c(4) by (rule queue_inv_update [OF assms(2)])
qed

lemma waiting_env: "j \<in> set (waiting db e) \<longleftrightarrow> (\<exists>q \<in> set (queue db). q_id q = j \<and> waiting_row e q)"
  by (auto simp: waiting_def)

lemma waiting_disjoint:
  assumes "queue_inv db" "j \<in> set (waiting db e)" "j \<in> set (waiting db e')"
  shows "e = e'"
proof -
  from assms(2,3) obtain q r where q: "q \<in> set (queue db)" "q_id q = j" "waiting_row e q"
    and r: "r \<in> set (queue db)" "q_id r = j" "waiting_row e' r" by (auto simp: waiting_env)
  have "q = r" using assms(1) q r by (auto simp: queue_inv_def intro: distinct_key_eq)
  with q r show ?thesis by (simp add: waiting_row_def)
qed

lemma SettleQueuedDeployments_waiting:
  assumes "SettleQueuedDeployments now db environment state s = Inr (n, db')" "queue_inv db"
  shows "waiting db' e = filter (\<lambda>j. j \<notin> set (waiting db environment)) (waiting db e)"
proof -
  have q: "queue db' = update_rows (waiting_row environment) (settle_row_bulk now state s) (queue db)"
    by (simp add: SettleQueuedDeployments_cases(4) [OF assms(1)])
  have "waiting_row environment q \<longleftrightarrow> q_id q \<in> set (waiting db environment)"
    if "q \<in> set (queue db)" "waiting_row e q" for q
    using that waiting_disjoint [OF assms(2), of "q_id q" e environment]
    by (auto simp: waiting_env waiting_row_def)
  with SettleQueuedDeployments_cases(1) [OF assms(1)] show ?thesis
    unfolding waiting_def [of db'] waiting_def [of db e] q
    by (intro filter_update_rows_settled) auto
qed

section \<open>Deferring, cancelling, expiring and pruning\<close>

lemma queue_inv_delete:
  assumes "queue_inv db"
  shows "queue_inv (db\<lparr>queue := delete_rows p (queue db)\<rparr>)"
  using assms
  by (auto simp: queue_inv_def delete_rows_def distinct_map_filter sorted_filter_seq
      dispatch_unique_def key_unique_def)

lemma DeferDeploymentQueueItem_inv:
  assumes "queue_inv db"
  shows "queue_inv (DeferDeploymentQueueItem now db i e delay)"
  unfolding DeferDeploymentQueueItem_def
proof (rule queue_inv_update [OF assms])
  fix q assume "q \<in> set (queue db)"
  with assms have "queue_row_check q" by (simp add: queue_inv_def)
  then show "row_keeps q (q\<lparr>q_attempts := q_attempts q + 1, q_last_error := Some e,
      q_next_attempt_at := now + delay\<rparr>)"
    by (cases "q_state q") (auto simp: row_keeps_def queue_row_check_def)
qed (rule dispatch_unique_update, use assms in \<open>auto simp: queue_inv_def\<close>)

lemma filter_update_rows_waiting:
  assumes "\<And>q. q \<in> set t \<Longrightarrow> p q \<Longrightarrow> q_state (f q) = q_state q \<and> q_id (f q) = q_id q \<and> q_environment (f q) = q_environment q"
  shows "map q_id (filter (waiting_row environment) (update_rows p f t)) =
     map q_id (filter (waiting_row environment) t)"
  using assms by (induction t) (auto simp: waiting_row_def)

lemma DeferDeploymentQueueItem_waiting:
  "waiting (DeferDeploymentQueueItem now db i e delay) = waiting db"
  by (rule ext) (simp add: waiting_def DeferDeploymentQueueItem_def filter_update_rows_waiting)

lemma CancelDeploymentQueueItem_cases:
  assumes "CancelDeploymentQueueItem locked now db org i actor reason = Inr (item, replayed, db')"
  obtains (replay) "replayed" "db' = db" "q_state (fst item) = Cancelled" "fst item \<in> set (queue db)"
      "q_id (fst item) = i"
  | (cancelled) "\<not> replayed" "\<not> locked i"
      "SettleDeploymentQueueItem now db i Cancelled
         (no_settlement\<lparr>st_reason_code := QueueReasonCancelled, st_reason_message := reason,
            st_settled_by := Some actor\<rparr>) = Inr db'"
      "GetDeploymentQueueItem db' org i = Inr item"
  using assms unfolding CancelDeploymentQueueItem_def
  by (auto simp: scanDeploymentQueueItem_def split: option.splits if_splits dest: find_SomeD)

definition expire_chosen :: "(uuid \<Rightarrow> bool) \<Rightarrow> instant \<Rightarrow> database \<Rightarrow> nat \<Rightarrow> uuid list" where
  "expire_chosen locked now db limit = map q_id (take limit (sort_key q_expires_at
     (filter (\<lambda>q. q_state q = Queued \<and> q_expires_at q \<le> now \<and> \<not> locked (q_id q)) (queue db))))"

lemma ExpireDeploymentQueueItems_eq:
  "snd (ExpireDeploymentQueueItems locked now db limit) =
     db\<lparr>queue := update_rows (\<lambda>q. q_id q \<in> set (expire_chosen locked now db limit)) (expire_row now) (queue db)\<rparr>"
  by (simp add: ExpireDeploymentQueueItems_def expire_chosen_def Let_def)

lemma expire_chosen_row:
  assumes "queue_inv db" "q \<in> set (queue db)" "q_id q \<in> set (expire_chosen locked now db limit)"
  shows "q_state q = Queued" "q_expires_at q \<le> now" "\<not> locked (q_id q)"
proof -
  from assms(3) obtain r where "r \<in> set (queue db)" "q_id r = q_id q"
    and r: "q_state r = Queued" "q_expires_at r \<le> now" "\<not> locked (q_id r)"
    unfolding expire_chosen_def by (auto dest!: in_set_takeD)
  with assms(1,2) have "r = q" by (auto simp: queue_inv_def intro: distinct_key_eq)
  with r show "q_state q = Queued" "q_expires_at q \<le> now" "\<not> locked (q_id q)" by simp_all
qed

lemma ExpireDeploymentQueueItems_inv:
  assumes "queue_inv db"
  shows "queue_inv (snd (ExpireDeploymentQueueItems locked now db limit))"
  unfolding ExpireDeploymentQueueItems_eq
proof (rule queue_inv_update [OF assms])
  fix q assume q: "q \<in> set (queue db)" "q_id q \<in> set (expire_chosen locked now db limit)"
  with assms have "queue_row_check q" "q_state q = Queued"
    by (auto simp: queue_inv_def dest: expire_chosen_row [OF assms])
  then show "row_keeps q (expire_row now q)"
    by (simp add: row_keeps_def queue_row_check_def expire_row_def)
qed (rule dispatch_unique_update, use assms in \<open>auto simp: queue_inv_def expire_row_def\<close>)

lemma ExpireDeploymentQueueItems_waiting:
  "waiting (snd (ExpireDeploymentQueueItems locked now db limit)) e =
     filter (\<lambda>j. j \<notin> set (expire_chosen locked now db limit)) (waiting db e)"
proof -
  have "queue (snd (ExpireDeploymentQueueItems locked now db limit)) =
      update_rows (\<lambda>q. q_id q \<in> set (expire_chosen locked now db limit)) (expire_row now) (queue db)"
    by (simp add: ExpireDeploymentQueueItems_eq)
  then show ?thesis
    unfolding waiting_def by (simp only:) (rule filter_update_rows_settled, auto simp: expire_row_def)
qed

lemma PruneDeploymentQueue_waiting: "waiting (snd (PruneDeploymentQueue db before)) = waiting db"
proof -
  have "filter (waiting_row e) (filter (\<lambda>q. \<not> prunable before q) t) = filter (waiting_row e) t" for e t
    by (induction t) (auto simp: prunable_def waiting_row_def)
  then show ?thesis by (auto simp: waiting_def PruneDeploymentQueue_def delete_rows_def)
qed

section \<open>The queue is first come, first served\<close>

text \<open>One transaction that settles the items \<open>K\<close>, or changes no item's place.\<close>

inductive queue_settle :: "database \<Rightarrow> uuid set \<Rightarrow> database \<Rightarrow> bool" where
  settle_one: "SettleDeploymentQueueItem now db i state s = Inr db' \<Longrightarrow> queue_settle db {i} db'"
| settle_all: "SettleQueuedDeployments now db environment state s = Inr (n, db') \<Longrightarrow>
    queue_settle db (set (waiting db environment)) db'"
| settle_cancel: "CancelDeploymentQueueItem locked now db org i actor reason = Inr (item, False, db') \<Longrightarrow>
    queue_settle db {i} db'"
| settle_expire: "ExpireDeploymentQueueItems locked now db limit = (envs, db') \<Longrightarrow>
    queue_settle db (set (expire_chosen locked now db limit)) db'"
| settle_defer: "queue_settle db {} (DeferDeploymentQueueItem now db i e delay)"
| settle_prune: "PruneDeploymentQueue db before = (n, db') \<Longrightarrow> queue_settle db {} db'"

definition queue_enq :: "database \<Rightarrow> uuid \<Rightarrow> uuid \<Rightarrow> database \<Rightarrow> bool" where
  "queue_enq db e i db' \<longleftrightarrow> (\<exists>sha now wall request maxDepth item.
     EnqueueDeployment sha now wall i db request maxDepth = Inr (item, False, db') \<and>
     nq_environment request = e)"

lemma queue_settle_inv: "queue_settle db K db' \<Longrightarrow> queue_inv db \<Longrightarrow> queue_inv db'"
proof (induction rule: queue_settle.induct)
  case (settle_cancel locked now db org i actor reason item db')
  from settle_cancel.hyps show ?case
    by (cases rule: CancelDeploymentQueueItem_cases)
      (use settle_cancel.prems in \<open>auto intro: SettleDeploymentQueueItem_inv\<close>)
next
  case (settle_expire locked now db limit envs db')
  then show ?case using ExpireDeploymentQueueItems_inv [of db locked now limit] by simp
next
  case (settle_prune db before n db')
  then show ?case by (auto simp: PruneDeploymentQueue_def intro: queue_inv_delete)
qed (auto intro: SettleDeploymentQueueItem_inv SettleQueuedDeployments_inv DeferDeploymentQueueItem_inv)

lemma queue_settle_waiting:
  "queue_settle db K db' \<Longrightarrow> queue_inv db \<Longrightarrow> waiting db' e = filter (\<lambda>j. j \<notin> K) (waiting db e)"
proof (induction rule: queue_settle.induct)
  case (settle_cancel locked now db org i actor reason item db')
  from settle_cancel.hyps show ?case
    by (cases rule: CancelDeploymentQueueItem_cases)
      (use SettleDeploymentQueueItem_waiting in \<open>auto\<close>)
next
  case (settle_expire locked now db limit envs db')
  then show ?case using ExpireDeploymentQueueItems_waiting [of locked now db limit e] by simp
next
  case (settle_prune db before n db')
  then show ?case using PruneDeploymentQueue_waiting [of db before] by simp
qed (auto simp: DeferDeploymentQueueItem_waiting dest: SettleDeploymentQueueItem_waiting
    SettleQueuedDeployments_waiting)

interpretation fifo: fifo_queue queue_inv waiting queue_enq queue_settle
  "\<lambda>db e. map_option q_id (queue_head db e)"
proof (unfold_locales, goal_cases)
  case (1 s e i s')
  then show ?case by (auto simp: queue_enq_def intro: EnqueueDeployment_inv)
next
  case (2 s K s')
  then show ?case by (blast intro: queue_settle_inv)
next
  case (3 s e i s')
  then show ?case by (auto simp: queue_enq_def dest: EnqueueDeployment_waiting(1))
next
  case (4 s K s' e)
  then show ?case by (blast intro: queue_settle_waiting)
next
  case (5 s e)
  then show ?case by (auto simp: waiting_def queue_inv_def distinct_map_filter)
next
  case (6 s e)
  then show ?case by (auto simp: queue_head_hd waiting_def split: list.splits)
qed

section \<open>What the queue promises its callers\<close>

text \<open>The position a caller is shown is the place in the waiting list, counted from one.\<close>

lemma count_before_sorted:
  assumes "sorted_wrt (<) (map key t)" "r \<in> set t" "p r"
  shows "\<exists>j < length (filter p t). filter p t ! j = r \<and>
    count_rows (\<lambda>s. p s \<and> (key s :: 'k :: linorder) \<le> key r) t = Suc j"
  using assms
proof (induction t)
  case (Cons s t)
  show ?case
  proof (cases "r = s")
    case True
    have "\<not> (p x \<and> key x \<le> key s)" if "x \<in> set t" for x
      using Cons.prems(1) that by auto
    then have "count_rows (\<lambda>x. p x \<and> key x \<le> key s) t = 0"
      unfolding count_rows_0 by blast
    then show ?thesis using True Cons.prems(3) by (intro exI [of _ 0]) simp
  next
    case False
    with Cons.prems have "r \<in> set t" "sorted_wrt (<) (map key t)" "key s < key r" by auto
    with Cons.IH Cons.prems(3) obtain j where "j < length (filter p t)" "filter p t ! j = r"
      "count_rows (\<lambda>s. p s \<and> key s \<le> key r) t = Suc j" by blast
    then show ?thesis
      using \<open>key s < key r\<close> by (cases "p s") (auto intro!: exI [of _ "Suc j"] exI [of _ j])
  qed
qed simp

lemma queue_position_waiting:
  assumes "queue_inv db" "q \<in> set (queue db)" "q_state q = Queued"
  shows "\<exists>j < length (waiting db (q_environment q)). waiting db (q_environment q) ! j = q_id q \<and>
     queue_position db q = Suc j"
proof -
  have "waiting_row (q_environment q) q" using assms(3) by (simp add: waiting_row_def)
  with count_before_sorted [of q_seq "queue db" q "waiting_row (q_environment q)"] assms
  obtain j where "j < length (filter (waiting_row (q_environment q)) (queue db))"
    "filter (waiting_row (q_environment q)) (queue db) ! j = q"
    "count_rows (\<lambda>s. waiting_row (q_environment q) s \<and> q_seq s \<le> q_seq q) (queue db) = Suc j"
    by (auto simp: queue_inv_def)
  with assms(3) show ?thesis
    by (intro exI [of _ j]) (simp add: waiting_def queue_position_def)
qed

lemma queue_head_first:
  assumes inv: "queue_inv db" and q: "queue_head db environment = Some q"
  shows "waiting db environment = q_id q # tl (waiting db environment) \<and> queue_position db q = 1"
proof -
  obtain rest where w: "waiting db environment = q_id q # rest" "q_id q \<notin> set rest"
    using fifo.head_first [OF inv, of environment "q_id q"] q by auto
  have e: "q_environment q = environment" "q \<in> set (queue db)" "q_state q = Queued"
    using queue_head_Some [OF q] by (simp_all add: waiting_row_def)
  from queue_position_waiting [OF inv e(2,3)] obtain j
    where "j < length (q_id q # rest)" "(q_id q # rest) ! j = q_id q" "queue_position db q = Suc j"
    unfolding e(1) w(1) by blast
  with w(2) have "queue_position db q = 1" by (cases j) (auto dest: nth_mem)
  with w(1) show ?thesis by simp
qed

text \<open>The row just enqueued is the newest one with its idempotency key.\<close>

lemma FindByKey_after_insert:
  assumes "insert_queue_row row db = Inr db'" "queue_inv db" "q_seq row = queue_next_seq db"
    and "q_org row = org" "q_environment row = environment" "q_key_digest row = Some digest"
    and "q_created_at row > wall - idempotencyDigestTimeLimit"
  shows "FindDeploymentQueueItemByIdempotencyKey wall db' org environment digest =
     Inr (scanDeploymentQueueItem db' row)"
proof -
  let ?p = "\<lambda>q. q_org q = org \<and> q_environment q = environment \<and>
    q_key_digest q = Some digest \<and> q_created_at q > wall - idempotencyDigestTimeLimit"
  have "q_seq q < q_seq row" if "q \<in> set (queue db)" for q
    using that assms(2,3) by (simp add: queue_inv_def)
  moreover have "?p row" using assms(4-7) by simp
  moreover have "queue db' = queue db @ [row]" using insert_queue_row_cases(1) [OF assms(1)] by simp
  ultimately have "least_row (\<lambda>q. - q_seq q) (filter ?p (queue db')) = Some row"
    using least_row_exists [of "filter ?p (queue db')" "\<lambda>q. - q_seq q"]
    by (fastforce dest: least_row_Some)
  then show ?thesis by (simp add: FindDeploymentQueueItemByIdempotencyKey_def)
qed

lemma insert_queue_row_position:
  assumes "insert_queue_row row db = Inr db'" "queue_inv db" "q_seq row = queue_next_seq db" "q_state row = Queued"
  shows "queue_position db' row = count_rows (waiting_row (q_environment row)) (queue db) + 1"
proof -
  have "count_rows (\<lambda>q. waiting_row (q_environment row) q \<and> q_seq q \<le> q_seq row) (queue db) =
      count_rows (waiting_row (q_environment row)) (queue db)"
    unfolding count_rows_def using assms(2,3)
    by (intro arg_cong [where f = length] filter_cong) (auto simp: queue_inv_def)
  then show ?thesis
    using insert_queue_row_cases(1) [OF assms(1)] assms(4) by (simp add: queue_position_def waiting_row_def)
qed

end
