(* ===== verification/Deployments.thy ===== *)
theory Deployments
  imports Queue_Order
begin

text \<open>
  The operations of \<^verbatim>\<open>internal/model/deployments.go\<close> that change state, and
  \<^verbatim>\<open>runner_events.go\<close>: creating a Deployment under the Environment lease,
  settling its outcome, renewing the lease, deleting an Environment's Deployments, the history
  record and the inbox of Runner events. \<open>fresh\<close> is the identity drawn by
  \<^verbatim>\<open>uuid.New()\<close>; \<open>row_ok\<close> stands for the \<^verbatim>\<open>CHECK\<close>
  constraints on a Deployment row (migrations 11, 36 and 37).
\<close>

section \<open>Reading one Deployment\<close>

definition blank_summary :: "string \<Rightarrow> environment_row \<Rightarrow> deployment_row \<Rightarrow> deployment_summary" where
  "blank_summary org e d =
     \<lparr>sum_org = org, sum_project = env_project e, sum_env = env_name e, sum_env_uuid = env_id e,
      sum_id = dep_id d, sum_revision = dep_revision d, sum_mode = dep_mode d,
      sum_rollback_to = dep_rollback_to d, sum_created_at = dep_created_at d,
      sum_created_by = dep_created_by d, sum_completed_at = dep_completed_at d,
      sum_status = dep_status d, sum_status_message = dep_status_message d,
      sum_runner_id = dep_runner_id d, sum_metrics = dep_metrics d, sum_outputs_recipient = None,
      sum_logs_recipient = None, sum_runner_log_level = '''', sum_module_artifacts = [],
      sum_module_version_request_digest = '''', sum_fence = None\<rparr>"

definition full_summary :: "string \<Rightarrow> environment_row \<Rightarrow> deployment_row \<Rightarrow> deployment_summary" where
  "full_summary org e d = (blank_summary org e d)
     \<lparr>sum_outputs_recipient := dep_outputs_recipient d, sum_logs_recipient := dep_logs_recipient d,
      sum_runner_log_level := dep_runner_log_level d, sum_module_artifacts := dep_module_artifacts d,
      sum_module_version_request_digest := dep_module_version_request_digest d\<rparr>"

type_synonym deployment_detail = "deployment_summary \<times> string \<times> string \<times> string"

definition GetDeployment :: "database \<Rightarrow> string \<Rightarrow> uuid \<Rightarrow> deployment_detail result" where
  "GetDeployment db org i =
     (case find_deployment i db of
        None \<Rightarrow> Inl (ErrNotFound ''deployment not found'')
      | Some d \<Rightarrow>
          (case lookup_row env_id (dep_de_id d) (environments db) of
             None \<Rightarrow> Inl (ErrNotFound ''deployment not found'')
           | Some e \<Rightarrow>
               if env_org e \<noteq> org then Inl (ErrNotFound ''deployment not found'')
               else Inr (full_summary org e d, dep_manifest d, dep_tofu d, dep_graph d)))"

definition CompleteDeploymentSnapshot :: "string \<Rightarrow> string \<Rightarrow> string \<Rightarrow> bool" where
  "CompleteDeploymentSnapshot manifest tofu graph \<longleftrightarrow>
     tofu \<noteq> [] \<and> json_valid manifest \<and> json_valid graph \<and>
     has_prefix (trim_space manifest) ''{'' \<and> has_prefix (trim_space graph) ''{''"

section \<open>Creating a Deployment\<close>

definition param_check :: "create_params \<Rightarrow> unit result" where
  "param_check p =
     bindR (guardR (case cp_expected_current p of
          None \<Rightarrow> True
        | Some c \<Rightarrow> c \<noteq> uuid_nil \<and> cp_mode p = ModeRollback \<and> cp_rollback_to p \<noteq> None)
       (ErrBadRequest ''expected current Deployment requires captured-base rollback'')) (\<lambda>_.
     guardR (case cp_retry_of_rollback p of
          None \<Rightarrow> True
        | Some r \<Rightarrow> r \<noteq> uuid_nil \<and> cp_expected_current p = Some r)
       (ErrBadRequest ''explicit rollback retry must identify the expected current head''))"

text \<open>
  \<^verbatim>\<open>INSERT ... ON CONFLICT (environment_id) DO UPDATE ... WHERE expires_at <= now()\<close>; a
  clash with the unique logical name is not the conflict the statement handles.
\<close>

definition new_lease :: "instant \<Rightarrow> uuid \<Rightarrow> string \<Rightarrow> string \<Rightarrow> string \<Rightarrow> uuid \<Rightarrow> lease_row" where
  "new_lease now environment org project env holder =
     \<lparr>lease_environment = environment, lease_org = org, lease_project = project, lease_env = env,
      lease_holder = holder, lease_purpose = ''deployment'', lease_deployment = Some holder,
      lease_acquired_at = now, lease_heartbeat_at = now,
      lease_expires_at = now + DefaultEnvironmentLeaseTTL\<rparr>"

definition lease_name_taken :: "lease_row \<Rightarrow> database \<Rightarrow> bool" where
  "lease_name_taken l db \<longleftrightarrow>
     exists_row (\<lambda>r. lease_environment r \<noteq> lease_environment l \<and> lease_org r = lease_org l \<and>
       lease_project r = lease_project l \<and> lease_env r = lease_env l) (leases db)"

definition acquire_lease :: "instant \<Rightarrow> lease_row \<Rightarrow> database \<Rightarrow> database result" where
  "acquire_lease now l db =
     (case lookup_row lease_environment (lease_environment l) (leases db) of
        None \<Rightarrow>
          if lease_name_taken l db then Inl (ErrInternal ''failed to acquire environment deployment lease'')
          else Inr (db\<lparr>leases := leases db @ [l]\<rparr>)
      | Some old \<Rightarrow>
          if lease_expires_at old > now
          then Inl (NewErrCodedConflict CodeEnvironmentBusy ''environment has an active deployment lease'')
          else if lease_name_taken l db then Inl (ErrInternal ''failed to acquire environment deployment lease'')
          else Inr (db\<lparr>leases := update_rows (\<lambda>r. lease_environment r = lease_environment l) (\<lambda>_. l) (leases db)\<rparr>))"

text \<open>The join of an Environment with the Deployment it executed last.\<close>

definition last_executing :: "database \<Rightarrow> string \<Rightarrow> string \<Rightarrow> string \<Rightarrow> (deployment_row \<times> uuid) option" where
  "last_executing db org project env =
     (case find_env org project env db of
        None \<Rightarrow> None
      | Some e \<Rightarrow>
          (case find (\<lambda>d. dep_de_id d = env_id e \<and> dep_id d = env_last_executing e) (deployments db) of
             None \<Rightarrow> None
           | Some d \<Rightarrow> Some (d, env_last_state e)))"

definition completion_known :: "database \<Rightarrow> string \<Rightarrow> string \<Rightarrow> uuid \<Rightarrow> bool" where
  "completion_known db org runner i \<longleftrightarrow>
     result_received db org runner i \<or>
     exists_row (\<lambda>l. late_org l = org \<and> late_runner l = runner \<and> late_deployment l = i) (late_results db) \<or>
     exists_row (\<lambda>b. bud_deployment b = i \<and> bud_completion_received_at b \<noteq> None) (budgets db) \<or>
     exists_row (\<lambda>a. ack_org a = org \<and> ack_deployment a = i) (acknowledgements db)"

definition forward_stopped :: "create_params \<Rightarrow> deployment_summary \<Rightarrow> bool" where
  "forward_stopped p f \<longleftrightarrow>
     sum_env_uuid f = cp_env_uuid p \<and>
     (if cp_retry_of_rollback p \<noteq> None
      then sum_mode f = ModeRollback \<and> sum_status f = StatusFailed \<and>
        sum_rollback_to f \<noteq> None \<and> sum_rollback_to f = cp_rollback_to p
      else sum_mode f = ModeDeploy) \<and>
     sum_completed_at f \<noteq> None \<and> (sum_status f = StatusSucceeded \<or> sum_status f = StatusFailed)"

definition captured_base_check ::
  "database \<Rightarrow> string \<Rightarrow> string \<Rightarrow> string \<Rightarrow> create_params \<Rightarrow> uuid \<Rightarrow> unit result" where
  "captured_base_check db org project env p head =
     (case cp_expected_current p of
        None \<Rightarrow> Inr ()
      | Some current \<Rightarrow>
          if head \<noteq> current
          then Inl (NewErrConflict ''captured-base recovery forward Deployment is no longer the current head'')
          else (case GetDeployment db org head of
             Inl _ \<Rightarrow> Inl (NewErrConflict ''captured-base recovery requires a stopped terminal forward or explicitly retried failed rollback Deployment'')
           | Inr (forward, _) \<Rightarrow>
               if \<not> forward_stopped p forward
               then Inl (NewErrConflict ''captured-base recovery requires a stopped terminal forward or explicitly retried failed rollback Deployment'')
               else if sum_status forward = StatusFailed \<and>
                 \<not> completion_known db org (sum_runner_id forward) (sum_id forward)
               then Inl (NewErrConflict ''failed forward Deployment has no authoritative terminal Runner result'')
               else (case GetDeployment db org (opt_or (cp_rollback_to p) uuid_nil) of
                  Inl _ \<Rightarrow> Inl (NewErrConflict ''captured rollback base is not a complete retained successful Deployment'')
                | Inr (base, manifest, tofu, graph) \<Rightarrow>
                    guardR (sum_status base = StatusSucceeded \<and> sum_completed_at base \<noteq> None \<and>
                      sum_env_uuid base = cp_env_uuid p \<and> sum_project base = project \<and> sum_env base = env \<and>
                      CompleteDeploymentSnapshot manifest tofu graph)
                      (NewErrConflict ''captured rollback base is not a complete retained successful Deployment''))))"

text \<open>The checks between the lease and the first write.\<close>

definition creation_checks ::
  "database \<Rightarrow> string \<Rightarrow> string \<Rightarrow> string \<Rightarrow> create_params \<Rightarrow> unit result" where
  "creation_checks db org project env p =
     bindR (case last_executing db org project env of
          None \<Rightarrow>
            if cp_expected_current p \<noteq> None
            then Inl (NewErrConflict ''captured-base recovery has no current Deployment head'')
            else Inr uuid_nil
        | Some (d, head) \<Rightarrow>
            if dep_status d = StatusExecuting
            then Inl (NewErrCodedConflict CodeEnvironmentBusy ''deployment is still executing'')
            else Inr head) (\<lambda>head.
     bindR (requireReplaceableStateHead db head) (\<lambda>_.
     bindR (if RequiresEnvironmentLease (cp_mode p)
            then requireQueueHead db (cp_env_uuid p) (opt_or (cp_queue_item p) uuid_nil) else Inr ()) (\<lambda>_.
     bindR (guardR (cp_expected_base p = None \<or> cp_expected_base p = Some head)
       (AboutDeployment (NewErrCodedConflict CodeDeploymentBaseChanged
          ''the Environment's current Deployment is no longer the expected base'') head)) (\<lambda>_.
     captured_base_check db org project env p head))))"

definition upsert_environment ::
  "instant \<Rightarrow> string \<Rightarrow> string \<Rightarrow> string \<Rightarrow> create_params \<Rightarrow> uuid \<Rightarrow> database \<Rightarrow> database result" where
  "upsert_environment at org project env p i db =
     (case find_env org project env db of
        Some _ \<Rightarrow>
          Inr (db\<lparr>environments := update_rows (same_env org project env)
            (\<lambda>e. if IsPlanDeployment (cp_mode p)
               then e\<lparr>env_last_executing := i, env_last_executing_at := at\<rparr>
               else e\<lparr>env_last_executing := i, env_last_executing_at := at,
                 env_last_state := i, env_last_state_at := at\<rparr>) (environments db)\<rparr>)
      | None \<Rightarrow>
          if lookup_row env_id (cp_env_uuid p) (environments db) \<noteq> None
          then Inl (ErrInternal ''failed to update deployment environment'')
          else Inr (db\<lparr>environments := environments db @
            [\<lparr>env_id = cp_env_uuid p, env_org = org, env_project = project, env_name = env,
              env_last_executing = i, env_last_executing_at = at,
              env_last_state = i, env_last_state_at = at\<rparr>]\<rparr>))"

definition new_deployment :: "instant \<Rightarrow> create_params \<Rightarrow> uuid \<Rightarrow> deployment_row" where
  "new_deployment at p i =
     \<lparr>dep_id = i, dep_de_id = cp_env_uuid p, dep_created_at = at, dep_created_by = cp_created_by p,
      dep_completed_at = None, dep_mode = cp_mode p, dep_status = StatusExecuting,
      dep_status_message = ''Deploying...'', dep_manifest = cp_manifest p, dep_graph = cp_graph p,
      dep_tofu = cp_tofu p, dep_runner_id = cp_runner_id p, dep_idempotency_key_digest = cp_key_digest p,
      dep_outputs_recipient = cp_outputs_recipient p, dep_logs_recipient = cp_logs_recipient p,
      dep_outputs = None, dep_metrics = cp_metrics p, dep_runner_log_level = cp_runner_log_level p,
      dep_revision = 1, dep_rollback_to = cp_rollback_to p, dep_module_artifacts = cp_module_artifacts p,
      dep_module_version_request_digest = cp_module_version_request_digest p\<rparr>"

definition insert_deployment :: "(deployment_row \<Rightarrow> bool) \<Rightarrow> deployment_row \<Rightarrow> database \<Rightarrow> database result" where
  "insert_deployment row_ok d db =
     (if lookup_row dep_id (dep_id d) (deployments db) \<noteq> None \<or> \<not> row_ok d \<or>
         lookup_row env_id (dep_de_id d) (environments db) = None
      then Inl (ErrInternal ''failed to insert deployment'')
      else Inr (db\<lparr>deployments := deployments db @ [d]\<rparr>))"

definition insert_budget :: "uuid \<Rightarrow> database \<Rightarrow> database result" where
  "insert_budget i db =
     (if lookup_row bud_deployment i (budgets db) \<noteq> None
      then Inl (ErrInternal ''failed to create Runner dispatch budget'')
      else Inr (db\<lparr>budgets := budgets db @
        [\<lparr>bud_deployment = i, bud_revision = 1, bud_first_attempt_at = None, bud_deadline = None,
          bud_completion_received_at = None, bud_legacy = False\<rparr>]\<rparr>))"

text \<open>The summary that is returned; the Runner log level is not copied into it.\<close>

definition created_summary ::
  "instant \<Rightarrow> string \<Rightarrow> string \<Rightarrow> string \<Rightarrow> create_params \<Rightarrow> uuid \<Rightarrow> deployment_summary" where
  "created_summary at org project env p i =
     \<lparr>sum_org = org, sum_project = project, sum_env = env, sum_env_uuid = cp_env_uuid p, sum_id = i,
      sum_revision = 1, sum_mode = cp_mode p, sum_rollback_to = cp_rollback_to p, sum_created_at = at,
      sum_created_by = cp_created_by p, sum_completed_at = None, sum_status = StatusExecuting,
      sum_status_message = ''Deploying...'', sum_runner_id = cp_runner_id p, sum_metrics = cp_metrics p,
      sum_outputs_recipient = cp_outputs_recipient p, sum_logs_recipient = cp_logs_recipient p,
      sum_runner_log_level = '''', sum_module_artifacts = cp_module_artifacts p,
      sum_module_version_request_digest = cp_module_version_request_digest p, sum_fence = None\<rparr>"

definition CreateDeployment ::
  "(deployment_row \<Rightarrow> bool) \<Rightarrow> instant \<Rightarrow> instant \<Rightarrow> uuid \<Rightarrow> database \<Rightarrow> string \<Rightarrow> string \<Rightarrow> string
     \<Rightarrow> create_params \<Rightarrow> (deployment_summary \<times> database) result" where
  "CreateDeployment row_ok now wall fresh db org project env p =
     bindR (param_check p) (\<lambda>_.
     bindR (RequireObservationStopped db (cp_env_uuid p)) (\<lambda>_.
     bindR (if RequiresEnvironmentLease (cp_mode p)
            then acquire_lease now (new_lease now (cp_env_uuid p) org project env fresh) db
            else Inr db) (\<lambda>db1.
     bindR (creation_checks db1 org project env p) (\<lambda>_.
     bindR (upsert_environment wall org project env p fresh db1) (\<lambda>db2.
     bindR (insert_deployment row_ok (new_deployment wall p fresh) db2) (\<lambda>db3.
     bindR (insert_budget fresh db3) (\<lambda>db4.
       Inr (created_summary wall org project env p fresh, db4))))))))"

section \<open>Settling a Deployment\<close>

definition settled_row :: "instant \<Rightarrow> update_params \<Rightarrow> deployment_row \<Rightarrow> deployment_row" where
  "settled_row wall p d = d\<lparr>dep_status := up_status p, dep_status_message := up_status_message p,
     dep_completed_at := Some wall, dep_outputs := up_outputs p, dep_metrics := up_metrics p,
     dep_revision := dep_revision d + 1\<rparr>"

text \<open>The statements that follow the update of a terminal status.\<close>

definition terminal_effects :: "instant \<Rightarrow> uuid \<Rightarrow> bool \<Rightarrow> database \<Rightarrow> database" where
  "terminal_effects now i proven db =
     (let released = ReleaseRunnerJob now i (if proven then RecordDeploymentCompletion now i db else db)
      in released\<lparr>leases := delete_rows (\<lambda>l. lease_deployment l = Some i) (leases released)\<rparr>)"

definition UpdateDeploymentStatusAndOutputs ::
  "instant \<Rightarrow> instant \<Rightarrow> database \<Rightarrow> uuid \<Rightarrow> update_params \<Rightarrow> (deployment_summary \<times> database) result" where
  "UpdateDeploymentStatusAndOutputs now wall db i p =
     (let missing = (if up_expected_revision p \<noteq> None then NewErrConflict ''deployment not found at revision''
                     else ErrNotFound ''deployment not found'')
      in case find_deployment i db of
        None \<Rightarrow> Inl missing
      | Some d \<Rightarrow>
          (case lookup_row env_id (dep_de_id d) (environments db) of
             None \<Rightarrow> Inl missing
           | Some e \<Rightarrow>
               if up_expected_revision p \<noteq> None \<and> up_expected_revision p \<noteq> Some (dep_revision d) then Inl missing
               else
                 let db1 = db\<lparr>deployments := update_rows (\<lambda>d. dep_id d = i) (settled_row wall p) (deployments db)\<rparr>
                 in Inr ((blank_summary (env_org e) e (settled_row wall p d))\<lparr>sum_created_by := uuid_nil\<rparr>,
                   if up_status p = StatusSucceeded \<or> up_status p = StatusFailed
                   then terminal_effects now i (up_completion_proven p) db1 else db1)))"

definition renewable :: "database \<Rightarrow> uuid \<Rightarrow> lease_row \<Rightarrow> bool" where
  "renewable db i l \<longleftrightarrow> lease_deployment l = Some i \<and>
     exists_row (\<lambda>d. dep_id d = i \<and> dep_status d = StatusExecuting) (deployments db)"

text \<open>The updated rows stay when the count is wrong: the error is only reported.\<close>

definition RenewDeploymentLease :: "instant \<Rightarrow> database \<Rightarrow> uuid \<Rightarrow> duration \<Rightarrow> unit result \<times> database" where
  "RenewDeploymentLease now db i ttl =
     (let ttl' = (if ttl \<le> 0 then DefaultEnvironmentLeaseTTL else ttl) in
      (guardR (count_rows (renewable db i) (leases db) = 1)
         (NewErrConflict ''deployment no longer owns its environment lease''),
       db\<lparr>leases := update_rows (renewable db i)
         (\<lambda>l. l\<lparr>lease_heartbeat_at := now, lease_expires_at := now + ttl'\<rparr>) (leases db)\<rparr>))"

section \<open>Deleting an Environment\<close>

text \<open>\<^verbatim>\<open>DELETE FROM deployments\<close> with the foreign keys of the other tables.\<close>

definition cascade_deployments :: "(deployment_row \<Rightarrow> bool) \<Rightarrow> database \<Rightarrow> database result" where
  "cascade_deployments p db =
     (let gone = map dep_id (filter p (deployments db)) in
      if exists_row (\<lambda>r. res_deployment r \<in> set gone) (reservations db) \<or>
         exists_row (\<lambda>e. env_last_executing e \<in> set gone \<or> env_last_state e \<in> set gone) (environments db)
      then Inl (ErrInternal ''failed to delete deployment environments'')
      else Inr (db\<lparr>deployments := delete_rows p (deployments db),
        budgets := delete_rows (\<lambda>b. bud_deployment b \<in> set gone) (budgets db),
        late_results := delete_rows (\<lambda>l. late_deployment l \<in> set gone) (late_results db),
        completion_receipts := delete_rows (\<lambda>c. cmp_deployment c \<in> set gone) (completion_receipts db),
        observation_receipts := map (\<lambda>x. x\<lparr>
          obs_deployment := (case obs_deployment x of None \<Rightarrow> None
            | Some i \<Rightarrow> if i \<in> set gone then None else Some i),
          obs_baseline := (case obs_baseline x of None \<Rightarrow> None
            | Some i \<Rightarrow> if i \<in> set gone then None else Some i)\<rparr>) (observation_receipts db)\<rparr>))"

text \<open>The resource graph of the Environment goes with it.\<close>

definition cascade_nodes :: "uuid list \<Rightarrow> database \<Rightarrow> database" where
  "cascade_nodes environments_gone db =
     (let gone = map nod_hash (filter (\<lambda>n. nod_environment n \<in> set environments_gone) (nodes db)) in
      db\<lparr>nodes := delete_rows (\<lambda>n. nod_environment n \<in> set environments_gone) (nodes db),
         edges := delete_rows (\<lambda>x. edg_subject x \<in> set gone \<or> edg_target x \<in> set gone) (edges db)\<rparr>)"

definition delete_environment :: "string \<Rightarrow> string \<Rightarrow> string \<Rightarrow> uuid option \<Rightarrow> database \<Rightarrow> database result" where
  "delete_environment org project env expected db =
     (let hit = (\<lambda>e. same_env org project env e \<and> (expected = None \<or> expected = Some (env_id e)));
          gone = map env_id (filter hit (environments db))
      in cascade_deployments (\<lambda>d. dep_de_id d \<in> set gone)
        (cascade_nodes gone (db\<lparr>environments := delete_rows hit (environments db)\<rparr>)))"

lemma cascade_nodes_tables [simp]:
  "deployments (cascade_nodes g db) = deployments db" "environments (cascade_nodes g db) = environments db"
  "leases (cascade_nodes g db) = leases db" "budgets (cascade_nodes g db) = budgets db"
  "reservations (cascade_nodes g db) = reservations db" "queue (cascade_nodes g db) = queue db"
  "queue_next_seq (cascade_nodes g db) = queue_next_seq db"
  by (simp_all add: cascade_nodes_def Let_def)

definition env_deployment :: "database \<Rightarrow> uuid \<Rightarrow> uuid \<Rightarrow> bool" where
  "env_deployment db environment i \<longleftrightarrow> exists_row (\<lambda>d. dep_id d = i \<and> dep_de_id d = environment) (deployments db)"

definition DeleteDeploymentsForEnv ::
  "database \<Rightarrow> string \<Rightarrow> string \<Rightarrow> string \<Rightarrow> bool \<Rightarrow> uuid option \<Rightarrow> database result" where
  "DeleteDeploymentsForEnv db org project env force expected =
     bindR (case find_env org project env db of
          None \<Rightarrow> Inr db
        | Some e \<Rightarrow>
            if expected \<noteq> None \<and> expected \<noteq> Some (env_id e)
            then Inl (NewErrConflict ''Environment UUID changed before deployment deletion'')
            else if exists_row (\<lambda>r. env_deployment db (env_id e) (res_deployment r) \<and> res_released_at r = None)
              (reservations db)
            then Inl (NewErrCodedConflict CodeOutcomeUnreconciled
              ''Environment retains Runner ownership; prove completion or acknowledge authoritative stop before deletion'')
            else Inr (db\<lparr>reservations := delete_rows (\<lambda>r. env_deployment db (env_id e) (res_deployment r) \<and>
              res_released_at r \<noteq> None) (reservations db)\<rparr>)) (\<lambda>db1.
     bindR (guardR (force \<or> \<not> env_executing db1 org project env)
       (NewErrConflict ''deployment is still executing'')) (\<lambda>_.
     let db2 = db1\<lparr>queue := delete_rows (\<lambda>q. q_org q = org \<and> q_project q = project \<and> q_env q = env \<and>
           (expected = None \<or> expected = Some (q_environment q))) (queue db1)\<rparr>
     in delete_environment org project env expected db2))"

section \<open>History and Runner events\<close>

text \<open>\<^verbatim>\<open>CompletedAt.Must()\<close> panics on a Deployment that has not completed.\<close>

definition CreateDeploymentHistoryRecord :: "database \<Rightarrow> deployment_summary \<Rightarrow> database result" where
  "CreateDeploymentHistoryRecord db dep =
     (case opt_must (sum_completed_at dep) of
        Inl panic \<Rightarrow> Inl (ErrInternal panic)
      | Inr completed \<Rightarrow>
          if exists_row (\<lambda>h. his_id h = sum_id dep) (history db) then Inl (ErrInternal ''failed to insert row'')
          else Inr (db\<lparr>history := history db @
            [\<lparr>his_id = sum_id dep, his_org = sum_org dep, his_project = sum_project dep, his_env = sum_env dep,
              his_env_uuid = sum_env_uuid dep, his_mode = sum_mode dep, his_created_by = sum_created_by dep,
              his_created_at = sum_created_at dep, his_completed_at = completed,
              his_status = sum_status dep, his_metrics = sum_metrics dep\<rparr>]\<rparr>))"

definition TryRecordRunnerEvent ::
  "database \<Rightarrow> string \<Rightarrow> string \<Rightarrow> string \<Rightarrow> uuid \<Rightarrow> string \<Rightarrow> bool \<times> database" where
  "TryRecordRunnerEvent db event org runner i kind =
     (if exists_row (\<lambda>r. inb_event r = event) (runner_inbox db) then (False, db)
      else (True, db\<lparr>runner_inbox := runner_inbox db @
        [\<lparr>inb_event = event, inb_org = org, inb_runner = runner, inb_deployment = i, inb_type = kind\<rparr>]\<rparr>))"

end
