(* ===== verification/Deployment_Invariant.thy ===== *)
theory Deployment_Invariant
  imports Deployments
begin

text \<open>
  The invariant of the Deployment tables: keys and references, at most one executing Deployment
  per Environment, and the lease of an executing mutation. Each operation of
  \<^verbatim>\<open>internal/model/deployments.go\<close> keeps it.
\<close>

section \<open>What a successful creation did\<close>

lemma acquire_lease_cases:
  assumes "acquire_lease now l db = Inr db'"
  obtains (taken) "lease_environment l \<notin> lease_environment ` set (leases db)"
      "db' = db\<lparr>leases := leases db @ [l]\<rparr>" "\<not> lease_name_taken l db"
  | (expired) old where "old \<in> set (leases db)" "lease_environment old = lease_environment l"
      "lease_expires_at old \<le> now" "\<not> lease_name_taken l db"
      "db' = db\<lparr>leases := update_rows (\<lambda>r. lease_environment r = lease_environment l) (\<lambda>_. l) (leases db)\<rparr>"
proof (cases "lookup_row lease_environment (lease_environment l) (leases db)")
  case None
  with assms have "db' = db\<lparr>leases := leases db @ [l]\<rparr>" "\<not> lease_name_taken l db"
    by (auto simp: acquire_lease_def split: if_splits)
  with None taken show ?thesis by (simp add: lookup_row_None)
next
  case (Some old)
  with assms have "lease_expires_at old \<le> now" "\<not> lease_name_taken l db"
    "db' = db\<lparr>leases := update_rows (\<lambda>r. lease_environment r = lease_environment l) (\<lambda>_. l) (leases db)\<rparr>"
    by (auto simp: acquire_lease_def split: if_splits)
  with lookup_row_Some [OF Some] expired show ?thesis by blast
qed

lemma captured_base_check_cong:
  assumes "deployments db' = deployments db" "environments db' = environments db" "budgets db' = budgets db"
    and "runner_inbox db' = runner_inbox db" "late_results db' = late_results db"
    and "acknowledgements db' = acknowledgements db"
  shows "captured_base_check db' org project env p i = captured_base_check db org project env p i"
  unfolding captured_base_check_def GetDeployment_def find_deployment_def completion_known_def
    result_received_def assms ..

lemma last_executing_cong:
  assumes "deployments db' = deployments db" "environments db' = environments db"
  shows "last_executing db' org project env = last_executing db org project env"
  unfolding last_executing_def find_env_def assms ..

lemma creation_checks_leases:
  "creation_checks (db\<lparr>leases := ls\<rparr>) org project env p = creation_checks db org project env p"
proof -
  let ?db = "db\<lparr>leases := ls\<rparr>"
  have "requireReplaceableStateHead ?db i = requireReplaceableStateHead db i" for i
    by (intro requireReplaceableStateHead_cong ReadDeploymentStopEvidence_cong) simp_all
  moreover have "captured_base_check ?db org project env p i = captured_base_check db org project env p i" for i
    by (rule captured_base_check_cong) simp_all
  moreover have "requireQueueHead ?db = requireQueueHead db"
    by (simp add: fun_eq_iff requireQueueHead_def queue_head_def)
  moreover have "last_executing ?db org project env = last_executing db org project env"
    by (rule last_executing_cong) simp_all
  ultimately show ?thesis unfolding creation_checks_def by simp
qed

lemma creation_checks_Inr:
  assumes "creation_checks db org project env p = Inr u"
  shows "case last_executing db org project env of None \<Rightarrow> cp_expected_current p = None
      | Some (d, head) \<Rightarrow> dep_status d \<noteq> StatusExecuting"
    and "requireReplaceableStateHead db (case last_executing db org project env of None \<Rightarrow> uuid_nil | Some (d, head) \<Rightarrow> head) = Inr ()"
    and "RequiresEnvironmentLease (cp_mode p) \<Longrightarrow>
      requireQueueHead db (cp_env_uuid p) (opt_or (cp_queue_item p) uuid_nil) = Inr ()"
    and "cp_expected_base p = None \<or>
      cp_expected_base p = Some (case last_executing db org project env of None \<Rightarrow> uuid_nil | Some (d, head) \<Rightarrow> head)"
  using assms by (auto simp: creation_checks_def split: option.splits if_splits prod.splits)

text \<open>Everything a successful creation reads and writes, table by table.\<close>

lemma CreateDeployment_cases:
  assumes "CreateDeployment row_ok now wall fresh db org project env p = Inr (s, db')"
  obtains db1 db2 where
    "RequireObservationStopped db (cp_env_uuid p) = Inr ()"
    "if RequiresEnvironmentLease (cp_mode p)
     then acquire_lease now (new_lease now (cp_env_uuid p) org project env fresh) db = Inr db1 else db1 = db"
    "creation_checks db org project env p = Inr ()"
    "upsert_environment wall org project env p fresh db1 = Inr db2"
    "fresh \<notin> dep_id ` set (deployments db)" "fresh \<notin> bud_deployment ` set (budgets db)"
    "cp_env_uuid p \<in> env_id ` set (environments db2)" "row_ok (new_deployment wall p fresh)"
    "db' = db2\<lparr>deployments := deployments db @ [new_deployment wall p fresh],
       budgets := budgets db @ [\<lparr>bud_deployment = fresh, bud_revision = 1, bud_first_attempt_at = None,
         bud_deadline = None, bud_completion_received_at = None, bud_legacy = False\<rparr>]\<rparr>"
    "s = created_summary wall org project env p fresh"
proof -
  from assms obtain db1 db2 db3 where
    a: "RequireObservationStopped db (cp_env_uuid p) = Inr ()"
    and l: "(if RequiresEnvironmentLease (cp_mode p)
      then acquire_lease now (new_lease now (cp_env_uuid p) org project env fresh) db else Inr db) = Inr db1"
    and c: "creation_checks db1 org project env p = Inr ()"
    and u: "upsert_environment wall org project env p fresh db1 = Inr db2"
    and d: "insert_deployment row_ok (new_deployment wall p fresh) db2 = Inr db3"
    and b: "insert_budget fresh db3 = Inr db'" and s: "s = created_summary wall org project env p fresh"
    by (auto simp: CreateDeployment_def)
  have "\<exists>ls. db1 = db\<lparr>leases := ls\<rparr>"
    using l by (cases "RequiresEnvironmentLease (cp_mode p)")
      (auto elim!: acquire_lease_cases intro: exI [of _ "leases db"])
  then have c': "creation_checks db org project env p = Inr ()" "deployments db1 = deployments db" "budgets db1 = budgets db"
    using c creation_checks_leases by auto
  have db2: "deployments db2 = deployments db" "budgets db2 = budgets db"
    using u c'(2,3) by (auto simp: upsert_environment_def split: option.splits if_splits)
  have db3: "db3 = db2\<lparr>deployments := deployments db @ [new_deployment wall p fresh]\<rparr>"
    "fresh \<notin> dep_id ` set (deployments db)" "row_ok (new_deployment wall p fresh)"
    "cp_env_uuid p \<in> env_id ` set (environments db2)"
    using d unfolding insert_deployment_def db2
    by (auto simp: new_deployment_def lookup_row_None split: if_splits)
  have "fresh \<notin> bud_deployment ` set (budgets db)"
    "db' = db3\<lparr>budgets := budgets db @ [\<lparr>bud_deployment = fresh, bud_revision = 1, bud_first_attempt_at = None,
         bud_deadline = None, bud_completion_received_at = None, bud_legacy = False\<rparr>]\<rparr>"
    using b db3(1) db2(2) by (auto simp: insert_budget_def lookup_row_None split: if_splits)
  with db3 have "db' = db2\<lparr>deployments := deployments db @ [new_deployment wall p fresh],
       budgets := budgets db @ [\<lparr>bud_deployment = fresh, bud_revision = 1, bud_first_attempt_at = None,
         bud_deadline = None, bud_completion_received_at = None, bud_legacy = False\<rparr>]\<rparr>"
    "fresh \<notin> bud_deployment ` set (budgets db)" by simp_all
  with that [OF a _ c'(1) u db3(2) _ db3(4) db3(3) _ s] l show ?thesis
    by (metis Inr_inject)
qed

section \<open>The invariant\<close>

definition env_key :: "environment_row \<Rightarrow> string \<times> string \<times> string" where
  "env_key e = (env_org e, env_project e, env_name e)"

text \<open>Primary keys, the unique logical name, and the references between the two main tables.\<close>

definition ref_inv :: "database \<Rightarrow> bool" where
  "ref_inv db \<longleftrightarrow> distinct (map dep_id (deployments db)) \<and> distinct (map env_id (environments db)) \<and>
     distinct (map env_key (environments db)) \<and>
     (\<forall>d \<in> set (deployments db). \<exists>e \<in> set (environments db). env_id e = dep_de_id d) \<and>
     (\<forall>e \<in> set (environments db). \<exists>d \<in> set (deployments db). dep_id d = env_last_executing e \<and> dep_de_id d = env_id e) \<and>
     (\<forall>e \<in> set (environments db). \<exists>d \<in> set (deployments db). dep_id d = env_last_state e \<and> dep_de_id d = env_id e)"

text \<open>An executing Deployment is the one its Environment executed last.\<close>

definition exec_inv :: "database \<Rightarrow> bool" where
  "exec_inv db \<longleftrightarrow> (\<forall>d \<in> set (deployments db). dep_status d = StatusExecuting \<longrightarrow>
     (\<exists>e \<in> set (environments db). env_id e = dep_de_id d \<and> env_last_executing e = dep_id d))"

text \<open>An executing mutation owns the lease row of its Environment, expired or not.\<close>

definition lease_inv :: "database \<Rightarrow> bool" where
  "lease_inv db \<longleftrightarrow> distinct (map lease_environment (leases db)) \<and>
     (\<forall>d \<in> set (deployments db). dep_status d = StatusExecuting \<longrightarrow> RequiresEnvironmentLease (dep_mode d) \<longrightarrow>
        (\<exists>l \<in> set (leases db). lease_environment l = dep_de_id d \<and> lease_deployment l = Some (dep_id d)))"

text \<open>Every Deployment has one dispatch budget, started and given its deadline together.\<close>

definition budget_ok :: "budget_row \<Rightarrow> bool" where
  "budget_ok b \<longleftrightarrow> (case bud_first_attempt_at b of
       None \<Rightarrow> bud_deadline b = None
     | Some t \<Rightarrow> bud_deadline b = Some (t + RunnerExecutionBudget))"

definition budget_inv :: "database \<Rightarrow> bool" where
  "budget_inv db \<longleftrightarrow> distinct (map bud_deployment (budgets db)) \<and>
     bud_deployment ` set (budgets db) = dep_id ` set (deployments db) \<and> (\<forall>b \<in> set (budgets db). budget_ok b)"

definition reservation_inv :: "database \<Rightarrow> bool" where
  "reservation_inv db \<longleftrightarrow> distinct (map res_deployment (reservations db)) \<and>
     res_deployment ` set (reservations db) \<subseteq> dep_id ` set (deployments db)"

definition dep_inv :: "database \<Rightarrow> bool" where
  "dep_inv db \<longleftrightarrow> ref_inv db \<and> exec_inv db \<and> lease_inv db \<and> budget_inv db \<and> reservation_inv db"

lemmas dep_inv_defs = dep_inv_def ref_inv_def exec_inv_def lease_inv_def budget_inv_def reservation_inv_def

lemma dep_inv_empty: "dep_inv empty_database"
  by (simp add: dep_inv_defs empty_database_def)

lemma dep_inv_cong:
  assumes "deployments db' = deployments db" "environments db' = environments db" "leases db' = leases db"
    and "budgets db' = budgets db" "map res_deployment (reservations db') = map res_deployment (reservations db)"
  shows "dep_inv db' \<longleftrightarrow> dep_inv db"
proof -
  have "res_deployment ` set (reservations db') = res_deployment ` set (reservations db)"
    using assms(5) by (metis set_map)
  with assms show ?thesis by (simp add: dep_inv_defs)
qed

lemma inv_part_congs:
  "deployments db' = deployments db \<Longrightarrow> environments db' = environments db \<Longrightarrow> exec_inv db' \<longleftrightarrow> exec_inv db"
  "deployments db' = deployments db \<Longrightarrow> environments db' = environments db \<Longrightarrow> ref_inv db' \<longleftrightarrow> ref_inv db"
  "deployments db' = deployments db \<Longrightarrow> leases db' = leases db \<Longrightarrow> lease_inv db' \<longleftrightarrow> lease_inv db"
  "deployments db' = deployments db \<Longrightarrow> budgets db' = budgets db \<Longrightarrow> budget_inv db' \<longleftrightarrow> budget_inv db"
  unfolding exec_inv_def ref_inv_def lease_inv_def budget_inv_def by simp_all

lemma reservation_inv_cong:
  assumes "deployments db' = deployments db"
    and "map res_deployment (reservations db') = map res_deployment (reservations db)"
  shows "reservation_inv db' \<longleftrightarrow> reservation_inv db"
  unfolding reservation_inv_def assms using assms(2) by (metis set_map)

text \<open>The references read two columns of the Deployment table only.\<close>

abbreviation dep_refs :: "database \<Rightarrow> (uuid \<times> uuid) list" where
  "dep_refs db \<equiv> map (\<lambda>d. (dep_id d, dep_de_id d)) (deployments db)"

lemma ref_inv_refs:
  "ref_inv db \<longleftrightarrow> distinct (map fst (dep_refs db)) \<and> distinct (map env_id (environments db)) \<and>
     distinct (map env_key (environments db)) \<and> snd ` set (dep_refs db) \<subseteq> env_id ` set (environments db) \<and>
     (\<forall>e \<in> set (environments db). (env_last_executing e, env_id e) \<in> set (dep_refs db) \<and>
        (env_last_state e, env_id e) \<in> set (dep_refs db))"
proof -
  have a: "map fst (dep_refs db) = map dep_id (deployments db)" by simp
  have b: "snd ` set (dep_refs db) \<subseteq> env_id ` set (environments db) \<longleftrightarrow>
      (\<forall>d \<in> set (deployments db). \<exists>e \<in> set (environments db). env_id e = dep_de_id d)"
    unfolding set_map image_image subset_iff image_iff by (metis (mono_tags, lifting) snd_conv)
  have c: "(a, b) \<in> set (dep_refs db) \<longleftrightarrow> (\<exists>d \<in> set (deployments db). dep_id d = a \<and> dep_de_id d = b)" for a b
    by auto
  show ?thesis unfolding ref_inv_def a b c ball_conj_distrib by (rule refl)
qed

lemma ref_inv_cong:
  "dep_refs db' = dep_refs db \<Longrightarrow> environments db' = environments db \<Longrightarrow> ref_inv db' \<longleftrightarrow> ref_inv db"
  unfolding ref_inv_refs by simp

lemma same_env_key: "same_env org project env e \<longleftrightarrow> env_key e = (org, project, env)"
  by (auto simp: same_env_def env_key_def)

lemma find_env_unique:
  assumes "distinct (map env_key (environments db))" "e \<in> set (environments db)" "same_env org project env e"
  shows "find_env org project env db = Some e"
proof (cases "find_env org project env db")
  case None
  with assms(2,3) show ?thesis by (auto simp: find_env_None)
next
  case (Some a)
  with find_env_Some [OF Some] assms have "a = e" by (auto simp: same_env_key dest: distinct_key_eq)
  with Some show ?thesis by simp
qed

section \<open>Creating keeps it\<close>

text \<open>
  The identity contract with the Control Plane: an Environment UUID keeps its logical name. The
  operation itself checks the other direction only.
\<close>

definition env_identity :: "database \<Rightarrow> string \<Rightarrow> string \<Rightarrow> string \<Rightarrow> uuid \<Rightarrow> bool" where
  "env_identity db org project env u \<longleftrightarrow>
     list_all (\<lambda>e. env_id e = u \<longrightarrow> same_env org project env e) (environments db)"

text \<open>What the upsert does to the rows, whether it inserts or updates.\<close>

definition env_moved ::
  "create_params \<Rightarrow> uuid \<Rightarrow> string \<Rightarrow> string \<Rightarrow> string \<Rightarrow> environment_row list \<Rightarrow> environment_row list \<Rightarrow> bool" where
  "env_moved p i org project env E E' \<longleftrightarrow>
     distinct (map env_id E') \<and> distinct (map env_key E') \<and>
     (\<forall>e. env_id e \<noteq> cp_env_uuid p \<longrightarrow> (e \<in> set E' \<longleftrightarrow> e \<in> set E)) \<and>
     (\<exists>e1 \<in> set E'. env_id e1 = cp_env_uuid p \<and> env_last_executing e1 = i \<and> same_env org project env e1 \<and>
        (env_last_state e1 = i \<or> IsPlanDeployment (cp_mode p) \<and>
           (\<exists>e0 \<in> set E. env_id e0 = cp_env_uuid p \<and> env_last_state e1 = env_last_state e0))) \<and>
     (case find (same_env org project env) E of
        None \<Rightarrow> cp_env_uuid p \<notin> env_id ` set E
      | Some e0 \<Rightarrow> env_id e0 = cp_env_uuid p \<and> e0 \<in> set E)"

lemma upsert_environment_moved:
  assumes "upsert_environment at org project env p i db = Inr db'"
    and "distinct (map env_id (environments db))" "distinct (map env_key (environments db))"
    and "env_identity db org project env (cp_env_uuid p)" "cp_env_uuid p \<in> env_id ` set (environments db')"
  shows "env_moved p i org project env (environments db) (environments db')"
proof (cases "find_env org project env db")
  case None
  with assms(1) have "cp_env_uuid p \<notin> env_id ` set (environments db)"
    and "environments db' = environments db @ [\<lparr>env_id = cp_env_uuid p, env_org = org, env_project = project,
       env_name = env, env_last_executing = i, env_last_executing_at = at, env_last_state = i, env_last_state_at = at\<rparr>]"
    by (auto simp: upsert_environment_def lookup_row_None split: if_splits)
  moreover from None have "(org, project, env) \<notin> env_key ` set (environments db)"
    by (auto simp: find_env_None same_env_key)
  ultimately show ?thesis
    using None assms(2,3) by (auto simp: env_moved_def env_key_def same_env_def find_env_def)
next
  case (Some e0)
  let ?f = "\<lambda>e. if IsPlanDeployment (cp_mode p)
     then e\<lparr>env_last_executing := i, env_last_executing_at := at\<rparr>
     else e\<lparr>env_last_executing := i, env_last_executing_at := at, env_last_state := i, env_last_state_at := at\<rparr>"
  from Some assms(1) have E: "environments db' = update_rows (same_env org project env) ?f (environments db)"
    by (auto simp: upsert_environment_def)
  have key: "env_id (?f e) = env_id e" "env_key (?f e) = env_key e" for e by (simp_all add: env_key_def)
  from find_env_Some [OF Some] have e0: "e0 \<in> set (environments db)" "same_env org project env e0" by simp_all
  have only: "same_env org project env e \<longleftrightarrow> e = e0" if "e \<in> set (environments db)" for e
    using that e0 assms(3) by (auto simp: same_env_key dest: distinct_key_eq)
  have m: "map env_id (environments db') = map env_id (environments db)"
    "map env_key (environments db') = map env_key (environments db)"
    unfolding E by (simp_all add: map_key_update_rows key)
  from m(1) assms(5) have "cp_env_uuid p \<in> env_id ` set (environments db)" by (metis set_map)
  with assms(4) only have u: "env_id e0 = cp_env_uuid p" by (auto simp: env_identity_def list_all_iff)
  have "?f e0 \<in> set (environments db')" unfolding E set_update_rows using e0 by (auto intro!: rev_image_eqI)
  moreover have "e \<in> set (environments db') \<longleftrightarrow> e \<in> set (environments db)" if "env_id e \<noteq> cp_env_uuid p" for e
  proof -
    have "?f e0 \<noteq> e" "e \<noteq> e0" using that u by auto
    then show ?thesis unfolding E set_update_rows image_iff using only by (metis (no_types, lifting))
  qed
  moreover have "env_id (?f e0) = cp_env_uuid p \<and> env_last_executing (?f e0) = i \<and> same_env org project env (?f e0) \<and>
      (env_last_state (?f e0) = i \<or> IsPlanDeployment (cp_mode p) \<and> env_last_state (?f e0) = env_last_state e0)"
    using e0 u by (simp add: same_env_def)
  ultimately show ?thesis
    unfolding env_moved_def using Some assms(2,3) m u e0 by (auto simp: find_env_def)
qed

text \<open>No Deployment of the Environment is executing when a creation passes its checks.\<close>

lemma checked_idle:
  assumes "creation_checks db org project env p = Inr ()" "ref_inv db" "exec_inv db"
    and "d \<in> set (deployments db)" "dep_status d = StatusExecuting"
    and "find_env org project env db = Some e0"
  shows "dep_de_id d \<noteq> env_id e0"
proof
  assume same: "dep_de_id d = env_id e0"
  from assms(3-5) obtain e where e: "e \<in> set (environments db)" "env_id e = dep_de_id d" "env_last_executing e = dep_id d"
    by (auto simp: exec_inv_def)
  with same find_env_Some [OF assms(6)] assms(2) have "e = e0"
    by (auto simp: ref_inv_def intro: distinct_key_eq)
  with e have "find (\<lambda>x. dep_de_id x = env_id e0 \<and> dep_id x = env_last_executing e0) (deployments db) = Some d"
    using assms(2,4) same
    by (cases "find (\<lambda>x. dep_de_id x = env_id e0 \<and> dep_id x = env_last_executing e0) (deployments db)")
      (auto simp: ref_inv_def find_None_iff dest!: find_SomeD intro: distinct_key_eq)
  then have "last_executing db org project env = Some (d, env_last_state e0)"
    using assms(6) by (simp add: last_executing_def)
  with creation_checks_Inr(1) [OF assms(1)] assms(5) show False by simp
qed

lemma moved_idle:
  assumes "creation_checks db org project env p = Inr ()" "ref_inv db" "exec_inv db"
    and "env_moved p i org project env (environments db) E'"
    and "d \<in> set (deployments db)" "dep_status d = StatusExecuting"
  shows "dep_de_id d \<noteq> cp_env_uuid p"
proof (cases "find_env org project env db")
  case None
  with assms(4) have "cp_env_uuid p \<notin> env_id ` set (environments db)"
    by (simp add: env_moved_def find_env_def)
  with assms(2,5) show ?thesis by (force simp: ref_inv_def)
next
  case (Some e0)
  with assms(4) have "env_id e0 = cp_env_uuid p" by (simp add: env_moved_def find_env_def)
  with checked_idle [OF assms(1-3,5,6) Some] show ?thesis by simp
qed

lemma ref_inv_create:
  assumes "ref_inv db" "i \<notin> dep_id ` set (deployments db)"
    and "env_moved p i org project env (environments db) E'"
    and "dep_id d' = i" "dep_de_id d' = cp_env_uuid p"
    and "deployments db' = deployments db @ [d']" "environments db' = E'"
  shows "ref_inv db'"
proof -
  note mv = assms(3) [unfolded env_moved_def]
  have a: "distinct (map dep_id (deployments db'))" using assms(1,2,4,6) by (auto simp: ref_inv_def)
  have b: "\<exists>e \<in> set E'. env_id e = dep_de_id d" if "d \<in> set (deployments db')" for d
  proof (cases "dep_de_id d = cp_env_uuid p")
    case True
    with mv show ?thesis by auto
  next
    case False
    with that assms(1,5,6) obtain e where "e \<in> set (environments db)" "env_id e = dep_de_id d"
      by (auto simp: ref_inv_def)
    with False mv show ?thesis by metis
  qed
  have c: "(\<exists>d \<in> set (deployments db'). dep_id d = env_last_executing e \<and> dep_de_id d = env_id e) \<and>
      (\<exists>d \<in> set (deployments db'). dep_id d = env_last_state e \<and> dep_de_id d = env_id e)" if "e \<in> set E'" for e
  proof (cases "env_id e = cp_env_uuid p")
    case False
    with that mv have "e \<in> set (environments db)" by blast
    with assms(1,6) show ?thesis by (auto simp: ref_inv_def)
  next
    case True
    from mv obtain e1 where e1: "e1 \<in> set E'" "env_id e1 = cp_env_uuid p" "env_last_executing e1 = i"
      "env_last_state e1 = i \<or> (\<exists>e0 \<in> set (environments db). env_id e0 = cp_env_uuid p \<and> env_last_state e1 = env_last_state e0)"
      by blast
    with True that mv have "e = e1" by (auto intro: distinct_key_eq)
    with e1 assms(1,4,5,6) show ?thesis by (auto simp: ref_inv_def)
  qed
  from a b c mv assms(7) show ?thesis by (simp add: ref_inv_def)
qed

lemma lease_inv_acquire:
  assumes "acquire_lease now l db = Inr db1" "lease_environment l = u" "lease_inv db"
    and "\<And>d. d \<in> set (deployments db) \<Longrightarrow> dep_status d = StatusExecuting \<Longrightarrow> dep_de_id d \<noteq> u"
  shows "lease_inv db1 \<and> l \<in> set (leases db1)"
  using assms(1)
proof (cases rule: acquire_lease_cases)
  case taken
  with assms(3) show ?thesis by (auto simp: lease_inv_def)
next
  case (expired old)
  let ?p = "\<lambda>r. lease_environment r = lease_environment l"
  have L: "leases db1 = update_rows ?p (\<lambda>_. l) (leases db)" "deployments db1 = deployments db"
    using expired(5) by simp_all
  have kept: "r \<in> set (leases db1)" if "r \<in> set (leases db)" "lease_environment r \<noteq> u" for r
    using that assms(2) unfolding L set_update_rows by (auto intro!: rev_image_eqI)
  have "l \<in> set (leases db1)" unfolding L set_update_rows using expired(1,2) by (auto intro!: rev_image_eqI)
  moreover have "map lease_environment (leases db1) = map lease_environment (leases db)"
    unfolding L by (rule map_key_update_rows) simp
  moreover have "\<exists>r \<in> set (leases db1). lease_environment r = dep_de_id d \<and> lease_deployment r = Some (dep_id d)"
    if "d \<in> set (deployments db)" "dep_status d = StatusExecuting" "RequiresEnvironmentLease (dep_mode d)" for d
    using assms(3,4) that kept by (fastforce simp: lease_inv_def)
  ultimately show ?thesis using assms(3) L(2) by (auto simp: lease_inv_def)
qed

lemma CreateDeployment_dep_inv:
  assumes "CreateDeployment row_ok now wall fresh db org project env p = Inr (s, db')"
    and "dep_inv db" "env_identity db org project env (cp_env_uuid p)"
  shows "dep_inv db'"
  using assms(1)
proof (rule CreateDeployment_cases)
  fix db1 db2
  assume l: "if RequiresEnvironmentLease (cp_mode p)
     then acquire_lease now (new_lease now (cp_env_uuid p) org project env fresh) db = Inr db1 else db1 = db"
    and c: "creation_checks db org project env p = Inr ()"
    and u: "upsert_environment wall org project env p fresh db1 = Inr db2"
    and f: "fresh \<notin> dep_id ` set (deployments db)" "fresh \<notin> bud_deployment ` set (budgets db)"
    and e: "cp_env_uuid p \<in> env_id ` set (environments db2)"
    and db': "db' = db2\<lparr>deployments := deployments db @ [new_deployment wall p fresh],
       budgets := budgets db @ [\<lparr>bud_deployment = fresh, bud_revision = 1, bud_first_attempt_at = None,
         bud_deadline = None, bud_completion_received_at = None, bud_legacy = False\<rparr>]\<rparr>"
  have i: "ref_inv db" "exec_inv db" "lease_inv db" "budget_inv db" "reservation_inv db"
    using assms(2) by (simp_all add: dep_inv_def)
  have db1: "environments db1 = environments db" "deployments db1 = deployments db" "reservations db1 = reservations db"
    using l by (auto split: if_splits elim!: acquire_lease_cases)
  have db2: "leases db2 = leases db1" "deployments db2 = deployments db" "reservations db2 = reservations db"
    using u db1 by (auto simp: upsert_environment_def split: option.splits if_splits)
  have mv: "env_moved p fresh org project env (environments db) (environments db2)"
    using upsert_environment_moved [OF u] i(1) assms(3) e by (simp add: db1 ref_inv_def env_identity_def)
  have idle: "dep_de_id d \<noteq> cp_env_uuid p" if "d \<in> set (deployments db)" "dep_status d = StatusExecuting" for d
    by (rule moved_idle [OF c i(1,2) mv that])
  have "ref_inv db'"
    by (rule ref_inv_create [OF i(1) f(1) mv, of "new_deployment wall p fresh"]) (simp_all add: db' new_deployment_def)
  moreover have "exec_inv db'"
    using i(2) mv idle unfolding exec_inv_def env_moved_def db' by (fastforce simp: new_deployment_def)
  moreover have "lease_inv db'"
  proof (cases "RequiresEnvironmentLease (cp_mode p)")
    case True
    with l lease_inv_acquire [OF _ _ i(3) idle] have "lease_inv db1"
      "new_lease now (cp_env_uuid p) org project env fresh \<in> set (leases db1)"
      by (auto simp: new_lease_def)
    then show ?thesis by (force simp: db' lease_inv_def db2 db1 new_deployment_def new_lease_def)
  next
    case False
    with l i(3) show ?thesis by (auto simp: db' lease_inv_def db2 new_deployment_def)
  qed
  moreover have "budget_inv db'"
    using i(4) f(2) by (simp add: budget_inv_def db' new_deployment_def budget_ok_def)
  moreover have "reservation_inv db'"
    using i(5) by (auto simp: reservation_inv_def db' db2)
  ultimately show ?thesis by (simp add: dep_inv_def)
qed

section \<open>Settling, renewing, dispatching and reserving keep it\<close>

lemma settled_row_fields [simp]:
  "dep_id (settled_row wall p d) = dep_id d" "dep_de_id (settled_row wall p d) = dep_de_id d"
  "dep_mode (settled_row wall p d) = dep_mode d" "dep_status (settled_row wall p d) = up_status p"
  "dep_completed_at (settled_row wall p d) = Some wall" "dep_revision (settled_row wall p d) = dep_revision d + 1"
  "dep_runner_id (settled_row wall p d) = dep_runner_id d" "dep_manifest (settled_row wall p d) = dep_manifest d"
  by (simp_all add: settled_row_def)

lemma terminal_effects_tables [simp]:
  "deployments (terminal_effects now i proven db) = deployments db"
  "environments (terminal_effects now i proven db) = environments db"
  "leases (terminal_effects now i proven db) = delete_rows (\<lambda>l. lease_deployment l = Some i) (leases db)"
  "budgets (terminal_effects now i proven db) = (if proven then update_rows (\<lambda>b. bud_deployment b = i)
      (\<lambda>b. b\<lparr>bud_completion_received_at := Some (opt_or (bud_completion_received_at b) now)\<rparr>) (budgets db) else budgets db)"
  "map res_deployment (reservations (terminal_effects now i proven db)) = map res_deployment (reservations db)"
  "queue (terminal_effects now i proven db) = queue db"
  "queue_next_seq (terminal_effects now i proven db) = queue_next_seq db"
  "acknowledgements (terminal_effects now i proven db) = acknowledgements db"
  "runner_inbox (terminal_effects now i proven db) = runner_inbox db"
  "late_results (terminal_effects now i proven db) = late_results db"
  "external_receipts (terminal_effects now i proven db) = external_receipts db"
  "observation_receipts (terminal_effects now i proven db) = observation_receipts db"
  "admissions (terminal_effects now i proven db) = admissions db"
  "history (terminal_effects now i proven db) = history db"
  by (simp_all add: terminal_effects_def Let_def) (simp_all add: RecordDeploymentCompletion_def)

lemma UpdateDeployment_cases:
  assumes "UpdateDeploymentStatusAndOutputs now wall db i p = Inr (s, db')" "up_status p \<noteq> StatusExecuting"
  obtains d e where "find_deployment i db = Some d" "lookup_row env_id (dep_de_id d) (environments db) = Some e"
    "up_expected_revision p = None \<or> up_expected_revision p = Some (dep_revision d)"
    "db' = terminal_effects now i (up_completion_proven p)
       (db\<lparr>deployments := update_rows (\<lambda>d. dep_id d = i) (settled_row wall p) (deployments db)\<rparr>)"
    "s = (blank_summary (env_org e) e (settled_row wall p d))\<lparr>sum_created_by := uuid_nil\<rparr>"
proof -
  have "up_status p = StatusSucceeded \<or> up_status p = StatusFailed"
    using assms(2) by (cases "up_status p") simp_all
  with assms(1) obtain d e where "find_deployment i db = Some d" "lookup_row env_id (dep_de_id d) (environments db) = Some e"
    "\<not> (up_expected_revision p \<noteq> None \<and> up_expected_revision p \<noteq> Some (dep_revision d))"
    "Inr ((blank_summary (env_org e) e (settled_row wall p d))\<lparr>sum_created_by := uuid_nil\<rparr>,
       terminal_effects now i (up_completion_proven p)
         (db\<lparr>deployments := update_rows (\<lambda>d. dep_id d = i) (settled_row wall p) (deployments db)\<rparr>)) =
       (Inr (s, db') :: (deployment_summary \<times> database) result)"
    unfolding UpdateDeploymentStatusAndOutputs_def Let_def by (auto split: option.splits if_splits)
  then show ?thesis by (intro that [of d e]) auto
qed

lemma budget_ok_completion [simp]: "budget_ok (b\<lparr>bud_completion_received_at := c\<rparr>) \<longleftrightarrow> budget_ok b"
  by (simp add: budget_ok_def split: option.split)

lemma budget_inv_update:
  assumes "budget_inv db" "dep_id ` set (deployments db') = dep_id ` set (deployments db)"
    and "budgets db' = update_rows q f (budgets db)"
    and "\<And>b. q b \<Longrightarrow> bud_deployment (f b) = bud_deployment b" "\<And>b. b \<in> set (budgets db) \<Longrightarrow> q b \<Longrightarrow> budget_ok (f b)"
  shows "budget_inv db'"
proof -
  have m: "map bud_deployment (budgets db') = map bud_deployment (budgets db)"
    unfolding assms(3) by (rule map_key_update_rows) (rule assms(4))
  then have "bud_deployment ` set (budgets db') = bud_deployment ` set (budgets db)" by (metis set_map)
  moreover have "budget_ok b" if "b \<in> set (budgets db')" for b
    using that assms(1,5) unfolding assms(3) set_update_rows by (auto simp: budget_inv_def split: if_splits)
  ultimately show ?thesis using assms(1,2) m by (simp add: budget_inv_def)
qed

lemma budget_inv_completion:
  assumes "budget_inv db" "dep_id ` set (deployments db') = dep_id ` set (deployments db)"
    and "budgets db' = update_rows (\<lambda>b. bud_deployment b = i)
      (\<lambda>b. b\<lparr>bud_completion_received_at := Some (opt_or (bud_completion_received_at b) now)\<rparr>) (budgets db)"
  shows "budget_inv db'"
  using assms by (rule budget_inv_update) (use assms(1) in \<open>simp_all add: budget_inv_def\<close>)

lemma UpdateDeployment_dep_inv:
  assumes "UpdateDeploymentStatusAndOutputs now wall db i p = Inr (s, db')" "up_status p \<noteq> StatusExecuting" "dep_inv db"
  shows "dep_inv db'"
proof -
  from assms(1,2) have db': "db' = terminal_effects now i (up_completion_proven p)
       (db\<lparr>deployments := update_rows (\<lambda>d. dep_id d = i) (settled_row wall p) (deployments db)\<rparr>)"
    by (rule UpdateDeployment_cases)
  have t: "deployments db' = update_rows (\<lambda>d. dep_id d = i) (settled_row wall p) (deployments db)"
    "environments db' = environments db" "leases db' = delete_rows (\<lambda>l. lease_deployment l = Some i) (leases db)"
    "budgets db' = (if up_completion_proven p then update_rows (\<lambda>b. bud_deployment b = i)
      (\<lambda>b. b\<lparr>bud_completion_received_at := Some (opt_or (bud_completion_received_at b) now)\<rparr>) (budgets db) else budgets db)"
    "map res_deployment (reservations db') = map res_deployment (reservations db)"
    by (simp_all add: db')
  have i: "ref_inv db" "exec_inv db" "lease_inv db" "budget_inv db" "reservation_inv db"
    using assms(3) by (simp_all add: dep_inv_def)
  have ids: "map dep_id (deployments db') = map dep_id (deployments db)"
    unfolding t by (rule map_key_update_rows) simp
  have D: "d \<in> set (deployments db) \<and> dep_id d \<noteq> i" if "d \<in> set (deployments db')" "dep_status d = StatusExecuting" for d
    using that(1) unfolding t by (rule update_rowsE) (use that(2) assms(2) in auto)
  have "dep_refs db' = dep_refs db" unfolding t by (rule map_key_update_rows) simp
  then have "ref_inv db'" using i(1) t(2) ref_inv_cong by blast
  moreover have "exec_inv db'" using i(2) D unfolding exec_inv_def t(2) by blast
  moreover have "lease_inv db'"
    using i(3) D unfolding lease_inv_def t(3) by (fastforce simp: distinct_key_delete_rows)
  moreover have "budget_inv db'"
  proof -
    have "dep_id ` set (deployments db') = dep_id ` set (deployments db)" using ids by (metis set_map)
    then show ?thesis
      using t(4) i(4) budget_inv_completion [OF i(4), of db' i]
      by (cases "up_completion_proven p") (auto simp: budget_inv_def)
  qed
  moreover have "reservation_inv db'"
    using i(5) t(5) ids unfolding reservation_inv_def by (metis set_map)
  ultimately show ?thesis by (simp add: dep_inv_def)
qed

lemma lease_inv_update:
  assumes "lease_inv db" "deployments db' = deployments db" "leases db' = update_rows q f (leases db)"
    and "\<And>l. lease_environment (f l) = lease_environment l" "\<And>l. lease_deployment (f l) = lease_deployment l"
  shows "lease_inv db'"
proof -
  have m: "map g (leases db') = map g (leases db)" if "\<And>l. g (f l) = g l" for g :: "lease_row \<Rightarrow> 'k"
    unfolding assms(3) by (rule map_key_update_rows) (rule that)
  have "set (map (\<lambda>l. (lease_environment l, lease_deployment l)) (leases db')) =
      set (map (\<lambda>l. (lease_environment l, lease_deployment l)) (leases db))"
    by (subst m) (simp_all add: assms(4,5))
  then have "(\<exists>l \<in> set (leases db'). lease_environment l = a \<and> lease_deployment l = b) \<longleftrightarrow>
      (\<exists>l \<in> set (leases db). lease_environment l = a \<and> lease_deployment l = b)" for a b
    unfolding set_map set_eq_iff image_iff by (metis (mono_tags, lifting) prod.inject)
  with assms(1) m [of lease_environment] show ?thesis
    unfolding lease_inv_def assms(2) by (simp add: assms(4))
qed

lemma RenewDeploymentLease_dep_inv:
  assumes "RenewDeploymentLease now db i ttl = (r, db')" "dep_inv db"
  shows "dep_inv db'"
proof -
  let ?f = "\<lambda>l. l\<lparr>lease_heartbeat_at := now,
    lease_expires_at := now + (if ttl \<le> 0 then DefaultEnvironmentLeaseTTL else ttl)\<rparr>"
  have db': "db' = db\<lparr>leases := update_rows (renewable db i) ?f (leases db)\<rparr>"
    using assms(1) by (auto simp: RenewDeploymentLease_def Let_def)
  have "lease_inv db'"
    by (rule lease_inv_update [of db _ "renewable db i" ?f]) (use assms(2) in \<open>simp_all add: db' dep_inv_def\<close>)
  moreover have "exec_inv db' = exec_inv db" "ref_inv db' = ref_inv db" "budget_inv db' = budget_inv db"
    "reservation_inv db' = reservation_inv db"
    by (rule inv_part_congs reservation_inv_cong; simp add: db')+
  ultimately show ?thesis using assms(2) by (simp add: dep_inv_def)
qed

lemma start_budget_dep_inv:
  assumes "dep_inv db"
  shows "dep_inv (start_budget now i rv db)"
proof -
  let ?db = "start_budget now i rv db"
  have "budget_inv ?db"
    by (rule budget_inv_update [of db _ "\<lambda>b. bud_deployment b = i \<and> bud_revision b = rv \<and>
          bud_first_attempt_at b = None \<and> \<not> bud_legacy b"
        "\<lambda>b. b\<lparr>bud_first_attempt_at := Some now, bud_deadline := Some (now + hour)\<rparr>"])
      (use assms in \<open>simp_all add: dep_inv_def budget_ok_def RunnerExecutionBudget_def start_budget_def\<close>)
  moreover have "exec_inv ?db = exec_inv db" "ref_inv ?db = ref_inv db" "lease_inv ?db = lease_inv db"
    "reservation_inv ?db = reservation_inv db"
    by (rule inv_part_congs reservation_inv_cong; simp)+
  ultimately show ?thesis using assms by (simp add: dep_inv_def)
qed

lemma BeginDeploymentDispatch_dep_inv:
  "BeginDeploymentDispatch now wall db dep = Inr (deadline, db') \<Longrightarrow> dep_inv db \<Longrightarrow> dep_inv db'"
  by (elim BeginDeploymentDispatch_cases) (simp add: start_budget_dep_inv)

lemma ReserveRunnerJob_dep_inv:
  assumes "ReserveRunnerJob now db dep limit = Inr db'" "dep_inv db"
  shows "dep_inv db'"
  using assms(1)
proof (cases rule: ReserveRunnerJob_cases)
  case claimed
  then obtain d where "find_deployment (sum_id dep) db = Some d" by blast
  from find_deployment_Some [OF this] have "sum_id dep \<in> dep_id ` set (deployments db)" by force
  with claimed(1,2) assms(2) have "reservation_inv db'" by (simp add: dep_inv_def reservation_inv_def)
  moreover have "exec_inv db' = exec_inv db" "ref_inv db' = ref_inv db" "lease_inv db' = lease_inv db"
    "budget_inv db' = budget_inv db"
    by (rule inv_part_congs; simp add: claimed(1))+
  ultimately show ?thesis using assms(2) by (simp add: dep_inv_def)
qed (use assms(2) in simp)

lemma ReleaseRunnerJob_dep_inv: "dep_inv (ReleaseRunnerJob now i db) \<longleftrightarrow> dep_inv db"
  by (rule dep_inv_cong) simp_all

lemma RecordDeploymentCompletion_dep_inv:
  assumes "dep_inv db"
  shows "dep_inv (RecordDeploymentCompletion now i db)"
proof -
  let ?db = "RecordDeploymentCompletion now i db"
  have "budget_inv ?db"
    by (rule budget_inv_completion [of db _ i now]) (use assms in \<open>simp_all add: dep_inv_def RecordDeploymentCompletion_def\<close>)
  moreover have "exec_inv ?db = exec_inv db" "ref_inv ?db = ref_inv db" "lease_inv ?db = lease_inv db"
    "reservation_inv ?db = reservation_inv db"
    by (rule inv_part_congs reservation_inv_cong; simp)+
  ultimately show ?thesis using assms by (simp add: dep_inv_def)
qed

section \<open>Deleting keeps it\<close>

lemma cascade_tables:
  assumes "cascade_deployments p db = Inr db'"
  shows "deployments db' = delete_rows p (deployments db)" "environments db' = environments db"
    and "leases db' = leases db" "reservations db' = reservations db" "queue db' = queue db"
    and "budgets db' = delete_rows (\<lambda>b. bud_deployment b \<in> dep_id ` {d \<in> set (deployments db). p d}) (budgets db)"
    and "\<And>r. r \<in> set (reservations db) \<Longrightarrow> res_deployment r \<notin> dep_id ` {d \<in> set (deployments db). p d}"
    and "queue_next_seq db' = queue_next_seq db" "admissions db' = admissions db"
    and "acknowledgements db' = acknowledgements db"
  using assms by (auto simp: cascade_deployments_def Let_def split: if_splits)

text \<open>Removing one Environment with its Deployments.\<close>

lemma dep_inv_remove:
  assumes "dep_inv db"
    and "environments db' = delete_rows (\<lambda>e. env_id e = u) (environments db)"
    and "deployments db' = delete_rows (\<lambda>d. dep_de_id d = u) (deployments db)" "leases db' = leases db"
    and "budgets db' = delete_rows (\<lambda>b. bud_deployment b \<in> dep_id ` {d \<in> set (deployments db). dep_de_id d = u}) (budgets db)"
    and "distinct (map res_deployment (reservations db'))"
    and "res_deployment ` set (reservations db') \<subseteq> res_deployment ` set (reservations db) - dep_id ` {d \<in> set (deployments db). dep_de_id d = u}"
  shows "dep_inv db'"
proof -
  have i: "ref_inv db" "exec_inv db" "lease_inv db" "budget_inv db" "reservation_inv db"
    using assms(1) by (simp_all add: dep_inv_def)
  have E: "e \<in> set (environments db') \<longleftrightarrow> e \<in> set (environments db) \<and> env_id e \<noteq> u" for e unfolding assms(2) by simp
  have D: "d \<in> set (deployments db') \<longleftrightarrow> d \<in> set (deployments db) \<and> dep_de_id d \<noteq> u" for d unfolding assms(3) by simp
  have ids: "dep_id ` set (deployments db') = dep_id ` set (deployments db) - dep_id ` {d \<in> set (deployments db). dep_de_id d = u}"
    unfolding set_eq_iff image_iff Diff_iff Bex_def D mem_Collect_eq using i(1) unfolding ref_inv_def by (metis distinct_key_eq)
  have "distinct (map dep_id (deployments db'))" "distinct (map env_id (environments db'))"
    "distinct (map env_key (environments db'))"
    using i(1) unfolding assms(2,3) ref_inv_def by (simp_all add: distinct_key_delete_rows)
  moreover have "\<exists>e \<in> set (environments db'). env_id e = dep_de_id d" if "d \<in> set (deployments db')" for d
    using i(1) that unfolding ref_inv_def D E Bex_def by metis
  moreover have "\<exists>d \<in> set (deployments db'). dep_id d = env_last_executing e \<and> dep_de_id d = env_id e"
    "\<exists>d \<in> set (deployments db'). dep_id d = env_last_state e \<and> dep_de_id d = env_id e" if "e \<in> set (environments db')" for e
    using i(1) that unfolding ref_inv_def D E Bex_def by metis+
  ultimately have "ref_inv db'" unfolding ref_inv_def by blast
  moreover have "exec_inv db'" using i(2) unfolding exec_inv_def D E Ball_def Bex_def by metis
  moreover have "lease_inv db'" using i(3) D unfolding lease_inv_def assms(4) by blast
  moreover have "budget_inv db'"
  proof -
    note ids
    moreover have "bud_deployment ` set (budgets db') = dep_id ` set (deployments db) - dep_id ` {d \<in> set (deployments db). dep_de_id d = u}"
    proof -
      have "f ` {x \<in> A. f x \<notin> C} = f ` A - C" for f :: "budget_row \<Rightarrow> uuid" and A C by blast
      with i(4) show ?thesis unfolding assms(5) budget_inv_def set_delete_rows by metis
    qed
    moreover have "distinct (map bud_deployment (budgets db'))" "\<forall>b \<in> set (budgets db'). budget_ok b"
      using i(4) unfolding budget_inv_def assms(5) by (simp_all add: distinct_key_delete_rows)
    ultimately show ?thesis by (simp add: budget_inv_def)
  qed
  moreover have "reservation_inv db'"
    using i(5) assms(6,7) unfolding reservation_inv_def ids by (meson Diff_mono order_refl order_trans)
  ultimately show ?thesis by (simp add: dep_inv_def)
qed

lemma delete_environment_single:
  assumes "delete_environment org project env expected db = Inr db'" "ref_inv db"
    and "find_env org project env db = Some e" "expected = None \<or> expected = Some (env_id e)"
  shows "environments db' = delete_rows (\<lambda>x. env_id x = env_id e) (environments db)"
    and "deployments db' = delete_rows (\<lambda>d. dep_de_id d = env_id e) (deployments db)"
    and "leases db' = leases db" "reservations db' = reservations db"
    and "budgets db' = delete_rows (\<lambda>b. bud_deployment b \<in> dep_id ` {d \<in> set (deployments db). dep_de_id d = env_id e}) (budgets db)"
    and "\<And>r. r \<in> set (reservations db) \<Longrightarrow> res_deployment r \<notin> dep_id ` {d \<in> set (deployments db). dep_de_id d = env_id e}"
proof -
  let ?hit = "\<lambda>x. same_env org project env x \<and> (expected = None \<or> expected = Some (env_id x))"
  have e: "e \<in> set (environments db)" "same_env org project env e" using find_env_Some [OF assms(3)] by simp_all
  have keys: "distinct (map env_id (environments db))" "distinct (map env_key (environments db))"
    using assms(2) by (simp_all add: ref_inv_def)
  have only: "?hit x \<longleftrightarrow> x = e" "env_id x = env_id e \<longleftrightarrow> x = e" if "x \<in> set (environments db)" for x
    using that e assms(4) keys by (auto simp: same_env_key dest: distinct_key_eq)
  have gone: "set (map env_id (filter ?hit (environments db))) = {env_id e}"
    using e(1) only by auto
  have c: "cascade_deployments (\<lambda>d. dep_de_id d = env_id e)
      (cascade_nodes (map env_id (filter ?hit (environments db)))
        (db\<lparr>environments := delete_rows ?hit (environments db)\<rparr>)) = Inr db'"
    using assms(1) unfolding delete_environment_def Let_def gone by simp
  have "delete_rows ?hit (environments db) = delete_rows (\<lambda>x. env_id x = env_id e) (environments db)"
    unfolding delete_rows_def by (rule filter_cong) (simp_all add: only)
  with cascade_tables(2) [OF c] show "environments db' = delete_rows (\<lambda>x. env_id x = env_id e) (environments db)" by simp
  show "deployments db' = delete_rows (\<lambda>d. dep_de_id d = env_id e) (deployments db)"
    "leases db' = leases db" "reservations db' = reservations db"
    "budgets db' = delete_rows (\<lambda>b. bud_deployment b \<in> dep_id ` {d \<in> set (deployments db). dep_de_id d = env_id e}) (budgets db)"
    using cascade_tables(1,3,4,6) [OF c] by simp_all
  fix r assume "r \<in> set (reservations db)"
  then show "res_deployment r \<notin> dep_id ` {d \<in> set (deployments db). dep_de_id d = env_id e}"
    using cascade_tables(7) [OF c, of r] by simp
qed

lemma delete_environment_none:
  assumes "delete_environment org project env expected db = Inr db'" "find_env org project env db = None"
  shows "environments db' = environments db" "deployments db' = deployments db" "leases db' = leases db"
    "reservations db' = reservations db" "budgets db' = budgets db"
proof -
  let ?hit = "\<lambda>x. same_env org project env x \<and> (expected = None \<or> expected = Some (env_id x))"
  have no: "filter ?hit (environments db) = []" "delete_rows ?hit (environments db) = environments db"
    using assms(2) by (auto simp: find_env_None filter_empty_conv delete_rows_def filter_id_conv)
  have c: "cascade_deployments (\<lambda>d. False) (cascade_nodes [] db) = Inr db'"
    using assms(1) unfolding delete_environment_def Let_def no by simp
  show "environments db' = environments db" "deployments db' = deployments db" "leases db' = leases db"
    "reservations db' = reservations db" "budgets db' = budgets db"
    using cascade_tables [OF c] by (simp_all add: delete_rows_def)
qed

text \<open>The state in which the Environment row is deleted.\<close>

lemma DeleteDeploymentsForEnv_cases:
  assumes "DeleteDeploymentsForEnv db org project env force expected = Inr db'"
  obtains db2 where "delete_environment org project env expected db2 = Inr db'"
    "deployments db2 = deployments db" "environments db2 = environments db" "leases db2 = leases db" "budgets db2 = budgets db"
    "queue db2 = delete_rows (\<lambda>q. q_org q = org \<and> q_project q = project \<and> q_env q = env \<and>
       (expected = None \<or> expected = Some (q_environment q))) (queue db)"
    "case find_env org project env db of
       None \<Rightarrow> reservations db2 = reservations db
     | Some e \<Rightarrow> (expected = None \<or> expected = Some (env_id e)) \<and>
         (\<forall>r \<in> set (reservations db). env_deployment db (env_id e) (res_deployment r) \<longrightarrow> res_released_at r \<noteq> None) \<and>
         reservations db2 = delete_rows (\<lambda>r. env_deployment db (env_id e) (res_deployment r) \<and> res_released_at r \<noteq> None) (reservations db)"
    "force \<or> \<not> env_executing db org project env" "queue_next_seq db2 = queue_next_seq db"
proof -
  have exec: "env_executing (db\<lparr>reservations := x\<rparr>) org project env = env_executing db org project env" for x
    unfolding env_executing_def find_env_def by (simp split: option.split)
  from assms show ?thesis
    unfolding DeleteDeploymentsForEnv_def Let_def
    by (auto split: option.splits if_splits simp: exec intro!: that)
qed

lemma DeleteDeploymentsForEnv_dep_inv:
  assumes "DeleteDeploymentsForEnv db org project env force expected = Inr db'" "dep_inv db"
  shows "dep_inv db'"
  using assms(1)
proof (rule DeleteDeploymentsForEnv_cases)
  fix db2
  assume del: "delete_environment org project env expected db2 = Inr db'"
    and t: "deployments db2 = deployments db" "environments db2 = environments db" "leases db2 = leases db" "budgets db2 = budgets db"
    and res: "case find_env org project env db of
       None \<Rightarrow> reservations db2 = reservations db
     | Some e \<Rightarrow> (expected = None \<or> expected = Some (env_id e)) \<and>
         (\<forall>r \<in> set (reservations db). env_deployment db (env_id e) (res_deployment r) \<longrightarrow> res_released_at r \<noteq> None) \<and>
         reservations db2 = delete_rows (\<lambda>r. env_deployment db (env_id e) (res_deployment r) \<and> res_released_at r \<noteq> None) (reservations db)"
  have ref: "ref_inv db2" using assms(2) t inv_part_congs(2) [of db2 db] by (simp add: dep_inv_def)
  have fe: "find_env org project env db2 = find_env org project env db" unfolding find_env_def t ..
  show ?thesis
  proof (cases "find_env org project env db")
    case None
    with res delete_environment_none [OF del] fe t show ?thesis
      using assms(2) by (simp add: dep_inv_cong [of db' db])
  next
    case (Some e)
    with res have ex: "expected = None \<or> expected = Some (env_id e)" and
      r2: "reservations db2 = delete_rows (\<lambda>r. env_deployment db (env_id e) (res_deployment r) \<and> res_released_at r \<noteq> None) (reservations db)"
      by simp_all
    note d = delete_environment_single [OF del ref fe [unfolded Some] ex, unfolded t]
    show ?thesis
    proof (rule dep_inv_remove [OF assms(2) d(1,2,3,5)])
      show "distinct (map res_deployment (reservations db'))"
        using assms(2) unfolding d(4) r2 dep_inv_def reservation_inv_def by (simp add: distinct_key_delete_rows)
      show "res_deployment ` set (reservations db') \<subseteq> res_deployment ` set (reservations db) -
          dep_id ` {x \<in> set (deployments db). dep_de_id x = env_id e}"
        using d(6) unfolding d(4) unfolding r2 by auto
    qed
  qed
qed

end
