(* ===== verification/Deployment_Reads.thy ===== *)
theory Deployment_Reads
  imports Deployment_Invariant "HOL-Library.List_Lexorder" "HOL-Library.Char_ord" "HOL-Library.Product_Lexorder"
begin

text \<open>
  The reading operations of \<^verbatim>\<open>internal/model/deployments.go\<close>: lookups, the two
  paged listings with their tokens, the readiness of Environments, and the outputs. Text is
  compared byte by byte (the \<^verbatim>\<open>C\<close> collation); rows with equal sort keys keep
  their table order.
\<close>

section \<open>Lookups\<close>

definition GetDeploymentByIdempotencyKeyDigest ::
  "instant \<Rightarrow> database \<Rightarrow> string \<Rightarrow> string \<Rightarrow> string \<Rightarrow> string \<Rightarrow> (deployment_summary \<times> string) result" where
  "GetDeploymentByIdempotencyKeyDigest wall db org project env digest =
     (case find_env org project env db of
        None \<Rightarrow> Inl (ErrNotFound ''no deployment found with the given idempotency key digest'')
      | Some e \<Rightarrow>
          (case find (\<lambda>d. dep_de_id d = env_id e \<and> dep_idempotency_key_digest d = Some digest \<and>
                dep_created_at d > wall - idempotencyDigestTimeLimit) (deployments db) of
             None \<Rightarrow> Inl (ErrNotFound ''no deployment found with the given idempotency key digest'')
           | Some d \<Rightarrow> Inr ((blank_summary org e d)
               \<lparr>sum_module_version_request_digest := dep_module_version_request_digest d\<rparr>, dep_manifest d)))"

text \<open>The Deployment an Environment row points at: its state head, or the one it executed last.\<close>

definition last_deployment :: "bool \<Rightarrow> database \<Rightarrow> environment_row \<Rightarrow> deployment_row option" where
  "last_deployment stateChangeOnly db e =
     find (\<lambda>d. dep_de_id d = env_id e \<and>
       dep_id d = (if stateChangeOnly then env_last_state e else env_last_executing e)) (deployments db)"

definition GetLastDeployment ::
  "database \<Rightarrow> string \<Rightarrow> string \<Rightarrow> string \<Rightarrow> bool \<Rightarrow> deployment_detail result" where
  "GetLastDeployment db org project env stateChangeOnly =
     (case find_env org project env db of
        None \<Rightarrow> Inl (ErrNotFound ''no deployments found in env of project'')
      | Some e \<Rightarrow>
          (case last_deployment stateChangeOnly db e of
             None \<Rightarrow> Inl (ErrNotFound ''no deployments found in env of project'')
           | Some d \<Rightarrow> Inr (blank_summary org e d, dep_manifest d, dep_tofu d, dep_graph d)))"

section \<open>Listing Deployments\<close>

record list_params =
  lp_project :: "string option"
  lp_env :: "string option"
  lp_created_before :: "instant option"
  lp_by_mode :: "deployment_mode list option"
  lp_by_status :: "deployment_status list option"

definition opt_matches :: "'a option \<Rightarrow> 'a \<Rightarrow> bool" where
  "opt_matches wanted x = (case wanted of None \<Rightarrow> True | Some y \<Rightarrow> y = x)"

definition opt_member :: "'a list option \<Rightarrow> 'a \<Rightarrow> bool" where
  "opt_member wanted x = (case wanted of None \<Rightarrow> True | Some ys \<Rightarrow> x \<in> set ys)"

text \<open>The inner join of Environments and Deployments, newest first.\<close>

definition org_deployments :: "database \<Rightarrow> string \<Rightarrow> (environment_row \<times> deployment_row) list" where
  "org_deployments db org = List.map_filter (\<lambda>d.
     case lookup_row env_id (dep_de_id d) (environments db) of
       None \<Rightarrow> None
     | Some e \<Rightarrow> if env_org e = org then Some (e, d) else None) (deployments db)"

definition list_deployments_match :: "list_params \<Rightarrow> instant \<Rightarrow> environment_row \<times> deployment_row \<Rightarrow> bool" where
  "list_deployments_match p before = (\<lambda>(e, d). dep_created_at d < before \<and>
     opt_matches (lp_project p) (env_project e) \<and> opt_matches (lp_env p) (env_name e) \<and>
     opt_member (lp_by_mode p) (dep_mode d) \<and> opt_member (lp_by_status p) (dep_status d))"

definition ListDeployments ::
  "instant \<Rightarrow> database \<Rightarrow> string \<Rightarrow> string \<Rightarrow> int \<Rightarrow> list_params \<Rightarrow> (deployment_summary list \<times> string) result" where
  "ListDeployments wall db org pageToken perPage p =
     bindR (if pageToken \<noteq> '''' then
              (case parse_int64 pageToken of
                 None \<Rightarrow> Inl (ErrBadRequest ''failed to parse page token'') | Some i \<Rightarrow> Inr i)
            else Inr (opt_or (lp_created_before p) (wall + hour))) (\<lambda>before.
     let limit = nat (max 1 perPage);
         rows = sort_key (\<lambda>(e, d). - dep_created_at d) (filter (list_deployments_match p before) (org_deployments db org));
         out = map (\<lambda>(e, d). blank_summary org e d) (take limit rows)
     in if length rows > limit
        then Inr (out, format_int (sum_created_at (last out)))
        else Inr (out, ''''))"

section \<open>Listing the last Deployment of each Environment\<close>

record list_last_params =
  ll_project :: "string option"
  ll_env :: "string option"
  ll_state_change_only :: bool

definition parse_env_token :: "string \<Rightarrow> (string \<times> string) result" where
  "parse_env_token token =
     (if token = '''' then Inr ('''', '''')
      else case split_on (CHR '','') token of
        a # b # _ \<Rightarrow> Inr (a, b)
      | _ \<Rightarrow> Inl (ErrBadRequest ''invalid page token''))"

definition env_token :: "string \<Rightarrow> string \<Rightarrow> string" where
  "env_token project env = project @ '','' @ env"

definition queryLastDeployments ::
  "database \<Rightarrow> string \<Rightarrow> string \<times> string \<Rightarrow> nat \<Rightarrow> list_last_params \<Rightarrow> (deployment_summary \<times> uuid option) list" where
  "queryLastDeployments db org after limit p =
     take limit (List.map_filter (\<lambda>e. case last_deployment (ll_state_change_only p) db e of
          None \<Rightarrow> None
        | Some d \<Rightarrow> Some (blank_summary org e d,
            map_option dep_id (find (\<lambda>h. dep_id h = env_last_state e \<and> dep_status h = StatusFailed) (deployments db))))
       (sort_key (\<lambda>e. (env_project e, env_name e))
         (filter (\<lambda>e. env_org e = org \<and> after < (env_project e, env_name e) \<and>
            opt_matches (ll_project p) (env_project e) \<and> opt_matches (ll_env p) (env_name e)) (environments db))))"

fun read_fences :: "database \<Rightarrow> (deployment_summary \<times> uuid option) list \<Rightarrow> deployment_summary list result" where
  "read_fences db [] = Inr []"
| "read_fences db ((s, head) # rest) =
     bindR (ReadEnvironmentFence db (opt_or head uuid_nil)) (\<lambda>fence.
     bindR (read_fences db rest) (\<lambda>out. Inr (s\<lparr>sum_fence := fence\<rparr> # out)))"

definition ListLastDeployments ::
  "database \<Rightarrow> string \<Rightarrow> string \<Rightarrow> int \<Rightarrow> list_last_params \<Rightarrow> (deployment_summary list \<times> string) result" where
  "ListLastDeployments db org pageToken perPage p =
     bindR (parse_env_token pageToken) (\<lambda>after.
     let limit = nat (max 1 perPage);
         rows = queryLastDeployments db org after (limit + 1) p;
         page = take limit rows;
         next_token = (if length rows > limit
           then env_token (sum_project (fst (last page))) (sum_env (fst (last page))) else '''')
     in bindR (read_fences db page) (\<lambda>out. Inr (out, next_token)))"

section \<open>Readiness\<close>

record readiness =
  rd_project :: string
  rd_env :: string
  rd_environment :: "uuid option"
  rd_latest :: "uuid option"
  rd_latest_status :: "deployment_status option"
  rd_latest_mode :: "deployment_mode option"
  rd_lease_until :: "instant option"
  rd_base :: "uuid option"
  rd_active_modules :: "module_artifact list"
  rd_queued :: bool
  rd_executing :: bool

definition effective_base :: "database \<Rightarrow> environment_row \<Rightarrow> deployment_row option" where
  "effective_base db e = least_row (\<lambda>d. - dep_created_at d)
     (filter (\<lambda>d. dep_de_id d = env_id e \<and> dep_status d = StatusSucceeded \<and>
        dep_mode d \<in> {ModeDeploy, ModeRollback, ModeDestroy}) (deployments db))"

definition readiness_row :: "instant \<Rightarrow> database \<Rightarrow> string \<Rightarrow> string \<times> string \<Rightarrow> readiness" where
  "readiness_row now db org request =
     (let (project, env) = request;
          e = find_env org project env db;
          latest = (case e of None \<Rightarrow> None | Some x \<Rightarrow> find_deployment (env_last_state x) db);
          lease = (case (e, latest) of (Some x, Some d) \<Rightarrow>
              find (\<lambda>l. lease_environment l = env_id x \<and> lease_deployment l = Some (dep_id d) \<and>
                lease_expires_at l > now) (leases db) | _ \<Rightarrow> None);
          base = (case e of None \<Rightarrow> None | Some x \<Rightarrow> effective_base db x)
      in \<lparr>rd_project = project, rd_env = env, rd_environment = map_option env_id e,
          rd_latest = map_option dep_id latest, rd_latest_status = map_option dep_status latest,
          rd_latest_mode = map_option dep_mode latest, rd_lease_until = map_option lease_expires_at lease,
          rd_base = map_option dep_id base,
          rd_active_modules = (case base of None \<Rightarrow> [] | Some d \<Rightarrow> dep_module_artifacts d),
          rd_queued = exists_row (\<lambda>q. q_org q = org \<and> q_project q = project \<and> q_env q = env \<and> q_state q = Queued) (queue db),
          rd_executing = (case e of None \<Rightarrow> False | Some x \<Rightarrow>
            exists_row (\<lambda>d. dep_id d = env_last_executing x \<and> dep_status d = StatusExecuting) (deployments db))\<rparr>)"

fun require_stopped :: "database \<Rightarrow> readiness list \<Rightarrow> unit result" where
  "require_stopped db [] = Inr ()"
| "require_stopped db (r # rs) =
     bindR (case rd_environment r of None \<Rightarrow> Inr () | Some u \<Rightarrow> RequireObservationStopped db u) (\<lambda>_. require_stopped db rs)"

definition GetEnvironmentDeploymentReadiness ::
  "instant \<Rightarrow> database \<Rightarrow> string \<Rightarrow> (string \<times> string) list \<Rightarrow> readiness list result" where
  "GetEnvironmentDeploymentReadiness now db org refs =
     (let result = map (readiness_row now db org) refs
      in bindR (require_stopped db result) (\<lambda>_. Inr result))"

section \<open>Outputs\<close>

definition GetDeploymentEncryptedOutputs :: "database \<Rightarrow> string \<Rightarrow> uuid \<Rightarrow> string result" where
  "GetDeploymentEncryptedOutputs db org i =
     (case find_deployment i db of
        None \<Rightarrow> Inl (ErrNotFound ''deployment not found'')
      | Some d \<Rightarrow>
          (case lookup_row env_id (dep_de_id d) (environments db) of
             None \<Rightarrow> Inl (ErrNotFound ''deployment not found'')
           | Some e \<Rightarrow>
               if env_org e \<noteq> org then Inl (ErrNotFound ''deployment not found'')
               else Inr (case opt_or (dep_outputs d) '''' of
                  [] \<Rightarrow> (case find (\<lambda>l. late_deployment l = i \<and> late_org l = org \<and> late_runner l = dep_runner_id d \<and>
                       late_success l \<and> late_recipient l \<noteq> None \<and> late_recipient l = dep_outputs_recipient d) (late_results db) of
                     None \<Rightarrow> '''' | Some l \<Rightarrow> opt_or (late_outputs l) '''')
                | outputs \<Rightarrow> outputs)))"

end
