(* ===== verification/Catalogue.thy ===== *)
theory Catalogue
  imports Deployment_Reads
begin

text \<open>
  The execution catalogue the Control Plane returns (\<^verbatim>\<open>InternalExecutionCatalogueModule\<close>
  of \<^verbatim>\<open>platform-orchestrator-cp\<close>, the fields this repository reads) and the Draft test
  references of \<^verbatim>\<open>internal/graphs/draft_tests.go\<close> that are checked against it.
  A Go map is \<open>None\<close> when nil and otherwise the list of its entries, keys distinct, in
  the order an iteration visits them.
\<close>

section \<open>UUID text\<close>

text \<open>\<^verbatim>\<open>uuid.UUID.String()\<close>: 32 lower-case hexadecimal digits in groups of 8, 4, 4, 4 and 12.\<close>

definition hex_char :: "nat \<Rightarrow> char" where
  "hex_char d = (if d < 10 then char_of (48 + d) else char_of (87 + d))"

definition lower_hex :: "char \<Rightarrow> bool" where
  "lower_hex c \<longleftrightarrow> c \<in> set ''0123456789abcdef''"

definition uuid_nibble :: "uuid \<Rightarrow> nat \<Rightarrow> nat" where
  "uuid_nibble u i = unat (take_bit 4 (drop_bit (4 * (31 - i)) u))"

definition uuid_text :: "uuid \<Rightarrow> string" where
  "uuid_text u =
     (let digits = (\<lambda>a b. map (\<lambda>i. hex_char (uuid_nibble u i)) [a..<b]) in
      digits 0 8 @ ''-'' @ digits 8 12 @ ''-'' @ digits 12 16 @ ''-'' @ digits 16 20 @ ''-'' @ digits 20 32)"

subsection \<open>The text determines the UUID\<close>

lemma hex_char_inj: "a < 16 \<Longrightarrow> b < 16 \<Longrightarrow> hex_char a = hex_char b \<Longrightarrow> a = b"
  by (auto simp: hex_char_def split: if_splits dest!: arg_cong [where f = "of_char :: char \<Rightarrow> nat"])

lemma uuid_nibble_bound: "uuid_nibble u i < 16"
  using take_bit_nat_less_exp [of 4 "unat (drop_bit (4 * (31 - i)) u)"]
  by (simp add: uuid_nibble_def unsigned_take_bit_eq)

lemma length_uuid_text: "length (uuid_text u) = 36"
  by (simp add: uuid_text_def Let_def)

lemma nibbles_determine:
  fixes u v :: uuid
  assumes "\<And>i. i < 32 \<Longrightarrow> uuid_nibble u i = uuid_nibble v i"
  shows "u = v"
proof (rule bit_word_eqI)
  fix n assume n: "n < LENGTH(128)"
  let ?i = "31 - n div 4"
  have i: "?i < 32" "31 - ?i = n div 4" using n by auto
  have "take_bit 4 (drop_bit (4 * (n div 4)) u) = take_bit 4 (drop_bit (4 * (n div 4)) v)"
    using assms [OF i(1)] unfolding uuid_nibble_def i(2) by (simp only: word_unat_eq_iff)
  then have "bit (take_bit 4 (drop_bit (4 * (n div 4)) u)) (n mod 4) = bit (take_bit 4 (drop_bit (4 * (n div 4)) v)) (n mod 4)"
    by simp
  then show "bit u n \<longleftrightarrow> bit v n" by (simp add: bit_take_bit_iff bit_drop_bit_eq)
qed

text \<open>The text determines the UUID.\<close>

lemma uuid_text_inj: "uuid_text u = uuid_text v \<Longrightarrow> u = v"
proof (rule nibbles_determine)
  assume eq: "uuid_text u = uuid_text v"
  let ?h = "\<lambda>w i. hex_char (uuid_nibble w i)"
  have *: "\<forall>i \<in> set [0..<32]. ?h u i = ?h v i"
    using eq by (simp add: uuid_text_def Let_def upt_rec eval_nat_numeral)
  fix i :: nat assume "i < 32"
  then have "?h u i = ?h v i" using * by simp
  then show "uuid_nibble u i = uuid_nibble v i"
    by (rule hex_char_inj [OF uuid_nibble_bound uuid_nibble_bound])
qed

subsection \<open>Evaluation\<close>

text \<open>The digits of a number from the last to the first, for evaluation.\<close>

fun hex_digits :: "nat \<Rightarrow> int \<Rightarrow> string \<Rightarrow> string" where
  "hex_digits 0 k s = s"
| "hex_digits (Suc n) k s = hex_digits n (k div 16) (hex_char (nat (k mod 16)) # s)"

lemma hex_digits_map: "hex_digits n k s = map (\<lambda>i. hex_char (nat (k div 16 ^ (n - Suc i) mod 16))) [0..<n] @ s"
proof (induction n arbitrary: k s)
  case (Suc n)
  have "k div 16 div 16 ^ (n - Suc i) = k div 16 ^ (n - i)" if "i < n" for i
    using that by (simp add: zdiv_zmult2_eq [symmetric] power_Suc [symmetric] Suc_diff_Suc del: power_Suc)
  with Suc show ?case by simp
qed simp

lemma uuid_nibble_int: "uuid_nibble u i = nat (uint u div 16 ^ (31 - i) mod 16)"
proof -
  have "uint u mod 2 ^ 128 = uint u" using uint_lt2p [of u] by (intro mod_pos_pos_trivial) simp_all
  then have "uint (take_bit 4 (drop_bit (4 * (31 - i)) u)) = uint u div 16 ^ (31 - i) mod 16"
    by (simp only: unsigned_take_bit_eq unsigned_drop_bit_eq) (simp add: take_bit_eq_mod drop_bit_eq_div power_mult)
  then show ?thesis by (simp add: uuid_nibble_def flip: nat_uint_eq)
qed

lemma hex_char_table: "list_all (\<lambda>d. hex_char d = ''0123456789abcdef'' ! d) [0..<16]"
  by code_simp

lemma hex_char_code [code]: "hex_char d = (if d < 16 then ''0123456789abcdef'' ! d else char_of (87 + d))"
  using hex_char_table by (simp add: list_all_iff hex_char_def)

lemma uuid_text_code [code]:
  "uuid_text u = (let ds = hex_digits 32 (uint u) [] in
     take 8 ds @ ''-'' @ take 4 (drop 8 ds) @ ''-'' @ take 4 (drop 12 ds) @ ''-'' @ take 4 (drop 16 ds) @ ''-'' @ drop 20 ds)"
proof -
  have "hex_digits 32 (uint u) [] = map (\<lambda>i. hex_char (uuid_nibble u i)) [0..<32]"
    by (simp add: hex_digits_map uuid_nibble_int)
  then show ?thesis by (simp add: uuid_text_def Let_def take_map drop_map drop_upt take_upt)
qed

section \<open>The catalogue\<close>

type_synonym 'a go_map = "(string \<times> 'a) list option"

definition entries :: "'a go_map \<Rightarrow> (string \<times> 'a) list" where
  "entries m = (case m of None \<Rightarrow> [] | Some es \<Rightarrow> es)"

text \<open>\<^verbatim>\<open>reflect.DeepEqual\<close> of two maps tells nil from empty.\<close>

definition go_map_equal :: "'a go_map \<Rightarrow> 'a go_map \<Rightarrow> bool" where
  "go_map_equal a b \<longleftrightarrow> (a = None \<longleftrightarrow> b = None) \<and> set (entries a) = set (entries b)"

datatype param_type = TNumber | TBool | TList | TMap | TString | TAny | TOther string

record module_param =
  par_type :: param_type
  par_optional :: bool

record manifest_resource =
  mr_type :: string
  mr_class :: "string option"
  mr_id :: "string option"
  mr_params :: "(string \<times> json) list option"

record coprovision =
  cpr_resource :: manifest_resource
  cpr_dependent_on_current :: bool
  cpr_copy_dependents :: bool

record module_rule =
  rule_class :: string
  rule_id :: "string option"

text \<open>\<^verbatim>\<open>ModuleVersionPublishBody\<close>, the definition a snapshot captured.\<close>

record module_body =
  mb_source :: string
  mb_source_code :: "string option"
  mb_inputs :: "json go_map"
  mb_params :: "module_param go_map"
  mb_dependencies :: "manifest_resource go_map"
  mb_coprovisioned :: "coprovision list option"
  mb_provider_mapping :: "string go_map"
  mb_output_schema :: "json option"
  mb_artifact_digest :: "string option"
  mb_resource_type_version :: "int option"

record draft_snapshot =
  ds_id :: uuid
  ds_is_draft_test :: bool
  ds_module :: uuid
  ds_slug :: string
  ds_org :: string
  ds_draft :: uuid
  ds_draft_revision :: int
  ds_project :: uuid
  ds_environment :: uuid
  ds_resource_type_version :: int
  ds_resource_type_version_uuid :: uuid
  ds_definition :: module_body

record catalogue_module =
  cm_id :: string
  cm_org :: string
  cm_module_uuid :: uuid
  cm_version :: string
  cm_version_uuid :: uuid
  cm_resource_type :: string
  cm_resource_type_version :: "int option"
  cm_resource_type_version_uuid :: "uuid option"
  cm_source :: string
  cm_source_code :: "string option"
  cm_inputs :: "json go_map"
  cm_params :: "module_param go_map"
  cm_dependencies :: "manifest_resource go_map"
  cm_coprovisioned :: "coprovision list option"
  cm_provider_mapping :: "string go_map"
  cm_output_schema :: "json option"
  cm_artifact_digest :: string
  cm_rules :: "module_rule list"
  cm_semantic_status :: "string option"
  cm_semantic_version :: "string option"
  cm_migration_generation :: "string option"
  cm_verification_status :: "string option"
  cm_draft_test :: "draft_snapshot option"

section \<open>Draft test references\<close>

definition draft_reference_valid :: "draft_test_reference \<Rightarrow> bool" where
  "draft_reference_valid r \<longleftrightarrow> dt_snapshot r \<noteq> uuid_nil \<and> dt_module r \<noteq> uuid_nil \<and> dt_draft r \<noteq> uuid_nil \<and>
     dt_revision r > 0 \<and> dt_project r \<noteq> uuid_nil \<and> dt_environment r \<noteq> uuid_nil"

definition snapshot_reference :: "draft_snapshot \<Rightarrow> draft_test_reference" where
  "snapshot_reference s = \<lparr>dt_snapshot = ds_id s, dt_module = ds_module s, dt_draft = ds_draft s,
     dt_revision = ds_draft_revision s, dt_project = ds_project s, dt_environment = ds_environment s\<rparr>"

definition snapshot_identity :: "catalogue_module \<Rightarrow> draft_snapshot \<Rightarrow> bool" where
  "snapshot_identity m s \<longleftrightarrow> draft_reference_valid (snapshot_reference s) \<and> ds_is_draft_test s \<and>
     ds_id s = cm_version_uuid m \<and> uuid_text (ds_id s) = cm_version m \<and> ds_module s = cm_module_uuid m \<and>
     ds_slug s = cm_id m \<and> ds_org s = cm_org m"

definition same_material :: "catalogue_module \<Rightarrow> module_body \<Rightarrow> bool" where
  "same_material m b \<longleftrightarrow> mb_source b = cm_source m \<and> mb_source_code b = cm_source_code m \<and>
     go_map_equal (mb_inputs b) (cm_inputs m) \<and> go_map_equal (mb_dependencies b) (cm_dependencies m) \<and>
     mb_coprovisioned b = cm_coprovisioned m \<and> go_map_equal (mb_provider_mapping b) (cm_provider_mapping m) \<and>
     mb_output_schema b = cm_output_schema m"

definition DraftTestReferenceFromCatalogue :: "catalogue_module \<Rightarrow> string + draft_test_reference option" where
  "DraftTestReferenceFromCatalogue m =
     (case cm_draft_test m of
        None \<Rightarrow> Inr None
      | Some s \<Rightarrow>
          let b = ds_definition s in
          if \<not> snapshot_identity m s then Inl ''invalid immutable Draft test identity''
          else if cm_semantic_status m \<noteq> None \<or> cm_semantic_version m \<noteq> None \<or> cm_migration_generation m \<noteq> None \<or>
             cm_verification_status m \<noteq> None
          then Inl ''draft test module cannot carry published Version metadata''
          else if ds_resource_type_version s < 1 \<or> ds_resource_type_version_uuid s = uuid_nil \<or>
             cm_resource_type_version m \<noteq> Some (ds_resource_type_version s) \<or>
             cm_resource_type_version_uuid m \<noteq> Some (ds_resource_type_version_uuid s)
          then Inl ''draft test module has conflicting Resource Type metadata''
          else if opt_or (mb_resource_type_version b) 1 \<noteq> ds_resource_type_version s
          then Inl ''draft test module has conflicting selected interface''
          else if \<not> same_material m b then Inl ''draft test module does not match its immutable definition''
          else if opt_or (mb_artifact_digest b) '''' \<noteq> cm_artifact_digest m \<or>
             length (entries (mb_params b)) \<noteq> length (entries (cm_params m))
          then Inl ''draft test module has conflicting artifact or parameter metadata''
          else if \<not> list_all (\<lambda>(k, p). map_of (entries (cm_params m)) k = Some p) (entries (mb_params b))
          then Inl ''draft test module has conflicting parameter declarations''
          else Inr (Some (snapshot_reference s)))"

text \<open>An accepted reference names this module, this version, this organisation.\<close>

lemma draft_reference_identity:
  assumes "DraftTestReferenceFromCatalogue m = Inr (Some r)"
  shows "draft_reference_valid r" "dt_snapshot r = cm_version_uuid m" "dt_module r = cm_module_uuid m"
    "cm_version m = uuid_text (dt_snapshot r)"
  using assms by (auto simp: DraftTestReferenceFromCatalogue_def snapshot_identity_def snapshot_reference_def Let_def
      split: option.splits if_splits)

end
