(* ===== verification/Graph_Types.thy ===== *)
theory Graph_Types
  imports Catalogue
begin

text \<open>
  The resource graph of a Deployment as far as the Data Plane stores and compares it: nodes by
  resource coordinate with the module configuration of
  \<^verbatim>\<open>internal/graphs/graphs.go\<close>, and aliased edges. The graph type itself comes from
  the package \<^verbatim>\<open>platform-orchestrator-graph\<close>; a Go map is the list of its entries in
  the order an iteration visits them, with distinct keys. Further the texts and digests of
  \<^verbatim>\<open>internal/util/util.go\<close>, with SHA-256 as a parameter.
\<close>

section \<open>Graphs\<close>

record coordinate =
  co_type :: string
  co_class :: string
  co_id :: string

record module_config =
  mc_draft_test :: "draft_test_reference option"
  mc_definition_id :: string
  mc_version_id :: string
  mc_resource_type_version :: "int option"
  mc_resource_type_version_uuid :: "uuid option"
  mc_has_inline_source :: bool
  mc_deleted :: bool
  mc_provider_mapping :: "(string \<times> string) list"
  mc_definition :: "catalogue_module option"

text \<open>The node of a graph: the fields this repository reads and writes.\<close>

record graph_node =
  gn_config :: "module_config option"
  gn_params :: "(string \<times> json) list option"
  gn_params_defined_by :: "coordinate option"
  gn_accept_change :: bool
  gn_no_rule :: bool

record graph =
  g_nodes :: "(coordinate \<times> graph_node) list"
  g_edges :: "(coordinate \<times> (string \<times> coordinate) list) list"

definition graph_edges_of :: "graph \<Rightarrow> coordinate \<Rightarrow> (string \<times> coordinate) list" where
  "graph_edges_of g c = (case map_of (g_edges g) c of None \<Rightarrow> [] | Some es \<Rightarrow> es)"

definition graph_wf :: "graph \<Rightarrow> bool" where
  "graph_wf g \<longleftrightarrow> distinct (map fst (g_nodes g)) \<and> distinct (map fst (g_edges g)) \<and>
     list_all (\<lambda>e. distinct (map fst (snd e))) (g_edges g)"

section \<open>Digests\<close>

definition GenerateNodeHash :: "(string \<Rightarrow> string) \<Rightarrow> uuid \<Rightarrow> coordinate \<Rightarrow> string" where
  "GenerateNodeHash sha256_hex environment c =
     sha256_hex (uuid_text environment @ '' '' @ co_type c @ '' '' @ co_class c @ '' '' @ co_id c)"

definition GenerateHashedRunnerToken :: "(string \<Rightarrow> string) \<Rightarrow> string \<Rightarrow> string \<Rightarrow> string \<Rightarrow> string" where
  "GenerateHashedRunnerToken sha256_url secret org deployment = sha256_url (secret @ org @ deployment)"

end
