(* ===== verification/Api_Errors.thy ===== *)
theory Api_Errors
  imports Model_Errors
begin

text \<open>
  The errors the API layer tells apart (what \<^verbatim>\<open>errors.Is\<close> and
  \<^verbatim>\<open>errors.As\<close> find in a chain of wrapped errors) and their HTTP answers:
  \<^verbatim>\<open>createDeploymentErrorResponse\<close> of \<^verbatim>\<open>internal/api/deployments.go\<close>
  and the generators of \<^verbatim>\<open>internal/api/util.go\<close>.
\<close>

datatype create_error =
    ModelFailure model_error
  | AdmissionDenied int string
  | AdmissionUnavailable
  | PlatformFailure int string
  | OtherFailure string

type_synonym 'a created = "create_error + 'a"

fun create_error_text :: "create_error \<Rightarrow> string" where
  "create_error_text (ModelFailure e) = error_text e"
| "create_error_text (AdmissionDenied status code) = ''core denied Deployment admission''"
| "create_error_text AdmissionUnavailable = ''core Deployment admission is unavailable''"
| "create_error_text (PlatformFailure status message) = message"
| "create_error_text (OtherFailure message) = message"

fun failure_Is :: "create_error \<Rightarrow> model_error \<Rightarrow> bool" where
  "failure_Is (ModelFailure e) sentinel = conflict_Is e sentinel"
| "failure_Is _ _ = False"

definition lift_model :: "'a result \<Rightarrow> 'a created" where
  "lift_model r = map_sum ModelFailure id r"

lemma lift_model_simps [simp]: "lift_model (Inl e) = Inl (ModelFailure e)" "lift_model (Inr x) = Inr x"
  by (simp_all add: lift_model_def)

lemma lift_model_Inr [simp]: "lift_model r = Inr x \<longleftrightarrow> r = Inr x"
  by (cases r) simp_all

section \<open>Answers\<close>

record http_answer =
  ans_status :: int
  ans_error :: string
  ans_message :: string

definition Generate400Response :: "string \<Rightarrow> http_answer" where
  "Generate400Response message = \<lparr>ans_status = 400, ans_error = ''HTTP-400'', ans_message = message\<rparr>"

definition Generate409Response :: "string \<Rightarrow> http_answer" where
  "Generate409Response message = \<lparr>ans_status = 409, ans_error = ''HTTP-409'', ans_message = message\<rparr>"

definition Generate409FromModelErr :: "string \<Rightarrow> string \<Rightarrow> http_answer" where
  "Generate409FromModelErr message code =
     (let response = Generate409Response message in if code \<noteq> '''' then response\<lparr>ans_error := code\<rparr> else response)"

definition deploymentAdmissionDeniedResponse :: "int \<Rightarrow> http_answer created" where
  "deploymentAdmissionDeniedResponse status =
     (if status = 400 then Inr (Generate400Response ''Core rejected the Deployment admission request'')
      else if status = 403 then Inl (PlatformFailure 403 ''Core denied Deployment admission'')
      else Inr (Generate409Response ''Deployment admission conflicts with the current Environment state''))"

fun createDeploymentErrorResponse :: "create_error \<Rightarrow> http_answer created" where
  "createDeploymentErrorResponse (AdmissionDenied status code) =
     (case deploymentAdmissionDeniedResponse status of
        Inr response \<Rightarrow> Inr (if ans_status response = 409 \<and> code \<noteq> '''' then response\<lparr>ans_error := code\<rparr> else response)
      | Inl e \<Rightarrow> Inl e)"
| "createDeploymentErrorResponse (ModelFailure (ErrBadRequest message)) = Inr (Generate400Response message)"
| "createDeploymentErrorResponse (ModelFailure (ErrConflict message code _)) = Inr (Generate409FromModelErr message code)"
| "createDeploymentErrorResponse (ModelFailure (ErrNotFound message)) = Inr (Generate409Response message)"
| "createDeploymentErrorResponse e = Inl e"

end
