(* ===== verification/Graphs.thy ===== *)
theory Graphs
  imports Graph_Types Api_Errors
begin

text \<open>
  \<^verbatim>\<open>internal/graphs/graphs.go\<close>, \<^verbatim>\<open>draft_tests.go\<close> and
  \<^verbatim>\<open>resolve.go\<close>: what the Data Plane does with a resource graph around the graph
  library. Two functions of the library are parameters: \<open>dfs\<close>, the order in which
  \<^verbatim>\<open>DepthFirstIterate\<close> visits the coordinates of a graph, and \<open>seed\<close>,
  \<^verbatim>\<open>SeedAndExpandAll\<close>. An iteration over a Go map visits the entries in the order of
  the list.
\<close>

datatype graph_error = UserBadRequest string | GraphFailure string

section \<open>Versions in a graph\<close>

definition pin_text :: "module_config \<Rightarrow> string" where
  "pin_text m = mc_definition_id m @ ''@'' @ mc_version_id m"

definition node_configs :: "graph \<Rightarrow> module_config list" where
  "node_configs g = List.map_filter (\<lambda>n. gn_config (snd n)) (g_nodes g)"

definition FindPinnedDefinitions :: "graph \<Rightarrow> string list" where
  "FindPinnedDefinitions g = sort (remdups (map pin_text (node_configs g)))"

definition activeModuleDefinitions :: "graph \<Rightarrow> string list" where
  "activeModuleDefinitions g = sort (remdups (map pin_text (filter (\<lambda>m. \<not> mc_deleted m) (node_configs g))))"

datatype drift = DriftNone | DriftModuleChange

definition CalculateDrift :: "module_config \<Rightarrow> module_config \<Rightarrow> drift" where
  "CalculateDrift g g2 =
     (if mc_definition_id g2 \<noteq> mc_definition_id g then DriftModuleChange
      else if mc_version_id g2 \<noteq> mc_version_id g then DriftModuleChange
      else DriftNone)"

section \<open>Draft tests a graph retains\<close>

fun retained_loop :: "uuid \<Rightarrow> module_config list \<Rightarrow> (uuid \<times> uuid) list \<Rightarrow> string + (uuid \<times> uuid) list" where
  "retained_loop environment [] result = Inr result"
| "retained_loop environment (m # ms) result =
     (case mc_draft_test m of
        None \<Rightarrow> retained_loop environment ms result
      | Some r \<Rightarrow>
          if \<not> draft_reference_valid r \<or> dt_environment r \<noteq> environment \<or> uuid_text (dt_snapshot r) \<noteq> mc_version_id m
          then Inl ''retained graph has invalid scoped Draft test provenance''
          else if (dt_module r, dt_snapshot r) \<in> set result then retained_loop environment ms result
          else retained_loop environment ms (result @ [(dt_module r, dt_snapshot r)]))"

definition RetainedDraftTestCoordinates :: "graph option \<Rightarrow> uuid \<Rightarrow> string + (uuid \<times> uuid) list" where
  "RetainedDraftTestCoordinates previous environment =
     (case previous of
        None \<Rightarrow> Inr []
      | Some g \<Rightarrow> map_sum id (sort_key (\<lambda>(m, s). uuid_text m @ uuid_text s)) (retained_loop environment (node_configs g) []))"

section \<open>Building a graph\<close>

definition references_valid :: "catalogue_module list \<Rightarrow> string + unit" where
  "references_valid defs = foldr (\<lambda>d r. bindR (DraftTestReferenceFromCatalogue d) (\<lambda>_. r)) defs (Inr ())"

definition module_key :: "catalogue_module \<Rightarrow> string \<times> string" where
  "module_key d = (cm_id d, cm_version d)"

text \<open>A later entry of the catalogue overwrites an earlier one in the lookup table.\<close>

definition lookup_module :: "catalogue_module list \<Rightarrow> string \<Rightarrow> string \<Rightarrow> catalogue_module option" where
  "lookup_module defs i v = find (\<lambda>d. module_key d = (i, v)) (rev defs)"

fun assign_nodes :: "catalogue_module list \<Rightarrow> (coordinate \<times> graph_node) list \<Rightarrow> string + (coordinate \<times> graph_node) list \<times> nat" where
  "assign_nodes defs [] = Inr ([], 0)"
| "assign_nodes defs ((c, n) # ns) =
     (case gn_config n of
        None \<Rightarrow> bindR (assign_nodes defs ns) (\<lambda>(ns', missing). Inr ((c, n) # ns', missing))
      | Some m \<Rightarrow>
          (case lookup_module defs (mc_definition_id m) (mc_version_id m) of
             None \<Rightarrow> bindR (assign_nodes defs ns) (\<lambda>(ns', missing).
               Inr ((c, n\<lparr>gn_accept_change := True, gn_no_rule := True\<rparr>) # ns', Suc missing))
           | Some d \<Rightarrow>
               bindR (DraftTestReferenceFromCatalogue d) (\<lambda>reference.
               if reference \<noteq> mc_draft_test m then Inl ''retained module has conflicting Draft test provenance''
               else bindR (assign_nodes defs ns) (\<lambda>(ns', missing).
                 Inr ((c, n\<lparr>gn_config := Some (m\<lparr>mc_definition := Some d, mc_has_inline_source := cm_source_code d \<noteq> None\<rparr>),
                   gn_accept_change := True\<rparr>) # ns', missing)))))"

definition AssignModuleDefinitionsToGraphNodes :: "graph \<Rightarrow> catalogue_module list \<Rightarrow> string + graph \<times> nat" where
  "AssignModuleDefinitionsToGraphNodes g defs =
     bindR (references_valid defs) (\<lambda>_.
     bindR (assign_nodes defs (g_nodes g)) (\<lambda>(ns, missing). Inr (g\<lparr>g_nodes := ns\<rparr>, missing)))"

record module_definition =
  md_resource_type :: string
  md_configuration :: module_config
  md_rules :: "module_rule list"

definition definition_entry :: "catalogue_module \<Rightarrow> draft_test_reference option \<Rightarrow> module_definition" where
  "definition_entry d reference = \<lparr>md_resource_type = cm_resource_type d,
     md_configuration = \<lparr>mc_draft_test = reference, mc_definition_id = cm_id d, mc_version_id = cm_version d,
       mc_resource_type_version = cm_resource_type_version d, mc_resource_type_version_uuid = cm_resource_type_version_uuid d,
       mc_has_inline_source = cm_source_code d \<noteq> None, mc_deleted = False, mc_provider_mapping = [], mc_definition = Some d\<rparr>,
     md_rules = cm_rules d\<rparr>"

fun buildModuleDefinitionIndex :: "catalogue_module list \<Rightarrow> string + module_definition list" where
  "buildModuleDefinitionIndex [] = Inr []"
| "buildModuleDefinitionIndex (d # ds) =
     bindR (DraftTestReferenceFromCatalogue d) (\<lambda>reference.
     bindR (buildModuleDefinitionIndex ds) (\<lambda>rest. Inr (definition_entry d reference # rest)))"

section \<open>Module parameters\<close>

text \<open>The dynamic type of a decoded JSON value; \<^verbatim>\<open>nil\<close> has none.\<close>

fun doesModuleParamTypeMatch :: "param_type \<Rightarrow> json \<Rightarrow> bool" where
  "doesModuleParamTypeMatch TNumber raw = (case raw of JNum _ \<Rightarrow> True | _ \<Rightarrow> False)"
| "doesModuleParamTypeMatch TBool raw = (case raw of JBool _ \<Rightarrow> True | _ \<Rightarrow> False)"
| "doesModuleParamTypeMatch TList raw = (case raw of JArr _ \<Rightarrow> True | _ \<Rightarrow> False)"
| "doesModuleParamTypeMatch TMap raw = (case raw of JObj _ \<Rightarrow> True | _ \<Rightarrow> False)"
| "doesModuleParamTypeMatch TString raw = (case raw of JStr _ \<Rightarrow> True | _ \<Rightarrow> False)"
| "doesModuleParamTypeMatch TAny raw = True"
| "doesModuleParamTypeMatch (TOther _) raw = False"

text \<open>
  The type assertion to \<^verbatim>\<open>string\<close>: the value or the empty string, and whether it
  held. The first branch asks for a value that is \<^emph>\<open>not\<close> a string.
\<close>

definition as_string :: "json \<Rightarrow> string \<times> bool" where
  "as_string v = (case v of JStr s \<Rightarrow> (s, True) | _ \<Rightarrow> ('''', False))"

definition param_value :: "(string \<times> json) list \<Rightarrow> string \<Rightarrow> json option" where
  "param_value params key = (case map_of params key of None \<Rightarrow> None | Some JNull \<Rightarrow> None | Some v \<Rightarrow> Some v)"

definition check_param :: "(string \<times> json) list \<Rightarrow> string \<times> module_param \<Rightarrow> graph_error + unit" where
  "check_param params e =
     (case param_value params (fst e) of
        None \<Rightarrow> guardR (par_optional (snd e)) (UserBadRequest ''uses module which requires param to be set'')
      | Some v \<Rightarrow>
          let (s, ok) = as_string v in
          if \<not> ok \<and> has_prefix s ''${'' \<and> has_suffix s ''}'' then Inr ()
          else guardR (doesModuleParamTypeMatch (par_type (snd e)) v)
            (UserBadRequest ''uses module which expects param to be of another type''))"

definition validateModuleParamInner :: "catalogue_module \<Rightarrow> (string \<times> json) list \<Rightarrow> graph_error + unit" where
  "validateModuleParamInner d params =
     bindR (foldr (\<lambda>e r. bindR (check_param params e) (\<lambda>_. r)) (entries (cm_params d)) (Inr ())) (\<lambda>_.
     guardR (list_all (\<lambda>(k, v). k \<in> fst ` set (entries (cm_params d))) params)
       (UserBadRequest ''uses module which does not define module_param''))"

text \<open>A node whose module has no definition cannot be validated: the Go code dereferences nil.\<close>

definition validate_node :: "graph_node \<Rightarrow> graph_error + unit" where
  "validate_node n =
     (case gn_config n of
        None \<Rightarrow> Inr ()
      | Some m \<Rightarrow> (case mc_definition m of
            None \<Rightarrow> Inl (GraphFailure ''nil pointer dereference'')
          | Some d \<Rightarrow> validateModuleParamInner d (entries (gn_params n))))"

definition graph_node_at :: "graph \<Rightarrow> coordinate \<Rightarrow> graph_node" where
  "graph_node_at g c = (case map_of (g_nodes g) c of Some n \<Rightarrow> n
     | None \<Rightarrow> \<lparr>gn_config = None, gn_params = None, gn_params_defined_by = None, gn_accept_change = False, gn_no_rule = False\<rparr>)"

definition validateModuleParams :: "(graph \<Rightarrow> coordinate list) \<Rightarrow> graph \<Rightarrow> graph_error + unit" where
  "validateModuleParams dfs g = foldr (\<lambda>c r. bindR (validate_node (graph_node_at g c)) (\<lambda>_. r)) (dfs g) (Inr ())"

definition lift_graph :: "string + 'a \<Rightarrow> graph_error + 'a" where
  "lift_graph r = map_sum GraphFailure id r"

text \<open>The new graph, and the last graph with the definitions the call has assigned to its nodes.\<close>

definition BuildGraph ::
  "(graph \<Rightarrow> coordinate list) \<Rightarrow> ('m \<Rightarrow> module_definition list \<Rightarrow> graph option \<Rightarrow> graph_error + graph) \<Rightarrow> 'm \<Rightarrow> catalogue_module list
     \<Rightarrow> graph option \<Rightarrow> graph_error + graph \<times> graph option" where
  "BuildGraph dfs seed manifest defs lastGraph =
     bindR (lift_graph (references_valid defs)) (\<lambda>_.
     bindR (case lastGraph of None \<Rightarrow> Inr None
       | Some g \<Rightarrow> bindR (lift_graph (AssignModuleDefinitionsToGraphNodes g defs)) (\<lambda>(g', _). Inr (Some g'))) (\<lambda>assigned.
     bindR (lift_graph (buildModuleDefinitionIndex defs)) (\<lambda>index.
     bindR (seed manifest index assigned) (\<lambda>new.
     bindR (validateModuleParams dfs new) (\<lambda>_. Inr (new, assigned))))))"

section \<open>Deleted nodes\<close>

definition cloneModuleConfiguration :: "module_config \<Rightarrow> bool \<Rightarrow> module_config" where
  "cloneModuleConfiguration m deleted = m\<lparr>mc_deleted := deleted\<rparr>"

definition deleted_node :: "module_config \<Rightarrow> graph_node" where
  "deleted_node m = \<lparr>gn_config = Some ((cloneModuleConfiguration m True)\<lparr>mc_has_inline_source := False\<rparr>),
     gn_params = None, gn_params_defined_by = None, gn_accept_change = False, gn_no_rule = False\<rparr>"

definition put_edges :: "coordinate \<Rightarrow> (string \<times> coordinate) list \<Rightarrow> graph \<Rightarrow> graph" where
  "put_edges c es g = g\<lparr>g_edges := filter (\<lambda>e. fst e \<noteq> c) (g_edges g) @ [(c, es)]\<rparr>"

definition add_deleted_node :: "graph \<Rightarrow> bool \<Rightarrow> coordinate \<Rightarrow> graph \<Rightarrow> graph" where
  "add_deleted_node lastGraph includeDeleted c g =
     (if c \<in> fst ` set (g_nodes g) then g
      else case gn_config (graph_node_at lastGraph c) of
        None \<Rightarrow> g
      | Some m \<Rightarrow>
          if mc_deleted m \<and> \<not> includeDeleted then g
          else put_edges c (graph_edges_of lastGraph c) (g\<lparr>g_nodes := g_nodes g @ [(c, deleted_node m)]\<rparr>))"

definition AddDeletedNodes :: "(graph \<Rightarrow> coordinate list) \<Rightarrow> graph \<Rightarrow> graph option \<Rightarrow> bool \<Rightarrow> graph" where
  "AddDeletedNodes dfs newGraph lastGraph includeDeleted =
     (case lastGraph of None \<Rightarrow> newGraph | Some l \<Rightarrow> fold (add_deleted_node l includeDeleted) (dfs l) newGraph)"

section \<open>Resolved nodes\<close>

record resolved_node =
  rs_hash :: string
  rs_coordinate :: coordinate
  rs_definition :: string
  rs_version :: string
  rs_edges :: "(string \<times> string) list"

definition ResolveNodes :: "(uuid \<Rightarrow> coordinate \<Rightarrow> string) \<Rightarrow> graph \<Rightarrow> uuid \<Rightarrow> resolved_node list" where
  "ResolveNodes hash g environment = List.map_filter (\<lambda>(c, n).
     if (case gn_config n of None \<Rightarrow> False | Some m \<Rightarrow> mc_deleted m) then None
     else Some \<lparr>rs_hash = hash environment c, rs_coordinate = c,
       rs_definition = (case gn_config n of None \<Rightarrow> '''' | Some m \<Rightarrow> mc_definition_id m),
       rs_version = (case gn_config n of None \<Rightarrow> '''' | Some m \<Rightarrow> mc_version_id m),
       rs_edges = map (\<lambda>(alias, target). (alias, if target \<in> fst ` set (g_nodes g) then hash environment target else ''''))
         (graph_edges_of g c)\<rparr>) (g_nodes g)"

end
