(* ===== verification/Admissions.thy ===== *)
theory Admissions
  imports Catalogue
begin

text \<open>
  \<^verbatim>\<open>internal/model/deployment_admissions.go\<close>: the durable receipts of the admissions
  the Data Plane asks Core for. A receipt is written as pending before the request, bound to the
  Deployment in the transaction that creates it or sealed absent, and settled when Core confirmed
  the outcome. Stored maps and slices are never nil, so \<^verbatim>\<open>reflect.DeepEqual\<close> is
  equality of their entries.
\<close>

section \<open>Constraints of the table\<close>

definition uuid_shaped :: "string \<Rightarrow> bool" where
  "uuid_shaped s \<longleftrightarrow> map length (split_on (CHR ''-'') s) = [8, 4, 4, 4, 12] \<and>
     list_all (\<lambda>c. c = CHR ''-'' \<or> lower_hex c) s \<and> s \<noteq> uuid_text uuid_nil"

definition draft_selection_valid :: "(string \<times> uuid) list \<Rightarrow> (string \<times> uuid) list \<Rightarrow> bool" where
  "draft_selection_valid selection targets \<longleftrightarrow>
     list_all (\<lambda>(k, v). uuid_shaped k \<and> v \<noteq> uuid_nil \<and> map_of targets k = Some v) selection"

definition admission_outcomes :: "string list" where
  "admission_outcomes = [''succeeded'', ''failed'', ''cancelled'', ''terminated'', ''absent'']"

definition disposition_check :: "admission_row \<Rightarrow> bool" where
  "disposition_check r \<longleftrightarrow> (case adm_disposition r of
       Pending \<Rightarrow> adm_deployment r = None \<and> adm_terminal_outcome r = None \<and> adm_core_epoch r = 0 \<and> adm_core_settled_at r = None
     | Committed \<Rightarrow> adm_deployment r \<noteq> None \<and> adm_core_epoch r > 0 \<and> adm_terminal_outcome r \<noteq> Some ''absent''
     | Absent \<Rightarrow> adm_deployment r = None \<and> adm_terminal_outcome r = Some ''absent'')"

definition admission_check :: "admission_row \<Rightarrow> bool" where
  "admission_check r \<longleftrightarrow> length (adm_request_digest r) = 64 \<and> list_all lower_hex (adm_request_digest r) \<and>
     (adm_mode r = ModeDeploy \<or> adm_mode r = ModeRollback \<or> adm_mode r = ModeDestroy) \<and> adm_core_epoch r \<ge> 0 \<and>
     disposition_check r \<and> (adm_core_settled_at r = None \<or> adm_core_epoch r > 0) \<and>
     (case adm_terminal_outcome r of None \<Rightarrow> True | Some t \<Rightarrow> t \<in> set admission_outcomes) \<and>
     draft_selection_valid (adm_draft_tests r) (adm_module_versions r)"

definition admission_key :: "admission_row \<Rightarrow> string \<times> uuid" where
  "admission_key r = (adm_org r, adm_id r)"

section \<open>Operations\<close>

definition readDeploymentAdmissionReceipt :: "database \<Rightarrow> string \<Rightarrow> uuid \<Rightarrow> uuid \<Rightarrow> admission_row result" where
  "readDeploymentAdmissionReceipt db org i deployment =
     (case (if deployment \<noteq> uuid_nil then find (\<lambda>r. adm_deployment r = Some deployment) (admissions db)
            else lookup_row admission_key (org, i) (admissions db)) of
        None \<Rightarrow> Inl (ErrNotFound ''Deployment admission receipt not found'')
      | Some r \<Rightarrow> Inr r)"

definition GetDeploymentAdmissionReceipt :: "database \<Rightarrow> string \<Rightarrow> uuid \<Rightarrow> admission_row result" where
  "GetDeploymentAdmissionReceipt db org i = readDeploymentAdmissionReceipt db org i uuid_nil"

definition GetDeploymentAdmissionReceiptByDeployment :: "database \<Rightarrow> uuid \<Rightarrow> admission_row result" where
  "GetDeploymentAdmissionReceiptByDeployment db deployment = readDeploymentAdmissionReceipt db '''' uuid_nil deployment"

text \<open>\<^verbatim>\<open>receiptIntentIdentity\<close>, compared.\<close>

definition same_intent :: "admission_row \<Rightarrow> admission_row \<Rightarrow> bool" where
  "same_intent a b \<longleftrightarrow> admission_key a = admission_key b \<and> adm_project a = adm_project b \<and> adm_environment a = adm_environment b \<and>
     adm_actor a = adm_actor b \<and> adm_request_digest a = adm_request_digest b \<and> adm_mode a = adm_mode b \<and>
     set (adm_module_versions a) = set (adm_module_versions b) \<and> set (adm_carry_forward a) = set (adm_carry_forward b) \<and>
     adm_confirmed_restricted a = adm_confirmed_restricted b \<and> set (adm_draft_tests a) = set (adm_draft_tests b)"

definition PrepareDeploymentAdmissionReceipt :: "instant \<Rightarrow> database \<Rightarrow> admission_row \<Rightarrow> (admission_row \<times> database) result" where
  "PrepareDeploymentAdmissionReceipt now db r =
     (if adm_org r = '''' \<or> adm_id r = uuid_nil \<or> adm_project r = uuid_nil \<or> adm_environment r = uuid_nil \<or>
         adm_actor r = uuid_nil \<or> adm_request_digest r = '''' \<or> adm_core_epoch r \<noteq> 0 \<or> adm_disposition r \<noteq> Pending \<or>
         adm_deployment r \<noteq> None \<or> adm_terminal_outcome r \<noteq> None
      then Inl (ErrBadRequest ''complete Deployment admission receipt identity is required'')
      else case readDeploymentAdmissionReceipt db (adm_org r) (adm_id r) uuid_nil of
        Inr existing \<Rightarrow>
          if \<not> same_intent existing r
          then Inl (NewErrConflict ''Deployment admission identity already has a different durable outcome'')
          else Inr (existing, db)
      | Inl _ \<Rightarrow>
          let row = r\<lparr>adm_core_settled_at := None, adm_created_at := now\<rparr> in
          if \<not> admission_check row then Inl (ErrInternal ''failed to create Deployment admission receipt'')
          else Inr (row, db\<lparr>admissions := admissions db @ [row]\<rparr>))"

definition update_pending :: "string \<Rightarrow> uuid \<Rightarrow> (admission_row \<Rightarrow> admission_row) \<Rightarrow> database \<Rightarrow> database" where
  "update_pending org i f db =
     db\<lparr>admissions := update_rows (\<lambda>r. admission_key r = (org, i) \<and> adm_disposition r = Pending) f (admissions db)\<rparr>"

definition bind_row :: "uuid \<Rightarrow> int \<Rightarrow> admission_row \<Rightarrow> admission_row" where
  "bind_row deployment epoch r = r\<lparr>adm_disposition := Committed, adm_deployment := Some deployment, adm_core_epoch := epoch\<rparr>"

definition seal_row :: "int \<Rightarrow> admission_row \<Rightarrow> admission_row" where
  "seal_row epoch r = r\<lparr>adm_disposition := Absent, adm_terminal_outcome := Some ''absent'', adm_core_epoch := epoch\<rparr>"

definition BindDeploymentAdmissionReceipt ::
  "database \<Rightarrow> admission_row \<Rightarrow> uuid \<Rightarrow> int \<Rightarrow> (admission_row \<times> database) result" where
  "BindDeploymentAdmissionReceipt db intent deployment epoch =
     (if deployment = uuid_nil \<or> epoch \<le> 0
      then Inl (ErrBadRequest ''authorized Deployment admission and Deployment ID are required'')
      else bindR (GetDeploymentAdmissionReceipt db (adm_org intent) (adm_id intent)) (\<lambda>existing.
        if \<not> same_intent existing intent then Inl (NewErrConflict ''Deployment admission intent changed before binding'')
        else if adm_disposition existing = Committed \<and> adm_deployment existing = Some deployment \<and> adm_core_epoch existing = epoch
        then Inr (existing, db)
        else if adm_disposition existing \<noteq> Pending
        then Inl (NewErrConflict ''Deployment admission already has a different durable outcome'')
        else if exists_row (\<lambda>r. adm_deployment r = Some deployment) (admissions db)
        then Inl (ErrInternal ''failed to bind Deployment admission receipt'')
        else let db' = update_pending (adm_org intent) (adm_id intent) (bind_row deployment epoch) db in
          bindR (readDeploymentAdmissionReceipt db' (adm_org intent) (adm_id intent) uuid_nil) (\<lambda>r. Inr (r, db'))))"

definition SealDeploymentAdmissionAbsent :: "database \<Rightarrow> admission_row \<Rightarrow> int \<Rightarrow> (admission_row \<times> database) result" where
  "SealDeploymentAdmissionAbsent db intent epoch =
     (if epoch < 0 then Inl (ErrBadRequest ''Deployment admission transaction and valid Core epoch are required'')
      else bindR (GetDeploymentAdmissionReceipt db (adm_org intent) (adm_id intent)) (\<lambda>existing.
        if \<not> same_intent existing intent then Inl (NewErrConflict ''Deployment admission intent changed before sealing absence'')
        else if adm_disposition existing = Committed
        then Inl (NewErrConflict ''committed Deployment admission cannot be sealed absent'')
        else if adm_disposition existing = Absent then Inr (existing, db)
        else let db' = update_pending (adm_org intent) (adm_id intent) (seal_row epoch) db in
          bindR (readDeploymentAdmissionReceipt db' (adm_org intent) (adm_id intent) uuid_nil) (\<lambda>r. Inr (r, db'))))"

text \<open>The zero \<^verbatim>\<open>time.Time\<close> is \<open>None\<close>.\<close>

definition ListUnsettledDeploymentAdmissionReceipts :: "database \<Rightarrow> int \<Rightarrow> instant option \<Rightarrow> admission_row list result" where
  "ListUnsettledDeploymentAdmissionReceipts db limit createdBefore =
     (case createdBefore of
        Some cutoff \<Rightarrow>
          if limit < 1 \<or> limit > 1000
          then Inl (ErrBadRequest ''transaction, bounded receipt limit and recovery cutoff are required'')
          else Inr (take (nat limit) (sort_key (\<lambda>r. (adm_created_at r, adm_org r, adm_id r))
            (filter (\<lambda>r. adm_core_settled_at r = None \<and> adm_created_at r \<le> cutoff) (admissions db))))
      | None \<Rightarrow> Inl (ErrBadRequest ''transaction, bounded receipt limit and recovery cutoff are required''))"

definition settle_matches :: "string \<Rightarrow> uuid \<Rightarrow> string \<Rightarrow> int \<Rightarrow> admission_row \<Rightarrow> bool" where
  "settle_matches org i outcome epoch r \<longleftrightarrow> admission_key r = (org, i) \<and>
     (adm_terminal_outcome r = None \<or> adm_terminal_outcome r = Some outcome) \<and>
     (adm_core_epoch r = 0 \<or> adm_core_epoch r = epoch) \<and>
     (adm_disposition r = Absent \<and> outcome = ''absent'' \<or> adm_disposition r = Committed \<and> outcome \<noteq> ''absent'')"

definition MarkDeploymentAdmissionCoreSettled ::
  "instant \<Rightarrow> database \<Rightarrow> string \<Rightarrow> uuid \<Rightarrow> string \<Rightarrow> int \<Rightarrow> database result" where
  "MarkDeploymentAdmissionCoreSettled now db org i outcome epoch =
     (if epoch \<le> 0 then Inl (ErrBadRequest ''positive Core admission epoch is required'')
      else if \<not> exists_row (settle_matches org i outcome epoch) (admissions db)
      then Inl (NewErrConflict ''Deployment admission settlement identity changed'')
      else if outcome \<notin> set admission_outcomes then Inl (ErrInternal ''failed to mark Deployment admission settled'')
      else Inr (db\<lparr>admissions := update_rows (settle_matches org i outcome epoch)
        (\<lambda>r. r\<lparr>adm_terminal_outcome := Some outcome, adm_core_epoch := epoch, adm_core_settled_at := Some now\<rparr>) (admissions db)\<rparr>))"

section \<open>The invariant\<close>

text \<open>Beyond the constraints: a bound identity is not nil, and an outcome is recorded when Core settled it.\<close>

definition receipt_ok :: "admission_row \<Rightarrow> bool" where
  "receipt_ok r \<longleftrightarrow> admission_check r \<and> adm_deployment r \<noteq> Some uuid_nil \<and>
     (adm_disposition r = Committed \<longrightarrow> adm_core_settled_at r = None \<longrightarrow> adm_terminal_outcome r = None)"

definition admission_inv :: "database \<Rightarrow> bool" where
  "admission_inv db \<longleftrightarrow> distinct (map admission_key (admissions db)) \<and> list_all receipt_ok (admissions db) \<and>
     (\<forall>a \<in> set (admissions db). \<forall>b \<in> set (admissions db). \<forall>d. adm_deployment a = Some d \<longrightarrow> adm_deployment b = Some d \<longrightarrow> a = b)"

text \<open>What may happen to a receipt.\<close>

definition evolves :: "admission_row \<Rightarrow> admission_row \<Rightarrow> bool" where
  "evolves r r' \<longleftrightarrow> same_intent r r' \<and>
     (case adm_disposition r of
        Pending \<Rightarrow> True
      | Committed \<Rightarrow> adm_disposition r' = Committed \<and> adm_deployment r' = adm_deployment r \<and> adm_core_epoch r' = adm_core_epoch r
      | Absent \<Rightarrow> adm_disposition r' = Absent \<and> (adm_core_epoch r = 0 \<or> adm_core_epoch r' = adm_core_epoch r)) \<and>
     (\<forall>t. adm_terminal_outcome r = Some t \<longrightarrow> adm_terminal_outcome r' = Some t) \<and>
     (adm_core_settled_at r \<noteq> None \<longrightarrow> adm_core_settled_at r' \<noteq> None)"

lemma same_intent_refl [simp]: "same_intent r r"
  by (simp add: same_intent_def)

lemma same_intent_trans: "same_intent a b \<Longrightarrow> same_intent b c \<Longrightarrow> same_intent a c"
  by (simp add: same_intent_def)

lemma same_intent_sym: "same_intent a b \<Longrightarrow> same_intent b a"
  by (simp add: same_intent_def)

lemma evolves_refl [simp]: "evolves r r"
  by (simp add: evolves_def split: admission_disposition.splits)

lemma evolves_trans: "evolves a b \<Longrightarrow> evolves b c \<Longrightarrow> evolves a c"
  unfolding evolves_def
  by (cases "adm_disposition a"; cases "adm_disposition b") (auto intro: same_intent_trans)

definition receipts_evolve :: "database \<Rightarrow> database \<Rightarrow> bool" where
  "receipts_evolve db db' \<longleftrightarrow> (\<forall>r \<in> set (admissions db). \<exists>r' \<in> set (admissions db'). evolves r r')"

lemma receipts_evolve_refl [simp]: "receipts_evolve db db"
  by (auto simp: receipts_evolve_def intro: evolves_refl)

lemma receipts_evolve_trans: "receipts_evolve a b \<Longrightarrow> receipts_evolve b c \<Longrightarrow> receipts_evolve a c"
  unfolding receipts_evolve_def by (meson evolves_trans)

text \<open>An update that lets every matching row evolve, keeps the constraints and adds no second owner of a Deployment.\<close>

lemma update_receipts:
  assumes "admission_inv db" "db' = db\<lparr>admissions := update_rows p f (admissions db)\<rparr>"
    and step: "\<And>r. r \<in> set (admissions db) \<Longrightarrow> p r \<Longrightarrow> evolves r (f r) \<and> receipt_ok (f r)"
    and owner: "\<And>a b d. a \<in> set (admissions db) \<Longrightarrow> b \<in> set (admissions db) \<Longrightarrow> p a \<Longrightarrow>
        adm_deployment (f a) = Some d \<Longrightarrow> adm_deployment (if p b then f b else b) = Some d \<Longrightarrow> a = b"
  shows "admission_inv db' \<and> receipts_evolve db db'"
proof (intro conjI)
  let ?u = "update_rows p f (admissions db)"
  have key: "admission_key (f r) = admission_key r" if "r \<in> set (admissions db)" "p r" for r
    using step [OF that] by (simp add: evolves_def same_intent_def)
  have map: "map admission_key ?u = map admission_key (admissions db)"
    unfolding update_rows_def using key by (simp add: comp_def)
  have img: "set ?u = (\<lambda>r. if p r then f r else r) ` set (admissions db)" by (rule set_update_rows)
  have "receipt_ok x" if "x \<in> set ?u" for x
    using that step assms(1) unfolding img admission_inv_def list_all_iff by auto
  moreover have "x = y" if xy: "x \<in> set ?u" "y \<in> set ?u" "adm_deployment x = Some d" "adm_deployment y = Some d" for x y d
  proof -
    obtain a b where a: "a \<in> set (admissions db)" "x = (if p a then f a else a)"
      and b: "b \<in> set (admissions db)" "y = (if p b then f b else b)" using xy(1,2) unfolding img by blast
    show ?thesis
      using owner [OF a(1) b(1)] owner [OF b(1) a(1)] xy(3,4) a b assms(1) unfolding admission_inv_def
      by (cases "p a"; cases "p b") auto
  qed
  ultimately show "admission_inv db'"
    using assms(1,2) map by (auto simp: admission_inv_def list_all_iff)
  show "receipts_evolve db db'"
    unfolding receipts_evolve_def
  proof
    fix r assume r: "r \<in> set (admissions db)"
    show "\<exists>r' \<in> set (admissions db'). evolves r r'"
    proof (cases "p r")
      case True
      then show ?thesis using step [OF r] update_rows_hit [OF r, of p f] unfolding assms(2) by auto
    next
      case False
      then show ?thesis using update_rows_miss [OF r, of p f] evolves_refl [of r] unfolding assms(2) by (auto intro: bexI [of _ r])
    qed
  qed
qed

lemma read_receipt:
  assumes "readDeploymentAdmissionReceipt db org i uuid_nil = Inr r"
  shows "r \<in> set (admissions db)" "admission_key r = (org, i)"
  using assms by (auto simp: readDeploymentAdmissionReceipt_def split: option.splits dest: lookup_row_in_set lookup_row_key)

lemma Prepare_step:
  assumes "PrepareDeploymentAdmissionReceipt now db r = Inr (row, db')" "admission_inv db"
  shows "admission_inv db'" "receipts_evolve db db'"
proof -
  have "admission_inv db' \<and> receipts_evolve db db'"
  proof (cases "readDeploymentAdmissionReceipt db (adm_org r) (adm_id r) uuid_nil")
    case (Inr existing)
    with assms show ?thesis by (auto simp: PrepareDeploymentAdmissionReceipt_def split: if_splits)
  next
    case (Inl e)
    then have "(adm_org r, adm_id r) \<notin> admission_key ` set (admissions db)"
      by (auto simp: readDeploymentAdmissionReceipt_def lookup_row_None split: option.splits)
    moreover from Inl assms(1) have row: "row = r\<lparr>adm_core_settled_at := None, adm_created_at := now\<rparr>" "receipt_ok row"
      "db' = db\<lparr>admissions := admissions db @ [row]\<rparr>" "adm_deployment row = None"
      by (auto simp: PrepareDeploymentAdmissionReceipt_def receipt_ok_def Let_def split: if_splits)
    ultimately show ?thesis
      using assms(2) by (auto simp: admission_inv_def admission_key_def receipts_evolve_def intro: evolves_refl)
  qed
  then show "admission_inv db'" "receipts_evolve db db'" by simp_all
qed

lemma receipt_checked: "admission_inv db \<Longrightarrow> r \<in> set (admissions db) \<Longrightarrow> receipt_ok r"
  by (simp add: admission_inv_def list_all_iff)

lemma same_key_eq: "admission_inv db \<Longrightarrow> a \<in> set (admissions db) \<Longrightarrow> b \<in> set (admissions db) \<Longrightarrow>
    admission_key a = admission_key b \<Longrightarrow> a = b"
  unfolding admission_inv_def distinct_map by (meson inj_onD)

lemma bind_row_evolves:
  "adm_disposition r = Pending \<Longrightarrow> receipt_ok r \<Longrightarrow> epoch > 0 \<Longrightarrow> d \<noteq> uuid_nil \<Longrightarrow>
     evolves r (bind_row d epoch r) \<and> receipt_ok (bind_row d epoch r)"
  by (auto simp: receipt_ok_def evolves_def bind_row_def same_intent_def admission_key_def admission_check_def disposition_check_def)

lemma seal_row_evolves:
  "adm_disposition r = Pending \<Longrightarrow> receipt_ok r \<Longrightarrow> epoch \<ge> 0 \<Longrightarrow> evolves r (seal_row epoch r) \<and> receipt_ok (seal_row epoch r)"
  by (auto simp: receipt_ok_def evolves_def seal_row_def same_intent_def admission_key_def admission_check_def disposition_check_def admission_outcomes_def)

lemma Bind_step:
  assumes b: "BindDeploymentAdmissionReceipt db intent d epoch = Inr (row, db')" and i: "admission_inv db"
  shows "admission_inv db'" "receipts_evolve db db'"
proof -
  have "admission_inv db' \<and> receipts_evolve db db'"
  proof (cases "db' = db")
    case False
    with b have new: "\<not> exists_row (\<lambda>r. adm_deployment r = Some d) (admissions db)" "epoch > 0" "d \<noteq> uuid_nil"
      and u: "db' = db\<lparr>admissions := update_rows (\<lambda>r. admission_key r = (adm_org intent, adm_id intent) \<and> adm_disposition r = Pending)
         (bind_row d epoch) (admissions db)\<rparr>"
      by (auto simp: BindDeploymentAdmissionReceipt_def update_pending_def Let_def split: if_splits)
    show ?thesis
    proof (rule update_receipts [OF i u])
      fix r assume "r \<in> set (admissions db)" "admission_key r = (adm_org intent, adm_id intent) \<and> adm_disposition r = Pending"
      then show "evolves r (bind_row d epoch r) \<and> receipt_ok (bind_row d epoch r)"
        using bind_row_evolves receipt_checked [OF i] new(2,3) by blast
    next
      fix a b e assume ab: "a \<in> set (admissions db)" "b \<in> set (admissions db)"
        "admission_key a = (adm_org intent, adm_id intent) \<and> adm_disposition a = Pending"
        "adm_deployment (bind_row d epoch a) = Some e"
        "adm_deployment (if admission_key b = (adm_org intent, adm_id intent) \<and> adm_disposition b = Pending then bind_row d epoch b else b) = Some e"
      then show "a = b" using new(1) same_key_eq [OF i ab(1,2)] by (auto simp: bind_row_def split: if_splits)
    qed
  qed (use i in simp)
  then show "admission_inv db'" "receipts_evolve db db'" by simp_all
qed

lemma Seal_step:
  assumes s: "SealDeploymentAdmissionAbsent db intent epoch = Inr (row, db')" and i: "admission_inv db"
  shows "admission_inv db'" "receipts_evolve db db'"
proof -
  have "admission_inv db' \<and> receipts_evolve db db'"
  proof (cases "db' = db")
    case False
    with s have e: "epoch \<ge> 0"
      and u: "db' = db\<lparr>admissions := update_rows (\<lambda>r. admission_key r = (adm_org intent, adm_id intent) \<and> adm_disposition r = Pending)
         (seal_row epoch) (admissions db)\<rparr>"
      by (auto simp: SealDeploymentAdmissionAbsent_def update_pending_def Let_def split: if_splits)
    have c: "evolves r (seal_row epoch r) \<and> receipt_ok (seal_row epoch r)"
      if "r \<in> set (admissions db)" "admission_key r = (adm_org intent, adm_id intent) \<and> adm_disposition r = Pending" for r
      using that seal_row_evolves receipt_checked [OF i] e by blast
    have n: "adm_deployment (seal_row epoch r) = None"
      if "r \<in> set (admissions db)" "admission_key r = (adm_org intent, adm_id intent) \<and> adm_disposition r = Pending" for r
      using that receipt_checked [OF i, of r] by (auto simp: seal_row_def receipt_ok_def admission_check_def disposition_check_def)
    show ?thesis by (rule update_receipts [OF i u]) (use c n in auto)
  qed (use i in simp)
  then show "admission_inv db'" "receipts_evolve db db'" by simp_all
qed

lemma settle_matchesD:
  assumes "settle_matches org k outcome epoch r"
  shows "adm_terminal_outcome r = None \<or> adm_terminal_outcome r = Some outcome" "adm_core_epoch r = 0 \<or> adm_core_epoch r = epoch"
    "adm_disposition r \<noteq> Pending" "adm_disposition r = Absent \<longleftrightarrow> outcome = ''absent''"
  using assms unfolding settle_matches_def by (auto simp del: list.inject)

lemma settle_row_evolves:
  assumes m: "settle_matches org k outcome epoch r" and c: "receipt_ok r"
  shows "evolves r (r\<lparr>adm_terminal_outcome := Some outcome, adm_core_epoch := epoch, adm_core_settled_at := Some now\<rparr>)"
proof -
  note d = settle_matchesD [OF m]
  have "adm_core_epoch r > 0" if "adm_disposition r = Committed"
    using c that by (simp add: receipt_ok_def admission_check_def disposition_check_def)
  with d(1-3) show ?thesis
    by (cases "adm_disposition r") (auto simp: evolves_def same_intent_def admission_key_def)
qed

lemma settle_row_check:
  assumes m: "settle_matches org k outcome epoch r" and c: "receipt_ok r" and "epoch > 0" "outcome \<in> set admission_outcomes"
  shows "receipt_ok (r\<lparr>adm_terminal_outcome := Some outcome, adm_core_epoch := epoch, adm_core_settled_at := Some now\<rparr>)"
proof -
  note d = settle_matchesD [OF m]
  have "disposition_check (r\<lparr>adm_terminal_outcome := Some outcome, adm_core_epoch := epoch, adm_core_settled_at := Some now\<rparr>)"
    using c d(3,4) assms(3) by (cases "adm_disposition r") (simp_all add: receipt_ok_def admission_check_def disposition_check_def)
  with c assms(3,4) show ?thesis by (simp add: receipt_ok_def admission_check_def)
qed

lemma Mark_step:
  assumes m: "MarkDeploymentAdmissionCoreSettled now db org k outcome epoch = Inr db'" and i: "admission_inv db"
  shows "admission_inv db'" "receipts_evolve db db'"
proof -
  let ?p = "settle_matches org k outcome epoch"
  let ?f = "\<lambda>r. r\<lparr>adm_terminal_outcome := Some outcome, adm_core_epoch := epoch, adm_core_settled_at := Some now\<rparr>"
  have o: "epoch > 0" "outcome \<in> set admission_outcomes" and u: "db' = db\<lparr>admissions := update_rows ?p ?f (admissions db)\<rparr>"
    using m by (auto simp: MarkDeploymentAdmissionCoreSettled_def split: if_splits)
  have c: "evolves r (?f r) \<and> receipt_ok (?f r)" if "r \<in> set (admissions db)" "?p r" for r
    using that(2) receipt_checked [OF i that(1)] o by (intro conjI settle_row_evolves settle_row_check)
  have w: "a = b" if "a \<in> set (admissions db)" "b \<in> set (admissions db)" "adm_deployment a = Some d" "adm_deployment b = Some d" for a b d
    using that i unfolding admission_inv_def by blast
  have "admission_inv db' \<and> receipts_evolve db db'"
    by (rule update_receipts [OF i u]) (use c w in \<open>auto split: if_splits\<close>)
  then show "admission_inv db'" "receipts_evolve db db'" by simp_all
qed

section \<open>Steps\<close>

inductive admission_step :: "database \<Rightarrow> database \<Rightarrow> bool" where
  prepare: "PrepareDeploymentAdmissionReceipt now db r = Inr (row, db') \<Longrightarrow> admission_step db db'"
| bind: "BindDeploymentAdmissionReceipt db intent d epoch = Inr (row, db') \<Longrightarrow> admission_step db db'"
| seal: "SealDeploymentAdmissionAbsent db intent epoch = Inr (row, db') \<Longrightarrow> admission_step db db'"
| settle: "MarkDeploymentAdmissionCoreSettled now db org i outcome epoch = Inr db' \<Longrightarrow> admission_step db db'"

lemma admission_step_evolves:
  "admission_step db db' \<Longrightarrow> admission_inv db \<Longrightarrow> admission_inv db' \<and> receipts_evolve db db'"
  by (induction rule: admission_step.induct) (auto dest: Prepare_step Bind_step Seal_step Mark_step)

lemma admission_steps_evolve:
  "admission_step\<^sup>*\<^sup>* db db' \<Longrightarrow> admission_inv db \<Longrightarrow> admission_inv db' \<and> receipts_evolve db db'"
proof (induction rule: rtranclp_induct)
  case (step y z)
  then show ?case using admission_step_evolves receipts_evolve_trans by blast
qed simp

lemma read_evolved:
  assumes "admission_inv db'" "receipts_evolve db db'" "r \<in> set (admissions db)" "admission_key r = (org, i)"
  obtains r' where "GetDeploymentAdmissionReceipt db' org i = Inr r'" "evolves r r'"
proof -
  obtain r' where r': "r' \<in> set (admissions db')" "evolves r r'" using assms(2,3) unfolding receipts_evolve_def by blast
  then have "admission_key r' = (org, i)" using assms(4) by (simp add: evolves_def same_intent_def)
  then have "lookup_row admission_key (org, i) (admissions db') = Some r'"
    using assms(1) r'(1) lookup_row_distinct [of admission_key "admissions db'" r'] by (simp add: admission_inv_def)
  then show ?thesis using that [of r'] r'(2)
    by (simp add: GetDeploymentAdmissionReceipt_def readDeploymentAdmissionReceipt_def)
qed

text \<open>A pending receipt that is bound or sealed is read back changed.\<close>

lemma read_update_pending:
  assumes "GetDeploymentAdmissionReceipt db org i = Inr r" "adm_disposition r = Pending" "\<And>r. admission_key (f r) = admission_key r"
  shows "readDeploymentAdmissionReceipt (update_pending org i f db) org i uuid_nil = Inr (f r)"
proof -
  from assms(1) have l: "lookup_row admission_key (org, i) (admissions db) = Some r"
    by (simp add: GetDeploymentAdmissionReceipt_def readDeploymentAdmissionReceipt_def split: option.splits)
  then have "admission_key r = (org, i)" by (rule lookup_row_key)
  with l show ?thesis
    by (simp add: readDeploymentAdmissionReceipt_def update_pending_def lookup_row_update_rows assms(2,3))
qed

lemma bind_seal_key [simp]: "admission_key (bind_row d epoch r) = admission_key r" "admission_key (seal_row epoch r) = admission_key r"
  by (simp_all add: admission_key_def bind_row_def seal_row_def)

lemma bind_seal_intent [simp]: "same_intent (bind_row d epoch r) x = same_intent r x" "same_intent (seal_row epoch r) x = same_intent r x"
  by (simp_all add: same_intent_def admission_key_def bind_row_def seal_row_def)

lemma bind_seal_fields [simp]:
  "adm_disposition (bind_row d epoch r) = Committed" "adm_deployment (bind_row d epoch r) = Some d"
  "adm_core_epoch (bind_row d epoch r) = epoch" "adm_disposition (seal_row epoch r) = Absent"
  by (simp_all add: bind_row_def seal_row_def)

lemma Bind_row:
  assumes "BindDeploymentAdmissionReceipt db intent d epoch = Inr (row, db')"
  shows "GetDeploymentAdmissionReceipt db' (adm_org intent) (adm_id intent) = Inr row" "same_intent row intent"
    "adm_disposition row = Committed" "adm_deployment row = Some d" "adm_core_epoch row = epoch"
proof -
  from assms obtain r where r: "GetDeploymentAdmissionReceipt db (adm_org intent) (adm_id intent) = Inr r" "same_intent r intent"
    and c: "row = r \<and> db' = db \<and> adm_disposition r = Committed \<and> adm_deployment r = Some d \<and> adm_core_epoch r = epoch \<or>
      adm_disposition r = Pending \<and> db' = update_pending (adm_org intent) (adm_id intent) (bind_row d epoch) db \<and>
      readDeploymentAdmissionReceipt db' (adm_org intent) (adm_id intent) uuid_nil = Inr row"
    by (auto simp: BindDeploymentAdmissionReceipt_def Let_def split: if_splits)
  have "row = r \<and> db' = db \<and> adm_disposition r = Committed \<and> adm_deployment r = Some d \<and> adm_core_epoch r = epoch \<or>
      row = bind_row d epoch r \<and> readDeploymentAdmissionReceipt db' (adm_org intent) (adm_id intent) uuid_nil = Inr row"
    using c read_update_pending [OF r(1), of "bind_row d epoch"] by auto
  then show "GetDeploymentAdmissionReceipt db' (adm_org intent) (adm_id intent) = Inr row" "same_intent row intent"
    "adm_disposition row = Committed" "adm_deployment row = Some d" "adm_core_epoch row = epoch"
    using r by (auto simp: GetDeploymentAdmissionReceipt_def)
qed

lemma Seal_row:
  assumes "SealDeploymentAdmissionAbsent db intent epoch = Inr (row, db')"
  shows "GetDeploymentAdmissionReceipt db' (adm_org intent) (adm_id intent) = Inr row" "same_intent row intent"
    "adm_disposition row = Absent"
proof -
  from assms obtain r where r: "GetDeploymentAdmissionReceipt db (adm_org intent) (adm_id intent) = Inr r" "same_intent r intent"
    and c: "row = r \<and> db' = db \<and> adm_disposition r = Absent \<or>
      adm_disposition r = Pending \<and> db' = update_pending (adm_org intent) (adm_id intent) (seal_row epoch) db \<and>
      readDeploymentAdmissionReceipt db' (adm_org intent) (adm_id intent) uuid_nil = Inr row"
    by (cases "GetDeploymentAdmissionReceipt db (adm_org intent) (adm_id intent)")
      (auto simp: SealDeploymentAdmissionAbsent_def Let_def intro: admission_disposition.exhaust split: if_splits)
  have "row = r \<and> db' = db \<and> adm_disposition r = Absent \<or>
      row = seal_row epoch r \<and> readDeploymentAdmissionReceipt db' (adm_org intent) (adm_id intent) uuid_nil = Inr row"
    using c read_update_pending [OF r(1), of "seal_row epoch"] by auto
  then show "GetDeploymentAdmissionReceipt db' (adm_org intent) (adm_id intent) = Inr row" "same_intent row intent" "adm_disposition row = Absent"
    using r by (auto simp: GetDeploymentAdmissionReceipt_def)
qed

end
