(* ===== verification/Admission_Service.thy ===== *)
theory Admission_Service
  imports Admissions Api_Errors
begin

text \<open>
  \<^verbatim>\<open>internal/api/deployment_admission.go\<close>: the exchange with Core around one
  Deployment. Core is a parameter: one function per request, \<open>None\<close> for a request that
  failed. Receipts are prepared, sealed and settled in transactions of their own, so a state with
  them stays when the transaction of the Deployment is undone. The digests and the name-based
  UUID are parameters, applied to the identity the Go code encodes.
\<close>

section \<open>Core\<close>

datatype admission_state = AdmissionStateActive | AdmissionStateSettled | AdmissionStateOther string

record core_receipt =
  cr_admission :: uuid
  cr_project :: uuid
  cr_environment :: uuid
  cr_request_digest :: string
  cr_mode :: string
  cr_state :: admission_state
  cr_epoch :: int
  cr_outcome :: "string option"

record core_response =
  cs_status :: int
  cs_receipt :: "core_receipt option"
  cs_conflict :: "string option"

record admission_request =
  ar_actor :: uuid
  ar_project :: uuid
  ar_environment :: uuid
  ar_mode :: deployment_mode
  ar_module_versions :: "(string \<times> uuid) list"
  ar_request_digest :: string
  ar_draft_tests :: "(string \<times> uuid) list option"
  ar_carry_forward :: "(string \<times> uuid) list option"
  ar_confirmed_restricted :: "uuid list option"

record core =
  core_available :: bool
  core_authorize :: "string \<Rightarrow> uuid \<Rightarrow> admission_request \<Rightarrow> core_response option"
  core_seal_absence :: "string \<Rightarrow> uuid \<Rightarrow> admission_request \<Rightarrow> core_response option"
  core_settle :: "string \<Rightarrow> uuid \<Rightarrow> uuid \<Rightarrow> uuid \<Rightarrow> string \<Rightarrow> string \<Rightarrow> core_response option"

fun mode_text :: "deployment_mode \<Rightarrow> string" where
  "mode_text ModeObservation = ''observation''"
| "mode_text ModeDeployPlan = ''plan_only''"
| "mode_text ModeDeploy = ''deploy''"
| "mode_text ModeRollback = ''rollback''"
| "mode_text ModeRollbackPlan = ''rollback_plan''"
| "mode_text ModeDestroy = ''destroy''"

definition non_empty :: "'a list \<Rightarrow> 'a list option" where
  "non_empty xs = (if xs = [] then None else Some xs)"

definition deploymentAdmissionRequest :: "admission_row \<Rightarrow> admission_request" where
  "deploymentAdmissionRequest r = \<lparr>ar_actor = adm_actor r, ar_project = adm_project r, ar_environment = adm_environment r,
     ar_mode = adm_mode r, ar_module_versions = adm_module_versions r, ar_request_digest = adm_request_digest r,
     ar_draft_tests = non_empty (adm_draft_tests r), ar_carry_forward = non_empty (adm_carry_forward r),
     ar_confirmed_restricted = non_empty (adm_confirmed_restricted r)\<rparr>"

definition matchingAdmissionReceipt :: "core_receipt \<Rightarrow> admission_row \<Rightarrow> admission_state \<Rightarrow> string \<Rightarrow> bool" where
  "matchingAdmissionReceipt c r state outcome \<longleftrightarrow> cr_admission c = adm_id r \<and> cr_project c = adm_project r \<and>
     cr_environment c = adm_environment r \<and> cr_request_digest c = adm_request_digest r \<and> cr_mode c = mode_text (adm_mode r) \<and>
     cr_state c = state \<and> cr_epoch c > 0 \<and> cr_outcome c = Some outcome"

section \<open>Attempts\<close>

record attempt =
  at_id :: uuid
  at_org :: string
  at_project :: uuid
  at_environment :: uuid
  at_actor :: uuid
  at_mode :: deployment_mode
  at_request_digest :: string
  at_module_versions :: "(string \<times> uuid) list"
  at_draft_tests :: "(string \<times> uuid) list"
  at_carry_forward :: "(string \<times> uuid) list"
  at_confirmed_restricted :: "uuid list"
  at_core_epoch :: int
  at_prepared :: bool
  at_authorized :: bool

record compiled_intent =
  ci_project :: string
  ci_environment :: string
  ci_runner :: string
  ci_effective_base :: uuid
  ci_rollback_to :: "uuid option"
  ci_manifest :: string
  ci_graph :: string
  ci_tofu :: string
  ci_outputs_recipient :: string
  ci_logs_recipient :: string
  ci_runner_log_level :: string
  ci_carry_forward :: "(string \<times> uuid) list"
  ci_confirmed_restricted :: "uuid list"

text \<open>\<open>name_uuid\<close> is the version 5 style UUID of a list of names, \<open>fresh\<close> a random one.\<close>

definition NewAttempt ::
  "(string list \<Rightarrow> uuid) \<Rightarrow> uuid \<Rightarrow> string \<Rightarrow> uuid \<Rightarrow> uuid \<Rightarrow> uuid \<Rightarrow> deployment_mode \<Rightarrow> string \<Rightarrow> attempt" where
  "NewAttempt name_uuid fresh org project environment actor mode requestKey =
     \<lparr>at_id = (if requestKey = '''' then fresh
         else name_uuid [''ordinary-deployment-admission'', org, uuid_text project, uuid_text environment, requestKey]),
      at_org = org, at_project = project, at_environment = environment, at_actor = actor, at_mode = mode,
      at_request_digest = '''', at_module_versions = [], at_draft_tests = [], at_carry_forward = [],
      at_confirmed_restricted = [], at_core_epoch = 0, at_prepared = False, at_authorized = False\<rparr>"

definition attempt_receipt :: "attempt \<Rightarrow> admission_row" where
  "attempt_receipt a = \<lparr>adm_org = at_org a, adm_id = at_id a, adm_project = at_project a, adm_environment = at_environment a,
     adm_actor = at_actor a, adm_request_digest = at_request_digest a, adm_mode = at_mode a,
     adm_module_versions = at_module_versions a, adm_carry_forward = at_carry_forward a,
     adm_confirmed_restricted = at_confirmed_restricted a, adm_draft_tests = at_draft_tests a,
     adm_core_epoch = at_core_epoch a, adm_disposition = Pending, adm_deployment = None, adm_terminal_outcome = None,
     adm_core_settled_at = None, adm_created_at = 0\<rparr>"

text \<open>Writing an entry of a Go map: an existing key keeps its place.\<close>

fun map_put :: "string \<Rightarrow> 'a \<Rightarrow> (string \<times> 'a) list \<Rightarrow> (string \<times> 'a) list" where
  "map_put k v [] = [(k, v)]"
| "map_put k v ((k', v') # es) = (if k = k' then (k, v) # es else (k', v') # map_put k v es)"

fun collect_targets ::
  "uuid \<Rightarrow> uuid \<Rightarrow> module_artifact list \<Rightarrow> (string \<times> uuid) list \<Rightarrow> (string \<times> uuid) list
     \<Rightarrow> ((string \<times> uuid) list \<times> (string \<times> uuid) list) result" where
  "collect_targets project environment [] versions drafts = Inr (versions, drafts)"
| "collect_targets project environment (a # artifacts) versions drafts =
     (let key = uuid_text (art_module_uuid a) in
      if art_module_uuid a = uuid_nil \<or> art_version_uuid a = uuid_nil
      then Inl (NewErrConflict ''Deployment admission requires immutable Module and Version UUIDs'')
      else if map_of versions key \<noteq> None \<and> map_of versions key \<noteq> Some (art_version_uuid a)
      then Inl (NewErrConflict ''Deployment resolves one Module UUID to multiple Versions'')
      else if map_of versions key \<noteq> None \<and> (map_of drafts key \<noteq> None) \<noteq> (art_draft_test a \<noteq> None)
      then Inl (NewErrConflict ''Deployment cannot relabel an executable's Draft test provenance'')
      else case art_draft_test a of
        None \<Rightarrow> collect_targets project environment artifacts (map_put key (art_version_uuid a) versions) drafts
      | Some t \<Rightarrow>
          if \<not> draft_reference_valid t \<or> dt_module t \<noteq> art_module_uuid a \<or> dt_snapshot t \<noteq> art_version_uuid a \<or>
             dt_project t \<noteq> project \<or> dt_environment t \<noteq> environment
          then Inl (NewErrConflict ''Deployment admission has inconsistent scoped Draft test provenance'')
          else collect_targets project environment artifacts (map_put key (art_version_uuid a) versions)
            (map_put key (art_version_uuid a) drafts))"

definition collectModuleTargets :: "attempt \<Rightarrow> module_artifact list \<Rightarrow> attempt result" where
  "collectModuleTargets a artifacts =
     bindR (collect_targets (at_project a) (at_environment a) artifacts [] []) (\<lambda>(versions, drafts).
       if at_mode a = ModeDestroy then Inr (a\<lparr>at_module_versions := [], at_draft_tests := []\<rparr>)
       else Inr (a\<lparr>at_module_versions := versions, at_draft_tests := drafts\<rparr>))"

definition authorizeCore :: "core \<Rightarrow> attempt \<Rightarrow> attempt created" where
  "authorizeCore c a =
     (case core_authorize c (at_org a) (at_id a) (deploymentAdmissionRequest (attempt_receipt a)) of
        None \<Rightarrow> Inl AdmissionUnavailable
      | Some response \<Rightarrow>
          (case (if cs_status response = 200 then cs_receipt response else None) of
             None \<Rightarrow>
               if cs_status response = 409 \<and> cs_conflict response = Some CodeEnvironmentBusy
               then Inl (ModelFailure (NewErrCodedConflict CodeEnvironmentBusy
                 ''Core is still settling an earlier Deployment of the Environment''))
               else if cs_status response \<in> set [400, 403, 404, 409]
               then Inl (AdmissionDenied (cs_status response) (opt_or (cs_conflict response) ''''))
               else Inl AdmissionUnavailable
           | Some receipt \<Rightarrow>
               if cr_admission receipt \<noteq> at_id a \<or> cr_project receipt \<noteq> at_project a \<or> cr_environment receipt \<noteq> at_environment a \<or>
                  cr_request_digest receipt \<noteq> at_request_digest a \<or> cr_mode receipt \<noteq> mode_text (at_mode a) \<or>
                  cr_state receipt \<noteq> AdmissionStateActive \<or> cr_epoch receipt \<le> 0 \<or> cr_outcome receipt \<noteq> None
               then Inl AdmissionUnavailable
               else Inr (a\<lparr>at_core_epoch := cr_epoch receipt, at_authorized := True\<rparr>)))"

text \<open>
  The error, the attempt and the state after it: the prepared receipt stays also when Core refuses.
  \<open>digest\<close> encodes and hashes the attempt, the artifacts and the compiled intent.
\<close>

definition Authorize ::
  "(attempt \<Rightarrow> module_artifact list \<Rightarrow> compiled_intent \<Rightarrow> string) \<Rightarrow> core \<Rightarrow> instant \<Rightarrow> database \<Rightarrow> attempt
     \<Rightarrow> module_artifact list \<Rightarrow> compiled_intent \<Rightarrow> create_error option \<times> attempt \<times> database" where
  "Authorize digest c now db a artifacts compiled =
     (if \<not> core_available c then (Some AdmissionUnavailable, a, db)
      else if at_id a = uuid_nil \<or> at_org a = '''' \<or> at_project a = uuid_nil \<or> at_environment a = uuid_nil \<or> at_actor a = uuid_nil
      then (Some (ModelFailure (ErrBadRequest ''complete Deployment admission identity is required'')), a, db)
      else case collectModuleTargets a artifacts of
        Inl e \<Rightarrow> (Some (ModelFailure e), a, db)
      | Inr a1 \<Rightarrow>
          let a2 = a1\<lparr>at_carry_forward := ci_carry_forward compiled, at_confirmed_restricted := ci_confirmed_restricted compiled\<rparr>;
              a3 = a2\<lparr>at_request_digest := digest a2 artifacts compiled\<rparr> in
          (case PrepareDeploymentAdmissionReceipt now db (attempt_receipt a3) of
             Inl e \<Rightarrow> (Some (ModelFailure e), a3, db)
           | Inr (_, db') \<Rightarrow>
               let a4 = a3\<lparr>at_prepared := True\<rparr> in
               (case GetDeploymentAdmissionReceipt db' (at_org a4) (at_id a4) of
                  Inl e \<Rightarrow> (Some (ModelFailure e), a4, db')
                | Inr receipt \<Rightarrow>
                    if adm_disposition receipt \<noteq> Pending
                    then (Some (ModelFailure (NewErrConflict ''Deployment admission identifier already has a durable outcome'')), a4, db')
                    else case authorizeCore c a4 of Inl e \<Rightarrow> (Some e, a4, db') | Inr a5 \<Rightarrow> (None, a5, db'))))"

definition Bind :: "attempt \<Rightarrow> database \<Rightarrow> uuid \<Rightarrow> database created" where
  "Bind a db deployment =
     (if \<not> at_authorized a \<or> deployment = uuid_nil
      then Inl (OtherFailure ''Deployment admission must be authorized before binding'')
      else bindR (lift_model (BindDeploymentAdmissionReceipt db (attempt_receipt a) deployment (at_core_epoch a)))
        (\<lambda>(_, db'). Inr db'))"

section \<open>Sealing and settling\<close>

definition markCoreSettled :: "instant \<Rightarrow> database \<Rightarrow> admission_row \<Rightarrow> string \<Rightarrow> int \<Rightarrow> create_error option \<times> database" where
  "markCoreSettled now db receipt outcome epoch =
     (case MarkDeploymentAdmissionCoreSettled now db (adm_org receipt) (adm_id receipt) outcome epoch of
        Inl e \<Rightarrow> (Some (ModelFailure e), db) | Inr db' \<Rightarrow> (None, db'))"

definition sealAbsent :: "core \<Rightarrow> instant \<Rightarrow> database \<Rightarrow> admission_row \<Rightarrow> create_error option \<times> database" where
  "sealAbsent c now db intent =
     (case SealDeploymentAdmissionAbsent db intent (adm_core_epoch intent) of
        Inl e \<Rightarrow> (Some (ModelFailure e), db)
      | Inr (receipt, db') \<Rightarrow>
          (case core_seal_absence c (adm_org receipt) (adm_id receipt) (deploymentAdmissionRequest receipt) of
             None \<Rightarrow> (Some AdmissionUnavailable, db')
           | Some response \<Rightarrow>
               (case (if cs_status response = 200 then cs_receipt response else None) of
                  None \<Rightarrow> (Some AdmissionUnavailable, db')
                | Some answer \<Rightarrow>
                    if \<not> matchingAdmissionReceipt answer receipt AdmissionStateSettled ''absent'' then (Some AdmissionUnavailable, db')
                    else markCoreSettled now db' receipt ''absent'' (cr_epoch answer))))"

definition SealAbsent :: "core \<Rightarrow> instant \<Rightarrow> database \<Rightarrow> attempt \<Rightarrow> create_error option \<times> database" where
  "SealAbsent c now db a = (if \<not> at_prepared a then (None, db) else sealAbsent c now db (attempt_receipt a))"

definition settle :: "core \<Rightarrow> instant \<Rightarrow> database \<Rightarrow> admission_row \<Rightarrow> string \<Rightarrow> create_error option \<times> database" where
  "settle c now db receipt outcome =
     (case core_settle c (adm_org receipt) (adm_id receipt) (adm_project receipt) (adm_environment receipt)
         (adm_request_digest receipt) outcome of
        None \<Rightarrow> (Some AdmissionUnavailable, db)
      | Some response \<Rightarrow>
          (case (if cs_status response = 200 then cs_receipt response else None) of
             None \<Rightarrow> (Some AdmissionUnavailable, db)
           | Some answer \<Rightarrow>
               if \<not> matchingAdmissionReceipt answer receipt AdmissionStateSettled outcome \<or> cr_epoch answer \<noteq> adm_core_epoch receipt
               then (Some AdmissionUnavailable, db)
               else markCoreSettled now db receipt outcome (cr_epoch answer)))"

definition SettleDeployment :: "core \<Rightarrow> instant \<Rightarrow> database \<Rightarrow> uuid \<Rightarrow> create_error option \<times> database" where
  "SettleDeployment c now db deployment =
     (case GetDeploymentAdmissionReceiptByDeployment db deployment of
        Inl e \<Rightarrow> if IsErrNotFound e then (None, db) else (Some (ModelFailure e), db)
      | Inr receipt \<Rightarrow>
          if adm_core_settled_at receipt \<noteq> None then (None, db)
          else case GetDeployment db (adm_org receipt) deployment of
            Inl e \<Rightarrow> (Some (ModelFailure e), db)
          | Inr (summary, _) \<Rightarrow>
              (case sum_status summary of
                 StatusSucceeded \<Rightarrow> settle c now db receipt ''succeeded''
               | StatusFailed \<Rightarrow> settle c now db receipt ''failed''
               | StatusExecuting \<Rightarrow> (None, db)))"

fun is_conflict :: "create_error \<Rightarrow> bool" where
  "is_conflict (ModelFailure e) = IsErrConflict e"
| "is_conflict _ = False"

text \<open>A conflict means that another transaction decided the receipt; \<open>c k\<close> is Core at the k-th receipt.\<close>

fun reconcile_loop :: "(nat \<Rightarrow> core) \<Rightarrow> instant \<Rightarrow> nat \<Rightarrow> admission_row list \<Rightarrow> database \<Rightarrow> create_error option \<times> database" where
  "reconcile_loop c now k [] db = (None, db)"
| "reconcile_loop c now k (r # rs) db =
     (let (err, db') = (case (if adm_disposition r = Committed then adm_deployment r else None) of
          Some d \<Rightarrow> SettleDeployment (c k) now db d
        | None \<Rightarrow> sealAbsent (c k) now db r) in
      case err of
        None \<Rightarrow> reconcile_loop c now (Suc k) rs db'
      | Some e \<Rightarrow> if is_conflict e then reconcile_loop c now (Suc k) rs db' else (Some e, db'))"

definition DeploymentAdmissionRecoveryGrace :: duration where
  "DeploymentAdmissionRecoveryGrace = minute"

definition ReconcileUnsettled :: "(nat \<Rightarrow> core) \<Rightarrow> instant \<Rightarrow> instant \<Rightarrow> database \<Rightarrow> int \<Rightarrow> create_error option \<times> database" where
  "ReconcileUnsettled c now wall db limit =
     (case ListUnsettledDeploymentAdmissionReceipts db limit (Some (wall - DeploymentAdmissionRecoveryGrace)) of
        Inl e \<Rightarrow> (Some (ModelFailure e), db)
      | Inr receipts \<Rightarrow> reconcile_loop c now 0 receipts db)"

end
