(* ===== verification/Compilation.thy ===== *)
theory Compilation
  imports Graphs Admission_Service
begin

text \<open>
  The steps of \<^verbatim>\<open>internal/api/deployments_core.go\<close> and
  \<^verbatim>\<open>internal/api/draft_execution_catalogue.go\<close> between a request and the Deployment:
  pins and selected Versions, the catalogue of the Control Plane, the artifacts a graph needs, and
  the difference of two graphs.
\<close>

section \<open>Selected Versions\<close>

text \<open>\<^verbatim>\<open>json.Marshal\<close> of a map lists its keys in order; \<open>sha\<close> digests the encoding.\<close>

definition moduleVersionRequestDigest ::
  "((string \<times> string) list \<times> string list \<times> (string \<times> uuid) list \<Rightarrow> string) \<Rightarrow> (string \<times> string) list \<Rightarrow> uuid list
     \<Rightarrow> (string \<times> uuid) list \<Rightarrow> string" where
  "moduleVersionRequestDigest sha selected confirmations draftTests =
     (if selected = [] \<and> confirmations = [] \<and> draftTests = [] then ''''
      else sha (sort_key fst selected, remdups (sort (map uuid_text confirmations)), sort_key fst draftTests))"

fun last_index :: "('a \<Rightarrow> bool) \<Rightarrow> 'a list \<Rightarrow> nat option" where
  "last_index p [] = None"
| "last_index p (x # xs) = (case last_index p xs of Some i \<Rightarrow> Some (Suc i) | None \<Rightarrow> if p x then Some 0 else None)"

definition select_version :: "string \<times> string \<Rightarrow> catalogue_module list \<Rightarrow> string + catalogue_module list" where
  "select_version s defs =
     (let rules = concat (map cm_rules (filter (\<lambda>d. cm_id d = fst s) defs));
          cleared = map (\<lambda>d. if cm_id d = fst s then d\<lparr>cm_rules := []\<rparr> else d) defs in
      case last_index (\<lambda>d. cm_id d = fst s \<and> cm_version d = snd s) defs of
        None \<Rightarrow> Inl ''module selection is unavailable''
      | Some i \<Rightarrow>
          if rules = [] then Inl ''module selection has no applicable module rules''
          else Inr (cleared[i := (cleared ! i)\<lparr>cm_rules := rules\<rparr>]))"

fun applySelectedModuleVersions :: "catalogue_module list \<Rightarrow> (string \<times> string) list \<Rightarrow> string + catalogue_module list" where
  "applySelectedModuleVersions defs [] = Inr defs"
| "applySelectedModuleVersions defs (s # selected) = bindR (select_version s defs) (\<lambda>defs'. applySelectedModuleVersions defs' selected)"

text \<open>\<^verbatim>\<open>strings.Cut(s, "@")\<close>: the text before the first separator, if there is one.\<close>

definition cut_at :: "string \<Rightarrow> string option" where
  "cut_at s = (if CHR ''@'' \<in> set s then Some (takeWhile (\<lambda>c. c \<noteq> CHR ''@'') s) else None)"

definition overridden :: "(string \<times> string) list \<Rightarrow> string \<Rightarrow> bool" where
  "overridden selected pin = (case cut_at pin of None \<Rightarrow> False | Some i \<Rightarrow> i \<in> fst ` set selected)"

definition selectedPinnedDefinitions :: "string list \<Rightarrow> (string \<times> string) list \<Rightarrow> string list" where
  "selectedPinnedDefinitions pinned selected =
     (if selected = [] then pinned
      else sort (filter (\<lambda>p. \<not> overridden selected p) pinned @ map (\<lambda>(i, v). i @ ''@'' @ v) selected))"

section \<open>The catalogue\<close>

record catalogue =
  cat_modules :: "catalogue_module list"
  cat_providers :: "string list"

record catalogue_request =
  cq_pinned :: "string list"
  cq_rules_ignored :: bool
  cq_retained :: "(uuid \<times> uuid) list"
  cq_material_only :: bool
  cq_draft_tests :: "(string \<times> uuid) list option"
  cq_selected :: "(string \<times> string) list option"

text \<open>The answer of either catalogue endpoint: the status and the decoded bodies.\<close>

record catalogue_response =
  cg_status :: int
  cg_catalogue :: "string + catalogue option"
  cg_not_found :: "string option"
  cg_conflict :: "(string \<times> string) option"

definition pinned_module_missing_provider :: string where
  "pinned_module_missing_provider = ''pinned_module_missing_provider''"

text \<open>
  \<open>execution\<close> is the authenticated execution catalogue, when the server has one, and
  \<open>published\<close> the established endpoint. The catalogue of a response is the error of
  decoding its body, or the body if it has one. The providers are opaque.
\<close>

definition compilationCatalogue ::
  "(catalogue_request \<Rightarrow> catalogue_response option) option \<Rightarrow> (string list \<Rightarrow> bool \<Rightarrow> catalogue_response option)
     \<Rightarrow> string list \<Rightarrow> bool \<Rightarrow> (string \<times> uuid) list \<Rightarrow> (string \<times> string) list \<Rightarrow> (uuid \<times> uuid) list \<Rightarrow> catalogue created" where
  "compilationCatalogue execution published pinned rulesIgnored draftTests explicit retained =
     bindR
       (if draftTests \<noteq> [] \<or> retained \<noteq> [] \<or> (explicit \<noteq> [] \<and> execution \<noteq> None)
        then (case execution of
            None \<Rightarrow> Inl AdmissionUnavailable
          | Some call \<Rightarrow>
              let materialOnly = (rulesIgnored \<and> draftTests = []) in
              (case call \<lparr>cq_pinned = pinned, cq_rules_ignored = rulesIgnored, cq_retained = retained,
                  cq_material_only = materialOnly, cq_draft_tests = non_empty draftTests,
                  cq_selected = (if materialOnly then None else non_empty explicit)\<rparr> of
                 None \<Rightarrow> Inl (OtherFailure ''execution catalogue request failed'')
               | Some response \<Rightarrow>
                   if cg_status response = 404
                   then Inl (ModelFailure (NewErrConflict ''the execution catalogue or requested immutable material is unavailable; no published-catalogue fallback was attempted''))
                   else Inr response))
        else (case published pinned rulesIgnored of
            None \<Rightarrow> Inl (OtherFailure ''module catalogue request failed'')
          | Some response \<Rightarrow>
              (case (if cg_status response = 404 then cg_not_found response else None) of
                 Some message \<Rightarrow> Inl (ModelFailure (NewErrConflict message))
               | None \<Rightarrow> Inr response))) (\<lambda>response.
     case (if cg_status response = 409 then cg_conflict response else None) of
       Some (code, message) \<Rightarrow>
         if code = pinned_module_missing_provider
         then Inl (ModelFailure (NewErrConflict (code @ '': existing module(s) depend on providers that no longer exist'')))
         else Inl (ModelFailure (NewErrConflict message))
     | None \<Rightarrow>
         if cg_status response \<noteq> 200 then Inl (OtherFailure ''module catalogue request failed with HTTP status'')
         else (case cg_catalogue response of
             Inl e \<Rightarrow> Inl (OtherFailure e)
           | Inr None \<Rightarrow> Inl (ModelFailure (NewErrConflict ''module catalogue response is missing''))
           | Inr (Some c) \<Rightarrow> Inr c))"

record selection_state =
  ss_seen :: "(uuid \<times> uuid) list"
  ss_found :: "string list"
  ss_resolved :: "(string \<times> string) list"

fun selection_loop ::
  "(string \<times> uuid) list \<Rightarrow> (uuid \<times> uuid) list \<Rightarrow> uuid \<Rightarrow> (string \<times> string) list \<Rightarrow> catalogue_module list \<Rightarrow> selection_state
     \<Rightarrow> selection_state created" where
  "selection_loop selected retained environment published [] st = Inr st"
| "selection_loop selected retained environment published (m # ms) st =
     (case DraftTestReferenceFromCatalogue m of
        Inl e \<Rightarrow> Inl (OtherFailure e)
      | Inr None \<Rightarrow> selection_loop selected retained environment published ms st
      | Inr (Some r) \<Rightarrow>
          let key = (dt_module r, dt_snapshot r); slug = uuid_text (dt_module r);
              allowed = (map_of selected slug = Some (dt_snapshot r) \<or> key \<in> set retained) in
          if key \<in> set (ss_seen st) \<or> \<not> allowed \<or> dt_environment r \<noteq> environment
          then Inl (ModelFailure (NewErrConflict ''unrequested or incorrectly scoped Draft test material in catalogue''))
          else let st1 = st\<lparr>ss_seen := key # ss_seen st\<rparr> in
            if map_of selected slug = Some (dt_snapshot r)
            then if cm_id m \<in> fst ` set published
              then Inl (ModelFailure (ErrBadRequest ''one Module cannot select both published and test executables''))
              else selection_loop selected retained environment published ms
                (st1\<lparr>ss_found := List.insert slug (ss_found st1), ss_resolved := map_put (cm_id m) (cm_version m) (ss_resolved st1)\<rparr>)
            else if cm_rules m \<noteq> []
            then Inl (ModelFailure (NewErrConflict ''retained test material cannot receive new Module Rules''))
            else selection_loop selected retained environment published ms st1)"

definition validateCatalogueDraftSelection ::
  "catalogue \<Rightarrow> (string \<times> uuid) list \<Rightarrow> (uuid \<times> uuid) list \<Rightarrow> uuid \<Rightarrow> (string \<times> string) list \<Rightarrow> (string \<times> string) list created" where
  "validateCatalogueDraftSelection c selected retained environment published =
     bindR (selection_loop selected retained environment published (cat_modules c) \<lparr>ss_seen = [], ss_found = [], ss_resolved = []\<rparr>) (\<lambda>st.
       if length (ss_found st) \<noteq> length selected
       then Inl (ModelFailure (NewErrConflict ''the catalogue did not return the exact requested Draft test selection''))
       else Inr (ss_resolved st))"

section \<open>Artifacts\<close>

record catalogue_artifact =
  ca_draft_test :: "draft_test_reference option"
  ca_module_uuid :: uuid
  ca_version_uuid :: uuid
  ca_semantic_version :: string
  ca_migration_generation :: string
  ca_source :: string
  ca_digest :: string
  ca_status :: string
  ca_resource_type_version :: "int option"
  ca_resource_type_version_uuid :: "uuid option"
  ca_output_schema :: "json option"

definition module_pin :: "catalogue_module \<Rightarrow> string" where
  "module_pin m = cm_id m @ ''@'' @ cm_version m"

definition artifact_of :: "catalogue_module \<Rightarrow> draft_test_reference option \<Rightarrow> catalogue_artifact" where
  "artifact_of m reference = \<lparr>ca_draft_test = reference, ca_module_uuid = cm_module_uuid m, ca_version_uuid = cm_version_uuid m,
     ca_semantic_version = opt_or (cm_semantic_version m) '''', ca_migration_generation = opt_or (cm_migration_generation m) '''',
     ca_source = cm_source m, ca_digest = cm_artifact_digest m, ca_status = opt_or (cm_semantic_status m) '''',
     ca_resource_type_version = cm_resource_type_version m, ca_resource_type_version_uuid = cm_resource_type_version_uuid m,
     ca_output_schema = cm_output_schema m\<rparr>"

fun decode_loop :: "catalogue_module list \<Rightarrow> (string \<times> catalogue_artifact) list \<Rightarrow> string + (string \<times> catalogue_artifact) list" where
  "decode_loop [] result = Inr result"
| "decode_loop (m # ms) result =
     bindR (DraftTestReferenceFromCatalogue m) (\<lambda>reference. decode_loop ms (map_put (module_pin m) (artifact_of m reference) result))"

definition decodeCatalogueArtifacts :: "catalogue_module list \<Rightarrow> string + (string \<times> catalogue_artifact) list" where
  "decodeCatalogueArtifacts ms = decode_loop ms []"

definition resource_type_conflict :: "module_config \<Rightarrow> catalogue_artifact \<Rightarrow> bool" where
  "resource_type_conflict m a \<longleftrightarrow> (mc_resource_type_version_uuid m \<noteq> None \<or> mc_resource_type_version m \<noteq> None) \<and>
     (mc_resource_type_version_uuid m = None \<or> mc_resource_type_version m = None \<or>
      ca_resource_type_version_uuid a = None \<or> ca_resource_type_version a = None \<or>
      mc_resource_type_version_uuid m \<noteq> ca_resource_type_version_uuid a \<or> mc_resource_type_version m \<noteq> ca_resource_type_version a)"

definition requirement_of :: "module_config \<Rightarrow> catalogue_artifact \<Rightarrow> bool \<Rightarrow> module_artifact" where
  "requirement_of m a retained = \<lparr>art_draft_test = ca_draft_test a, art_module_id = mc_definition_id m, art_module_uuid = ca_module_uuid a,
     art_version = mc_version_id m, art_version_uuid = ca_version_uuid a, art_semantic_version = ca_semantic_version a,
     art_migration_generation = ca_migration_generation a, art_source = ca_source a, art_digest = ca_digest a,
     art_retained_exception = retained, art_resource_type_version = ca_resource_type_version a,
     art_resource_type_version_uuid = ca_resource_type_version_uuid a, art_output_schema = ca_output_schema a,
     art_confirmed_restricted = None\<rparr>"

fun requirements_loop ::
  "(string \<times> catalogue_artifact) list \<Rightarrow> bool \<Rightarrow> graph_node list \<Rightarrow> (string \<times> module_artifact) list \<Rightarrow> (string \<times> module_artifact) list result" where
  "requirements_loop artifacts retained [] byKey = Inr byKey"
| "requirements_loop artifacts retained (n # ns) byKey =
     (case gn_config n of
        None \<Rightarrow> requirements_loop artifacts retained ns byKey
      | Some m \<Rightarrow>
          if mc_deleted m then requirements_loop artifacts retained ns byKey
          else case map_of artifacts (pin_text m) of
            None \<Rightarrow> Inl (NewErrConflict ''module has no immutable version metadata'')
          | Some a \<Rightarrow>
              if mc_draft_test m \<noteq> ca_draft_test a
              then Inl (NewErrConflict ''module has conflicting immutable Draft test provenance'')
              else if resource_type_conflict m a
              then Inl (NewErrConflict ''module has conflicting immutable Resource Type metadata'')
              else requirements_loop artifacts retained ns (map_put (pin_text m) (requirement_of m a retained) byKey))"

definition moduleArtifactRequirements ::
  "(graph \<Rightarrow> coordinate list) \<Rightarrow> graph \<Rightarrow> (string \<times> catalogue_artifact) list \<Rightarrow> bool \<Rightarrow> module_artifact list result" where
  "moduleArtifactRequirements dfs g artifacts retained =
     bindR (requirements_loop artifacts retained (map (graph_node_at g) (dfs g)) []) (\<lambda>byKey.
       Inr (sort_key (\<lambda>a. art_module_id a @ ''@'' @ art_version a) (map snd byKey)))"

definition deploymentAdmissionLifecycleEvidence ::
  "deployment_mode \<Rightarrow> string list \<Rightarrow> module_artifact list \<Rightarrow> (string \<times> uuid) list \<times> uuid list" where
  "deploymentAdmissionLifecycleEvidence mode active artifacts =
     (if mode = ModeDestroy then ([], [])
      else (fold (\<lambda>a. map_put (uuid_text (art_module_uuid a)) (art_version_uuid a))
              (filter (\<lambda>a. art_module_id a @ ''@'' @ art_version a \<in> set active) artifacts) [],
            sort_key uuid_text (List.map_filter art_confirmed_restricted artifacts)))"

section \<open>Differences\<close>

datatype change_type = Added | Removed | ModuleChanged | ParamsChanged

record diff_change =
  dc_id :: string
  dc_resource :: string
  dc_type :: change_type
  dc_summary :: string

record deployment_diff =
  df_changes :: "diff_change list"
  df_added :: int
  df_removed :: int
  df_changed :: int

definition formatResourceCoordinate :: "coordinate \<Rightarrow> string" where
  "formatResourceCoordinate c = co_type c @ ''.'' @ co_class c @ ''@'' @ co_id c"

definition change_at :: "(uuid \<Rightarrow> coordinate \<Rightarrow> string) \<Rightarrow> uuid \<Rightarrow> coordinate \<Rightarrow> change_type \<Rightarrow> string \<Rightarrow> diff_change" where
  "change_at hash environment c t summary =
     \<lparr>dc_id = hash environment c, dc_resource = formatResourceCoordinate c, dc_type = t, dc_summary = summary\<rparr>"

definition dependency_note :: "graph_node \<Rightarrow> string" where
  "dependency_note n = (case gn_params_defined_by n of None \<Rightarrow> ''''
     | Some c \<Rightarrow> '' (dependency of '' @ formatResourceCoordinate c @ '')'')"

definition params_summary :: "graph_node \<Rightarrow> string" where
  "params_summary n = (case gn_params_defined_by n of None \<Rightarrow> ''resource params changed''
     | Some c \<Rightarrow> ''resource params changed by '' @ formatResourceCoordinate c)"

definition live_node :: "graph_node \<Rightarrow> bool" where
  "live_node n = (case gn_config n of None \<Rightarrow> True | Some m \<Rightarrow> \<not> mc_deleted m)"

text \<open>The change of one node of the new graph; a module where the old node had none is a nil dereference.\<close>

definition node_change ::
  "(uuid \<Rightarrow> coordinate \<Rightarrow> string) \<Rightarrow> uuid \<Rightarrow> graph \<Rightarrow> coordinate \<Rightarrow> graph_node \<Rightarrow> string + diff_change list" where
  "node_change hash environment before c n =
     (if \<not> live_node n then Inr []
      else case map_of (g_nodes before) c of
        Some old \<Rightarrow>
          (case gn_config n of
             None \<Rightarrow> Inr (if go_map_equal (gn_params n) (gn_params old) then []
               else [change_at hash environment c ParamsChanged ''workload output variables changed''])
           | Some m \<Rightarrow>
               (case gn_config old of
                  None \<Rightarrow> Inl ''nil pointer dereference''
                | Some m' \<Rightarrow>
                    if mc_definition_id m' \<noteq> mc_definition_id m \<or> mc_version_id m' \<noteq> mc_version_id m
                    then Inr [change_at hash environment c ModuleChanged (''module changed from '' @ pin_text m' @ '' to '' @ pin_text m)]
                    else if gn_params n \<noteq> None \<and> \<not> go_map_equal (gn_params n) (gn_params old)
                    then Inr [change_at hash environment c ParamsChanged (params_summary n)]
                    else Inr []))
      | None \<Rightarrow> Inr [change_at hash environment c Added (case gn_config n of None \<Rightarrow> ''workload added''
          | Some m \<Rightarrow> ''add resource using module '' @ pin_text m @ dependency_note n)])"

definition removal :: "(uuid \<Rightarrow> coordinate \<Rightarrow> string) \<Rightarrow> uuid \<Rightarrow> graph \<Rightarrow> coordinate \<Rightarrow> graph_node \<Rightarrow> diff_change list" where
  "removal hash environment after c old =
     (if (case map_of (g_nodes after) c of None \<Rightarrow> False | Some n \<Rightarrow> live_node n) then []
      else [change_at hash environment c Removed (case gn_config old of None \<Rightarrow> ''workload removed''
        | Some m \<Rightarrow> ''remove resource using module '' @ pin_text m @ dependency_note old)])"

fun collect_changes :: "('a \<Rightarrow> string + 'b list) \<Rightarrow> 'a list \<Rightarrow> string + 'b list" where
  "collect_changes f [] = Inr []"
| "collect_changes f (x # xs) = bindR (f x) (\<lambda>a. bindR (collect_changes f xs) (\<lambda>b. Inr (a @ b)))"

definition count_changes :: "change_type \<Rightarrow> diff_change list \<Rightarrow> int" where
  "count_changes t cs = int (length (filter (\<lambda>c. dc_type c = t) cs))"

definition DiffGraphs ::
  "(graph \<Rightarrow> coordinate list) \<Rightarrow> (uuid \<Rightarrow> coordinate \<Rightarrow> string) \<Rightarrow> uuid \<Rightarrow> graph \<Rightarrow> graph \<Rightarrow> string + deployment_diff" where
  "DiffGraphs dfs hash environment before after =
     bindR (collect_changes (\<lambda>c. node_change hash environment before c (graph_node_at after c)) (dfs after)) (\<lambda>changed.
       let changes = changed @ concat (map (\<lambda>c. removal hash environment after c (graph_node_at before c)) (dfs before));
           added = count_changes Added changes; removed = count_changes Removed changes
       in Inr \<lparr>df_changes = changes, df_added = added, df_removed = removed, df_changed = int (length changes) - added - removed\<rparr>)"

end
