(* ===== verification/Active_Resources.thy ===== *)
theory Active_Resources
  imports Graph_Types
begin

text \<open>
  \<^verbatim>\<open>internal/model/active_resources.go\<close>: the resource nodes of an Environment and the
  edges between them, written from the graph of a Deployment, read back, and cleaned up when the
  Deployment has converged. Every statement that writes many rows fails as a whole when it would
  write one row twice, as PostgreSQL does for \<^verbatim>\<open>ON CONFLICT DO UPDATE\<close>.
\<close>

section \<open>Writing a graph\<close>

definition node_included :: "coordinate \<times> graph_node \<Rightarrow> bool" where
  "node_included n = (case gn_config (snd n) of None \<Rightarrow> True | Some m \<Rightarrow> \<not> mc_deleted m)"

definition included_nodes :: "graph \<Rightarrow> (coordinate \<times> graph_node) list" where
  "included_nodes g = filter node_included (g_nodes g)"

definition node_values :: "(uuid \<Rightarrow> coordinate \<Rightarrow> string) \<Rightarrow> uuid \<Rightarrow> uuid \<Rightarrow> coordinate \<times> graph_node \<Rightarrow> node_row" where
  "node_values hash environment deployment n =
     \<lparr>nod_hash = hash environment (fst n), nod_environment = environment, nod_type = co_type (fst n),
      nod_class = co_class (fst n), nod_resource = co_id (fst n), nod_deployment = deployment,
      nod_module = (case gn_config (snd n) of None \<Rightarrow> '''' | Some m \<Rightarrow> mc_definition_id m),
      nod_module_version = (case gn_config (snd n) of None \<Rightarrow> '''' | Some m \<Rightarrow> mc_version_id m), nod_metadata = JObj []\<rparr>"

definition edge_values :: "(uuid \<Rightarrow> coordinate \<Rightarrow> string) \<Rightarrow> uuid \<Rightarrow> uuid \<Rightarrow> graph \<Rightarrow> edge_row list" where
  "edge_values hash environment deployment g =
     concat (map (\<lambda>n. map (\<lambda>(alias, target).
         \<lparr>edg_subject = hash environment (fst n), edg_target = hash environment target,
          edg_deployment = deployment, edg_alias = alias\<rparr>)
       (filter (\<lambda>(alias, target). target \<in> fst ` set (g_nodes g)) (graph_edges_of g (fst n)))) (included_nodes g))"

text \<open>
  \<^verbatim>\<open>INSERT ... ON CONFLICT (key) DO UPDATE\<close> of one row: \<open>merge\<close> is what the update
  takes from the row that could not be inserted.
\<close>

definition upsert_row :: "('r \<Rightarrow> 'k) \<Rightarrow> ('r \<Rightarrow> 'r \<Rightarrow> 'r) \<Rightarrow> 'r \<Rightarrow> 'r list \<Rightarrow> 'r list" where
  "upsert_row key merge r t =
     (if exists_row (\<lambda>n. key n = key r) t then update_rows (\<lambda>n. key n = key r) (merge r) t else t @ [r])"

text \<open>The identity and the metadata of an existing node stay.\<close>

definition upsert_node :: "node_row \<Rightarrow> node_row list \<Rightarrow> node_row list" where
  "upsert_node = upsert_row nod_hash (\<lambda>r n. n\<lparr>nod_deployment := nod_deployment r, nod_module := nod_module r,
     nod_module_version := nod_module_version r\<rparr>)"

definition edge_key :: "edge_row \<Rightarrow> string \<times> string" where
  "edge_key e = (edg_subject e, edg_target e)"

definition upsert_edge :: "edge_row \<Rightarrow> edge_row list \<Rightarrow> edge_row list" where
  "upsert_edge = upsert_row edge_key (\<lambda>r e. e\<lparr>edg_deployment := edg_deployment r, edg_alias := edg_alias r\<rparr>)"

definition insert_nodes :: "node_row list \<Rightarrow> database \<Rightarrow> database result" where
  "insert_nodes rs db =
     (if \<not> distinct (map nod_hash rs) \<or>
         \<not> list_all (\<lambda>r. exists_row (\<lambda>e. env_id e = nod_environment r) (environments db)) rs
      then Inl (ErrInternal ''failed to insert resource nodes'')
      else Inr (db\<lparr>nodes := fold upsert_node rs (nodes db)\<rparr>))"

definition insert_edges :: "edge_row list \<Rightarrow> database \<Rightarrow> database result" where
  "insert_edges rs db =
     (if \<not> distinct (map edge_key rs) \<or>
         \<not> list_all (\<lambda>r. exists_row (\<lambda>n. nod_hash n = edg_subject r) (nodes db) \<and>
           exists_row (\<lambda>n. nod_hash n = edg_target r) (nodes db)) rs
      then Inl (ErrInternal ''failed to insert resource node dependencies'')
      else Inr (db\<lparr>edges := fold upsert_edge rs (edges db)\<rparr>))"

text \<open>The edges of nodes of this Deployment that it did not write.\<close>

definition detach_old_edges :: "uuid \<Rightarrow> uuid \<Rightarrow> database \<Rightarrow> database" where
  "detach_old_edges environment deployment db = db\<lparr>edges := delete_rows (\<lambda>e.
     edg_deployment e \<noteq> deployment \<and>
     exists_row (\<lambda>n. nod_hash n = edg_subject e \<and> nod_environment n = environment \<and> nod_deployment n = deployment) (nodes db))
     (edges db)\<rparr>"

definition InitActiveResourcesFromGraph ::
  "(uuid \<Rightarrow> coordinate \<Rightarrow> string) \<Rightarrow> database \<Rightarrow> uuid \<Rightarrow> uuid \<Rightarrow> graph \<Rightarrow> database result" where
  "InitActiveResourcesFromGraph hash db environment deployment g =
     bindR (if included_nodes g = [] then Inr db
            else bindR (insert_nodes (map (node_values hash environment deployment) (included_nodes g)) db)
              (insert_edges (edge_values hash environment deployment g)))
       (\<lambda>db'. Inr (detach_old_edges environment deployment db'))"

section \<open>Reading and cleaning up\<close>

record resource_node =
  rn_row :: node_row
  rn_edges :: "(string \<times> string) list"

definition GetActiveResources :: "database \<Rightarrow> uuid \<Rightarrow> resource_node list" where
  "GetActiveResources db environment =
     map (\<lambda>n. \<lparr>rn_row = n, rn_edges = map (\<lambda>e. (edg_alias e, edg_target e))
         (filter (\<lambda>e. edg_subject e = nod_hash n \<and> edg_deployment e = nod_deployment n) (edges db))\<rparr>)
       (filter (\<lambda>n. nod_environment n = environment) (nodes db))"

definition DiscardOldActiveResources :: "database \<Rightarrow> uuid \<Rightarrow> uuid \<Rightarrow> database" where
  "DiscardOldActiveResources db environment deployment =
     (let old = (\<lambda>n. nod_environment n = environment \<and> nod_deployment n \<noteq> deployment);
          gone = map nod_hash (filter old (nodes db))
      in db\<lparr>nodes := delete_rows old (nodes db),
            edges := delete_rows (\<lambda>e. edg_subject e \<in> set gone \<or> edg_target e \<in> set gone) (edges db)\<rparr>)"

definition BulkUpdateActiveResources :: "database \<Rightarrow> uuid \<Rightarrow> uuid \<Rightarrow> (string \<times> json option) list \<Rightarrow> database" where
  "BulkUpdateActiveResources db environment deployment params = db\<lparr>nodes :=
     update_rows (\<lambda>n. nod_deployment n = deployment \<and> nod_environment n = environment \<and> nod_hash n \<in> fst ` set params)
       (\<lambda>n. n\<lparr>nod_metadata := (case map_of params (nod_hash n) of Some (Some m) \<Rightarrow> m | _ \<Rightarrow> nod_metadata n)\<rparr>) (nodes db)\<rparr>"

section \<open>Usage\<close>

record module_version_usage =
  us_project :: string
  us_environment :: string
  us_environment_uuid :: uuid
  us_version :: string
  us_deployment :: uuid
  us_observed_at :: instant

definition ListModuleVersionUsage :: "database \<Rightarrow> string \<Rightarrow> string \<Rightarrow> string option \<Rightarrow> module_version_usage list" where
  "ListModuleVersionUsage db org moduleID version =
     sort_key (\<lambda>u. (us_project u, us_environment u, us_version u)) (remdups (concat (map (\<lambda>e.
       case last_deployment True db e of
         None \<Rightarrow> []
       | Some d \<Rightarrow> map (\<lambda>n. \<lparr>us_project = env_project e, us_environment = env_name e, us_environment_uuid = env_id e,
             us_version = nod_module_version n, us_deployment = dep_id d,
             us_observed_at = opt_or (dep_completed_at d) (dep_created_at d)\<rparr>)
           (filter (\<lambda>n. nod_environment n = env_id e \<and> nod_deployment n = dep_id d \<and> nod_module n = moduleID \<and>
              opt_matches version (nod_module_version n)) (nodes db)))
       (filter (\<lambda>e. env_org e = org) (environments db)))))"

definition ListLastDeploymentsByNodeProperties ::
  "database \<Rightarrow> string \<Rightarrow> string \<Rightarrow> int \<Rightarrow> string option \<Rightarrow> string option \<Rightarrow> (deployment_summary list \<times> string) result" where
  "ListLastDeploymentsByNodeProperties db org pageToken perPage moduleID version =
     bindR (parse_env_token pageToken) (\<lambda>after.
     let limit = nat (max 1 perPage);
         rows = List.map_filter (\<lambda>e. map_option (blank_summary org e) (last_deployment True db e))
           (sort_key (\<lambda>e. (env_project e, env_name e)) (filter (\<lambda>e. env_org e = org \<and> after < (env_project e, env_name e) \<and>
              exists_row (\<lambda>n. nod_environment n = env_id e \<and> opt_matches moduleID (nod_module n) \<and>
                opt_matches version (nod_module_version n)) (nodes db)) (environments db)));
         out = take limit rows
     in Inr (out, if length rows > limit then env_token (sum_project (last out)) (sum_env (last out)) else ''''))"

section \<open>Keys and references\<close>

definition resource_inv :: "database \<Rightarrow> bool" where
  "resource_inv db \<longleftrightarrow> distinct (map nod_hash (nodes db)) \<and> distinct (map edge_key (edges db)) \<and>
     (\<forall>e \<in> set (edges db). edg_subject e \<in> nod_hash ` set (nodes db) \<and> edg_target e \<in> nod_hash ` set (nodes db))"

text \<open>What a bulk upsert of rows with distinct keys leaves in the table.\<close>

lemma upsert_row_keys:
  assumes "\<And>r n. key (merge r n) = key n"
  shows "map key (upsert_row key merge r t) = (if key r \<in> key ` set t then map key t else map key t @ [key r])"
proof -
  have "exists_row (\<lambda>n. key n = key r) t \<longleftrightarrow> key r \<in> key ` set t"
    unfolding exists_row_iff image_iff by metis
  then show ?thesis by (simp add: upsert_row_def map_key_update_rows assms)
qed

lemma upsert_rows_keys:
  assumes "\<And>r n. key (merge r n) = key n"
  shows "key ` set (fold (upsert_row key merge) rs t) = key ` set t \<union> key ` set rs"
    and "distinct (map key t) \<Longrightarrow> distinct (map key (fold (upsert_row key merge) rs t))"
proof -
  have one: "key ` set (upsert_row key merge r u) = insert (key r) (key ` set u)" for r u
    using arg_cong [OF upsert_row_keys [of key merge r u, OF assms], of set] by auto
  show "key ` set (fold (upsert_row key merge) rs t) = key ` set t \<union> key ` set rs"
    by (induction rs arbitrary: t) (simp_all add: one)
  show "distinct (map key t) \<Longrightarrow> distinct (map key (fold (upsert_row key merge) rs t))"
    by (induction rs arbitrary: t) (auto simp: upsert_row_keys [of key merge, OF assms])
qed

lemma update_rows_member:
  "x \<in> set (update_rows p f t) \<longleftrightarrow> (x \<in> set t \<and> \<not> p x) \<or> (\<exists>m \<in> set t. p m \<and> x = f m)"
  by (induction t) auto

lemma upsert_row_member:
  "x \<in> set (upsert_row key merge r t) \<longleftrightarrow> (x \<in> set t \<and> key x \<noteq> key r) \<or>
     (\<exists>m \<in> set t. key m = key r \<and> x = merge r m) \<or> (key r \<notin> key ` set t \<and> x = r)"
proof (cases "\<exists>m \<in> set t. key m = key r")
  case True
  then have "key r \<in> key ` set t" by (metis imageI)
  with True show ?thesis by (simp add: upsert_row_def update_rows_member)
next
  case False
  then have "key r \<notin> key ` set t" "\<forall>m \<in> set t. key m \<noteq> key r" by (auto simp: image_iff)
  then show ?thesis by (auto simp: upsert_row_def)
qed

lemma upsert_rows_member:
  assumes "\<And>r n. key (merge r n) = key n" and "distinct (map key rs)"
  shows "n \<in> set (fold (upsert_row key merge) rs t) \<longleftrightarrow>
    (n \<in> set t \<and> key n \<notin> key ` set rs) \<or>
    (\<exists>r \<in> set rs. (\<exists>m \<in> set t. key m = key r \<and> n = merge r m) \<or> (key r \<notin> key ` set t \<and> n = r))"
  using assms(2)
proof (induction rs arbitrary: t)
  case (Cons r rs)
  let ?u = "upsert_row key merge r t"
  note u = upsert_row_member [of _ key merge r t]
  have k: "key ` set ?u = insert (key r) (key ` set t)"
    using upsert_rows_keys(1) [of key merge "[r]" t, OF assms(1)] by auto
  have kr: "key r \<notin> key ` set rs" using Cons.prems by auto
  let ?A = "\<lambda>r' t'. (\<exists>m \<in> set t'. key m = key r' \<and> n = merge r' m) \<or> (key r' \<notin> key ` set t' \<and> n = r')"
  have other: "?A r' ?u = ?A r' t" if "r' \<in> set rs" for r'
  proof -
    have ne: "key r' \<noteq> key r" using kr that by (metis imageI)
    then have "m \<in> set ?u \<and> key m = key r' \<longleftrightarrow> m \<in> set t \<and> key m = key r'" for m
      unfolding u using assms(1) by auto
    moreover have "key r' \<in> key ` set ?u \<longleftrightarrow> key r' \<in> key ` set t" unfolding k using ne by simp
    ultimately show ?thesis by metis
  qed
  have "(n \<in> set ?u \<and> key n \<notin> key ` set rs) \<longleftrightarrow> (n \<in> set t \<and> key n \<notin> key ` set (r # rs)) \<or> ?A r t"
  proof -
    have "key n = key r" if "?A r t" using that assms(1) by auto
    moreover have "n \<in> set ?u \<longleftrightarrow> (n \<in> set t \<and> key n \<noteq> key r) \<or> ?A r t" using u [of n] by blast
    ultimately show ?thesis using kr by (cases "key n = key r") (simp_all, blast+)
  qed
  moreover have "n \<in> set (fold (upsert_row key merge) (r # rs) t) \<longleftrightarrow>
      (n \<in> set ?u \<and> key n \<notin> key ` set rs) \<or> (\<exists>r' \<in> set rs. ?A r' ?u)"
    using Cons.IH [of ?u] Cons.prems by simp
  moreover have "(\<exists>r' \<in> set rs. ?A r' ?u) \<longleftrightarrow> (\<exists>r' \<in> set rs. ?A r' t)" using other by blast
  ultimately show ?case by (simp only: list.set bex_simps) blast
qed simp

end
