(* ===== verification/Creation.thy ===== *)
theory Creation
  imports Compilation Active_Resources
begin

text \<open>
  \<^verbatim>\<open>CreateDeploymentWithOptions\<close> of \<^verbatim>\<open>internal/api/deployments_core.go\<close>:
  from a request to a Deployment in one transaction. The Control Plane is a parameter, its answers
  at the time of the call. So are the functions of the graph library, the encodings (JSON and the
  digests), and the two steps of the graph package that are not modelled, the provider mapping and
  the OpenTofu text. The event written to the outbox is left out.
\<close>

section \<open>What a creation takes\<close>

record cp_environment =
  ce_uuid :: uuid
  ce_project :: "uuid option"
  ce_deleting :: bool
  ce_runner :: "string option"

text \<open>A workload of the API manifest; its resources are opaque here.\<close>

record workload =
  wl_resources :: json
  wl_outputs :: "json option"
  wl_variables :: "json option"

record manifest =
  man_workloads :: "(string \<times> workload) list"
  man_shared :: "(string \<times> json) list"

definition empty_manifest :: manifest where
  "empty_manifest = \<lparr>man_workloads = [], man_shared = []\<rparr>"

text \<open>\<^verbatim>\<open>reflect.DeepEqual\<close> of two manifests.\<close>

definition manifest_equal :: "manifest \<Rightarrow> manifest \<Rightarrow> bool" where
  "manifest_equal a b \<longleftrightarrow> set (man_workloads a) = set (man_workloads b) \<and> set (man_shared a) = set (man_shared b)"

text \<open>A response of the runner endpoints: the status, the runner, and the message of a conflict.\<close>

record runner_response =
  rr_status :: int
  rr_runner :: string
  rr_conflict :: string

record control_plane =
  cl_update_runner :: "runner_response option"
  cl_get_runner :: "string \<Rightarrow> runner_response option"
  cl_published :: "(string \<times> string) list \<Rightarrow> string list \<Rightarrow> bool \<Rightarrow> catalogue_response option"

record toolkit =
  tk_dfs :: "graph \<Rightarrow> coordinate list"
  tk_seed :: "manifest \<Rightarrow> module_definition list \<Rightarrow> graph option \<Rightarrow> graph_error + graph"
  tk_provider_mapping :: "graph \<Rightarrow> string list \<Rightarrow> graph_error + graph"
  tk_tofu :: "graph \<Rightarrow> string list \<Rightarrow> string \<Rightarrow> uuid \<Rightarrow> graph_error + string"
  tk_graph_of :: "string \<Rightarrow> string + graph"
  tk_graph_text :: "graph \<Rightarrow> string"
  tk_manifest_of :: "string \<Rightarrow> string + manifest"
  tk_manifest_text :: "manifest \<Rightarrow> string"
  tk_hash :: "uuid \<Rightarrow> coordinate \<Rightarrow> string"
  tk_key_digest :: "string \<Rightarrow> string"
  tk_request_digest :: "(string \<times> string) list \<times> string list \<times> (string \<times> uuid) list \<Rightarrow> string"
  tk_admission_digest :: "attempt \<Rightarrow> module_artifact list \<Rightarrow> compiled_intent \<Rightarrow> string"
  tk_row_ok :: "deployment_row \<Rightarrow> bool"

record plan_capture =
  pc_base :: uuid
  pc_manifest :: string
  pc_graph :: string
  pc_diff :: deployment_diff
  pc_artifacts :: "module_artifact list"

record deployment_options =
  op_draft_tests :: "(string \<times> uuid) list"
  op_execution :: "((string \<times> string) list \<Rightarrow> catalogue_request \<Rightarrow> catalogue_response option) option"
  op_explicit :: "(string \<times> string) list"
  op_confirmations :: "uuid list"
  op_module_operation :: "uuid option"
  op_authorize :: "(string \<Rightarrow> bool \<Rightarrow> catalogue_artifact \<Rightarrow> create_error option) option"
  op_reuse_manifest :: bool
  op_ignore_pins :: bool
  op_require_runner :: bool
  op_expected_current :: "uuid option"
  op_retry_of_rollback :: "uuid option"
  op_expected_base :: "uuid option"
  op_key_digest :: "string option"
  op_queue_item :: "uuid option"
  op_admission :: "attempt option"
  op_validate_plan :: "(plan_capture \<Rightarrow> create_error option) option"

record creation_request =
  rq_actor :: uuid
  rq_org :: string
  rq_project :: string
  rq_env :: string
  rq_environment :: cp_environment
  rq_mode :: deployment_mode
  rq_rollback_to :: "uuid option"
  rq_manifest :: manifest
  rq_outputs_recipient :: "string option"
  rq_logs_recipient :: "string option"
  rq_key :: "string option"
  rq_dry_run :: bool
  rq_log_level :: "string option"

definition isRollback :: "deployment_mode \<Rightarrow> bool" where
  "isRollback m \<longleftrightarrow> m = ModeRollback \<or> m = ModeRollbackPlan"

definition useLastGraph :: "deployment_mode \<Rightarrow> bool" where
  "useLastGraph m \<longleftrightarrow> m = ModeDestroy \<or> isRollback m"

definition conflictC :: "string \<Rightarrow> 'a created" where
  "conflictC message = Inl (ModelFailure (NewErrConflict message))"

section \<open>Checks before anything is read\<close>

definition creation_guards :: "creation_request \<Rightarrow> deployment_options \<Rightarrow> unit created" where
  "creation_guards rq ops =
     (if ce_deleting (rq_environment rq) \<and> rq_mode rq \<noteq> ModeDestroy
      then Inl (ModelFailure (NewErrCodedConflict CodeEnvironmentDeleting ''environment is in status deleting''))
      else if useLastGraph (rq_mode rq) \<and> (man_workloads (rq_manifest rq) \<noteq> [] \<or> man_shared (rq_manifest rq) \<noteq> [])
      then Inl (OtherFailure ''manifest should be empty on destroy or rollback deployments'')
      else if ce_runner (rq_environment rq) = None \<and> op_require_runner ops
      then conflictC ''environment has no assigned runner for planning''
      else Inr ())"

definition assigned_runner :: "control_plane \<Rightarrow> cp_environment \<Rightarrow> string created" where
  "assigned_runner cl e =
     (case ce_runner e of
        Some r \<Rightarrow> Inr r
      | None \<Rightarrow>
          (case cl_update_runner cl of
             None \<Rightarrow> Inl (OtherFailure ''failed to update runner in environment'')
           | Some r \<Rightarrow>
               if rr_status r = 409 then conflictC (rr_conflict r)
               else if rr_status r \<noteq> 200 then Inl (OtherFailure ''unexpected status code when updating runner in environment'')
               else Inr (rr_runner r)))"

section \<open>Idempotent replay\<close>

definition request_digest :: "toolkit \<Rightarrow> deployment_options \<Rightarrow> string" where
  "request_digest tk ops = moduleVersionRequestDigest (tk_request_digest tk) (op_explicit ops) (op_confirmations ops) (op_draft_tests ops)"

definition key_digest :: "toolkit \<Rightarrow> creation_request \<Rightarrow> deployment_options \<Rightarrow> string option" where
  "key_digest tk rq ops = (case rq_key rq of None \<Rightarrow> op_key_digest ops | Some k \<Rightarrow> Some (tk_key_digest tk k))"

definition find_replay ::
  "toolkit \<Rightarrow> instant \<Rightarrow> database \<Rightarrow> creation_request \<Rightarrow> deployment_options \<Rightarrow> deployment_summary option created" where
  "find_replay tk wall db rq ops =
     (case key_digest tk rq ops of
        None \<Rightarrow> Inr None
      | Some digest \<Rightarrow>
          (case GetDeploymentByIdempotencyKeyDigest wall db (rq_org rq) (rq_project rq) (rq_env rq) digest of
             Inl e \<Rightarrow> if IsErrNotFound e then Inr None else Inl (ModelFailure e)
           | Inr (d, m) \<Rightarrow>
               (case tk_manifest_of tk m of
                  Inl e \<Rightarrow> Inl (OtherFailure ''failed to unmarshal deployment manifest'')
                | Inr other \<Rightarrow>
                    if sum_mode d \<noteq> rq_mode rq \<or> (rq_mode rq \<noteq> ModeDestroy \<and> \<not> manifest_equal other (rq_manifest rq))
                    then conflictC ''incorrect manifest or mode for this idempotency key''
                    else if sum_module_version_request_digest d \<noteq> request_digest tk ops \<or> sum_rollback_to d \<noteq> rq_rollback_to rq
                    then conflictC ''incorrect Module Version selection, restricted confirmation or rollback target for this idempotency key''
                    else Inr (Some d))))"

section \<open>The reference Deployment\<close>

record reference =
  rf_id :: uuid
  rf_graph :: "graph option"
  rf_manifest :: manifest
  rf_failed :: bool
  rf_succeeded :: bool

definition no_reference :: reference where
  "no_reference = \<lparr>rf_id = uuid_nil, rf_graph = None, rf_manifest = empty_manifest, rf_failed = False, rf_succeeded = False\<rparr>"

definition find_reference :: "toolkit \<Rightarrow> database \<Rightarrow> creation_request \<Rightarrow> reference created" where
  "find_reference tk db rq =
     (case (case rq_rollback_to rq of
          Some i \<Rightarrow> GetDeployment db (rq_org rq) i
        | None \<Rightarrow> GetLastDeployment db (rq_org rq) (rq_project rq) (rq_env rq) True) of
        Inl e \<Rightarrow> if IsErrNotFound e \<and> rq_rollback_to rq = None then Inr no_reference else Inl (ModelFailure e)
      | Inr (d, m, _, g) \<Rightarrow>
          if sum_env_uuid d \<noteq> ce_uuid (rq_environment rq)
          then conflictC ''cannot reference a deployment that is not part of this environment''
          else (case tk_graph_of tk g of
              Inl e \<Rightarrow> Inl (OtherFailure ''failed to parse reference deployment graph'')
            | Inr graph \<Rightarrow>
                (case tk_manifest_of tk m of
                   Inl e \<Rightarrow> Inl (OtherFailure ''failed to parse reference deployment manifest'')
                 | Inr manifest \<Rightarrow> Inr \<lparr>rf_id = sum_id d, rf_graph = Some graph, rf_manifest = manifest,
                     rf_failed = (sum_status d = StatusFailed), rf_succeeded = (sum_status d = StatusSucceeded)\<rparr>)))"

definition effective_manifest :: "creation_request \<Rightarrow> deployment_options \<Rightarrow> reference \<Rightarrow> manifest created" where
  "effective_manifest rq ops rf =
     (if op_reuse_manifest ops \<and> (rf_graph rf = None \<or> rf_id rf = uuid_nil)
      then conflictC ''environment has no effective deployment base''
      else if op_reuse_manifest ops \<and> \<not> rf_succeeded rf
      then conflictC ''latest mutating deployment is not a successful planning base''
      else if rq_mode rq = ModeDestroy \<and> rf_graph rf = None
      then conflictC ''cannot destroy an environment that has never been deployed''
      else Inr (if op_reuse_manifest ops then rf_manifest rf else rq_manifest rq))"

definition existing_runner :: "control_plane \<Rightarrow> string \<Rightarrow> string created" where
  "existing_runner cl i =
     (case cl_get_runner cl i of
        None \<Rightarrow> Inl (OtherFailure ''failed to get runner'')
      | Some r \<Rightarrow>
          if rr_status r = 404
          then conflictC ''no runner exists with id, the runner must be recreated or the environment must be updated with a new runner''
          else if rr_status r \<noteq> 200 then Inl (OtherFailure ''unexpected status code when getting runner'')
          else Inr (rr_runner r))"

section \<open>The graph\<close>

fun graph_failure :: "graph_error \<Rightarrow> create_error" where
  "graph_failure (UserBadRequest m) = ModelFailure (ErrBadRequest m)"
| "graph_failure (GraphFailure m) = OtherFailure m"

definition lift_build :: "graph_error + 'a \<Rightarrow> 'a created" where
  "lift_build r = map_sum graph_failure id r"

text \<open>Every Version of the catalogue is authorized, with a note whether the request selected it.\<close>

fun authorize_modules ::
  "(string \<Rightarrow> bool \<Rightarrow> catalogue_artifact \<Rightarrow> create_error option) \<Rightarrow> (string \<times> string) list \<Rightarrow> (string \<times> catalogue_artifact) list
     \<Rightarrow> catalogue_module list \<Rightarrow> unit created" where
  "authorize_modules auth explicit artifacts [] = Inr ()"
| "authorize_modules auth explicit artifacts (d # ds) =
     (case map_of artifacts (module_pin d) of
        None \<Rightarrow> conflictC ''module has no immutable version metadata''
      | Some a \<Rightarrow>
          (case auth (cm_id d) (map_of explicit (cm_id d) = Some (cm_version d)) a of
             Some e \<Rightarrow> Inl e
           | None \<Rightarrow> authorize_modules auth explicit artifacts ds))"

text \<open>The headers the catalogue requests carry, in the order the editors set them.\<close>

fun comma_list :: "string list \<Rightarrow> string" where
  "comma_list [] = ''''"
| "comma_list [x] = x"
| "comma_list (x # xs) = x @ '','' @ comma_list xs"

definition catalogueEditors :: "creation_request \<Rightarrow> deployment_options \<Rightarrow> string list \<Rightarrow> (string \<times> string) list" where
  "catalogueEditors rq ops active =
     (if isRollback (rq_mode rq) then [(''X-Stellwerk-Rollback'', ''true'')] else []) @
     (if op_confirmations ops \<noteq> []
      then [(''X-Stellwerk-Restricted-Version-Confirmations'', comma_list (map uuid_text (op_confirmations ops)))] else []) @
     (if active \<noteq> [] then [(''X-Stellwerk-Active-Module-Versions'', comma_list active)] else []) @
     (if op_ignore_pins ops then [(''X-Stellwerk-Module-Operation-Planning'', ''true'')] else []) @
     (case op_module_operation ops of None \<Rightarrow> [] | Some i \<Rightarrow> [(''X-Stellwerk-Module-Operation-Id'', uuid_text i)])"

record material =
  ma_definitions :: "catalogue_module list"
  ma_providers :: "string list"
  ma_artifacts :: "(string \<times> catalogue_artifact) list"
  ma_active :: "string list"

definition gather_material :: "control_plane \<Rightarrow> creation_request \<Rightarrow> deployment_options \<Rightarrow> reference \<Rightarrow> material created" where
  "gather_material cl rq ops rf =
     (let env = ce_uuid (rq_environment rq);
          pinned = (case rf_graph rf of Some g \<Rightarrow> if useLastGraph (rq_mode rq) then FindPinnedDefinitions g else [] | None \<Rightarrow> []);
          active = (case rf_graph rf of Some g \<Rightarrow> if rf_succeeded rf then activeModuleDefinitions g else [] | None \<Rightarrow> []);
          headers = catalogueEditors rq ops active in
      bindR (map_sum OtherFailure id (RetainedDraftTestCoordinates (rf_graph rf) env)) (\<lambda>retained.
      bindR (compilationCatalogue (map_option (\<lambda>call. call headers) (op_execution ops)) (cl_published cl headers) (selectedPinnedDefinitions pinned (op_explicit ops))
        (useLastGraph (rq_mode rq)) (op_draft_tests ops) (op_explicit ops) retained) (\<lambda>catalogue.
      bindR (validateCatalogueDraftSelection catalogue (op_draft_tests ops) retained env (op_explicit ops)) (\<lambda>tests.
      bindR (map_sum OtherFailure id (decodeCatalogueArtifacts (cat_modules catalogue))) (\<lambda>artifacts.
      bindR (case op_authorize ops of None \<Rightarrow> Inr ()
        | Some auth \<Rightarrow> authorize_modules auth (op_explicit ops) artifacts (cat_modules catalogue)) (\<lambda>_.
      bindR (map_sum (\<lambda>m. ModelFailure (NewErrConflict m)) id
        (applySelectedModuleVersions (cat_modules catalogue) (fold (\<lambda>(i, v). map_put i v) tests (op_explicit ops)))) (\<lambda>definitions.
        Inr \<lparr>ma_definitions = definitions, ma_providers = cat_providers catalogue, ma_artifacts = artifacts, ma_active = active\<rparr>)))))))"

text \<open>
  The manifest, the graph, and what the graph is compared with once it is complete. A destroy or
  rollback goes on with the very graph of the reference Deployment, so it is compared with itself.
\<close>

definition new_graph ::
  "toolkit \<Rightarrow> creation_request \<Rightarrow> manifest \<Rightarrow> reference \<Rightarrow> material \<Rightarrow> (manifest \<times> graph \<times> (graph \<Rightarrow> graph)) created" where
  "new_graph tk rq manifest rf ma =
     (case (if useLastGraph (rq_mode rq) then rf_graph rf else None) of
        Some g \<Rightarrow> bindR (map_sum (\<lambda>m. ModelFailure (NewErrConflict m)) id (AssignModuleDefinitionsToGraphNodes g (ma_definitions ma)))
          (\<lambda>(g', _). Inr (rf_manifest rf, g', \<lambda>graph. graph))
      | None \<Rightarrow> bindR (lift_build (BuildGraph (tk_dfs tk) (tk_seed tk) manifest (ma_definitions ma) (rf_graph rf)))
          (\<lambda>(g, assigned). Inr (manifest, AddDeletedNodes (tk_dfs tk) g assigned (rf_failed rf),
             \<lambda>graph. opt_or assigned \<lparr>g_nodes = [], g_edges = []\<rparr>)))"

definition creation_metrics :: "creation_request \<Rightarrow> manifest \<Rightarrow> graph \<Rightarrow> metrics" where
  "creation_metrics rq manifest g =
     (if rq_mode rq = ModeDestroy then zero_metrics
      else zero_metrics\<lparr>m_workloads := int (length (man_workloads manifest)),
        m_resource_nodes := int (length (g_nodes g)) - int (length (man_workloads manifest))\<rparr>)"

text \<open>A Defective Version keeps the confirmation the request gave for it.\<close>

definition confirm_restricted :: "deployment_options \<Rightarrow> (string \<times> catalogue_artifact) list \<Rightarrow> module_artifact \<Rightarrow> module_artifact" where
  "confirm_restricted ops artifacts r =
     (case (if op_authorize ops = None then None else map_of artifacts (art_module_id r @ ''@'' @ art_version r)) of
        None \<Rightarrow> r
      | Some a \<Rightarrow>
          if ca_status a = ''defective'' \<and> ca_version_uuid a \<noteq> uuid_nil \<and> ca_version_uuid a \<in> set (op_confirmations ops)
          then r\<lparr>art_confirmed_restricted := Some (ca_version_uuid a)\<rparr> else r)"

record compiled =
  cd_runner :: string
  cd_base :: uuid
  cd_manifest :: string
  cd_graph :: graph
  cd_graph_text :: string
  cd_tofu :: string
  cd_metrics :: metrics
  cd_diff :: deployment_diff
  cd_artifacts :: "module_artifact list"
  cd_active :: "string list"

definition compile_request :: "toolkit \<Rightarrow> control_plane \<Rightarrow> database \<Rightarrow> creation_request \<Rightarrow> deployment_options \<Rightarrow> string \<Rightarrow> compiled created" where
  "compile_request tk cl db rq ops assigned =
     bindR (find_reference tk db rq) (\<lambda>rf.
     bindR (effective_manifest rq ops rf) (\<lambda>manifest.
     bindR (existing_runner cl assigned) (\<lambda>runner.
     bindR (gather_material cl rq ops rf) (\<lambda>ma.
     bindR (new_graph tk rq manifest rf ma) (\<lambda>(manifest', g, before).
     bindR (lift_build (tk_provider_mapping tk g (ma_providers ma))) (\<lambda>graph.
     bindR (lift_build (tk_tofu tk graph (ma_providers ma) runner (ce_uuid (rq_environment rq)))) (\<lambda>tofu.
     bindR (map_sum OtherFailure id (DiffGraphs (tk_dfs tk) (tk_hash tk) (ce_uuid (rq_environment rq))
       (before graph) graph)) (\<lambda>diff.
     bindR (lift_model (moduleArtifactRequirements (tk_dfs tk) graph (ma_artifacts ma) (isRollback (rq_mode rq)))) (\<lambda>artifacts.
       Inr \<lparr>cd_runner = runner, cd_base = rf_id rf, cd_manifest = tk_manifest_text tk manifest', cd_graph = graph,
         cd_graph_text = tk_graph_text tk graph, cd_tofu = tofu, cd_metrics = creation_metrics rq manifest' graph, cd_diff = diff,
         cd_artifacts = map (confirm_restricted ops (ma_artifacts ma)) artifacts, cd_active = ma_active ma\<rparr>)))))))))"

section \<open>Admission and creation\<close>

definition intent_of :: "creation_request \<Rightarrow> compiled \<Rightarrow> compiled_intent" where
  "intent_of rq cd =
     (let (carry, confirmed) = deploymentAdmissionLifecycleEvidence (rq_mode rq) (cd_active cd) (cd_artifacts cd) in
      \<lparr>ci_project = rq_project rq, ci_environment = rq_env rq, ci_runner = cd_runner cd, ci_effective_base = cd_base cd,
       ci_rollback_to = rq_rollback_to rq, ci_manifest = cd_manifest cd, ci_graph = cd_graph_text cd, ci_tofu = cd_tofu cd,
       ci_outputs_recipient = opt_or (rq_outputs_recipient rq) '''', ci_logs_recipient = opt_or (rq_logs_recipient rq) '''',
       ci_runner_log_level = opt_or (rq_log_level rq) ''info'', ci_carry_forward = carry, ci_confirmed_restricted = confirmed\<rparr>)"

definition creation_params :: "toolkit \<Rightarrow> creation_request \<Rightarrow> deployment_options \<Rightarrow> compiled \<Rightarrow> create_params" where
  "creation_params tk rq ops cd =
     \<lparr>cp_created_by = rq_actor rq, cp_env_uuid = ce_uuid (rq_environment rq), cp_mode = rq_mode rq, cp_manifest = cd_manifest cd,
      cp_rollback_to = rq_rollback_to rq, cp_graph = cd_graph_text cd, cp_tofu = cd_tofu cd, cp_key_digest = key_digest tk rq ops,
      cp_runner_id = cd_runner cd, cp_outputs_recipient = rq_outputs_recipient rq, cp_logs_recipient = rq_logs_recipient rq,
      cp_metrics = cd_metrics cd, cp_runner_log_level = opt_or (rq_log_level rq) ''info'', cp_module_artifacts = cd_artifacts cd,
      cp_module_version_request_digest = request_digest tk ops, cp_expected_current = op_expected_current ops,
      cp_retry_of_rollback = op_retry_of_rollback ops, cp_expected_base = op_expected_base ops, cp_queue_item = op_queue_item ops\<rparr>"

definition dry_run_summary :: "creation_request \<Rightarrow> compiled \<Rightarrow> deployment_summary" where
  "dry_run_summary rq cd =
     \<lparr>sum_org = rq_org rq, sum_project = rq_project rq, sum_env = rq_env rq, sum_env_uuid = ce_uuid (rq_environment rq),
      sum_id = uuid_nil, sum_revision = 0, sum_mode = rq_mode rq, sum_rollback_to = rq_rollback_to rq, sum_created_at = 0,
      sum_created_by = rq_actor rq, sum_completed_at = None, sum_status = StatusExecuting, sum_status_message = ''dry run'',
      sum_runner_id = cd_runner cd, sum_metrics = cd_metrics cd, sum_outputs_recipient = rq_outputs_recipient rq,
      sum_logs_recipient = rq_logs_recipient rq, sum_runner_log_level = opt_or (rq_log_level rq) ''info'',
      sum_module_artifacts = [], sum_module_version_request_digest = '''', sum_fence = None\<rparr>"

text \<open>The graph whose nodes become active: none for a destroy, and nothing is written for a plan.\<close>

definition write_resources :: "toolkit \<Rightarrow> database \<Rightarrow> deployment_summary \<Rightarrow> graph \<Rightarrow> database created" where
  "write_resources tk db d g =
     (if sum_mode d = ModeDeployPlan then Inr db
      else lift_model (InitActiveResourcesFromGraph (tk_hash tk) db (sum_env_uuid d) (sum_id d)
        (if sum_mode d = ModeDestroy then \<lparr>g_nodes = [], g_edges = []\<rparr> else g)))"

text \<open>
  The outcome with the state in the transaction, the admission attempt, and the state that stays
  when the transaction is undone.
\<close>

record creation =
  cn_outcome :: "(deployment_summary \<times> deployment_diff option \<times> database) created"
  cn_attempt :: "attempt option"
  cn_kept :: database

definition admit :: "toolkit \<Rightarrow> core \<Rightarrow> instant \<Rightarrow> database \<Rightarrow> creation_request \<Rightarrow> deployment_options \<Rightarrow> compiled
    \<Rightarrow> create_error option \<times> attempt option \<times> database" where
  "admit tk c now db rq ops cd =
     (case op_admission ops of
        None \<Rightarrow> (None, None, db)
      | Some a \<Rightarrow>
          let (err, a', db') = Authorize (tk_admission_digest tk) c now db a (cd_artifacts cd) (intent_of rq cd)
          in (err, Some a', db'))"

definition plan_refused :: "deployment_options \<Rightarrow> compiled \<Rightarrow> create_error option" where
  "plan_refused ops cd = (case op_validate_plan ops of None \<Rightarrow> None
     | Some f \<Rightarrow> f \<lparr>pc_base = cd_base cd, pc_manifest = cd_manifest cd, pc_graph = cd_graph_text cd, pc_diff = cd_diff cd,
         pc_artifacts = cd_artifacts cd\<rparr>)"

definition create_admitted :: "toolkit \<Rightarrow> instant \<Rightarrow> instant \<Rightarrow> uuid \<Rightarrow> database \<Rightarrow> creation_request \<Rightarrow> deployment_options \<Rightarrow> compiled
    \<Rightarrow> attempt option \<Rightarrow> (deployment_summary \<times> deployment_diff option \<times> database) created" where
  "create_admitted tk now wall fresh db rq ops cd a =
     bindR (lift_model (CreateDeployment (tk_row_ok tk) now wall fresh db (rq_org rq) (rq_project rq) (rq_env rq)
       (creation_params tk rq ops cd))) (\<lambda>(d, db1).
     bindR (case a of None \<Rightarrow> Inr db1 | Some attempt \<Rightarrow> Bind attempt db1 (sum_id d)) (\<lambda>db2.
     bindR (write_resources tk db2 d (cd_graph cd)) (\<lambda>db3. Inr (d, Some (cd_diff cd), db3))))"

definition CreateDeploymentWithOptions ::
  "toolkit \<Rightarrow> control_plane \<Rightarrow> core \<Rightarrow> instant \<Rightarrow> instant \<Rightarrow> uuid \<Rightarrow> database \<Rightarrow> creation_request \<Rightarrow> deployment_options \<Rightarrow> creation" where
  "CreateDeploymentWithOptions tk cl c now wall fresh db rq ops =
     (case bindR (creation_guards rq ops) (\<lambda>_. bindR (assigned_runner cl (rq_environment rq)) (\<lambda>runner.
          bindR (find_replay tk wall db rq ops) (\<lambda>replay.
          case replay of Some d \<Rightarrow> Inr (Inl d) | None \<Rightarrow> map_sum id Inr (compile_request tk cl db rq ops runner)))) of
        Inl e \<Rightarrow> \<lparr>cn_outcome = Inl e, cn_attempt = op_admission ops, cn_kept = db\<rparr>
      | Inr (Inl d) \<Rightarrow> \<lparr>cn_outcome = Inr (d, None, db), cn_attempt = op_admission ops, cn_kept = db\<rparr>
      | Inr (Inr cd) \<Rightarrow>
          let (err, a, db1) = admit tk c now db rq ops cd in
          \<lparr>cn_outcome = (case err of Some e \<Rightarrow> Inl e | None \<Rightarrow>
             (case plan_refused ops cd of Some e \<Rightarrow> Inl e | None \<Rightarrow>
                if rq_dry_run rq then Inr (dry_run_summary rq cd, Some (cd_diff cd), db1)
                else create_admitted tk now wall fresh db1 rq ops cd a)),
           cn_attempt = a, cn_kept = db1\<rparr>)"

end
