(* ===== verification/Requests.thy ===== *)
theory Requests
  imports Creation
begin

text \<open>
  The request side of the API: authorization (\<^verbatim>\<open>internal/api/util.go\<close>,
  \<^verbatim>\<open>permissions.go\<close>), the options of a creation
  (\<^verbatim>\<open>deploymentOptions\<close>, \<^verbatim>\<open>createRequestedDeployment\<close> of
  \<^verbatim>\<open>internal/api/deployments.go\<close>), the configuration, replay and enqueue of
  \<^verbatim>\<open>internal/api/deployment_queue.go\<close>, and the validation in
  \<^verbatim>\<open>createDeployment\<close>. The server is a record of what it calls: the IAM service,
  the Control Plane, Core and the encodings.
\<close>

section \<open>The server\<close>

record deployment_request =
  dr_draft_tests :: "(string \<times> uuid) list"
  dr_manifest :: "manifest option"
  dr_rollback_to :: "uuid option"
  dr_module_versions :: "(string \<times> string) list"
  dr_confirmations :: "uuid list"
  dr_outputs_recipient :: "string option"
  dr_logs_recipient :: "string option"
  dr_log_level :: "string option"

record queue_config =
  qf_max_depth :: int
  qf_default_ttl :: duration
  qf_max_ttl :: duration

text \<open>The answer of \<^verbatim>\<open>GetEnvironment\<close>: the status and, with 200, the Environment.\<close>

record environment_response =
  er_status :: int
  er_environment :: "cp_environment option"

record server =
  sv_toolkit :: toolkit
  sv_control :: control_plane
  sv_core :: core
  sv_admissions :: bool
  sv_execution :: "((string \<times> string) list \<Rightarrow> catalogue_request \<Rightarrow> catalogue_response option) option"
  sv_name_uuid :: "string list \<Rightarrow> uuid"
  sv_environment :: "string \<Rightarrow> string \<Rightarrow> string \<Rightarrow> environment_response option"
  sv_iam :: "uuid \<Rightarrow> string \<Rightarrow> string \<Rightarrow> string \<Rightarrow> create_error option"
  sv_request_of :: "string \<Rightarrow> deployment_request option"
  sv_request_text :: "deployment_request \<Rightarrow> string"
  sv_recipient_ok :: "string \<Rightarrow> bool"
  sv_intent_sha :: "intent_identity \<Rightarrow> string"
  sv_queue_config :: queue_config

section \<open>Authorization\<close>

text \<open>\<open>sv_iam actor org permission resource\<close> is the check of one permission.\<close>

definition checkOrgAuthorization :: "server \<Rightarrow> uuid \<Rightarrow> string \<Rightarrow> string \<Rightarrow> create_error option" where
  "checkOrgAuthorization sv actor org permission = sv_iam sv actor org permission (''organization:'' @ org)"

definition checkEnvAuthorization :: "server \<Rightarrow> uuid \<Rightarrow> string \<Rightarrow> uuid \<Rightarrow> string \<Rightarrow> create_error option" where
  "checkEnvAuthorization sv actor org environment permission =
     (case sv_iam sv actor org permission (''env:'' @ uuid_text environment) of
        None \<Rightarrow> None
      | Some scoped \<Rightarrow> (case checkOrgAuthorization sv actor org permission of None \<Rightarrow> None | Some _ \<Rightarrow> Some scoped))"

definition PermissionDeploymentWrite :: string where "PermissionDeploymentWrite = ''deployment_write''"
definition PermissionModuleVersionUseProposed :: string where "PermissionModuleVersionUseProposed = ''module.version.use-proposed''"
definition PermissionModuleVersionPinDefective :: string where "PermissionModuleVersionPinDefective = ''module.version.pin-defective''"
definition PermissionModuleVersionRollbackRestricted :: string where
  "PermissionModuleVersionRollbackRestricted = ''module.version.rollback-restricted''"

definition validateDraftTestSelection :: "(string \<times> uuid) list \<Rightarrow> unit result" where
  "validateDraftTestSelection selection =
     (if selection = [] \<or> length selection > 1000
      then Inl (ErrBadRequest ''select between 1 and 1000 immutable Module test snapshots'')
      else guardR (list_all (\<lambda>(key, snapshot). uuid_shaped key \<and> snapshot \<noteq> uuid_nil) selection)
        (ErrBadRequest ''Module test selection requires canonical Module and snapshot UUIDs''))"

section \<open>Options of a creation\<close>

definition authorizeModuleVersion ::
  "server \<Rightarrow> uuid \<Rightarrow> string \<Rightarrow> uuid \<Rightarrow> deployment_mode \<Rightarrow> deployment_request \<Rightarrow> bool \<Rightarrow> catalogue_artifact \<Rightarrow> create_error option" where
  "authorizeModuleVersion sv actor org environment mode request explicitlySelected a =
     (if ca_draft_test a \<noteq> None \<and> opt_or (map_of (dr_draft_tests request) (uuid_text (ca_module_uuid a))) uuid_nil = ca_version_uuid a
      then checkOrgAuthorization sv actor org ''module.version.publish''
      else if ca_status a = ''proposed''
      then if explicitlySelected then checkEnvAuthorization sv actor org environment PermissionModuleVersionUseProposed else None
      else if ca_status a = ''defective''
      then if ca_version_uuid a = uuid_nil \<or> ca_version_uuid a \<notin> set (dr_confirmations request)
        then Some (ModelFailure (ErrBadRequest ''Defective Module Version requires explicit confirmation of its exact Version UUID''))
        else checkEnvAuthorization sv actor org environment
          (if isRollback mode then PermissionModuleVersionRollbackRestricted else PermissionModuleVersionPinDefective)
      else None)"

definition deploymentOptions ::
  "server \<Rightarrow> uuid \<Rightarrow> uuid \<Rightarrow> string \<Rightarrow> cp_environment \<Rightarrow> deployment_mode \<Rightarrow> deployment_request \<Rightarrow> string \<Rightarrow> bool \<Rightarrow> deployment_options" where
  "deploymentOptions sv fresh actor org env mode request admissionKey dryRun =
     \<lparr>op_draft_tests = dr_draft_tests request, op_execution = (if sv_admissions sv then sv_execution sv else None),
      op_explicit = dr_module_versions request, op_confirmations = dr_confirmations request,
      op_module_operation = None,
      op_authorize = (if dr_module_versions request \<noteq> [] \<or> dr_confirmations request \<noteq> [] \<or> dr_draft_tests request \<noteq> []
        then Some (\<lambda>_. authorizeModuleVersion sv actor org (ce_uuid env) mode request) else None),
      op_reuse_manifest = False, op_ignore_pins = False, op_require_runner = False, op_expected_current = None, op_retry_of_rollback = None,
      op_expected_base = None, op_key_digest = None, op_queue_item = None,
      op_admission = (if \<not> dryRun \<and> RequiresEnvironmentLease mode \<and> sv_admissions sv
        then Some (NewAttempt (sv_name_uuid sv) fresh org (opt_or (ce_project env) uuid_nil) (ce_uuid env) actor mode admissionKey) else None),
      op_validate_plan = None\<rparr>"

definition creation_of ::
  "uuid \<Rightarrow> string \<Rightarrow> string \<Rightarrow> string \<Rightarrow> cp_environment \<Rightarrow> deployment_mode \<Rightarrow> deployment_request \<Rightarrow> string option \<Rightarrow> bool \<Rightarrow> creation_request" where
  "creation_of actor org project env environment mode request key dryRun =
     \<lparr>rq_actor = actor, rq_org = org, rq_project = project, rq_env = env, rq_environment = environment, rq_mode = mode,
      rq_rollback_to = dr_rollback_to request, rq_manifest = opt_or (dr_manifest request) empty_manifest,
      rq_outputs_recipient = dr_outputs_recipient request, rq_logs_recipient = dr_logs_recipient request, rq_key = key,
      rq_dry_run = dryRun, rq_log_level = dr_log_level request\<rparr>"

text \<open>\<open>fresh\<close> and \<open>attempt\<close> are the identities the creation draws for the Deployment and for an admission without key.\<close>

definition sealed_state :: "server \<Rightarrow> instant \<Rightarrow> creation \<Rightarrow> create_error option \<times> database" where
  "sealed_state sv now cn = (case cn_attempt cn of None \<Rightarrow> (None, cn_kept cn) | Some a \<Rightarrow> SealAbsent (sv_core sv) now (cn_kept cn) a)"

definition no_pending :: pending_changes where
  "no_pending = \<lparr>pc_running = 0, pc_queued = 0\<rparr>"

record requested_deployment =
  rd_deployment :: deployment_summary
  rd_diff :: "deployment_diff option"
  rd_pending :: pending_changes

definition createRequestedDeployment ::
  "server \<Rightarrow> instant \<Rightarrow> instant \<Rightarrow> uuid \<Rightarrow> uuid \<Rightarrow> database \<Rightarrow> creation_request \<Rightarrow> deployment_request \<Rightarrow> uuid option
     \<Rightarrow> requested_deployment created \<times> database" where
  "createRequestedDeployment sv now wall fresh attempt db rq request expectedBase =
     (let ops = (deploymentOptions sv attempt (rq_actor rq) (rq_org rq) (rq_environment rq) (rq_mode rq) request (opt_or (rq_key rq) '''') (rq_dry_run rq))
            \<lparr>op_expected_base := expectedBase\<rparr>;
          cn = CreateDeploymentWithOptions (sv_toolkit sv) (sv_control sv) (sv_core sv) now wall fresh db rq ops in
      case cn_outcome cn of
        Inl e \<Rightarrow> (case sealed_state sv now cn of (Some sealErr, db') \<Rightarrow> (Inl sealErr, db') | (None, db') \<Rightarrow> (Inl e, db'))
      | Inr (d, diff, db1) \<Rightarrow>
          let pending = (if rq_dry_run rq \<or> \<not> RequiresEnvironmentLease (rq_mode rq)
            then ReadPendingEnvironmentChanges db1 (rq_org rq) (rq_project rq) (rq_env rq) (ce_uuid (rq_environment rq))
            else no_pending)
          in (Inr \<lparr>rd_deployment = d, rd_diff = diff, rd_pending = pending\<rparr>, if rq_dry_run rq then cn_kept cn else db1))"

section \<open>The queue behind a request\<close>

definition DefaultDeploymentQueueConfig :: queue_config where
  "DefaultDeploymentQueueConfig = \<lparr>qf_max_depth = 10, qf_default_ttl = 2 * hour, qf_max_ttl = 24 * hour\<rparr>"

definition deploymentQueueConfig :: "server \<Rightarrow> queue_config" where
  "deploymentQueueConfig sv =
     (let c = sv_queue_config sv; d = DefaultDeploymentQueueConfig in
      \<lparr>qf_max_depth = (if qf_max_depth c \<le> 0 then qf_max_depth d else qf_max_depth c),
       qf_default_ttl = (if qf_default_ttl c \<le> 0 then qf_default_ttl d else qf_default_ttl c),
       qf_max_ttl = (if qf_max_ttl c \<le> 0 then qf_max_ttl d else qf_max_ttl c)\<rparr>)"

definition newDeploymentQueueItem ::
  "server \<Rightarrow> uuid \<Rightarrow> string \<Rightarrow> string \<Rightarrow> string \<Rightarrow> uuid \<Rightarrow> deployment_mode \<Rightarrow> deployment_request \<Rightarrow> string option \<Rightarrow> uuid option
     \<Rightarrow> duration \<Rightarrow> new_queue_item" where
  "newDeploymentQueueItem sv actor org project env environment mode request key expectedBase ttl =
     \<lparr>nq_org = org, nq_project = project, nq_env = env, nq_environment = environment, nq_mode = mode,
      nq_intent = sv_request_text sv request, nq_key_digest = map_option (tk_key_digest (sv_toolkit sv)) key,
      nq_expected_base = expectedBase, nq_halt_on_failure = False, nq_created_by = actor, nq_ttl = ttl\<rparr>"

text \<open>The waiting or settled item of the key, if it has not become a Deployment, and whether a Deployment answers.\<close>

definition findReplay :: "server \<Rightarrow> instant \<Rightarrow> database \<Rightarrow> new_queue_item \<Rightarrow> (queue_item option \<times> bool) result" where
  "findReplay sv wall db request =
     (let digest = opt_or (nq_key_digest request) '''' in
      case FindDeploymentQueueItemByIdempotencyKey wall db (nq_org request) (nq_environment request) digest of
        Inl e \<Rightarrow>
          if \<not> IsErrNotFound e then Inl e
          else (case GetDeploymentByIdempotencyKeyDigest wall db (nq_org request) (nq_project request) (nq_env request) digest of
              Inl e' \<Rightarrow> if IsErrNotFound e' then Inr (None, False) else Inl e'
            | Inr _ \<Rightarrow> Inr (None, True))
      | Inr item \<Rightarrow>
          if q_intent_sha256 (fst item) \<noteq> IntentSHA256 (sv_intent_sha sv) request
          then Inl (NewErrConflict ''incorrect request for this idempotency key'')
          else if q_state (fst item) = Dispatched then Inr (None, True) else Inr (Some item, False))"

datatype create_answer =
    Answered http_answer
  | Created deployment_summary pending_changes
  | DryRun string deployment_diff pending_changes
  | Accepted queue_item
  | Failed create_error
  | Panicked

definition error_answer :: "create_error \<Rightarrow> create_answer" where
  "error_answer e = (case createDeploymentErrorResponse e of Inl e' \<Rightarrow> Failed e' | Inr a \<Rightarrow> Answered a)"

text \<open>The answer, the state, and the Environments whose promotion is kicked.\<close>

definition enqueueDeployment ::
  "server \<Rightarrow> bool \<Rightarrow> instant \<Rightarrow> instant \<Rightarrow> uuid \<Rightarrow> database \<Rightarrow> new_queue_item \<Rightarrow> create_answer \<times> database \<times> uuid list" where
  "enqueueDeployment sv orgToken now wall item db request =
     (if orgToken
      then (Answered (Generate409FromModelErr
        ''the Environment is busy; queueing a Deployment requires an attributable user, not an organization token'' CodeEnvironmentBusy), db, [])
      else case EnqueueDeployment (sv_intent_sha sv) now wall item db request (qf_max_depth (deploymentQueueConfig sv)) of
        Inl e \<Rightarrow> (error_answer (ModelFailure e), db, [])
      | Inr (row, replayed, db') \<Rightarrow> (Accepted row, db', if replayed then [] else [nq_environment request]))"

section \<open>Validation of a request\<close>

datatype body_mode = BodyDeploy | BodyPlanOnly | BodyRollback | BodyDestroy | BodyOther string

datatype when_busy = QueueWhenBusy | RejectWhenBusy

record create_body =
  cb_project :: string
  cb_env :: string
  cb_mode :: body_mode
  cb_plan_only :: "bool option"
  cb_manifest :: "manifest option"
  cb_rollback_to :: "uuid option"
  cb_module_versions :: "(string \<times> string) list"
  cb_confirmations :: "uuid list"
  cb_outputs_recipient :: "string option"
  cb_logs_recipient :: "string option"
  cb_log_level :: "string option"
  cb_dry_run :: bool
  cb_when_busy :: "when_busy option"
  cb_queue_ttl_seconds :: "int option"
  cb_halt_on_failure :: "bool option"
  cb_expected_base :: "uuid option"

text \<open>\<^verbatim>\<open>^[a-z0-9][a-z0-9-]{0,61}[a-z0-9]$\<close>\<close>

definition name_char :: "char \<Rightarrow> bool" where
  "name_char c \<longleftrightarrow> c \<in> set ''abcdefghijklmnopqrstuvwxyz0123456789''"

definition valid_score_name :: "string \<Rightarrow> bool" where
  "valid_score_name s \<longleftrightarrow> 2 \<le> length s \<and> length s \<le> 63 \<and> name_char (hd s) \<and> name_char (last s) \<and>
     list_all (\<lambda>c. name_char c \<or> c = CHR ''-'') s"

definition bad :: "string \<Rightarrow> http_answer + 'a" where
  "bad message = Inl (Generate400Response message)"

text \<open>Deprecated variables become outputs.\<close>

fun validate_workloads :: "(string \<times> workload) list \<Rightarrow> http_answer + (string \<times> workload) list" where
  "validate_workloads [] = Inr []"
| "validate_workloads ((name, w) # ws) =
     (if \<not> valid_score_name name then bad ''workload name is invalid''
      else case wl_variables w of
        Some v \<Rightarrow>
          if wl_outputs w \<noteq> None then bad ''variables and outputs cannot be used together, please use outputs instead''
          else bindR (validate_workloads ws) (\<lambda>ws'. Inr ((name, w\<lparr>wl_outputs := Some v, wl_variables := None\<rparr>) # ws'))
      | None \<Rightarrow> bindR (validate_workloads ws) (\<lambda>ws'. Inr ((name, w) # ws')))"

definition validate_manifest :: "create_body \<Rightarrow> http_answer + manifest option" where
  "validate_manifest b =
     (let none_needed = (cb_mode b = BodyRollback \<or> cb_mode b = BodyDestroy) in
      if none_needed \<and> cb_manifest b \<noteq> None then bad ''manifest cannot be provided when mode is this''
      else if \<not> none_needed \<and> cb_manifest b = None then bad ''manifest must be provided when mode is this''
      else if cb_mode b = BodyRollback \<and> cb_rollback_to b = None then bad ''rollback_to_deployment_id must be set when mode is rollback''
      else if cb_mode b \<noteq> BodyRollback \<and> cb_rollback_to b \<noteq> None
      then bad ''rollback_to_deployment_id must not be set when mode is this''
      else if cb_mode b = BodyRollback \<and> cb_module_versions b \<noteq> []
      then bad ''module_versions cannot be provided for a rollback deployment''
      else case cb_manifest b of
        None \<Rightarrow> Inr None
      | Some m \<Rightarrow>
          bindR (validate_workloads (man_workloads m)) (\<lambda>ws.
          if list_all (\<lambda>e. valid_score_name (fst e)) (man_shared m) then Inr (Some (m\<lparr>man_workloads := ws\<rparr>))
          else bad ''shared resource alias is invalid''))"

definition model_mode :: "create_body \<Rightarrow> http_answer + deployment_mode" where
  "model_mode b =
     (case cb_mode b of
        BodyDeploy \<Rightarrow> Inr (if cb_plan_only b = Some True then ModeDeployPlan else ModeDeploy)
      | BodyPlanOnly \<Rightarrow> if cb_plan_only b = Some False then bad ''plan_only cannot be false if mode is plan_only'' else Inr ModeDeployPlan
      | BodyRollback \<Rightarrow> Inr (if cb_plan_only b = Some True then ModeRollbackPlan else ModeRollback)
      | BodyDestroy \<Rightarrow> Inr ModeDestroy
      | BodyOther m \<Rightarrow> bad ''invalid mode'')"

text \<open>\<^verbatim>\<open>time.Duration(seconds) * time.Second\<close> is a product of 64-bit integers.\<close>

definition seconds_duration :: "int \<Rightarrow> duration" where
  "seconds_duration n = sint (word_of_int n * word_of_int second :: 64 word)"

definition queue_ttl :: "server \<Rightarrow> create_body \<Rightarrow> http_answer + duration" where
  "queue_ttl sv b =
     (let whenBusy = opt_or (cb_when_busy b) QueueWhenBusy in
      if opt_or (cb_halt_on_failure b) False \<and> whenBusy \<noteq> QueueWhenBusy then bad ''halt_on_failure requires when_busy to be queue''
      else case cb_queue_ttl_seconds b of
        None \<Rightarrow> Inr (qf_default_ttl (deploymentQueueConfig sv))
      | Some n \<Rightarrow>
          if whenBusy \<noteq> QueueWhenBusy then bad ''queue_ttl_seconds requires when_busy to be queue''
          else if seconds_duration n > qf_max_ttl (deploymentQueueConfig sv) then bad ''queue_ttl_seconds must not exceed the maximum''
          else Inr (seconds_duration n))"

definition validate_body :: "server \<Rightarrow> create_body \<Rightarrow> http_answer + manifest option \<times> deployment_mode \<times> duration" where
  "validate_body sv b =
     bindR (validate_manifest b) (\<lambda>m.
     bindR (if (case cb_outputs_recipient b of None \<Rightarrow> True | Some r \<Rightarrow> sv_recipient_ok sv r) then Inr ()
            else bad ''encrypted_outputs_recipient: failed to parse as age public key'') (\<lambda>_.
     bindR (if (case cb_logs_recipient b of None \<Rightarrow> True | Some r \<Rightarrow> sv_recipient_ok sv r) then Inr ()
            else bad ''encrypted_logs_recipient: failed to parse as age public key'') (\<lambda>_.
     bindR (model_mode b) (\<lambda>mode.
     bindR (queue_ttl sv b) (\<lambda>ttl. Inr (m, mode, ttl))))))"

section \<open>The handler\<close>

record creation_ids =
  id_deployment :: uuid
  id_attempt :: uuid
  id_item :: uuid

definition request_of :: "(string \<times> uuid) list \<Rightarrow> create_body \<Rightarrow> manifest option \<Rightarrow> deployment_request" where
  "request_of draftTests b m =
     \<lparr>dr_draft_tests = draftTests, dr_manifest = m, dr_rollback_to = cb_rollback_to b, dr_module_versions = cb_module_versions b,
      dr_confirmations = cb_confirmations b, dr_outputs_recipient = cb_outputs_recipient b, dr_logs_recipient = cb_logs_recipient b,
      dr_log_level = cb_log_level b\<rparr>"

text \<open>What the queue answers before a creation is tried: an answer, or nothing.\<close>

definition queue_first ::
  "server \<Rightarrow> bool \<Rightarrow> instant \<Rightarrow> instant \<Rightarrow> uuid \<Rightarrow> database \<Rightarrow> cp_environment \<Rightarrow> when_busy \<Rightarrow> string option \<Rightarrow> new_queue_item
     \<Rightarrow> (create_answer \<times> database \<times> uuid list) option" where
  "queue_first sv orgToken now wall item db env whenBusy key queued =
     (case (if key = None then Inr (None, False) else findReplay sv wall db queued) of
        Inl e \<Rightarrow> Some (error_answer (ModelFailure e), db, [])
      | Inr (Some replay, _) \<Rightarrow> Some (Accepted replay, db, [])
      | Inr (None, deploymentReplay) \<Rightarrow>
          if whenBusy = QueueWhenBusy \<and> \<not> deploymentReplay
          then if ce_deleting env
            then Some (error_answer (ModelFailure (NewErrCodedConflict CodeEnvironmentDeleting ''environment is in status deleting'')), db, [])
            else (case CheckEnvironmentAvailable now db (nq_org queued) (nq_project queued) (nq_env queued) (nq_environment queued) uuid_nil of
                Inl e \<Rightarrow>
                  if conflict_Is e ErrEnvironmentBusy then Some (enqueueDeployment sv orgToken now wall item db queued)
                  else Some (error_answer (ModelFailure e), db, [])
              | Inr _ \<Rightarrow> None)
          else None)"

text \<open>
  The creation and its answer; \<open>mayQueue\<close> says whether a request that finds the Environment
  busy goes to the queue. A dry run without a difference is a nil dereference.
\<close>

definition answer_request ::
  "server \<Rightarrow> bool \<Rightarrow> instant \<Rightarrow> instant \<Rightarrow> creation_ids \<Rightarrow> database \<Rightarrow> creation_request \<Rightarrow> deployment_request \<Rightarrow> uuid option
     \<Rightarrow> bool \<Rightarrow> new_queue_item \<Rightarrow> create_answer \<times> database \<times> uuid list" where
  "answer_request sv orgToken now wall ids db rq request expectedBase mayQueue queued =
     (case createRequestedDeployment sv now wall (id_deployment ids) (id_attempt ids) db rq request expectedBase of
        (Inl e, db') \<Rightarrow>
          if failure_Is e ErrEnvironmentBusy \<and> mayQueue then enqueueDeployment sv orgToken now wall (id_item ids) db' queued
          else (error_answer e, db', if failure_Is e ErrEnvironmentBusy then [ce_uuid (rq_environment rq)] else [])
      | (Inr r, db') \<Rightarrow>
          if rq_dry_run rq
          then (case rd_diff r of
              Some diff \<Rightarrow> (DryRun (sum_runner_id (rd_deployment r)) diff (rd_pending r), db', [])
            | None \<Rightarrow> (Panicked, db', []))
          else (Created (rd_deployment r) (rd_pending r), db', []))"

text \<open>A request that passed validation.\<close>

definition serve_valid ::
  "server \<Rightarrow> bool \<Rightarrow> instant \<Rightarrow> instant \<Rightarrow> creation_ids \<Rightarrow> database \<Rightarrow> uuid \<Rightarrow> string \<Rightarrow> string option \<Rightarrow> create_body \<Rightarrow> (string \<times> uuid) list
     \<Rightarrow> cp_environment \<Rightarrow> manifest option \<Rightarrow> deployment_mode \<Rightarrow> duration \<Rightarrow> create_answer \<times> database \<times> uuid list" where
  "serve_valid sv orgToken now wall ids db actor org key b draftTests env m mode ttl =
     (let whenBusy = opt_or (cb_when_busy b) QueueWhenBusy;
          queueable = (\<not> cb_dry_run b \<and> (mode = ModeDeploy \<or> mode = ModeRollback));
          request = request_of draftTests b m;
          queued = (newDeploymentQueueItem sv actor org (cb_project b) (cb_env b) (ce_uuid env) mode request key
            (cb_expected_base b) ttl)\<lparr>nq_halt_on_failure := opt_or (cb_halt_on_failure b) False\<rparr> in
      case (if queueable \<and> (whenBusy = QueueWhenBusy \<or> key \<noteq> None)
          then queue_first sv orgToken now wall (id_item ids) db env whenBusy key queued else None) of
        Some answer \<Rightarrow> answer
      | None \<Rightarrow> answer_request sv orgToken now wall ids db
          (creation_of actor org (cb_project b) (cb_env b) env mode request key (cb_dry_run b)) request (cb_expected_base b)
          (queueable \<and> whenBusy = QueueWhenBusy) queued)"

definition createDeployment ::
  "server \<Rightarrow> bool \<Rightarrow> instant \<Rightarrow> instant \<Rightarrow> creation_ids \<Rightarrow> database \<Rightarrow> uuid \<Rightarrow> string \<Rightarrow> string option \<Rightarrow> create_body \<Rightarrow> (string \<times> uuid) list
     \<Rightarrow> create_answer \<times> database \<times> uuid list" where
  "createDeployment sv orgToken now wall ids db actor org key b draftTests =
     (case sv_environment sv org (cb_project b) (cb_env b) of
        None \<Rightarrow> (Failed (OtherFailure ''failed to get environment''), db, [])
      | Some response \<Rightarrow>
          if er_status response = 404 then (Answered (Generate409Response ''environment not found''), db, [])
          else case (if er_status response = 200 then er_environment response else None) of
            None \<Rightarrow> (Failed (OtherFailure ''unexpected status code when getting environment''), db, [])
          | Some env \<Rightarrow>
              (case checkEnvAuthorization sv actor org (ce_uuid env) PermissionDeploymentWrite of
                 Some e \<Rightarrow> (Failed e, db, [])
               | None \<Rightarrow>
                   (case validate_body sv b of
                      Inl a \<Rightarrow> (Answered a, db, [])
                    | Inr (m, mode, ttl) \<Rightarrow>
                        serve_valid sv orgToken now wall ids db actor org key b draftTests env m mode ttl)))"

text \<open>
  \<^verbatim>\<open>internal/api/module_test_deployments.go\<close>: a Deployment that tests captured
  Draft snapshots, a list of Module identities with their snapshots.
\<close>

definition CreateModuleTestDeployment ::
  "server \<Rightarrow> bool \<Rightarrow> instant \<Rightarrow> instant \<Rightarrow> creation_ids \<Rightarrow> database \<Rightarrow> uuid \<Rightarrow> string \<Rightarrow> string option
     \<Rightarrow> (create_body \<times> (string \<times> uuid) list) option \<Rightarrow> create_answer \<times> database \<times> uuid list" where
  "CreateModuleTestDeployment sv orgToken now wall ids db actor org key body =
     (case body of
        None \<Rightarrow> (Failed (ModelFailure (ErrBadRequest ''a captured test selection is required'')), db, [])
      | Some (b, selection) \<Rightarrow>
          (case validateDraftTestSelection selection of
             Inl e \<Rightarrow> (error_answer (ModelFailure e), db, [])
           | Inr _ \<Rightarrow>
               if cb_mode b \<noteq> BodyDeploy \<and> cb_mode b \<noteq> BodyPlanOnly
               then (error_answer (ModelFailure (ErrBadRequest
                 ''fresh Module tests support deploy and plan-only; rollback uses retained Deployment history'')), db, [])
               else createDeployment sv orgToken now wall ids db actor org key b selection))"

end
