(* ===== verification/System.thy ===== *)
theory System
  imports Deployment_Invariant
begin

text \<open>
  The Data Plane as one transition system: a step is one committed transaction of the model
  package. Reachable states satisfy the queue constraints, the Deployment invariant and the
  Runner capacity bound; from these follow mutual exclusion and what a creation may assume.
  \<open>limit_of\<close> is the configured \<^verbatim>\<open>max_parallel_jobs\<close> of a Runner, zero
  when it is not configured.
\<close>

section \<open>Steps\<close>

text \<open>
  Every other transaction, for instance one that records a receipt, writes none of the tables that
  decide who runs: it leaves the core of the database as it is.
\<close>

definition same_core :: "database \<Rightarrow> database \<Rightarrow> bool" where
  "same_core db db' \<longleftrightarrow> deployments db' = deployments db \<and> environments db' = environments db \<and>
     leases db' = leases db \<and> budgets db' = budgets db \<and> reservations db' = reservations db \<and>
     queue db' = queue db \<and> queue_next_seq db' = queue_next_seq db"

inductive dp_step :: "(string \<Rightarrow> string \<Rightarrow> int) \<Rightarrow> database \<Rightarrow> database \<Rightarrow> bool" for limit_of where
  step_create: "CreateDeployment row_ok now wall fresh db org project env p = Inr (s, db') \<Longrightarrow>
    env_identity db org project env (cp_env_uuid p) \<Longrightarrow> dp_step limit_of db db'"
| step_update: "UpdateDeploymentStatusAndOutputs now wall db i p = Inr (s, db') \<Longrightarrow>
    up_status p \<noteq> StatusExecuting \<Longrightarrow> dp_step limit_of db db'"
| step_renew: "RenewDeploymentLease now db i ttl = (r, db') \<Longrightarrow> dp_step limit_of db db'"
| step_dispatch: "BeginDeploymentDispatch now wall db dep = Inr (deadline, db') \<Longrightarrow> dp_step limit_of db db'"
| step_reserve: "ReserveRunnerJob now db dep (limit_of (sum_org dep) (sum_runner_id dep)) = Inr db' \<Longrightarrow>
    dp_step limit_of db db'"
| step_release: "dp_step limit_of db (ReleaseRunnerJob now i db)"
| step_complete: "dp_step limit_of db (RecordDeploymentCompletion now i db)"
| step_late: "RecordLateOrdinaryRunnerCompletion sha now db dep (body :: string) = Inr (handled, db') \<Longrightarrow> dp_step limit_of db db'"
| step_delete: "DeleteDeploymentsForEnv db org project env force expected = Inr db' \<Longrightarrow> dp_step limit_of db db'"
| step_history: "CreateDeploymentHistoryRecord db dep = Inr db' \<Longrightarrow> dp_step limit_of db db'"
| step_event: "TryRecordRunnerEvent db event org runner i kind = (applied, db') \<Longrightarrow> dp_step limit_of db db'"
| step_enqueue: "EnqueueDeployment qsha now wall fresh db request maxDepth = Inr (item, replayed, db') \<Longrightarrow>
    dp_step limit_of db db'"
| step_settle: "queue_settle db K db' \<Longrightarrow> dp_step limit_of db db'"
| step_other: "same_core db db' \<Longrightarrow> dp_step limit_of db db'"

definition dp_reachable :: "(string \<Rightarrow> string \<Rightarrow> int) \<Rightarrow> database \<Rightarrow> bool" where
  "dp_reachable limit_of db \<longleftrightarrow> (dp_step limit_of)\<^sup>*\<^sup>* empty_database db"

section \<open>Frames\<close>

lemma queue_settle_frame:
  assumes "queue_settle db K db'"
  shows "db' = db\<lparr>queue := queue db'\<rparr>"
  using assms
proof (induction rule: queue_settle.induct)
  case (settle_cancel locked now db org i actor reason item db')
  from settle_cancel.hyps show ?case
    by (cases rule: CancelDeploymentQueueItem_cases) (auto dest!: SettleDeploymentQueueItem_cases(2))
next
  case (settle_all now db environment state s n db')
  from SettleQueuedDeployments_cases(4) [OF settle_all.hyps] show ?case by simp
next
  case (settle_one now db i state s db')
  from SettleDeploymentQueueItem_cases(2) [OF settle_one.hyps] show ?case by simp
next
  case (settle_expire locked now db limit envs db')
  with ExpireDeploymentQueueItems_eq [of locked now db limit] show ?case by simp
qed (auto simp: DeferDeploymentQueueItem_def PruneDeploymentQueue_def)

lemma EnqueueDeployment_frame:
  assumes "EnqueueDeployment sha now wall fresh db request maxDepth = Inr (item, replayed, db')"
  shows "db' = db\<lparr>queue := queue db', queue_next_seq := queue_next_seq db'\<rparr>"
  using assms by (cases rule: EnqueueDeployment_cases) (auto dest!: insert_queue_row_cases(1))

lemma queue_settle_tables:
  assumes "queue_settle db K db'"
  shows "deployments db' = deployments db" "environments db' = environments db" "leases db' = leases db"
    "budgets db' = budgets db" "reservations db' = reservations db"
  by (subst queue_settle_frame [OF assms], simp)+

lemma EnqueueDeployment_tables:
  assumes "EnqueueDeployment sha now wall fresh db request maxDepth = Inr (item, replayed, db')"
  shows "deployments db' = deployments db" "environments db' = environments db" "leases db' = leases db"
    "budgets db' = budgets db" "reservations db' = reservations db"
  by (subst EnqueueDeployment_frame [OF assms], simp)+

section \<open>The invariant of the system\<close>

definition capacity_inv :: "(string \<Rightarrow> string \<Rightarrow> int) \<Rightarrow> database \<Rightarrow> bool" where
  "capacity_inv limit_of db \<longleftrightarrow> (\<forall>org runner. 0 < limit_of org runner \<longrightarrow>
     int (count_rows (live_on_runner org runner) (reservations db)) \<le> limit_of org runner)"

definition sys_inv :: "(string \<Rightarrow> string \<Rightarrow> int) \<Rightarrow> database \<Rightarrow> bool" where
  "sys_inv limit_of db \<longleftrightarrow> dep_inv db \<and> queue_inv db \<and> capacity_inv limit_of db"

lemma sys_inv_empty: "sys_inv limit_of empty_database"
proof -
  have "reservations empty_database = []" by (simp add: empty_database_def)
  then show ?thesis by (simp add: sys_inv_def dep_inv_empty queue_inv_empty capacity_inv_def)
qed

lemma capacity_inv_mono:
  assumes "capacity_inv limit_of db"
    and "\<And>org runner. count_rows (live_on_runner org runner) (reservations db') \<le> count_rows (live_on_runner org runner) (reservations db)"
  shows "capacity_inv limit_of db'"
  using assms unfolding capacity_inv_def by (meson of_nat_mono order_trans)

lemma capacity_inv_same: "reservations db' = reservations db \<Longrightarrow> capacity_inv limit_of db' = capacity_inv limit_of db"
  by (simp add: capacity_inv_def)

lemma count_rows_delete_le: "count_rows p (delete_rows q t) \<le> count_rows p t"
  by (induction t) (auto simp: delete_rows_def count_rows_def)

lemma CreateDeployment_frame:
  assumes "CreateDeployment row_ok now wall fresh db org project env p = Inr (s, db')"
  shows "reservations db' = reservations db" "queue db' = queue db" "queue_next_seq db' = queue_next_seq db"
    "acknowledgements db' = acknowledgements db" "runner_inbox db' = runner_inbox db" "late_results db' = late_results db"
    "external_receipts db' = external_receipts db" "observation_receipts db' = observation_receipts db"
    "admissions db' = admissions db" "history db' = history db"
  using assms
  by (rule CreateDeployment_cases;
      auto simp: upsert_environment_def split: option.splits if_splits elim!: acquire_lease_cases)+

lemma sys_inv_create:
  assumes "CreateDeployment row_ok now wall fresh db org project env p = Inr (s, db')"
    and "env_identity db org project env (cp_env_uuid p)" "sys_inv limit_of db"
  shows "sys_inv limit_of db'"
  using assms CreateDeployment_dep_inv [OF assms(1) _ assms(2)] CreateDeployment_frame [OF assms(1)]
  by (simp add: sys_inv_def capacity_inv_same [of db' db] queue_inv_cong [of db' db])

lemma RecordDeploymentCompletion_count:
  "count_rows (live_on_runner org runner) (reservations (RecordDeploymentCompletion now i db))
     \<le> count_rows (live_on_runner org runner) (reservations db)"
  unfolding RecordDeploymentCompletion_def by (rule order_trans [OF ReleaseRunnerJob_count]) simp

lemma terminal_effects_count:
  "count_rows (live_on_runner org runner) (reservations (terminal_effects now i proven db))
     \<le> count_rows (live_on_runner org runner) (reservations db)"
  unfolding terminal_effects_def Let_def
  using ReleaseRunnerJob_count [of org runner now i db] RecordDeploymentCompletion_count [of org runner now i db]
    ReleaseRunnerJob_count [of org runner now i "RecordDeploymentCompletion now i db"]
  by (cases proven) simp_all

lemma sys_inv_update:
  assumes "UpdateDeploymentStatusAndOutputs now wall db i p = Inr (s, db')" "up_status p \<noteq> StatusExecuting"
    and "sys_inv limit_of db"
  shows "sys_inv limit_of db'"
proof -
  from assms(1,2) have db': "db' = terminal_effects now i (up_completion_proven p)
       (db\<lparr>deployments := update_rows (\<lambda>d. dep_id d = i) (settled_row wall p) (deployments db)\<rparr>)"
    by (rule UpdateDeployment_cases)
  have "count_rows (live_on_runner org runner) (reservations db') \<le> count_rows (live_on_runner org runner) (reservations db)" for org runner
    unfolding db' by (rule order_trans [OF terminal_effects_count]) simp
  with capacity_inv_mono have "capacity_inv limit_of db'" using assms(3) by (auto simp: sys_inv_def)
  with UpdateDeployment_dep_inv [OF assms(1,2)] assms(3) queue_inv_cong [of db' db] show ?thesis
    by (simp add: sys_inv_def db')
qed

lemma sys_inv_reserve:
  assumes "ReserveRunnerJob now db dep (limit_of (sum_org dep) (sum_runner_id dep)) = Inr db'" "sys_inv limit_of db"
  shows "sys_inv limit_of db'"
proof -
  have "capacity_inv limit_of db'"
    using assms(1)
  proof (cases rule: ReserveRunnerJob_cases)
    case claimed
    then show ?thesis
      using assms(2) unfolding sys_inv_def capacity_inv_def claimed(1)
      by (auto simp: live_on_runner_def)
  qed (use assms(2) in \<open>simp add: sys_inv_def\<close>)
  with assms ReserveRunnerJob_dep_inv [OF assms(1)] ReserveRunnerJob_tables(5,6) [OF assms(1)] show ?thesis
    by (simp add: sys_inv_def queue_inv_cong [of db' db])
qed

lemma sys_inv_release: "sys_inv limit_of db \<Longrightarrow> sys_inv limit_of (ReleaseRunnerJob now i db)"
  using capacity_inv_mono [OF _ ReleaseRunnerJob_count]
  by (simp add: sys_inv_def ReleaseRunnerJob_dep_inv queue_inv_cong [of "ReleaseRunnerJob now i db" db])

lemma sys_inv_complete: "sys_inv limit_of db \<Longrightarrow> sys_inv limit_of (RecordDeploymentCompletion now i db)"
  using capacity_inv_mono [OF _ RecordDeploymentCompletion_count]
  by (simp add: sys_inv_def RecordDeploymentCompletion_dep_inv queue_inv_cong [of "RecordDeploymentCompletion now i db" db])

lemma sys_inv_delete:
  assumes "DeleteDeploymentsForEnv db org project env force expected = Inr db'" "sys_inv limit_of db"
  shows "sys_inv limit_of db'"
  using assms(1)
proof (rule DeleteDeploymentsForEnv_cases)
  fix db2
  assume del: "delete_environment org project env expected db2 = Inr db'"
    and q2: "queue db2 = delete_rows (\<lambda>q. q_org q = org \<and> q_project q = project \<and> q_env q = env \<and>
       (expected = None \<or> expected = Some (q_environment q))) (queue db)" "queue_next_seq db2 = queue_next_seq db"
    and res: "case find_env org project env db of
       None \<Rightarrow> reservations db2 = reservations db
     | Some e \<Rightarrow> (expected = None \<or> expected = Some (env_id e)) \<and>
         (\<forall>r \<in> set (reservations db). env_deployment db (env_id e) (res_deployment r) \<longrightarrow> res_released_at r \<noteq> None) \<and>
         reservations db2 = delete_rows (\<lambda>r. env_deployment db (env_id e) (res_deployment r) \<and> res_released_at r \<noteq> None) (reservations db)"
  from del have f: "queue db' = queue db2" "queue_next_seq db' = queue_next_seq db2" "reservations db' = reservations db2"
    unfolding delete_environment_def Let_def by (auto dest: cascade_tables(4,5,8))
  from queue_inv_delete [of db] assms(2) have "queue_inv db'"
    by (subst queue_inv_cong [of db' "db\<lparr>queue := queue db2\<rparr>"]) (simp_all add: f q2 sys_inv_def)
  moreover have "capacity_inv limit_of db'"
  proof (rule capacity_inv_mono)
    show "capacity_inv limit_of db" using assms(2) by (simp add: sys_inv_def)
    show "count_rows (live_on_runner a b) (reservations db') \<le> count_rows (live_on_runner a b) (reservations db)" for a b
      using res unfolding f(3) by (auto split: option.splits simp: count_rows_delete_le)
  qed
  ultimately show ?thesis
    using DeleteDeploymentsForEnv_dep_inv [OF assms(1)] assms(2) by (simp add: sys_inv_def)
qed

lemma RecordLate_cases:
  assumes "RecordLateOrdinaryRunnerCompletion sha now db dep body = Inr (handled, db')"
  obtains (nothing) "db' = db"
  | (proven) "handled" "db' = RecordDeploymentCompletion now (sum_id dep)
      (db\<lparr>completion_receipts := completion_receipts db @ [\<lparr>cmp_deployment = sum_id dep, cmp_org = sum_org dep,
         cmp_runner = sum_runner_id dep, cmp_payload_sha256 = sha body\<rparr>]\<rparr>)"
  using assms unfolding RecordLateOrdinaryRunnerCompletion_def
  by (auto split: option.splits if_splits sum.splits)

lemma sys_inv_frame:
  assumes "sys_inv limit_of db"
    and "deployments db' = deployments db" "environments db' = environments db" "leases db' = leases db"
    and "budgets db' = budgets db" "reservations db' = reservations db" "queue db' = queue db"
    and "queue_next_seq db' = queue_next_seq db"
  shows "sys_inv limit_of db'"
  using assms dep_inv_cong [of db' db] queue_inv_cong [of db' db] capacity_inv_same [of db' db] by (simp add: sys_inv_def)

lemma sys_inv_queue:
  assumes "sys_inv limit_of db" "db' = db\<lparr>queue := q, queue_next_seq := n\<rparr>" "queue_inv db'"
  shows "sys_inv limit_of db'"
  using assms dep_inv_cong [of db' db] capacity_inv_same [of db' db] by (simp add: sys_inv_def)

lemma sys_inv_step:
  assumes "dp_step limit_of db db'" "sys_inv limit_of db"
  shows "sys_inv limit_of db'"
  using assms
proof (induction rule: dp_step.induct)
  case (step_create row_ok now wall fresh db org project env p s db')
  then show ?case by (blast intro: sys_inv_create)
next
  case (step_update now wall db i p s db')
  then show ?case by (blast intro: sys_inv_update)
next
  case (step_renew now db i ttl r db')
  then have "dep_inv db'" by (blast intro: RenewDeploymentLease_dep_inv dest: sys_inv_def [THEN iffD1])
  with step_renew show ?case
    using queue_inv_cong [of db' db] capacity_inv_same [of db' db]
    by (auto simp: sys_inv_def RenewDeploymentLease_def Let_def)
next
  case (step_dispatch now wall db dep deadline db')
  from step_dispatch.hyps have db': "db' = start_budget now (sum_id dep) (sum_revision dep) db"
    by (rule BeginDeploymentDispatch_cases)
  then show ?case
    using step_dispatch.prems start_budget_dep_inv queue_inv_cong [of db' db] capacity_inv_same [of db' db]
    by (simp add: sys_inv_def start_budget_def)
next
  case (step_reserve now db dep db')
  then show ?case by (blast intro: sys_inv_reserve)
next
  case (step_late sha now db dep body handled db')
  from step_late.hyps show ?case
  proof (cases rule: RecordLate_cases)
    case proven
    then show ?thesis using step_late.prems by (auto intro!: sys_inv_complete elim: sys_inv_frame)
  qed (use step_late.prems in simp)
next
  case (step_delete db org project env force expected db')
  then show ?case by (blast intro: sys_inv_delete)
next
  case (step_history db dep db')
  then show ?case
    by (auto simp: CreateDeploymentHistoryRecord_def split: sum.splits if_splits elim: sys_inv_frame)
next
  case (step_event db event org runner i kind applied db')
  then show ?case by (auto simp: TryRecordRunnerEvent_def split: if_splits elim: sys_inv_frame)
next
  case (step_enqueue qsha now wall fresh db request maxDepth item replayed db')
  then have "queue_inv db'" by (blast intro: EnqueueDeployment_inv dest: sys_inv_def [THEN iffD1])
  with sys_inv_queue [OF step_enqueue.prems EnqueueDeployment_frame [OF step_enqueue.hyps]] show ?case .
next
  case (step_settle db K db')
  then have "queue_inv db'" by (blast intro: queue_settle_inv dest: sys_inv_def [THEN iffD1])
  moreover have "db' = db\<lparr>queue := queue db', queue_next_seq := queue_next_seq db'\<rparr>"
    using queue_settle_frame [OF step_settle.hyps] by (metis database.surjective database.update_convs(14,15))
  ultimately show ?case using sys_inv_queue [OF step_settle.prems] by blast
next
  case (step_other db db')
  then show ?case by (auto simp: same_core_def elim: sys_inv_frame)
qed (auto intro: sys_inv_release sys_inv_complete)

lemma sys_inv_reachable: "dp_reachable limit_of db \<Longrightarrow> sys_inv limit_of db"
  unfolding dp_reachable_def by (induction rule: rtranclp_induct) (auto intro: sys_inv_empty sys_inv_step)

end
