(* ===== verification/Admission_Contract.thy ===== *)
theory Admission_Contract
  imports Admission_Service
begin

text \<open>
  What the admission receipts promise: an outcome is decided once, whatever happens afterwards;
  the exchange with Core changes nothing else; recovery brings every receipt it can to its end.
\<close>

section \<open>Module targets\<close>

lemma map_of_put: "map_of (map_put k v es) = (map_of es)(k \<mapsto> v)"
  by (induction es) (auto simp: fun_eq_iff)

lemma collect_targets_versions:
  assumes "collect_targets project environment artifacts versions drafts = Inr (versions', drafts')"
  shows "map_of versions \<subseteq>\<^sub>m map_of versions'"
    and "a \<in> set artifacts \<Longrightarrow> map_of versions' (uuid_text (art_module_uuid a)) = Some (art_version_uuid a)"
    and "dom (map_of versions') = dom (map_of versions) \<union> (\<lambda>a. uuid_text (art_module_uuid a)) ` set artifacts"
  using assms
proof (induction artifacts arbitrary: versions drafts)
  case (Cons x artifacts)
  let ?k = "uuid_text (art_module_uuid x)" and ?v = "art_version_uuid x"
  {
    case 1
    then have "map_of versions ?k = None \<or> map_of versions ?k = Some ?v"
      by (auto simp: Let_def split: if_splits)
    moreover have "map_of (map_put ?k ?v versions) \<subseteq>\<^sub>m map_of versions'"
      using 1 Cons.IH(1) by (auto simp: Let_def split: if_splits option.splits)
    ultimately show ?case unfolding map_of_put by (auto simp: map_le_def dom_def split: if_splits)
  next
    case 2
    have "map_of (map_put ?k ?v versions) \<subseteq>\<^sub>m map_of versions'"
      using 2(2) Cons.IH(1) by (auto simp: Let_def split: if_splits option.splits)
    then have "map_of versions' ?k = Some ?v" unfolding map_of_put by (auto simp: map_le_def dom_def split: if_splits)
    then show ?case using 2 Cons.IH(2) by (auto simp: Let_def split: if_splits option.splits)
  next
    case 3
    have "dom (map_of versions') = dom (map_of (map_put ?k ?v versions)) \<union> (\<lambda>a. uuid_text (art_module_uuid a)) ` set artifacts"
      using 3 Cons.IH(3) by (auto simp: Let_def split: if_splits option.splits)
    then show ?case by (auto simp: map_of_put)
  }
qed auto

lemma collect_targets_drafts:
  assumes "collect_targets project environment artifacts versions drafts = Inr (versions', drafts')"
    and "dom (map_of drafts) \<subseteq> dom (map_of versions)"
  shows "(\<forall>k \<in> dom (map_of versions). (k \<in> dom (map_of drafts')) = (k \<in> dom (map_of drafts))) \<and>
    (\<forall>a \<in> set artifacts. (uuid_text (art_module_uuid a) \<in> dom (map_of drafts')) = (art_draft_test a \<noteq> None))"
  using assms
proof (induction artifacts arbitrary: versions drafts)
  case (Cons x artifacts)
  let ?key = "uuid_text (art_module_uuid x)" and ?v = "art_version_uuid x"
  let ?drafts = "if art_draft_test x = None then drafts else map_put ?key ?v drafts"
  have rest: "collect_targets project environment artifacts (map_put ?key ?v versions) ?drafts = Inr (versions', drafts')"
    and same: "?key \<in> dom (map_of versions) \<Longrightarrow> (?key \<in> dom (map_of drafts)) = (art_draft_test x \<noteq> None)"
    using Cons.prems(1) by (auto simp: Let_def domIff split: if_splits option.splits)
  have "dom (map_of ?drafts) \<subseteq> dom (map_of (map_put ?key ?v versions))" using Cons.prems(2) by (auto simp: map_of_put)
  note IH = Cons.IH [OF rest this]
  have "(?key \<in> dom (map_of ?drafts)) = (art_draft_test x \<noteq> None)"
  proof (cases "art_draft_test x")
    case None
    with same Cons.prems(2) show ?thesis by (simp, blast)
  qed (simp add: map_of_put)
  then have key: "(?key \<in> dom (map_of drafts')) = (art_draft_test x \<noteq> None)"
    using IH by (auto simp: map_of_put)
  have "(k \<in> dom (map_of drafts')) = (k \<in> dom (map_of drafts))" if "k \<in> dom (map_of versions)" for k
  proof (cases "k = ?key")
    case True
    with key same that show ?thesis by simp
  next
    case False
    have "k \<in> dom (map_of (map_put ?key ?v versions))" using that by (simp add: map_of_put)
    with IH have "(k \<in> dom (map_of drafts')) = (k \<in> dom (map_of ?drafts))" by blast
    with False show ?thesis by (simp add: map_of_put domIff)
  qed
  then show ?case using IH key by auto
qed simp

section \<open>The exchange with Core is a sequence of receipt steps\<close>

lemma admissions_frame: "\<exists>t. db = db\<lparr>admissions := t\<rparr>" "\<exists>t. update_pending org i f db = db\<lparr>admissions := t\<rparr>"
proof -
  show "\<exists>t. db = db\<lparr>admissions := t\<rparr>" by (rule exI [of _ "admissions db"]) simp
  show "\<exists>t. update_pending org i f db = db\<lparr>admissions := t\<rparr>" unfolding update_pending_def by blast
qed

lemma admission_step_frame: "admission_step db db' \<Longrightarrow> \<exists>t. db' = db\<lparr>admissions := t\<rparr>"
proof (induction rule: admission_step.induct)
  case (prepare now db r row db')
  then have "db' = db \<or> db' = db\<lparr>admissions := admissions db @ [row]\<rparr>"
    by (auto simp: PrepareDeploymentAdmissionReceipt_def Let_def split: sum.splits if_splits)
  then show ?case using admissions_frame(1) by blast
next
  case (bind db intent d epoch row db')
  then have "db' = db \<or> db' = update_pending (adm_org intent) (adm_id intent) (bind_row d epoch) db"
    by (auto simp: BindDeploymentAdmissionReceipt_def Let_def split: if_splits)
  then show ?case using admissions_frame by blast
next
  case (seal db intent epoch row db')
  then have "db' = db \<or> db' = update_pending (adm_org intent) (adm_id intent) (seal_row epoch) db"
    by (auto simp: SealDeploymentAdmissionAbsent_def Let_def split: if_splits)
  then show ?case using admissions_frame by blast
next
  case (settle now db org i outcome epoch db')
  then show ?case unfolding MarkDeploymentAdmissionCoreSettled_def by (auto split: if_splits)
qed

lemma admission_steps_frame: "admission_step\<^sup>*\<^sup>* db db' \<Longrightarrow> \<exists>t. db' = db\<lparr>admissions := t\<rparr>"
proof (induction rule: rtranclp_induct)
  case base
  show ?case by (rule exI [of _ "admissions db"]) simp
next
  case (step y z)
  then show ?case using admission_step_frame [OF step(2)] by auto
qed

lemma markCoreSettled_steps: "markCoreSettled now db receipt outcome epoch = (err, db') \<Longrightarrow> admission_step\<^sup>*\<^sup>* db db'"
  by (auto simp: markCoreSettled_def split: sum.splits intro: admission_step.settle)

lemma sealAbsent_steps:
  assumes "sealAbsent c now db intent = (err, db')"
  shows "admission_step\<^sup>*\<^sup>* db db'"
proof (cases "SealDeploymentAdmissionAbsent db intent (adm_core_epoch intent)")
  case (Inl e)
  with assms show ?thesis by (simp add: sealAbsent_def)
next
  case (Inr p)
  obtain receipt db1 where p: "p = (receipt, db1)" by fastforce
  with Inr have "admission_step\<^sup>*\<^sup>* db db1" by (auto intro: admission_step.seal)
  moreover have "admission_step\<^sup>*\<^sup>* db1 db'"
    using assms Inr p by (auto simp: sealAbsent_def split: option.splits if_splits dest: markCoreSettled_steps)
  ultimately show ?thesis by (rule rtranclp_trans)
qed

lemma SealAbsent_steps: "SealAbsent c now db a = (err, db') \<Longrightarrow> admission_step\<^sup>*\<^sup>* db db'"
  by (auto simp: SealAbsent_def split: if_splits dest: sealAbsent_steps)

lemma settle_steps: "settle c now db receipt outcome = (err, db') \<Longrightarrow> admission_step\<^sup>*\<^sup>* db db'"
  by (auto simp: settle_def split: option.splits if_splits dest: markCoreSettled_steps)

lemma SettleDeployment_steps: "SettleDeployment c now db d = (err, db') \<Longrightarrow> admission_step\<^sup>*\<^sup>* db db'"
  by (auto simp: SettleDeployment_def split: sum.splits if_splits deployment_status.splits dest: settle_steps)

lemma Authorize_steps: "Authorize digest c now db a artifacts compiled = (err, a', db') \<Longrightarrow> admission_step\<^sup>*\<^sup>* db db'"
  by (auto simp: Authorize_def Let_def split: sum.splits if_splits dest!: admission_step.prepare)

lemma Bind_steps: "Bind a db d = Inr db' \<Longrightarrow> admission_step\<^sup>*\<^sup>* db db'"
  by (auto simp: Bind_def split: if_splits intro: admission_step.bind)

lemma reconcile_loop_steps: "reconcile_loop c now k rs db = (err, db') \<Longrightarrow> admission_step\<^sup>*\<^sup>* db db'"
proof (induction c now k rs db rule: reconcile_loop.induct)
  case (2 c now k r rs db)
  obtain e db1 where one: "(case if adm_disposition r = Committed then adm_deployment r else None of
      Some d \<Rightarrow> SettleDeployment (c k) now db d | None \<Rightarrow> sealAbsent (c k) now db r) = (e, db1)" by fastforce
  then have "admission_step\<^sup>*\<^sup>* db db1" by (auto split: option.splits dest: SettleDeployment_steps sealAbsent_steps)
  moreover have "db' = db1 \<or> admission_step\<^sup>*\<^sup>* db1 db'"
    using 2 one by (auto split: option.splits if_splits)
  ultimately show ?case by (auto intro: rtranclp_trans)
qed simp

section \<open>Recovery of one receipt\<close>

text \<open>Core confirms what it is asked about this receipt.\<close>

definition confirms :: "core \<Rightarrow> admission_row \<Rightarrow> bool" where
  "confirms c r \<longleftrightarrow>
     (adm_disposition r \<noteq> Committed \<longrightarrow> (\<exists>answer x. core_seal_absence c (adm_org r) (adm_id r) (deploymentAdmissionRequest r) =
        Some \<lparr>cs_status = 200, cs_receipt = Some answer, cs_conflict = x\<rparr> \<and>
        matchingAdmissionReceipt answer r AdmissionStateSettled ''absent'' \<and> (adm_core_epoch r = 0 \<or> cr_epoch answer = adm_core_epoch r))) \<and>
     (adm_disposition r = Committed \<longrightarrow> (\<forall>t. \<exists>answer x. core_settle c (adm_org r) (adm_id r) (adm_project r) (adm_environment r)
        (adm_request_digest r) t = Some \<lparr>cs_status = 200, cs_receipt = Some answer, cs_conflict = x\<rparr> \<and>
        matchingAdmissionReceipt answer r AdmissionStateSettled t \<and> cr_epoch answer = adm_core_epoch r))"

text \<open>The Deployment of a committed receipt has ended.\<close>

definition settleable :: "database \<Rightarrow> admission_row \<Rightarrow> bool" where
  "settleable db r \<longleftrightarrow> (adm_disposition r = Committed \<longrightarrow> (case adm_deployment r of None \<Rightarrow> False | Some d \<Rightarrow>
     (case GetDeployment db (adm_org r) d of Inl e \<Rightarrow> False | Inr (s, rest) \<Rightarrow> sum_status s \<noteq> StatusExecuting)))"

definition settled_in :: "database \<Rightarrow> admission_row \<Rightarrow> bool" where
  "settled_in db r \<longleftrightarrow> (\<exists>r' \<in> set (admissions db). evolves r r' \<and> adm_core_settled_at r' \<noteq> None)"

lemma settled_in_steps: "settled_in db r \<Longrightarrow> admission_inv db \<Longrightarrow> admission_step\<^sup>*\<^sup>* db db' \<Longrightarrow> settled_in db' r"
  using admission_steps_evolve [of db db'] unfolding settled_in_def receipts_evolve_def
  by (metis (no_types, lifting) evolves_def evolves_trans)

lemma get_receipt: "admission_inv db \<Longrightarrow> r \<in> set (admissions db) \<Longrightarrow> GetDeploymentAdmissionReceipt db (adm_org r) (adm_id r) = Inr r"
  using lookup_row_distinct [of admission_key "admissions db" r]
  by (simp add: GetDeploymentAdmissionReceipt_def readDeploymentAdmissionReceipt_def admission_inv_def admission_key_def)

lemma mark_settles:
  assumes "r \<in> set (admissions db)" "settle_matches (adm_org r) (adm_id r) t epoch r" "epoch > 0" "t \<in> set admission_outcomes"
    "receipt_ok r"
  obtains db' where "MarkDeploymentAdmissionCoreSettled now db (adm_org r) (adm_id r) t epoch = Inr db'" "settled_in db' r"
    "\<And>x. x \<in> set (admissions db) \<Longrightarrow> admission_key x \<noteq> admission_key r \<Longrightarrow> x \<in> set (admissions db')"
proof -
  let ?f = "\<lambda>r. r\<lparr>adm_terminal_outcome := Some t, adm_core_epoch := epoch, adm_core_settled_at := Some now\<rparr>"
  let ?p = "settle_matches (adm_org r) (adm_id r) t epoch"
  let ?db = "db\<lparr>admissions := update_rows ?p ?f (admissions db)\<rparr>"
  have "MarkDeploymentAdmissionCoreSettled now db (adm_org r) (adm_id r) t epoch = Inr ?db"
    using assms(1-4) by (auto simp: MarkDeploymentAdmissionCoreSettled_def)
  moreover have "settled_in ?db r" unfolding settled_in_def
    using update_rows_hit [of r "admissions db" ?p ?f] assms(1,2) settle_row_evolves [OF assms(2,5), of now]
    by (intro bexI [of _ "?f r"]) simp_all
  moreover have "x \<in> set (admissions ?db)" if "x \<in> set (admissions db)" "admission_key x \<noteq> admission_key r" for x
  proof -
    have "\<not> ?p x" using that(2) by (auto simp: settle_matches_def admission_key_def)
    then show ?thesis using update_rows_miss [of x "admissions db" ?p ?f] that(1) by simp
  qed
  ultimately show ?thesis using that by blast
qed

text \<open>One receipt is brought to its end and the others stay as they are.\<close>

definition recovered :: "database \<Rightarrow> admission_row \<Rightarrow> create_error option \<times> database \<Rightarrow> bool" where
  "recovered db r result \<longleftrightarrow> fst result = None \<and> settled_in (snd result) r \<and>
     (\<forall>x \<in> set (admissions db). admission_key x \<noteq> admission_key r \<longrightarrow> x \<in> set (admissions (snd result)))"

lemma sealed_receipt:
  assumes "admission_inv db" "r \<in> set (admissions db)" "adm_disposition r \<noteq> Committed"
  obtains r1 db1 where "SealDeploymentAdmissionAbsent db r (adm_core_epoch r) = Inr (r1, db1)" "evolves r r1" "receipt_ok r1"
    "r1 \<in> set (admissions db1)" "adm_core_epoch r1 = adm_core_epoch r" "adm_terminal_outcome r1 = Some ''absent''"
    "adm_disposition r1 = Absent" "deploymentAdmissionRequest r1 = deploymentAdmissionRequest r"
    "\<And>x. x \<in> set (admissions db) \<Longrightarrow> admission_key x \<noteq> admission_key r \<Longrightarrow> x \<in> set (admissions db1)"
proof (cases "adm_disposition r")
  case Pending
  note ok = receipt_checked [OF assms(1,2)]
  let ?db = "update_pending (adm_org r) (adm_id r) (seal_row (adm_core_epoch r)) db"
  let ?r = "seal_row (adm_core_epoch r) r"
  let ?p = "\<lambda>x. admission_key x = (adm_org r, adm_id r) \<and> adm_disposition x = Pending"
  have e: "adm_core_epoch r \<ge> 0" using ok by (simp add: receipt_ok_def admission_check_def)
  have "SealDeploymentAdmissionAbsent db r (adm_core_epoch r) = Inr (?r, ?db)"
    using get_receipt [OF assms(1,2)] Pending e read_update_pending [OF get_receipt [OF assms(1,2)] Pending, of "seal_row (adm_core_epoch r)"]
    by (simp add: SealDeploymentAdmissionAbsent_def)
  moreover have "?r \<in> set (admissions ?db)"
    using update_rows_hit [of r "admissions db" ?p "seal_row (adm_core_epoch r)"] assms(2) Pending
    by (simp add: update_pending_def admission_key_def)
  moreover have "x \<in> set (admissions ?db)" if "x \<in> set (admissions db)" "admission_key x \<noteq> admission_key r" for x
  proof -
    have "\<not> ?p x" using that(2) by (auto simp: admission_key_def)
    then show ?thesis using update_rows_miss [OF that(1), of ?p "seal_row (adm_core_epoch r)"] by (simp add: update_pending_def)
  qed
  moreover have "evolves r ?r \<and> receipt_ok ?r" by (rule seal_row_evolves [OF Pending ok e])
  ultimately show ?thesis by (intro that [of ?r ?db]) (auto simp: seal_row_def deploymentAdmissionRequest_def)
next
  case Absent
  note ok = receipt_checked [OF assms(1,2)]
  then have "SealDeploymentAdmissionAbsent db r (adm_core_epoch r) = Inr (r, db)"
    using get_receipt [OF assms(1,2)] Absent by (simp add: SealDeploymentAdmissionAbsent_def receipt_ok_def admission_check_def)
  moreover have "adm_terminal_outcome r = Some ''absent''"
    using ok Absent by (simp add: receipt_ok_def admission_check_def disposition_check_def)
  ultimately show ?thesis using ok Absent assms(2) by (intro that [of r db]) simp_all
qed (use assms(3) in simp)

lemma seal_recovers:
  assumes "admission_inv db" "r \<in> set (admissions db)" "adm_disposition r \<noteq> Committed" "confirms c r"
  shows "recovered db r (sealAbsent c now db r)"
proof -
  obtain r1 db1 where s: "SealDeploymentAdmissionAbsent db r (adm_core_epoch r) = Inr (r1, db1)" "evolves r r1" "receipt_ok r1"
    "r1 \<in> set (admissions db1)" "adm_core_epoch r1 = adm_core_epoch r" "adm_terminal_outcome r1 = Some ''absent''"
    "adm_disposition r1 = Absent" "deploymentAdmissionRequest r1 = deploymentAdmissionRequest r"
    "\<And>x. x \<in> set (admissions db) \<Longrightarrow> admission_key x \<noteq> admission_key r \<Longrightarrow> x \<in> set (admissions db1)"
    using sealed_receipt [OF assms(1-3)] by blast
  have k: "adm_org r1 = adm_org r" "adm_id r1 = adm_id r" "admission_key r1 = admission_key r"
    using s(2) by (simp_all add: evolves_def same_intent_def admission_key_def)
  obtain answer x where a: "core_seal_absence c (adm_org r) (adm_id r) (deploymentAdmissionRequest r) =
      Some \<lparr>cs_status = 200, cs_receipt = Some answer, cs_conflict = x\<rparr>"
    "matchingAdmissionReceipt answer r AdmissionStateSettled ''absent''" "adm_core_epoch r = 0 \<or> cr_epoch answer = adm_core_epoch r"
    using assms(3,4) unfolding confirms_def by blast
  have m: "matchingAdmissionReceipt answer r1 AdmissionStateSettled ''absent''"
    using a(2) s(2) by (simp add: matchingAdmissionReceipt_def evolves_def same_intent_def admission_key_def)
  have sm: "settle_matches (adm_org r1) (adm_id r1) ''absent'' (cr_epoch answer) r1"
    using s(5-7) a(3) by (auto simp: settle_matches_def admission_key_def)
  have e: "cr_epoch answer > 0" using m by (simp add: matchingAdmissionReceipt_def)
  have out: "''absent'' \<in> set admission_outcomes" by (simp add: admission_outcomes_def)
  obtain db2 where d: "MarkDeploymentAdmissionCoreSettled now db1 (adm_org r1) (adm_id r1) ''absent'' (cr_epoch answer) = Inr db2"
    "settled_in db2 r1" "\<And>x. x \<in> set (admissions db1) \<Longrightarrow> admission_key x \<noteq> admission_key r1 \<Longrightarrow> x \<in> set (admissions db2)"
    using mark_settles [OF s(4) sm e out s(3)] by blast
  have "sealAbsent c now db r = (None, db2)"
    using s(1,8) k a(1) m d(1) by (simp add: sealAbsent_def markCoreSettled_def)
  moreover have "settled_in db2 r" using d(2) evolves_trans [OF s(2)] unfolding settled_in_def by blast
  ultimately show ?thesis using s(9) d(3) k(3) by (auto simp: recovered_def)
qed

lemma settle_recovers:
  assumes "admission_inv db" "r \<in> set (admissions db)" "adm_disposition r = Committed" "adm_core_settled_at r = None"
    "adm_deployment r = Some d" "confirms c r" "settleable db r"
  shows "recovered db r (SettleDeployment c now db d)"
proof -
  note ok = receipt_checked [OF assms(1,2)]
  have d: "d \<noteq> uuid_nil" "adm_terminal_outcome r = None" "adm_core_epoch r > 0"
    using ok assms(3-5) by (auto simp: receipt_ok_def admission_check_def disposition_check_def)
  obtain r' where f: "find (\<lambda>r. adm_deployment r = Some d) (admissions db) = Some r'"
    using assms(2,5) by (cases "find (\<lambda>r. adm_deployment r = Some d) (admissions db)") (auto simp: find_None_iff)
  then have "r' = r" using find_SomeD [OF f] assms(1,2,5) unfolding admission_inv_def by blast
  with f d(1) have g: "GetDeploymentAdmissionReceiptByDeployment db d = Inr r"
    by (simp add: GetDeploymentAdmissionReceiptByDeployment_def readDeploymentAdmissionReceipt_def)
  obtain s rest where s: "GetDeployment db (adm_org r) d = Inr (s, rest)" "sum_status s \<noteq> StatusExecuting"
    using assms(3,5,7) by (auto simp: settleable_def split: sum.splits)
  define t where "t = (if sum_status s = StatusSucceeded then ''succeeded'' else ''failed'')"
  have t: "t \<in> set admission_outcomes" "t \<noteq> ''absent''" by (simp_all add: t_def admission_outcomes_def)
  have set: "SettleDeployment c now db d = settle c now db r t"
    using g s assms(4) by (cases "sum_status s") (simp_all add: SettleDeployment_def t_def)
  obtain answer x where a: "core_settle c (adm_org r) (adm_id r) (adm_project r) (adm_environment r) (adm_request_digest r) t =
      Some \<lparr>cs_status = 200, cs_receipt = Some answer, cs_conflict = x\<rparr>"
    "matchingAdmissionReceipt answer r AdmissionStateSettled t" "cr_epoch answer = adm_core_epoch r"
    using assms(3,6) unfolding confirms_def by blast
  have "settle_matches (adm_org r) (adm_id r) t (adm_core_epoch r) r"
    using d(2) assms(3) t(2) by (simp add: settle_matches_def admission_key_def)
  from mark_settles [OF assms(2) this d(3) t(1) ok] obtain db2 where
    m: "MarkDeploymentAdmissionCoreSettled now db (adm_org r) (adm_id r) t (adm_core_epoch r) = Inr db2"
    "settled_in db2 r" "\<And>x. x \<in> set (admissions db) \<Longrightarrow> admission_key x \<noteq> admission_key r \<Longrightarrow> x \<in> set (admissions db2)" by blast
  have "SettleDeployment c now db d = (None, db2)"
    unfolding set using a m(1) by (simp add: settle_def markCoreSettled_def)
  with m(2,3) show ?thesis by (simp add: recovered_def)
qed

lemma GetDeployment_admissions [simp]: "GetDeployment (db\<lparr>admissions := t\<rparr>) org i = GetDeployment db org i"
  by (simp add: GetDeployment_def find_deployment_def split: option.splits)

lemma settleable_admissions [simp]: "settleable (db\<lparr>admissions := t\<rparr>) r = settleable db r"
  unfolding settleable_def GetDeployment_admissions ..

lemma settleable_steps: "admission_step\<^sup>*\<^sup>* db db' \<Longrightarrow> settleable db' r = settleable db r"
  using admission_steps_frame [of db db'] by auto

lemma reconcile_loop_recovers:
  assumes "admission_inv db" "distinct (map admission_key rs)" "set rs \<subseteq> set (admissions db)"
    and "\<And>r. r \<in> set rs \<Longrightarrow> adm_core_settled_at r = None \<and> settleable db r \<and> (\<forall>k. confirms (c k) r)"
  shows "fst (reconcile_loop c now k rs db) = None \<and> (\<forall>r \<in> set rs. settled_in (snd (reconcile_loop c now k rs db)) r)"
  using assms
proof (induction rs arbitrary: db k)
  case (Cons r rs)
  let ?one = "case if adm_disposition r = Committed then adm_deployment r else None of
      Some d \<Rightarrow> SettleDeployment (c k) now db d | None \<Rightarrow> sealAbsent (c k) now db r"
  note inv = Cons.prems(1)
  have r: "r \<in> set (admissions db)" "adm_core_settled_at r = None" "settleable db r" "confirms (c k) r"
    using Cons.prems(3,4) by auto
  have rec: "recovered db r ?one"
  proof (cases "adm_disposition r = Committed")
    case True
    then obtain d where "adm_deployment r = Some d"
      using receipt_checked [OF inv r(1)] by (auto simp: receipt_ok_def admission_check_def disposition_check_def)
    with True settle_recovers [OF inv r(1) True r(2)] r(3,4) show ?thesis by simp
  next
    case False
    with seal_recovers [OF inv r(1) False r(4)] show ?thesis by simp
  qed
  obtain e db1 where one: "?one = (e, db1)" by fastforce
  then have steps: "admission_step\<^sup>*\<^sup>* db db1"
    by (auto split: option.splits dest: SettleDeployment_steps sealAbsent_steps)
  have inv1: "admission_inv db1" using admission_steps_evolve [OF steps inv] by blast
  have e: "e = None" "settled_in db1 r" and keep: "\<And>x. x \<in> set (admissions db) \<Longrightarrow> admission_key x \<noteq> admission_key r \<Longrightarrow> x \<in> set (admissions db1)"
    using rec one by (auto simp: recovered_def)
  have next_: "reconcile_loop c now k (r # rs) db = reconcile_loop c now (Suc k) rs db1" using one e(1) by simp
  have "set rs \<subseteq> set (admissions db1)"
  proof
    fix x assume x: "x \<in> set rs"
    then have "admission_key x \<noteq> admission_key r" using Cons.prems(2) imageI [OF x, of admission_key] by (metis distinct.simps(2) list.simps(9) set_map)
    then show "x \<in> set (admissions db1)" using keep x Cons.prems(3) by auto
  qed
  then have IH: "fst (reconcile_loop c now (Suc k) rs db1) = None \<and> (\<forall>r \<in> set rs. settled_in (snd (reconcile_loop c now (Suc k) rs db1)) r)"
    using Cons.prems(2,4) settleable_steps [OF steps] by (intro Cons.IH [OF inv1]) auto
  have "admission_step\<^sup>*\<^sup>* db1 (snd (reconcile_loop c now (Suc k) rs db1))"
    by (rule reconcile_loop_steps [where err = "fst (reconcile_loop c now (Suc k) rs db1)"]) simp
  with IH settled_in_steps [OF e(2) inv1] show ?case unfolding next_ by simp
qed simp

section \<open>The promises\<close>

text \<open>
  (C14) \<^bold>\<open>A committed admission stays committed.\<close> After
  \<open>BindDeploymentAdmissionReceipt\<close> has bound an admission to a Deployment, no sequence of
  receipt operations, of whatever process, can make it absent: sealing it is a conflict forever,
  and binding it again to the same Deployment is answered with the same receipt and changes nothing.
\<close>

theorem bound_never_absent:
  assumes "BindDeploymentAdmissionReceipt db intent d epoch = Inr (row, db1)" "admission_inv db" "admission_step\<^sup>*\<^sup>* db1 db2" "e \<ge> 0"
  shows "SealDeploymentAdmissionAbsent db2 intent e = Inl (NewErrConflict ''committed Deployment admission cannot be sealed absent'') \<and>
    (\<exists>row'. BindDeploymentAdmissionReceipt db2 intent d epoch = Inr (row', db2) \<and> adm_deployment row' = Some d)"
proof -
  note b = Bind_row [OF assms(1)] and inv = Bind_step(1) [OF assms(1,2)]
  have i2: "admission_inv db2" "receipts_evolve db1 db2" using admission_steps_evolve [OF assms(3) inv] by auto
  have "row \<in> set (admissions db1)" "admission_key row = (adm_org intent, adm_id intent)"
    using read_receipt [of db1 "adm_org intent" "adm_id intent" row] b(1) by (simp_all add: GetDeploymentAdmissionReceipt_def)
  then obtain r' where r': "GetDeploymentAdmissionReceipt db2 (adm_org intent) (adm_id intent) = Inr r'" "evolves row r'"
    using read_evolved [OF i2] by blast
  have "same_intent r' intent" using r'(2) b(2) by (auto simp: evolves_def intro: same_intent_trans same_intent_sym)
  moreover have "adm_disposition r' = Committed" "adm_deployment r' = Some d" "adm_core_epoch r' = epoch"
    using r'(2) b(3-5) by (simp_all add: evolves_def)
  moreover have "d \<noteq> uuid_nil" "epoch > 0" using assms(1) by (auto simp: BindDeploymentAdmissionReceipt_def split: if_splits)
  ultimately show ?thesis
    using r'(1) assms(4) by (simp add: SealDeploymentAdmissionAbsent_def BindDeploymentAdmissionReceipt_def)
qed

text \<open>
  (C15) \<^bold>\<open>An admission sealed absent is never committed.\<close> After
  \<open>SealDeploymentAdmissionAbsent\<close> no sequence of receipt operations lets a Deployment be bound
  to the admission: a creation that arrives late fails in its own transaction.
\<close>

theorem sealed_never_bound:
  assumes "SealDeploymentAdmissionAbsent db intent epoch = Inr (row, db1)" "admission_inv db" "admission_step\<^sup>*\<^sup>* db1 db2"
    and "d \<noteq> uuid_nil" "e > 0"
  shows "BindDeploymentAdmissionReceipt db2 intent d e = Inl (NewErrConflict ''Deployment admission already has a different durable outcome'')"
proof -
  note b = Seal_row [OF assms(1)] and inv = Seal_step(1) [OF assms(1,2)]
  have i2: "admission_inv db2" "receipts_evolve db1 db2" using admission_steps_evolve [OF assms(3) inv] by auto
  have "row \<in> set (admissions db1)" "admission_key row = (adm_org intent, adm_id intent)"
    using read_receipt [of db1 "adm_org intent" "adm_id intent" row] b(1) by (simp_all add: GetDeploymentAdmissionReceipt_def)
  then obtain r' where r': "GetDeploymentAdmissionReceipt db2 (adm_org intent) (adm_id intent) = Inr r'" "evolves row r'"
    using read_evolved [OF i2] by blast
  have "same_intent r' intent" using r'(2) b(2) by (auto simp: evolves_def intro: same_intent_trans same_intent_sym)
  moreover have "adm_disposition r' = Absent" using r'(2) b(3) by (simp add: evolves_def)
  ultimately show ?thesis using r'(1) assms(4,5) by (simp add: BindDeploymentAdmissionReceipt_def)
qed


text \<open>
  \<^bold>\<open>Admission names one Version per Module.\<close> When \<open>collectModuleTargets\<close> accepts
  the artifacts of a Deployment that is not a destroy, the request maps the Module of every
  artifact to the Version of that artifact, so no Module has two; it names no other Module, and it
  lists a Module as a Draft test exactly when its artifact is one.
\<close>

lemma one_version_per_module:
  assumes "collectModuleTargets a artifacts = Inr a'" "at_mode a \<noteq> ModeDestroy"
  shows "dom (map_of (at_module_versions a')) = (\<lambda>x. uuid_text (art_module_uuid x)) ` set artifacts \<and>
    (\<forall>x \<in> set artifacts. map_of (at_module_versions a') (uuid_text (art_module_uuid x)) = Some (art_version_uuid x) \<and>
      (uuid_text (art_module_uuid x) \<in> dom (map_of (at_draft_tests a')) \<longleftrightarrow> art_draft_test x \<noteq> None))"
proof -
  obtain versions drafts where c: "collect_targets (at_project a) (at_environment a) artifacts [] [] = Inr (versions, drafts)"
    and a': "a' = a\<lparr>at_module_versions := versions, at_draft_tests := drafts\<rparr>"
    using assms by (auto simp: collectModuleTargets_def)
  show ?thesis
    using collect_targets_versions(2,3) [OF c] collect_targets_drafts [OF c] unfolding a' by auto
qed

section \<open>A concrete admission\<close>

definition sample_receipt :: admission_row where
  "sample_receipt = \<lparr>adm_org = ''acme'', adm_id = 91, adm_project = 5, adm_environment = 7, adm_actor = 3,
     adm_request_digest = replicate 64 (CHR ''a''), adm_mode = ModeDeploy, adm_module_versions = [], adm_carry_forward = [],
     adm_confirmed_restricted = [], adm_draft_tests = [], adm_core_epoch = 0, adm_disposition = Pending, adm_deployment = None,
     adm_terminal_outcome = None, adm_core_settled_at = None, adm_created_at = 100\<rparr>"

definition sample_pending :: database where
  "sample_pending = empty_database\<lparr>admissions := [sample_receipt]\<rparr>"

definition sample_core :: core where
  "sample_core = \<lparr>core_available = True, core_authorize = (\<lambda>org i req. None),
     core_seal_absence = (\<lambda>org i req. Some \<lparr>cs_status = 200, cs_receipt = Some \<lparr>cr_admission = i, cr_project = ar_project req,
       cr_environment = ar_environment req, cr_request_digest = ar_request_digest req, cr_mode = mode_text (ar_mode req),
       cr_state = AdmissionStateSettled, cr_epoch = 1, cr_outcome = Some ''absent''\<rparr>, cs_conflict = None\<rparr>),
     core_settle = (\<lambda>org i project environment digest outcome. None)\<rparr>"

lemma sample_pending_inv: "admission_inv sample_pending"
proof -
  have "receipt_ok sample_receipt"
    by (simp add: receipt_ok_def admission_check_def disposition_check_def sample_receipt_def lower_hex_def draft_selection_valid_def list_all_iff)
  then show ?thesis by (simp add: sample_pending_def admission_inv_def empty_database_def)
qed

lemma sample_get: "GetDeploymentAdmissionReceipt sample_pending ''acme'' 91 = Inr sample_receipt"
  by (simp add: GetDeploymentAdmissionReceipt_def readDeploymentAdmissionReceipt_def sample_pending_def sample_receipt_def admission_key_def)

lemma sample_bind: "BindDeploymentAdmissionReceipt sample_pending sample_receipt 21 4 =
    Inr (bind_row 21 4 sample_receipt, update_pending ''acme'' 91 (bind_row 21 4) sample_pending)"
  using sample_get read_update_pending [OF sample_get, of "bind_row 21 4"]
  by (simp add: BindDeploymentAdmissionReceipt_def sample_receipt_def sample_pending_def empty_database_def)

lemma sample_seal: "SealDeploymentAdmissionAbsent sample_pending sample_receipt 0 =
    Inr (seal_row 0 sample_receipt, update_pending ''acme'' 91 (seal_row 0) sample_pending)"
  using sample_get read_update_pending [OF sample_get, of "seal_row 0"]
  by (simp add: SealDeploymentAdmissionAbsent_def sample_receipt_def sample_pending_def empty_database_def)

lemma bound_never_absent_witness:
  "SealDeploymentAdmissionAbsent (update_pending ''acme'' 91 (bind_row 21 4) sample_pending) sample_receipt 0 =
     Inl (NewErrConflict ''committed Deployment admission cannot be sealed absent'')"
  using bound_never_absent [OF sample_bind sample_pending_inv rtranclp.rtrancl_refl, of 0] by simp

lemma sealed_never_bound_witness:
  "BindDeploymentAdmissionReceipt (update_pending ''acme'' 91 (seal_row 0) sample_pending) sample_receipt 21 4 =
     Inl (NewErrConflict ''Deployment admission already has a different durable outcome'')"
  using sealed_never_bound [OF sample_seal sample_pending_inv rtranclp.rtrancl_refl, of 21 4] by simp


definition sample_artifact :: module_artifact where
  "sample_artifact = \<lparr>art_draft_test = None, art_module_id = ''pg'', art_module_uuid = 31, art_version = ''2'', art_version_uuid = 32,
     art_semantic_version = ''1.0.0'', art_migration_generation = '''', art_source = ''git::pg'', art_digest = '''',
     art_retained_exception = False, art_resource_type_version = None, art_resource_type_version_uuid = None,
     art_output_schema = None, art_confirmed_restricted = None\<rparr>"

lemma one_version_per_module_witness:
  "\<exists>a'. collectModuleTargets (NewAttempt (\<lambda>n. 1) 91 ''acme'' 5 7 3 ModeDeploy '''') [sample_artifact] = Inr a' \<and>
     map_of (at_module_versions a') (uuid_text 31) = Some 32"
proof -
  let ?a = "NewAttempt (\<lambda>n. 1) 91 ''acme'' 5 7 3 ModeDeploy ''''"
  have "\<exists>a'. collectModuleTargets ?a [sample_artifact] = Inr a'"
    by (simp add: collectModuleTargets_def sample_artifact_def NewAttempt_def Let_def)
  then obtain a' where "collectModuleTargets ?a [sample_artifact] = Inr a'" by blast
  with one_version_per_module [of ?a "[sample_artifact]" a'] show ?thesis by (simp add: NewAttempt_def sample_artifact_def)
qed

end
