(* ===== verification/Resource_Contract.thy ===== *)
theory Resource_Contract
  imports Active_Resources
begin

text \<open>
  What the active resources promise: keys and references are kept, and once a Deployment has
  converged the nodes and edges of the Environment are exactly those of its graph.
\<close>

section \<open>What writing a graph leaves\<close>

lemma upsert_node_key: "nod_hash (n\<lparr>nod_deployment := a, nod_module := b, nod_module_version := c\<rparr>) = nod_hash n"
  by simp

lemma upsert_edge_key: "edge_key (e\<lparr>edg_deployment := a, edg_alias := b\<rparr>) = edge_key e"
  by (simp add: edge_key_def)

lemma insert_nodes_eq:
  assumes "insert_nodes rs db = Inr db'"
  shows "db' = db\<lparr>nodes := fold upsert_node rs (nodes db)\<rparr>" and "distinct (map nod_hash rs)"
  using assms by (auto simp: insert_nodes_def split: if_splits)

lemma insert_edges_eq:
  assumes "insert_edges rs db = Inr db'"
  shows "db' = db\<lparr>edges := fold upsert_edge rs (edges db)\<rparr>" and "distinct (map edge_key rs)"
    and "\<And>r. r \<in> set rs \<Longrightarrow> edg_subject r \<in> nod_hash ` set (nodes db) \<and> edg_target r \<in> nod_hash ` set (nodes db)"
  using assms by (auto simp: insert_edges_def list_all_iff split: if_splits) (metis imageI)+

text \<open>The rows after the two inserts, with nothing to insert as a special case.\<close>

definition graph_written :: "uuid \<Rightarrow> uuid \<Rightarrow> node_row list \<Rightarrow> edge_row list \<Rightarrow> database \<Rightarrow> database \<Rightarrow> bool" where
  "graph_written u dep nrows erows db db' \<longleftrightarrow>
     nodes db' = fold upsert_node nrows (nodes db) \<and> distinct (map nod_hash nrows) \<and> distinct (map edge_key erows) \<and>
     edges db' = delete_rows (\<lambda>e. edg_deployment e \<noteq> dep \<and>
       exists_row (\<lambda>n. nod_hash n = edg_subject e \<and> nod_environment n = u \<and> nod_deployment n = dep) (nodes db'))
       (fold upsert_edge erows (edges db)) \<and>
     (\<forall>r \<in> set erows. edg_subject r \<in> nod_hash ` set (nodes db') \<and> edg_target r \<in> nod_hash ` set (nodes db'))"

lemma Init_written:
  assumes "InitActiveResourcesFromGraph hash db u dep g = Inr db'"
  shows "graph_written u dep (map (node_values hash u dep) (included_nodes g)) (edge_values hash u dep g) db db'"
proof (cases "included_nodes g = []")
  case True
  with assms show ?thesis
    by (auto simp: graph_written_def InitActiveResourcesFromGraph_def detach_old_edges_def edge_values_def)
next
  case False
  let ?n = "map (node_values hash u dep) (included_nodes g)" and ?e = "edge_values hash u dep g"
  from False assms obtain db1 db2 where 1: "insert_nodes ?n db = Inr db1" and 2: "insert_edges ?e db1 = Inr db2"
    and 3: "db' = detach_old_edges u dep db2"
    by (auto simp: InitActiveResourcesFromGraph_def)
  show ?thesis
    using insert_nodes_eq [OF 1] insert_edges_eq [OF 2] 3 by (simp add: graph_written_def detach_old_edges_def)
qed

lemma Init_resource_inv:
  assumes "InitActiveResourcesFromGraph hash db u dep g = Inr db'" "resource_inv db"
  shows "resource_inv db'"
proof -
  let ?n = "map (node_values hash u dep) (included_nodes g)" and ?e = "edge_values hash u dep g"
  note w = Init_written [OF assms(1), unfolded graph_written_def]
  have n: "nodes db' = fold upsert_node ?n (nodes db)"
    and e: "set (edges db') \<subseteq> set (fold upsert_edge ?e (edges db))"
    and d: "distinct (map edge_key (edges db'))"
    using w assms(2) upsert_rows_keys(2) [of edge_key _ "edges db" ?e]
    by (auto simp: resource_inv_def upsert_edge_def edge_key_def intro!: distinct_key_delete_rows)
  have N: "nod_hash ` set (nodes db) \<subseteq> nod_hash ` set (nodes db')"
    unfolding n upsert_node_def by (simp add: upsert_rows_keys(1))
  have K: "edge_key ` set (edges db') \<subseteq> edge_key ` set (edges db) \<union> edge_key ` set ?e"
    using image_mono [OF e, of edge_key] unfolding upsert_edge_def
    by (subst (asm) upsert_rows_keys(1)) (simp_all add: edge_key_def)
  have KX: "edge_key x \<in> edge_key ` set (edges db) \<union> edge_key ` set ?e" if "x \<in> set (edges db')" for x
    using K that by blast
  have "edg_subject x \<in> nod_hash ` set (nodes db') \<and> edg_target x \<in> nod_hash ` set (nodes db')"
    if "x \<in> set (edges db')" for x
  proof -
    from KX [OF that] obtain y where
      y: "edg_subject x = edg_subject y" "edg_target x = edg_target y" "y \<in> set (edges db) \<or> y \<in> set ?e"
      unfolding edge_key_def by auto
    from y(3) have "edg_subject y \<in> nod_hash ` set (nodes db') \<and> edg_target y \<in> nod_hash ` set (nodes db')"
      using assms(2) N w unfolding resource_inv_def by blast
    with y(1,2) show ?thesis by simp
  qed
  moreover have "distinct (map nod_hash (nodes db'))"
    unfolding n upsert_node_def using assms(2) by (intro upsert_rows_keys(2)) (simp_all add: resource_inv_def)
  ultimately show ?thesis using d by (simp add: resource_inv_def)
qed

section \<open>Converged resources\<close>

definition node_coordinate :: "node_row \<Rightarrow> coordinate" where
  "node_coordinate n = \<lparr>co_type = nod_type n, co_class = nod_class n, co_id = nod_resource n\<rparr>"

definition node_core :: "node_row \<Rightarrow> node_row" where
  "node_core n = n\<lparr>nod_metadata := JObj []\<rparr>"

text \<open>
  The stored hashes belong to the stored identities, and no two of the identities at hand, stored
  or of the graph, have the same hash.
\<close>

definition hash_separates :: "(uuid \<Rightarrow> coordinate \<Rightarrow> string) \<Rightarrow> database \<Rightarrow> uuid \<Rightarrow> graph \<Rightarrow> bool" where
  "hash_separates hash db u g \<longleftrightarrow>
     (\<forall>n \<in> set (nodes db). nod_hash n = hash (nod_environment n) (node_coordinate n) \<and>
        (\<forall>c \<in> fst ` set (g_nodes g). nod_hash n = hash u c \<longrightarrow> nod_environment n = u \<and> node_coordinate n = c)) \<and>
     inj_on (hash u) (fst ` set (g_nodes g))"

lemma hash_separates_node:
  assumes "hash_separates hash db u g" "m \<in> set (nodes db)" "x \<in> set (g_nodes g)" "nod_hash m = hash u (fst x)"
  shows "nod_environment m = u" "node_coordinate m = fst x"
  using assms unfolding hash_separates_def by blast+

definition unused_deployment :: "database \<Rightarrow> uuid \<Rightarrow> bool" where
  "unused_deployment db dep \<longleftrightarrow> (\<forall>n \<in> set (nodes db). nod_deployment n \<noteq> dep) \<and> (\<forall>e \<in> set (edges db). edg_deployment e \<noteq> dep)"

lemma node_values_simps [simp]:
  "nod_hash (node_values hash u dep n) = hash u (fst n)" "nod_environment (node_values hash u dep n) = u"
  "nod_deployment (node_values hash u dep n) = dep" "node_coordinate (node_values hash u dep n) = fst n"
  "node_core (node_values hash u dep n) = node_values hash u dep n"
  by (simp_all add: node_values_def node_coordinate_def node_core_def)

lemma included_subset: "n \<in> set (included_nodes g) \<Longrightarrow> n \<in> set (g_nodes g)"
  by (simp add: included_nodes_def)

lemma merge_node_values:
  assumes "nod_environment m = u" "node_coordinate m = fst n" "nod_hash m = hash u (fst n)"
  shows "node_core (m\<lparr>nod_deployment := nod_deployment (node_values hash u dep n), nod_module := nod_module (node_values hash u dep n),
     nod_module_version := nod_module_version (node_values hash u dep n)\<rparr>) = node_values hash u dep n"
  using assms by (cases m, cases "fst n") (auto simp: node_core_def node_values_def node_coordinate_def)

lemma written_nodes:
  assumes w: "graph_written u dep (map (node_values hash u dep) (included_nodes g)) erows db db'"
    and h: "hash_separates hash db u g"
  shows "n \<in> set (nodes db') \<Longrightarrow> (n \<in> set (nodes db) \<and> nod_hash n \<notin> (\<lambda>x. hash u (fst x)) ` set (included_nodes g)) \<or>
           (\<exists>x \<in> set (included_nodes g). node_core n = node_values hash u dep x)"
    and "x \<in> set (included_nodes g) \<Longrightarrow> \<exists>n \<in> set (nodes db'). node_core n = node_values hash u dep x"
proof -
  let ?rows = "map (node_values hash u dep) (included_nodes g)"
  let ?m = "\<lambda>r n. n\<lparr>nod_deployment := nod_deployment r, nod_module := nod_module r, nod_module_version := nod_module_version r\<rparr>"
  have d: "distinct (map nod_hash ?rows)" and n: "nodes db' = fold (upsert_row nod_hash ?m) ?rows (nodes db)"
    using w by (simp_all add: graph_written_def upsert_node_def)
  note mem = upsert_rows_member [where key = nod_hash and merge = ?m and rs = ?rows and t = "nodes db", OF _ d, folded n, simplified]
  have core: "node_core (?m (node_values hash u dep x) m) = node_values hash u dep x"
    if "x \<in> set (included_nodes g)" "m \<in> set (nodes db)" "nod_hash m = hash u (fst x)" for x m
    using hash_separates_node [OF h that(2) included_subset [OF that(1)] that(3)] that(3) by (intro merge_node_values)
  show "(n \<in> set (nodes db) \<and> nod_hash n \<notin> (\<lambda>x. hash u (fst x)) ` set (included_nodes g)) \<or>
           (\<exists>x \<in> set (included_nodes g). node_core n = node_values hash u dep x)" if "n \<in> set (nodes db')"
    using that [unfolded mem] core by (auto simp: image_iff)
  show "\<exists>n \<in> set (nodes db'). node_core n = node_values hash u dep x" if x: "x \<in> set (included_nodes g)"
  proof (cases "\<exists>m \<in> set (nodes db). nod_hash m = hash u (fst x)")
    case True
    then obtain m where m: "m \<in> set (nodes db)" "nod_hash m = hash u (fst x)" by blast
    then have "?m (node_values hash u dep x) m \<in> set (nodes db')" unfolding mem using x by auto
    then show ?thesis using core [OF x m] by blast
  next
    case False
    then have "hash u (fst x) \<notin> nod_hash ` set (nodes db)" by (metis imageE)
    then have "node_values hash u dep x \<in> set (nodes db')" unfolding mem using x by blast
    then show ?thesis by force
  qed
qed

lemma written_edges:
  assumes w: "graph_written u dep nrows erows db db'" and f: "unused_deployment db dep"
    and dep: "\<And>r. r \<in> set erows \<Longrightarrow> edg_deployment r = dep"
  shows "e \<in> set (edges db') \<and> edg_deployment e = dep \<longleftrightarrow> e \<in> set erows"
proof -
  let ?m = "\<lambda>r e. e\<lparr>edg_deployment := edg_deployment r, edg_alias := edg_alias r\<rparr> :: edge_row"
  have d: "distinct (map edge_key erows)" using w by (simp add: graph_written_def)
  have "edge_key (?m r n) = edge_key n" for r n by (simp add: edge_key_def)
  note mem = upsert_rows_member [where key = edge_key and merge = ?m and rs = erows and t = "edges db", OF this d]
  have same: "?m r m = r" if "edge_key m = edge_key r" for r m using that by (cases m, cases r) (auto simp: edge_key_def)
  have "e \<in> set (fold upsert_edge erows (edges db)) \<longleftrightarrow>
      (e \<in> set (edges db) \<and> edge_key e \<notin> edge_key ` set erows) \<or> e \<in> set erows"
    unfolding upsert_edge_def mem using same by (auto simp: image_iff) metis+
  moreover have "edg_deployment e \<noteq> dep" if "e \<in> set (edges db)" using f that by (simp add: unused_deployment_def)
  moreover have "e \<in> set (edges db') \<and> edg_deployment e = dep \<longleftrightarrow>
      e \<in> set (fold upsert_edge erows (edges db)) \<and> edg_deployment e = dep"
    using w by (auto simp: graph_written_def)
  ultimately show ?thesis using dep by blast
qed

lemma edge_values_member:
  "e \<in> set (edge_values hash u dep g) \<longleftrightarrow> (\<exists>x \<in> set (included_nodes g). \<exists>a t. (a, t) \<in> set (graph_edges_of g (fst x)) \<and>
     t \<in> fst ` set (g_nodes g) \<and> e = \<lparr>edg_subject = hash u (fst x), edg_target = hash u t, edg_deployment = dep, edg_alias = a\<rparr>)"
  unfolding edge_values_def by (auto simp: image_iff)

text \<open>The rows a converged Environment keeps.\<close>

lemma discarded_nodes:
  "n \<in> set (nodes (DiscardOldActiveResources db u dep)) \<and> nod_environment n = u \<longleftrightarrow>
     n \<in> set (nodes db) \<and> nod_environment n = u \<and> nod_deployment n = dep"
  by (auto simp: DiscardOldActiveResources_def Let_def)

lemma discarded_edges:
  "e \<in> set (edges (DiscardOldActiveResources db u dep)) \<longleftrightarrow> e \<in> set (edges db) \<and>
     \<not> (\<exists>n \<in> set (nodes db). nod_environment n = u \<and> nod_deployment n \<noteq> dep \<and> (nod_hash n = edg_subject e \<or> nod_hash n = edg_target e))"
  unfolding DiscardOldActiveResources_def Let_def by (auto simp: image_iff)

text \<open>What a Deployment that has written its graph and then converged relies on.\<close>

definition converging :: "(uuid \<Rightarrow> coordinate \<Rightarrow> string) \<Rightarrow> database \<Rightarrow> uuid \<Rightarrow> uuid \<Rightarrow> graph \<Rightarrow> database \<Rightarrow> bool" where
  "converging hash db u dep g db' \<longleftrightarrow> resource_inv db' \<and> hash_separates hash db u g \<and> unused_deployment db dep \<and>
     graph_written u dep (map (node_values hash u dep) (included_nodes g)) (edge_values hash u dep g) db db'"

lemma node_core_fields:
  assumes "node_core n = node_values hash u dep x"
  shows "nod_hash n = hash u (fst x)" "nod_environment n = u" "nod_deployment n = dep"
  using arg_cong [OF assms, of nod_hash] arg_cong [OF assms, of nod_environment] arg_cong [OF assms, of nod_deployment]
  by (simp_all add: node_core_def)

lemma converging_nodes:
  assumes "converging hash db u dep g db'"
  shows "n \<in> set (nodes db') \<Longrightarrow> nod_deployment n = dep \<Longrightarrow> \<exists>x \<in> set (included_nodes g). node_core n = node_values hash u dep x"
    and "x \<in> set (included_nodes g) \<Longrightarrow> \<exists>n \<in> set (nodes db'). node_core n = node_values hash u dep x"
  using assms written_nodes [of u dep hash g _ db db'] unfolding converging_def unused_deployment_def by blast+

lemma converging_hash_unique:
  assumes "converging hash db u dep g db'" "m \<in> set (nodes db')" "n \<in> set (nodes db')" "nod_hash m = nod_hash n"
  shows "m = n"
  using assms unfolding converging_def resource_inv_def distinct_map by (meson inj_onD)

lemma converging_old:
  assumes c: "converging hash db u dep g db'" and t: "t \<in> fst ` set (g_nodes g)" "hash u t \<in> nod_hash ` set (nodes db')"
  shows "(\<exists>n \<in> set (nodes db'). nod_environment n = u \<and> nod_deployment n \<noteq> dep \<and> nod_hash n = hash u t) \<longleftrightarrow>
    t \<notin> fst ` set (included_nodes g)"
proof
  assume "\<exists>n \<in> set (nodes db'). nod_environment n = u \<and> nod_deployment n \<noteq> dep \<and> nod_hash n = hash u t"
  then obtain n where n: "n \<in> set (nodes db')" "nod_deployment n \<noteq> dep" "nod_hash n = hash u t" by blast
  show "t \<notin> fst ` set (included_nodes g)"
  proof
    assume "t \<in> fst ` set (included_nodes g)"
    then obtain x where x: "x \<in> set (included_nodes g)" "t = fst x" by blast
    obtain m where m: "m \<in> set (nodes db')" "node_core m = node_values hash u dep x"
      using converging_nodes(2) [OF c x(1)] by blast
    then have "m = n" using converging_hash_unique [OF c m(1) n(1)] node_core_fields [OF m(2)] n(3) x(2) by simp
    then show False using node_core_fields(3) [OF m(2)] n(2) by simp
  qed
next
  assume t': "t \<notin> fst ` set (included_nodes g)"
  obtain n where n: "n \<in> set (nodes db')" "nod_hash n = hash u t" using t(2) by (metis imageE)
  have h: "hash_separates hash db u g" and f: "unused_deployment db dep" using c by (simp_all add: converging_def)
  have "\<not> (\<exists>x \<in> set (included_nodes g). node_core n = node_values hash u dep x)"
  proof
    assume "\<exists>x \<in> set (included_nodes g). node_core n = node_values hash u dep x"
    then obtain x where x: "x \<in> set (included_nodes g)" "hash u (fst x) = hash u t" using node_core_fields(1) n(2) by metis
    have "fst x \<in> fst ` set (g_nodes g)" using included_subset [OF x(1)] by blast
    then have "fst x = t" using h x(2) t(1) unfolding hash_separates_def inj_on_def by blast
    then show False using x(1) t' by blast
  qed
  then have old: "n \<in> set (nodes db)" using written_nodes(1) [of u dep hash g _ db db' n] c n(1) unfolding converging_def by blast
  moreover obtain y where "y \<in> set (g_nodes g)" "t = fst y" using t(1) by blast
  ultimately have "nod_environment n = u" using hash_separates_node(1) [OF h old] n(2) by blast
  then show "\<exists>n \<in> set (nodes db'). nod_environment n = u \<and> nod_deployment n \<noteq> dep \<and> nod_hash n = hash u t"
    using n old f unfolding unused_deployment_def by blast
qed

text \<open>The edges a client reads for one node of the converged Environment.\<close>

lemma converged_edge_iff:
  assumes c: "converging hash db u dep g db'" and x: "x \<in> set (included_nodes g)"
  shows "e \<in> set (edges (DiscardOldActiveResources db' u dep)) \<and> edg_deployment e = dep \<and> edg_subject e = hash u (fst x) \<longleftrightarrow>
      (\<exists>a t. (a, t) \<in> set (graph_edges_of g (fst x)) \<and> t \<in> fst ` set (included_nodes g) \<and>
        e = \<lparr>edg_subject = hash u (fst x), edg_target = hash u t, edg_deployment = dep, edg_alias = a\<rparr>)"
proof -
  let ?old = "\<lambda>h. \<exists>n \<in> set (nodes db'). nod_environment n = u \<and> nod_deployment n \<noteq> dep \<and> nod_hash n = h"
  have w: "graph_written u dep (map (node_values hash u dep) (included_nodes g)) (edge_values hash u dep g) db db'"
    and f: "unused_deployment db dep" and inj: "inj_on (hash u) (fst ` set (g_nodes g))"
    using c by (simp_all add: converging_def hash_separates_def)
  have "edg_deployment r = dep" if "r \<in> set (edge_values hash u dep g)" for r
    using that by (auto simp: edge_values_member)
  note E = written_edges [OF w f this]
  have R: "edg_subject r \<in> nod_hash ` set (nodes db') \<and> edg_target r \<in> nod_hash ` set (nodes db')"
    if "r \<in> set (edge_values hash u dep g)" for r using w that unfolding graph_written_def by blast
  have key: "e \<in> set (edges (DiscardOldActiveResources db' u dep)) \<and> edg_deployment e = dep \<longleftrightarrow>
      e \<in> set (edge_values hash u dep g) \<and> \<not> ?old (edg_subject e) \<and> \<not> ?old (edg_target e)" for e
    unfolding discarded_edges using E [of e] by blast
  have g: "fst y \<in> fst ` set (g_nodes g)" if "y \<in> set (included_nodes g)" for y using included_subset [OF that] by blast
  show ?thesis
  proof
    assume l: "e \<in> set (edges (DiscardOldActiveResources db' u dep)) \<and> edg_deployment e = dep \<and> edg_subject e = hash u (fst x)"
    then have v: "e \<in> set (edge_values hash u dep g)" and o: "\<not> ?old (edg_target e)" using key by blast+
    from v obtain y a t where y: "y \<in> set (included_nodes g)" "(a, t) \<in> set (graph_edges_of g (fst y))"
      "t \<in> fst ` set (g_nodes g)" "e = \<lparr>edg_subject = hash u (fst y), edg_target = hash u t, edg_deployment = dep, edg_alias = a\<rparr>"
      unfolding edge_values_member by blast
    have "fst y = fst x" using l y(4) inj_onD [OF inj, of "fst y" "fst x"] g [OF y(1)] g [OF x] by simp
    moreover have "t \<in> fst ` set (included_nodes g)"
      using converging_old [OF c y(3)] R [OF v] o y(4) by auto
    ultimately show "\<exists>a t. (a, t) \<in> set (graph_edges_of g (fst x)) \<and> t \<in> fst ` set (included_nodes g) \<and>
        e = \<lparr>edg_subject = hash u (fst x), edg_target = hash u t, edg_deployment = dep, edg_alias = a\<rparr>" using y by metis
  next
    assume "\<exists>a t. (a, t) \<in> set (graph_edges_of g (fst x)) \<and> t \<in> fst ` set (included_nodes g) \<and>
        e = \<lparr>edg_subject = hash u (fst x), edg_target = hash u t, edg_deployment = dep, edg_alias = a\<rparr>"
    then obtain a t where t: "(a, t) \<in> set (graph_edges_of g (fst x))" "t \<in> fst ` set (included_nodes g)"
      and eq: "e = \<lparr>edg_subject = hash u (fst x), edg_target = hash u t, edg_deployment = dep, edg_alias = a\<rparr>" by blast
    have tg: "t \<in> fst ` set (g_nodes g)" using t(2) g by blast
    then have v: "e \<in> set (edge_values hash u dep g)" unfolding edge_values_member using x t(1) eq by blast
    have "\<not> ?old (edg_subject e)" "\<not> ?old (edg_target e)"
      using converging_old [OF c g [OF x]] converging_old [OF c tg] R [OF v] x t(2) eq by auto
    with v show "e \<in> set (edges (DiscardOldActiveResources db' u dep)) \<and> edg_deployment e = dep \<and> edg_subject e = hash u (fst x)"
      using key [of e] eq by simp
  qed
qed

lemma converged_edges:
  assumes c: "converging hash db u dep g db'" and x: "x \<in> set (included_nodes g)"
  shows "(\<lambda>e. (edg_alias e, edg_target e)) ` {e \<in> set (edges (DiscardOldActiveResources db' u dep)).
      edg_subject e = hash u (fst x) \<and> edg_deployment e = dep} =
    {(a, hash u t) | a t. (a, t) \<in> set (graph_edges_of g (fst x)) \<and> t \<in> fst ` set (included_nodes g)}"
proof -
  let ?row = "\<lambda>a t. \<lparr>edg_subject = hash u (fst x), edg_target = hash u t, edg_deployment = dep, edg_alias = a\<rparr> :: edge_row"
  let ?P = "\<lambda>a t. (a, t) \<in> set (graph_edges_of g (fst x)) \<and> t \<in> fst ` set (included_nodes g)"
  have "{e \<in> set (edges (DiscardOldActiveResources db' u dep)). edg_subject e = hash u (fst x) \<and> edg_deployment e = dep} =
     {?row a t | a t. ?P a t}" using converged_edge_iff [OF c x] by blast
  moreover have "(\<lambda>e. (edg_alias e, edg_target e)) ` {?row a t | a t. Q a t} = {(a, hash u t) | a t. Q a t}" for Q by force
  ultimately show ?thesis by simp
qed

lemma image_match:
  assumes "\<And>n. n \<in> A \<Longrightarrow> \<exists>x \<in> B. f n = g x" "\<And>x. x \<in> B \<Longrightarrow> \<exists>n \<in> A. f n = g x"
  shows "f ` A = g ` B"
  using assms by (auto simp: image_def) metis+

text \<open>Nodes and edges as a client reads them, metadata apart.\<close>

lemma converged_view:
  assumes c: "converging hash db u dep g db'"
  shows "(\<lambda>r. (node_core (rn_row r), set (rn_edges r))) ` set (GetActiveResources (DiscardOldActiveResources db' u dep) u) =
    (\<lambda>x. (node_values hash u dep x, {(a, hash u t) | a t. (a, t) \<in> set (graph_edges_of g (fst x)) \<and> t \<in> fst ` set (included_nodes g)}))
      ` set (included_nodes g)" (is "?view ` set (GetActiveResources ?d u) = ?want ` _")
proof -
  let ?read = "\<lambda>n. (node_core n, (\<lambda>e. (edg_alias e, edg_target e)) ` {e \<in> set (edges ?d). edg_subject e = nod_hash n \<and> edg_deployment e = nod_deployment n})"
  have V: "?view ` set (GetActiveResources ?d u) = ?read ` {n \<in> set (nodes ?d). nod_environment n = u}"
    unfolding GetActiveResources_def by (simp add: image_image)
  have R: "?read n = ?want x" if "node_core n = node_values hash u dep x" "x \<in> set (included_nodes g)" for n x
    using that node_core_fields [OF that(1)] converged_edges [OF c that(2)] by simp
  have N: "{n \<in> set (nodes ?d). nod_environment n = u} =
      {n \<in> set (nodes db'). \<exists>x \<in> set (included_nodes g). node_core n = node_values hash u dep x}"
    using discarded_nodes converging_nodes(1) [OF c] node_core_fields(2,3) by blast
  let ?A = "{n \<in> set (nodes db'). \<exists>x \<in> set (included_nodes g). node_core n = node_values hash u dep x}"
  have "\<exists>x \<in> set (included_nodes g). ?read n = ?want x" if n: "n \<in> ?A" for n
  proof -
    from n obtain x where x: "x \<in> set (included_nodes g)" "node_core n = node_values hash u dep x" by blast
    show ?thesis using R [OF x(2,1)] by (intro bexI [of _ x] x(1))
  qed
  moreover have "\<exists>n \<in> ?A. ?read n = ?want x" if x: "x \<in> set (included_nodes g)" for x
  proof -
    from converging_nodes(2) [OF c x] obtain n where n: "n \<in> set (nodes db')" "node_core n = node_values hash u dep x" by blast
    show ?thesis using R [OF n(2) x] by (rule bexI [of _ n]) (use n x in blast)
  qed
  ultimately show ?thesis unfolding V N by (rule image_match)
qed

section \<open>The promises\<close>

text \<open>
  (C31) \<^bold>\<open>A converged Environment has the resources of its last graph.\<close> When
  \<open>InitActiveResourcesFromGraph\<close> has written the graph of a Deployment and
  \<open>DiscardOldActiveResources\<close> has run for the same Deployment, \<open>GetActiveResources\<close>
  returns one node for every node of the graph whose module is not deleted, with its module,
  version and Deployment, and with exactly the edges of the graph towards such nodes; nothing of
  an earlier Deployment is left. The node hash is a parameter; the stored hashes belong to the
  stored identities and do not collide.
\<close>

theorem converged_resources:
  assumes "InitActiveResourcesFromGraph hash db u dep g = Inr db'"
    and "resource_inv db" "hash_separates hash db u g" "unused_deployment db dep"
  shows "(\<lambda>r. (node_core (rn_row r), set (rn_edges r))) ` set (GetActiveResources (DiscardOldActiveResources db' u dep) u) =
    (\<lambda>x. (node_values hash u dep x, {(a, hash u t) | a t. (a, t) \<in> set (graph_edges_of g (fst x)) \<and> t \<in> fst ` set (included_nodes g)}))
      ` set (included_nodes g)"
  using Init_written [OF assms(1)] Init_resource_inv [OF assms(1,2)] assms(3,4)
  by (intro converged_view) (simp add: converging_def)

text \<open>
  \<^bold>\<open>Two aliases for one target cannot be stored.\<close> A graph in which a node that is not
  deleted depends on the same node under two aliases is refused: the edges are keyed by subject and
  target, and one statement may not write a row twice.
\<close>

lemma duplicate_alias_refused:
  assumes "x \<in> set (included_nodes g)" "(a, t) \<in> set (graph_edges_of g (fst x))" "(b, t) \<in> set (graph_edges_of g (fst x))"
    and "a \<noteq> b" "t \<in> fst ` set (g_nodes g)"
  shows "\<exists>msg. InitActiveResourcesFromGraph hash db u dep g = Inl (ErrInternal msg)"
proof -
  have "\<not> distinct (map edge_key (edge_values hash u dep g))"
  proof
    assume d: "distinct (map edge_key (edge_values hash u dep g))"
    let ?e = "\<lambda>a. \<lparr>edg_subject = hash u (fst x), edg_target = hash u t, edg_deployment = dep, edg_alias = a\<rparr> :: edge_row"
    have "?e a \<in> set (edge_values hash u dep g)" "?e b \<in> set (edge_values hash u dep g)"
      using assms unfolding edge_values_member by blast+
    moreover have "edge_key (?e a) = edge_key (?e b)" by (simp add: edge_key_def)
    ultimately have "?e a = ?e b" using d unfolding distinct_map by (meson inj_onD)
    with assms(4) show False by simp
  qed
  then show ?thesis using assms(1)
    by (auto simp: InitActiveResourcesFromGraph_def insert_edges_def insert_nodes_def bindR_def split: sum.splits)
qed

section \<open>A concrete Environment\<close>

definition sample_coordinate :: "string \<Rightarrow> coordinate" where
  "sample_coordinate i = \<lparr>co_type = ''postgres'', co_class = ''default'', co_id = i\<rparr>"

definition sample_module :: "bool \<Rightarrow> module_config" where
  "sample_module deleted = \<lparr>mc_draft_test = None, mc_definition_id = ''pg'', mc_version_id = ''2'',
     mc_resource_type_version = None, mc_resource_type_version_uuid = None, mc_has_inline_source = False,
     mc_deleted = deleted, mc_provider_mapping = [], mc_definition = None\<rparr>"

text \<open>The graph keeps \<open>a\<close>, adds \<open>b\<close> with an edge from \<open>a\<close>, and deletes \<open>c\<close>.\<close>

definition sample_graph_node :: "module_config option \<Rightarrow> graph_node" where
  "sample_graph_node m = \<lparr>gn_config = m, gn_params = None, gn_params_defined_by = None, gn_accept_change = False, gn_no_rule = False\<rparr>"

definition sample_graph :: graph where
  "sample_graph = \<lparr>g_nodes = [(sample_coordinate ''a'', sample_graph_node (Some (sample_module False))),
      (sample_coordinate ''b'', sample_graph_node None), (sample_coordinate ''c'', sample_graph_node (Some (sample_module True)))],
    g_edges = [(sample_coordinate ''a'', [(''db'', sample_coordinate ''b''), (''old'', sample_coordinate ''c'')])]\<rparr>"

definition sample_aliases :: graph where
  "sample_aliases = sample_graph\<lparr>g_edges :=
     [(sample_coordinate ''a'', [(''db'', sample_coordinate ''b''), (''replica'', sample_coordinate ''b'')])]\<rparr>"

definition sample_hash :: "uuid \<Rightarrow> coordinate \<Rightarrow> string" where
  "sample_hash u c = co_type c @ '' '' @ co_class c @ '' '' @ co_id c"

definition sample_node :: "string \<Rightarrow> node_row" where
  "sample_node i = \<lparr>nod_hash = ''postgres default '' @ i, nod_environment = 7, nod_type = ''postgres'', nod_class = ''default'',
     nod_resource = i, nod_deployment = 20, nod_module = ''pg'', nod_module_version = ''1'', nod_metadata = JObj []\<rparr>"

definition sample_resources :: database where
  "sample_resources = empty_database\<lparr>environments := [\<lparr>env_id = 7, env_org = ''acme'', env_project = ''shop'', env_name = ''prod'',
       env_last_executing = 0, env_last_executing_at = 0, env_last_state = 0, env_last_state_at = 0\<rparr>],
     nodes := [sample_node ''a'', sample_node ''c''],
     edges := [\<lparr>edg_subject = ''postgres default a'', edg_target = ''postgres default c'', edg_deployment = 20, edg_alias = ''c''\<rparr>]\<rparr>"

definition sample_written :: database where
  "sample_written = (case InitActiveResourcesFromGraph sample_hash sample_resources 7 21 sample_graph of Inl e \<Rightarrow> empty_database | Inr d \<Rightarrow> d)"

lemma sample_written_init: "InitActiveResourcesFromGraph sample_hash sample_resources 7 21 sample_graph = Inr sample_written"
  unfolding sample_written_def by code_simp

lemma sample_hypotheses:
  "resource_inv sample_resources" "hash_separates sample_hash sample_resources 7 sample_graph" "unused_deployment sample_resources 21"
  by code_simp+

lemma converged_resources_witness:
  "(\<lambda>r. (node_core (rn_row r), set (rn_edges r))) ` set (GetActiveResources (DiscardOldActiveResources sample_written 7 21) 7) =
    (\<lambda>x. (node_values sample_hash 7 21 x, {(a, sample_hash 7 t) | a t. (a, t) \<in> set (graph_edges_of sample_graph (fst x)) \<and>
      t \<in> fst ` set (included_nodes sample_graph)})) ` set (included_nodes sample_graph) \<and>
   map (\<lambda>r. (nod_resource (rn_row r), nod_module_version (rn_row r), rn_edges r)) (GetActiveResources (DiscardOldActiveResources sample_written 7 21) 7) =
     [(''a'', ''2'', [(''db'', ''postgres default b'')]), (''b'', '''', [])]"
proof
  show "map (\<lambda>r. (nod_resource (rn_row r), nod_module_version (rn_row r), rn_edges r)) (GetActiveResources (DiscardOldActiveResources sample_written 7 21) 7) =
     [(''a'', ''2'', [(''db'', ''postgres default b'')]), (''b'', '''', [])]" by code_simp
qed (rule converged_resources [OF sample_written_init sample_hypotheses])

lemma duplicate_alias_refused_witness:
  "\<exists>msg. InitActiveResourcesFromGraph sample_hash sample_resources 7 21 sample_aliases = Inl (ErrInternal msg)"
  by (rule duplicate_alias_refused [of "(sample_coordinate ''a'', sample_graph_node (Some (sample_module False)))" _ "''db''" "sample_coordinate ''b''" "''replica''"])
     code_simp+

end
