(* ===== verification/Creation_Contract.thy ===== *)
theory Creation_Contract
  imports Requests System Admission_Contract Resource_Contract
begin

text \<open>
  What a creation does to the state: the outcomes of \<open>CreateDeploymentWithOptions\<close>, the
  tables each of them leaves alone, and the invariants of the components it composes. Everything
  that stays after a refused creation is a step of an admission receipt.
\<close>

section \<open>Outcomes of a creation\<close>

lemma admit_steps: "admit tk c now db rq ops cd = (err, a, db') \<Longrightarrow> admission_step\<^sup>*\<^sup>* db db'"
  by (auto simp: admit_def Let_def split: option.splits prod.splits dest: Authorize_steps)

lemma Init_frame:
  assumes "InitActiveResourcesFromGraph hash db u dep g = Inr db'"
  shows "db' = db\<lparr>nodes := nodes db', edges := edges db'\<rparr>"
  using assms
  by (auto simp: InitActiveResourcesFromGraph_def insert_nodes_def insert_edges_def detach_old_edges_def split: if_splits)

lemma write_resources_frame:
  assumes "write_resources tk db d g = Inr db'"
  shows "db' = db\<lparr>nodes := nodes db', edges := edges db'\<rparr>"
  using assms by (auto simp: write_resources_def split: if_splits dest: Init_frame)

lemma map_sum_Inr_iff [simp]: "map_sum f g r = Inr y \<longleftrightarrow> (\<exists>x. r = Inr x \<and> g x = y)"
  by (cases r) auto

text \<open>The three ways a creation answers without an error.\<close>

lemma creation_cases:
  assumes "cn_outcome (CreateDeploymentWithOptions tk cl c now wall fresh db rq ops) = Inr (d, diff, db')"
  obtains (replay) "find_replay tk wall db rq ops = Inr (Some d)" "diff = None" "db' = db"
      "cn_kept (CreateDeploymentWithOptions tk cl c now wall fresh db rq ops) = db"
  | (dry) cd where "rq_dry_run rq" "d = dry_run_summary rq cd" "diff = Some (cd_diff cd)"
      "db' = cn_kept (CreateDeploymentWithOptions tk cl c now wall fresh db rq ops)"
  | (created) cd a runner where "\<not> rq_dry_run rq" "find_replay tk wall db rq ops = Inr None"
      "creation_guards rq ops = Inr ()" "assigned_runner cl (rq_environment rq) = Inr runner"
      "compile_request tk cl db rq ops runner = Inr cd"
      "create_admitted tk now wall fresh (cn_kept (CreateDeploymentWithOptions tk cl c now wall fresh db rq ops)) rq ops cd a = Inr (d, diff, db')"
      "a = cn_attempt (CreateDeploymentWithOptions tk cl c now wall fresh db rq ops)"
  using assms unfolding CreateDeploymentWithOptions_def Let_def
  by (auto split: sum.splits option.splits prod.splits if_splits)

lemma creation_kept_steps:
  "admission_step\<^sup>*\<^sup>* db (cn_kept (CreateDeploymentWithOptions tk cl c now wall fresh db rq ops))"
  unfolding CreateDeploymentWithOptions_def Let_def
  by (auto split: sum.splits option.splits prod.splits dest: admit_steps)

text \<open>A creation in the transaction: the Deployment, the bound receipt, the active resources.\<close>

lemma create_admitted_cases:
  assumes "create_admitted tk now wall fresh db rq ops cd a = Inr (d, diff, db')"
  obtains db1 db2 where
    "CreateDeployment (tk_row_ok tk) now wall fresh db (rq_org rq) (rq_project rq) (rq_env rq) (creation_params tk rq ops cd) = Inr (d, db1)"
    "admission_step\<^sup>*\<^sup>* db1 db2" "write_resources tk db2 d (cd_graph cd) = Inr db'" "diff = Some (cd_diff cd)"
    "case a of None \<Rightarrow> db2 = db1 | Some attempt \<Rightarrow> Bind attempt db1 (sum_id d) = Inr db2"
proof -
  from assms obtain db1 db2 where c: "CreateDeployment (tk_row_ok tk) now wall fresh db (rq_org rq) (rq_project rq) (rq_env rq) (creation_params tk rq ops cd) = Inr (d, db1)"
    and b: "(case a of None \<Rightarrow> Inr db1 | Some attempt \<Rightarrow> Bind attempt db1 (sum_id d)) = Inr db2"
    and w: "write_resources tk db2 d (cd_graph cd) = Inr db'" "diff = Some (cd_diff cd)"
    by (auto simp: create_admitted_def)
  have "admission_step\<^sup>*\<^sup>* db1 db2" "case a of None \<Rightarrow> db2 = db1 | Some attempt \<Rightarrow> Bind attempt db1 (sum_id d) = Inr db2"
    using b by (cases a; auto dest: Bind_steps)+
  with c w show thesis by (intro that)
qed

lemma create_admitted_queue:
  assumes "create_admitted tk now wall fresh db rq ops cd a = Inr (d, diff, db')"
  shows "queue db' = queue db" "queue_next_seq db' = queue_next_seq db"
proof -
  obtain db1 db2 where c: "CreateDeployment (tk_row_ok tk) now wall fresh db (rq_org rq) (rq_project rq) (rq_env rq) (creation_params tk rq ops cd) = Inr (d, db1)"
    and s: "admission_step\<^sup>*\<^sup>* db1 db2" and w: "write_resources tk db2 d (cd_graph cd) = Inr db'"
    using assms by (rule create_admitted_cases)
  obtain t where "db2 = db1\<lparr>admissions := t\<rparr>" using admission_steps_frame [OF s] ..
  moreover obtain n e where "db' = db2\<lparr>nodes := n, edges := e\<rparr>" using write_resources_frame [OF w] ..
  ultimately show "queue db' = queue db" "queue_next_seq db' = queue_next_seq db"
    using CreateDeployment_frame [OF c] by simp_all
qed

lemma steps_queue:
  assumes "admission_step\<^sup>*\<^sup>* db db'"
  shows "queue db' = queue db" "queue_next_seq db' = queue_next_seq db"
  using admission_steps_frame [OF assms] by auto

lemma creation_kept_queue:
  "queue (cn_kept (CreateDeploymentWithOptions tk cl c now wall fresh db rq ops)) = queue db"
  "queue_next_seq (cn_kept (CreateDeploymentWithOptions tk cl c now wall fresh db rq ops)) = queue_next_seq db"
  by (rule steps_queue [OF creation_kept_steps])+

lemma creation_outcome_queue:
  assumes "cn_outcome (CreateDeploymentWithOptions tk cl c now wall fresh db rq ops) = Inr (d, diff, db')"
  shows "queue db' = queue db" "queue_next_seq db' = queue_next_seq db"
  using assms
  by (cases rule: creation_cases; auto simp: creation_kept_queue dest: create_admitted_queue)+

lemma sealed_state_steps: "admission_step\<^sup>*\<^sup>* (cn_kept cn) (snd (sealed_state sv now cn))"
  unfolding sealed_state_def by (cases "cn_attempt cn") (auto intro: SealAbsent_steps [OF prod.collapse [symmetric]])

text \<open>Without a dry run the creation replays, or it adds exactly one row and keeps the rest of the tables.\<close>

lemma steps_tables:
  assumes "admission_step\<^sup>*\<^sup>* db db'"
  shows "deployments db' = deployments db" "environments db' = environments db" "leases db' = leases db"
    "budgets db' = budgets db" "reservations db' = reservations db" "nodes db' = nodes db" "edges db' = edges db"
  using admission_steps_frame [OF assms] by auto

lemma creation_params_fields [simp]:
  "cp_created_by (creation_params tk rq ops cd) = rq_actor rq" "cp_mode (creation_params tk rq ops cd) = rq_mode rq"
  "cp_env_uuid (creation_params tk rq ops cd) = ce_uuid (rq_environment rq)"
  "cp_queue_item (creation_params tk rq ops cd) = op_queue_item ops"
  "cp_key_digest (creation_params tk rq ops cd) = key_digest tk rq ops"
  "cp_rollback_to (creation_params tk rq ops cd) = rq_rollback_to rq"
  "cp_expected_base (creation_params tk rq ops cd) = op_expected_base ops"
  "cp_manifest (creation_params tk rq ops cd) = cd_manifest cd"
  "cp_module_version_request_digest (creation_params tk rq ops cd) = request_digest tk ops"
  by (simp_all add: creation_params_def)

lemma create_admitted_row:
  assumes "create_admitted tk now wall fresh db rq ops cd a = Inr (d, diff, db')"
  shows "deployments db' = deployments db @ [new_deployment wall (creation_params tk rq ops cd) fresh]" "sum_id d = fresh"
    "sum_mode d = rq_mode rq" "diff = Some (cd_diff cd)" "fresh \<notin> dep_id ` set (deployments db)"
proof -
  obtain db1 db2 where c: "CreateDeployment (tk_row_ok tk) now wall fresh db (rq_org rq) (rq_project rq) (rq_env rq) (creation_params tk rq ops cd) = Inr (d, db1)"
    and s: "admission_step\<^sup>*\<^sup>* db1 db2" and w: "write_resources tk db2 d (cd_graph cd) = Inr db'"
    and diff: "diff = Some (cd_diff cd)"
    using assms by (rule create_admitted_cases)
  obtain n e where "db' = db2\<lparr>nodes := n, edges := e\<rparr>" using write_resources_frame [OF w] ..
  then have "deployments db' = deployments db1" using steps_tables(1) [OF s] by simp
  with c diff show "deployments db' = deployments db @ [new_deployment wall (creation_params tk rq ops cd) fresh]" "sum_id d = fresh"
    "sum_mode d = rq_mode rq" "diff = Some (cd_diff cd)" "fresh \<notin> dep_id ` set (deployments db)"
    by (auto elim!: CreateDeployment_cases simp: created_summary_def)
qed

lemma creation_created:
  assumes "cn_outcome (CreateDeploymentWithOptions tk cl c now wall fresh db rq ops) = Inr (d, diff, db')" "\<not> rq_dry_run rq"
  obtains (replay) "find_replay tk wall db rq ops = Inr (Some d)" "diff = None" "db' = db"
  | (created) cd runner where "find_replay tk wall db rq ops = Inr None" "diff = Some (cd_diff cd)"
      "creation_guards rq ops = Inr ()" "assigned_runner cl (rq_environment rq) = Inr runner"
      "compile_request tk cl db rq ops runner = Inr cd"
      "deployments db' = deployments db @ [new_deployment wall (creation_params tk rq ops cd) fresh]"
      "sum_id d = fresh" "sum_mode d = rq_mode rq" "fresh \<notin> dep_id ` set (deployments db)"
  using assms(1)
proof (cases rule: creation_cases)
  case (created cd a runner)
  note row = create_admitted_row [OF created(6), unfolded steps_tables(1) [OF creation_kept_steps]]
  show ?thesis by (rule that(2) [OF created(2) row(4) created(3-5) row(1,2,3,5)])
qed (use assms(2) that(1) in auto)

section \<open>Invariants\<close>

lemma steps_sys_inv:
  assumes "admission_step\<^sup>*\<^sup>* db db'" "sys_inv limit_of db"
  shows "sys_inv limit_of db'"
  using assms by (auto intro: sys_inv_frame simp: steps_tables steps_queue)

lemma create_admitted_sys_inv:
  assumes "create_admitted tk now wall fresh db rq ops cd a = Inr (d, diff, db')" "sys_inv limit_of db"
    and "env_identity db (rq_org rq) (rq_project rq) (rq_env rq) (ce_uuid (rq_environment rq))"
  shows "sys_inv limit_of db'"
proof -
  obtain db1 db2 where c: "CreateDeployment (tk_row_ok tk) now wall fresh db (rq_org rq) (rq_project rq) (rq_env rq) (creation_params tk rq ops cd) = Inr (d, db1)"
    and s: "admission_step\<^sup>*\<^sup>* db1 db2" and w: "write_resources tk db2 d (cd_graph cd) = Inr db'"
    using assms(1) by (rule create_admitted_cases)
  have "sys_inv limit_of db1" using sys_inv_create [OF c _ assms(2)] assms(3) by simp
  with s have inv2: "sys_inv limit_of db2" by (rule steps_sys_inv)
  obtain n e where "db' = db2\<lparr>nodes := n, edges := e\<rparr>" using write_resources_frame [OF w] ..
  with inv2 show ?thesis by (auto intro: sys_inv_frame)
qed

lemma creation_sys_inv:
  assumes "cn_outcome (CreateDeploymentWithOptions tk cl c now wall fresh db rq ops) = Inr (d, diff, db')" "sys_inv limit_of db"
    and "env_identity db (rq_org rq) (rq_project rq) (rq_env rq) (ce_uuid (rq_environment rq))"
  shows "sys_inv limit_of db'"
proof -
  have kept: "sys_inv limit_of (cn_kept (CreateDeploymentWithOptions tk cl c now wall fresh db rq ops))"
    using creation_kept_steps assms(2) by (rule steps_sys_inv)
  have "env_identity (cn_kept (CreateDeploymentWithOptions tk cl c now wall fresh db rq ops)) (rq_org rq) (rq_project rq) (rq_env rq)
      (ce_uuid (rq_environment rq))"
    using assms(3) by (simp add: env_identity_def steps_tables [OF creation_kept_steps])
  with kept assms show ?thesis
    by (cases rule: creation_cases [OF assms(1)]) (auto intro: create_admitted_sys_inv)
qed

lemma admission_inv_cong: "admissions db' = admissions db \<Longrightarrow> admission_inv db' = admission_inv db"
  by (simp add: admission_inv_def)

lemma creation_admission_inv:
  assumes c: "cn_outcome (CreateDeploymentWithOptions tk cl c now wall fresh db rq ops) = Inr (d, diff, db')" and inv: "admission_inv db"
  shows "admission_inv db'"
proof -
  have kept: "admission_inv (cn_kept (CreateDeploymentWithOptions tk cl c now wall fresh db rq ops))"
    using admission_steps_evolve [OF creation_kept_steps inv] by blast
  from c show ?thesis
  proof (cases rule: creation_cases)
    case (created cd a runner)
    from created(6) show ?thesis
    proof (rule create_admitted_cases)
      fix db1 db2
      assume cr: "CreateDeployment (tk_row_ok tk) now wall fresh (cn_kept (CreateDeploymentWithOptions tk cl c now wall fresh db rq ops))
            (rq_org rq) (rq_project rq) (rq_env rq) (creation_params tk rq ops cd) = Inr (d, db1)"
        and st: "admission_step\<^sup>*\<^sup>* db1 db2" and w: "write_resources tk db2 d (cd_graph cd) = Inr db'"
      have "admission_inv db1" using admission_inv_cong [OF CreateDeployment_frame(9) [OF cr]] kept by simp
      then have inv2: "admission_inv db2" using admission_steps_evolve [OF st] by blast
      obtain n e where "db' = db2\<lparr>nodes := n, edges := e\<rparr>" using write_resources_frame [OF w] ..
      with inv2 admission_inv_cong [of db' db2] show ?thesis by simp
    qed
  qed (use kept inv in simp_all)
qed

section \<open>A sample server\<close>

text \<open>One Environment, one Runner, an empty catalogue; the graph has no nodes and the texts are constant.\<close>

definition sample_manifest :: manifest where
  "sample_manifest = \<lparr>man_workloads = [(''web'', \<lparr>wl_resources = JNull, wl_outputs = None, wl_variables = None\<rparr>)], man_shared = []\<rparr>"

definition sample_toolkit :: toolkit where
  "sample_toolkit = \<lparr>tk_dfs = (\<lambda>g. map fst (g_nodes g)), tk_seed = (\<lambda>m index last. Inr \<lparr>g_nodes = [], g_edges = []\<rparr>),
     tk_provider_mapping = (\<lambda>g providers. Inr g), tk_tofu = (\<lambda>g providers runner environment. Inr ''tf''),
     tk_graph_of = (\<lambda>t. Inr \<lparr>g_nodes = [], g_edges = []\<rparr>), tk_graph_text = (\<lambda>g. ''{}''), tk_manifest_of = (\<lambda>t. Inr sample_manifest),
     tk_manifest_text = (\<lambda>m. ''{}''), tk_hash = sample_hash, tk_key_digest = (\<lambda>k. k), tk_request_digest = (\<lambda>r. ''d''),
     tk_admission_digest = (\<lambda>a artifacts intent. ''d''), tk_row_ok = (\<lambda>d. True)\<rparr>"

definition sample_control :: control_plane where
  "sample_control = \<lparr>cl_update_runner = None, cl_get_runner = (\<lambda>i. Some \<lparr>rr_status = 200, rr_runner = i, rr_conflict = ''''\<rparr>),
     cl_published = (\<lambda>headers pinned ignored. Some \<lparr>cg_status = 200, cg_catalogue = Inr (Some \<lparr>cat_modules = [], cat_providers = []\<rparr>),
       cg_not_found = None, cg_conflict = None\<rparr>)\<rparr>"

definition sample_environment :: cp_environment where
  "sample_environment = \<lparr>ce_uuid = 7, ce_project = Some 3, ce_deleting = False, ce_runner = Some ''r1''\<rparr>"

definition sample_body :: create_body where
  "sample_body = \<lparr>cb_project = ''shop'', cb_env = ''prod'', cb_mode = BodyDeploy, cb_plan_only = None, cb_manifest = Some sample_manifest,
     cb_rollback_to = None, cb_module_versions = [], cb_confirmations = [], cb_outputs_recipient = None, cb_logs_recipient = None,
     cb_log_level = None, cb_dry_run = False, cb_when_busy = None, cb_queue_ttl_seconds = None, cb_halt_on_failure = None, cb_expected_base = None\<rparr>"

definition sample_server :: server where
  "sample_server = \<lparr>sv_toolkit = sample_toolkit, sv_control = sample_control, sv_core = sample_core, sv_admissions = False,
     sv_execution = None, sv_name_uuid = (\<lambda>names. 1), sv_environment = (\<lambda>org project env. Some \<lparr>er_status = 200, er_environment = Some sample_environment\<rparr>),
     sv_iam = (\<lambda>actor org permission resource. None), sv_request_of = (\<lambda>t. Some (request_of [] sample_body (Some sample_manifest))), sv_request_text = (\<lambda>r. ''{}''),
     sv_recipient_ok = (\<lambda>r. True), sv_intent_sha = (\<lambda>i. ''sha''), sv_queue_config = \<lparr>qf_max_depth = 0, qf_default_ttl = 0, qf_max_ttl = 0\<rparr>\<rparr>"

definition sample_options :: deployment_options where
  "sample_options = deploymentOptions sample_server 1 5 ''acme'' sample_environment ModeDeploy (request_of [] sample_body (Some sample_manifest)) ''k'' False"

definition sample_creation_request :: creation_request where
  "sample_creation_request = creation_of 5 ''acme'' ''shop'' ''prod'' sample_environment ModeDeploy
     (request_of [] sample_body (Some sample_manifest)) (Some ''k'') False"

lemmas sample_server_defs = sample_server_def sample_toolkit_def sample_control_def sample_environment_def sample_manifest_def
  sample_body_def sample_core_def empty_database_def

end
