(* ===== verification/Promotion.thy ===== *)
theory Promotion
  imports Creation_Contract
begin

text \<open>
  \<^verbatim>\<open>internal/api/deployment_queue_promotion.go\<close>: turning the head of an
  Environment's queue into a Deployment, with the error classification, the retry backoff, the
  coalescing of promotion requests and the sweeper. The transaction of a promotion is the state
  that is threaded; an error keeps the state before it, except for the admission receipts, which
  are written outside of the transaction. Failures of the database itself (a commit that fails)
  are not modelled.
\<close>

section \<open>Classification and backoff\<close>

datatype queuePromotionVerdict = queueRetryLater | queueRejectItem | queueRejectAll

definition deploymentQueueReasonForbidden :: string where "deploymentQueueReasonForbidden = ''actor_forbidden''"
definition deploymentQueueReasonAdmission :: string where "deploymentQueueReasonAdmission = ''admission_denied''"
definition deploymentQueueReasonInvalid :: string where "deploymentQueueReasonInvalid = ''invalid_request''"
definition deploymentQueueReasonNotFound :: string where "deploymentQueueReasonNotFound = ''not_found''"
definition deploymentQueueReasonConflict :: string where "deploymentQueueReasonConflict = ''conflict''"
definition deploymentQueueReasonEnvironment :: string where "deploymentQueueReasonEnvironment = ''environment_not_found''"

lemmas reason_defs = deploymentQueueReasonForbidden_def deploymentQueueReasonAdmission_def
  deploymentQueueReasonInvalid_def deploymentQueueReasonNotFound_def deploymentQueueReasonConflict_def
  deploymentQueueReasonEnvironment_def

definition classifyQueuePromotionError :: "create_error \<Rightarrow> queuePromotionVerdict \<times> string" where
  "classifyQueuePromotionError e =
     (if failure_Is e ErrOutcomeUnreconciled then (queueRejectAll, CodeOutcomeUnreconciled)
      else if failure_Is e ErrEnvironmentBusy then (queueRetryLater, '''')
      else case e of
        AdmissionDenied _ code \<Rightarrow> (queueRejectItem, if code \<noteq> '''' then code else deploymentQueueReasonAdmission)
      | PlatformFailure status _ \<Rightarrow>
          if status = 403 then (queueRejectItem, deploymentQueueReasonForbidden) else (queueRetryLater, '''')
      | ModelFailure (ErrConflict _ code _) \<Rightarrow>
          (queueRejectItem, if code \<noteq> '''' then code else deploymentQueueReasonConflict)
      | ModelFailure (ErrBadRequest _) \<Rightarrow> (queueRejectItem, deploymentQueueReasonInvalid)
      | ModelFailure (ErrNotFound _) \<Rightarrow> (queueRejectItem, deploymentQueueReasonNotFound)
      | _ \<Rightarrow> (queueRetryLater, ''''))"

definition deploymentQueueRetryBackoff :: duration where "deploymentQueueRetryBackoff = 5 * second"
definition deploymentQueueMaxRetryBackoff :: duration where "deploymentQueueMaxRetryBackoff = 2 * minute"

function backoff_loop :: "int \<Rightarrow> int \<Rightarrow> duration \<Rightarrow> duration" where
  "backoff_loop retry attempt delay =
     (if retry < attempt \<and> delay < deploymentQueueMaxRetryBackoff
      then backoff_loop (retry + 1) attempt (delay * 2) else delay)"
  by auto
termination by (relation "measure (\<lambda>(retry, attempt, delay). nat (attempt - retry))") auto

declare backoff_loop.simps [simp del]

definition deploymentQueueBackoff :: "int \<Rightarrow> duration" where
  "deploymentQueueBackoff attempt =
     min (backoff_loop 1 attempt deploymentQueueRetryBackoff) deploymentQueueMaxRetryBackoff"

section \<open>Promoting the head\<close>

text \<open>
  What an attempt leaves behind: its outcome with the state in the transaction, the state after
  the transaction is undone, and that state after the admission was sealed.
\<close>

record queue_creation =
  qc_outcome :: "(uuid \<times> database) created"
  qc_rolled_back :: database
  qc_sealed :: database

type_synonym creator = "database \<Rightarrow> queue_row \<Rightarrow> queue_creation"

fun conflict_deployment :: "create_error \<Rightarrow> uuid option" where
  "conflict_deployment (ModelFailure (ErrConflict _ _ d)) = d"
| "conflict_deployment _ = None"

definition rejectQueuedDeployments :: "instant \<Rightarrow> database \<Rightarrow> uuid \<Rightarrow> create_error \<Rightarrow> database result" where
  "rejectQueuedDeployments now db environment cause =
     bindR (SettleQueuedDeployments now db environment Rejected
       (no_settlement\<lparr>st_reason_code := CodeOutcomeUnreconciled, st_reason_message := create_error_text cause,
          st_reason_deployment := conflict_deployment cause\<rparr>)) (\<lambda>(count, db'). Inr db')"

text \<open>\<open>next\<close> says whether the next item may be tried; \<open>kept\<close> is the state an error leaves.\<close>

definition committed :: "database \<Rightarrow> bool \<Rightarrow> database result \<Rightarrow> bool result \<times> database" where
  "committed kept continue r = (case r of Inl e \<Rightarrow> (Inl e, kept) | Inr db' \<Rightarrow> (Inr continue, db'))"

definition failed_attempt :: "instant \<Rightarrow> database \<Rightarrow> uuid \<Rightarrow> queue_row \<Rightarrow> create_error \<Rightarrow> bool result \<times> database" where
  "failed_attempt now db environment item err =
     (case classifyQueuePromotionError err of
        (queueRejectAll, _) \<Rightarrow> committed db False (rejectQueuedDeployments now db environment err)
      | (queueRejectItem, reason) \<Rightarrow>
          committed db True (SettleDeploymentQueueItem now db (q_id item) Rejected
            (no_settlement\<lparr>st_reason_code := reason, st_reason_message := create_error_text err,
               st_reason_deployment := conflict_deployment err\<rparr>))
      | (queueRetryLater, _) \<Rightarrow>
          (Inr False, DeferDeploymentQueueItem now db (q_id item) (create_error_text err)
            (deploymentQueueBackoff (q_attempts item + 1))))"

definition attempt_head :: "creator \<Rightarrow> instant \<Rightarrow> database \<Rightarrow> uuid \<Rightarrow> queue_row \<Rightarrow> bool result \<times> database" where
  "attempt_head create now db environment item =
     (let attempt = create db item in
      case qc_outcome attempt of
        Inr (dep, db1) \<Rightarrow>
          committed (qc_rolled_back attempt) False (SettleDeploymentQueueItem now db1 (q_id item) Dispatched
            (no_settlement\<lparr>st_deployment := Some dep\<rparr>))
      | Inl err \<Rightarrow> failed_attempt now (qc_sealed attempt) environment item err)"

definition promoteDeploymentQueueHead ::
  "(uuid \<Rightarrow> bool) \<Rightarrow> creator \<Rightarrow> instant \<Rightarrow> instant \<Rightarrow> database \<Rightarrow> uuid \<Rightarrow> bool result \<times> database" where
  "promoteDeploymentQueueHead locked create now wall db environment =
     (case ClaimDeploymentQueueHead locked db environment of
        None \<Rightarrow> (Inr False, db)
      | Some (item, _) \<Rightarrow>
          if q_expires_at item \<le> wall
          then committed db True (SettleDeploymentQueueItem now db (q_id item) Expired
            (no_settlement\<lparr>st_reason_code := QueueReasonExpired,
               st_reason_message := ''the request waited longer than its queue TTL''\<rparr>))
          else (case CheckEnvironmentAvailable now db (q_org item) (q_project item) (q_env item) environment (q_id item) of
             Inl e \<Rightarrow>
               if conflict_Is e ErrEnvironmentBusy then (Inr False, db)
               else if conflict_Is e ErrOutcomeUnreconciled
               then committed db False (rejectQueuedDeployments now db environment (ModelFailure e))
               else (Inl e, db)
           | Inr _ \<Rightarrow>
               (case HaltingDeploymentQueuePredecessor db item of
                  Some failed \<Rightarrow>
                    committed db True (SettleDeploymentQueueItem now db (q_id item) Rejected
                      (no_settlement\<lparr>st_reason_code := QueueReasonPreviousDeploymentFailed,
                         st_reason_message := ''the previous Deployment failed'',
                         st_reason_deployment := Some failed\<rparr>))
                | None \<Rightarrow> attempt_head create now db environment item)))"

section \<open>The stored request\<close>

text \<open>
  \<^verbatim>\<open>createQueuedDeployment\<close> resolves the stored intent like a new request, as the
  requesting user and against the Environment as it is now. An error before the creation has no
  admission to seal.
\<close>

definition no_creation :: "database \<Rightarrow> create_error \<Rightarrow> creation" where
  "no_creation db e = \<lparr>cn_outcome = Inl e, cn_attempt = None, cn_kept = db\<rparr>"

definition queued_environment :: "server \<Rightarrow> queue_row \<Rightarrow> cp_environment created" where
  "queued_environment sv item =
     (case sv_environment sv (q_org item) (q_project item) (q_env item) of
        None \<Rightarrow> Inl (OtherFailure ''failed to get environment'')
      | Some response \<Rightarrow>
          if er_status response = 404
          then Inl (ModelFailure (NewErrCodedConflict deploymentQueueReasonEnvironment ''the Environment no longer exists''))
          else case (if er_status response = 200 then er_environment response else None) of
            None \<Rightarrow> Inl (OtherFailure ''unexpected status code when getting environment'')
          | Some env \<Rightarrow>
              if ce_uuid env \<noteq> q_environment item
              then Inl (ModelFailure (NewErrCodedConflict deploymentQueueReasonEnvironment
                ''the Environment was deleted and created again''))
              else Inr env)"

definition queued_draft_tests :: "queue_row \<Rightarrow> deployment_request \<Rightarrow> unit result" where
  "queued_draft_tests item request =
     (if dr_draft_tests request = [] then Inr ()
      else bindR (validateDraftTestSelection (dr_draft_tests request)) (\<lambda>_.
        guardR (q_mode item = ModeDeploy \<or> q_mode item = ModeDeployPlan)
          (ErrBadRequest ''queued Draft test selection requires deploy or plan-only'')))"

definition createQueuedDeployment :: "server \<Rightarrow> instant \<Rightarrow> instant \<Rightarrow> creation_ids \<Rightarrow> database \<Rightarrow> queue_row \<Rightarrow> creation" where
  "createQueuedDeployment sv now wall ids db item =
     (case sv_request_of sv (q_intent item) of
        None \<Rightarrow> no_creation db (ModelFailure (ErrBadRequest ''the stored deployment request is unreadable''))
      | Some request \<Rightarrow>
          (case queued_environment sv item of
             Inl e \<Rightarrow> no_creation db e
           | Inr env \<Rightarrow>
               (case checkEnvAuthorization sv (q_created_by item) (q_org item) (ce_uuid env) PermissionDeploymentWrite of
                  Some e \<Rightarrow> no_creation db e
                | None \<Rightarrow>
                    (case queued_draft_tests item request of
                       Inl e \<Rightarrow> no_creation db (ModelFailure e)
                     | Inr _ \<Rightarrow>
                         CreateDeploymentWithOptions (sv_toolkit sv) (sv_control sv) (sv_core sv) now wall (id_deployment ids) db
                           (creation_of (q_created_by item) (q_org item) (q_project item) (q_env item) env (q_mode item) request None False)
                           ((deploymentOptions sv (id_attempt ids) (q_created_by item) (q_org item) env (q_mode item) request '''' False)
                             \<lparr>op_expected_base := q_expected_base item, op_key_digest := q_key_digest item,
                              op_queue_item := Some (q_id item)\<rparr>)))))"

definition queued_creation :: "server \<Rightarrow> instant \<Rightarrow> instant \<Rightarrow> creation_ids \<Rightarrow> creator" where
  "queued_creation sv now wall ids db item =
     (let cn = createQueuedDeployment sv now wall ids db item in
      \<lparr>qc_outcome = map_sum id (\<lambda>(d, _, db'). (sum_id d, db')) (cn_outcome cn), qc_rolled_back = cn_kept cn,
       qc_sealed = snd (sealed_state sv now cn)\<rparr>)"

section \<open>The loop ends\<close>

text \<open>An attempt leaves the queue as it is, whatever comes of it.\<close>

lemma no_creation_simps [simp]:
  "cn_outcome (no_creation db e) = Inl e" "cn_attempt (no_creation db e) = None" "cn_kept (no_creation db e) = db"
  by (simp_all add: no_creation_def)

lemma createQueuedDeployment_cases:
  obtains (refused) e where "createQueuedDeployment sv now wall ids db item = no_creation db e"
  | (tried) rq ops where "createQueuedDeployment sv now wall ids db item =
      CreateDeploymentWithOptions (sv_toolkit sv) (sv_control sv) (sv_core sv) now wall (id_deployment ids) db rq ops"
proof -
  have "(\<exists>e. createQueuedDeployment sv now wall ids db item = no_creation db e) \<or>
     (\<exists>rq ops. createQueuedDeployment sv now wall ids db item =
       CreateDeploymentWithOptions (sv_toolkit sv) (sv_control sv) (sv_core sv) now wall (id_deployment ids) db rq ops)"
    unfolding createQueuedDeployment_def by (auto split: option.split sum.split)
  with that show thesis by blast
qed

lemma queued_kept_steps: "admission_step\<^sup>*\<^sup>* db (cn_kept (createQueuedDeployment sv now wall ids db item))"
  by (cases rule: createQueuedDeployment_cases [of sv now wall ids db item]) (simp_all add: creation_kept_steps)

lemma queued_creation_steps:
  "admission_step\<^sup>*\<^sup>* db (qc_rolled_back (queued_creation sv now wall ids db item))"
  "admission_step\<^sup>*\<^sup>* db (qc_sealed (queued_creation sv now wall ids db item))"
  using queued_kept_steps rtranclp_trans [OF queued_kept_steps sealed_state_steps]
  by (simp_all add: queued_creation_def Let_def)

lemma queued_creation_queue:
  assumes "qc_outcome (queued_creation sv now wall ids db item) = Inr (d, db')"
  shows "queue db' = queue db" "queue_next_seq db' = queue_next_seq db"
proof -
  from assms obtain s diff where c: "cn_outcome (createQueuedDeployment sv now wall ids db item) = Inr (s, diff, db')"
    by (auto simp: queued_creation_def Let_def)
  show "queue db' = queue db" "queue_next_seq db' = queue_next_seq db"
    using c by (cases rule: createQueuedDeployment_cases [of sv now wall ids db item];
      auto dest: creation_outcome_queue)+
qed

text \<open>
  The interface a promotion relies on: an attempt keeps the queue table in each of the states it
  can leave.
\<close>

locale queue_creator =
  fixes create :: creator
  assumes created_queue: "qc_outcome (create db item) = Inr (d, db') \<Longrightarrow> queue db' = queue db \<and> queue_next_seq db' = queue_next_seq db"
    and rolled_back_queue: "queue (qc_rolled_back (create db item)) = queue db \<and> queue_next_seq (qc_rolled_back (create db item)) = queue_next_seq db"
    and sealed_queue: "queue (qc_sealed (create db item)) = queue db \<and> queue_next_seq (qc_sealed (create db item)) = queue_next_seq db"
begin

lemma committed_True: "committed kept continue r = (Inr True, db') \<Longrightarrow> r = Inr db' \<and> continue"
  by (auto simp: committed_def split: sum.splits)

text \<open>The next item may be tried only after the head left the queue.\<close>

lemma settled_next:
  assumes "promoteDeploymentQueueHead locked create now wall db environment = (Inr True, db')"
  obtains item state s db1 where "queue_head db environment = Some item" "queue db1 = queue db"
    "SettleDeploymentQueueItem now db1 (q_id item) state s = Inr db'"
proof -
  from assms obtain item pos where c: "ClaimDeploymentQueueHead locked db environment = Some (item, pos)"
    by (auto simp: promoteDeploymentQueueHead_def split: option.splits)
  then have h: "queue_head db environment = Some item"
    by (auto simp: ClaimDeploymentQueueHead_def scanDeploymentQueueItem_def split: option.splits if_splits)
  have "\<exists>state s db1. queue db1 = queue db \<and> SettleDeploymentQueueItem now db1 (q_id item) state s = Inr db'"
    using assms c sealed_queue [of db item]
    unfolding promoteDeploymentQueueHead_def attempt_head_def failed_attempt_def Let_def
    by (auto split: if_splits sum.splits option.splits queuePromotionVerdict.splits prod.splits dest!: committed_True)
  with h that show thesis by blast
qed

lemma next_fewer:
  assumes "promoteDeploymentQueueHead locked create now wall db environment = (Inr True, db')"
  shows "length (waiting db' environment) < length (waiting db environment)"
  using assms
proof (rule settled_next)
  fix item state s db1
  assume h: "queue_head db environment = Some item" and q: "queue db1 = queue db"
    and settled: "SettleDeploymentQueueItem now db1 (q_id item) state s = Inr db'"
  have "q_id item \<in> set (waiting db1 environment)"
    using queue_head_Some [OF h] q by (auto simp: waiting_def)
  then have "length (waiting db' environment) < length (waiting db1 environment)"
    unfolding SettleDeploymentQueueItem_waiting [OF settled] by (intro length_filter_less) auto
  with waiting_cong [OF q] show ?thesis by simp
qed

end

interpretation queued: queue_creator "queued_creation sv now wall ids"
proof
  show "qc_outcome (queued_creation sv now wall ids db item) = Inr (d, db') \<Longrightarrow>
      queue db' = queue db \<and> queue_next_seq db' = queue_next_seq db" for db item d db'
    by (blast dest: queued_creation_queue)
qed (simp_all add: steps_queue [OF queued_creation_steps(1)] steps_queue [OF queued_creation_steps(2)])

section \<open>Promoting until something stops it\<close>

text \<open>
  Every round has its own transaction: \<open>now k\<close>, \<open>wall k\<close>, \<open>locked k\<close>,
  \<open>sv k\<close> and \<open>ids k\<close> are the clocks, the rows held by others, the services as they
  answer and the fresh identities of round \<open>k\<close>.
\<close>

record rounds =
  ro_server :: "nat \<Rightarrow> server"
  ro_locked :: "nat \<Rightarrow> uuid \<Rightarrow> bool"
  ro_now :: "nat \<Rightarrow> instant"
  ro_wall :: "nat \<Rightarrow> instant"
  ro_ids :: "nat \<Rightarrow> creation_ids"

definition promote_round :: "rounds \<Rightarrow> nat \<Rightarrow> database \<Rightarrow> uuid \<Rightarrow> bool result \<times> database" where
  "promote_round ro k = promoteDeploymentQueueHead (ro_locked ro k)
     (queued_creation (ro_server ro k) (ro_now ro k) (ro_wall ro k) (ro_ids ro k)) (ro_now ro k) (ro_wall ro k)"

lemma promote_round_fewer:
  "promote_round ro k db environment = (Inr True, db') \<Longrightarrow> length (waiting db' environment) < length (waiting db environment)"
  unfolding promote_round_def by (rule queued.next_fewer)

function PromoteDeploymentQueue :: "rounds \<Rightarrow> nat \<Rightarrow> uuid \<Rightarrow> database \<Rightarrow> model_error option \<times> database" where
  "PromoteDeploymentQueue ro k environment db =
     (case promote_round ro k db environment of
        (Inl e, db') \<Rightarrow> (Some e, db')
      | (Inr continue, db') \<Rightarrow>
          if continue then PromoteDeploymentQueue ro (Suc k) environment db' else (None, db'))"
  by pat_completeness auto
termination
  by (relation "measure (\<lambda>(ro, k, environment, db). length (waiting db environment))")
    (auto dest: promote_round_fewer [OF sym])

declare PromoteDeploymentQueue.simps [simp del]

section \<open>Kicks\<close>

text \<open>
  \<^verbatim>\<open>deploymentQueueKicks.pending\<close>: an entry exists while a background promotion of the
  Environment runs; its value says whether it has to run once more.
\<close>

type_synonym kicks = "uuid \<Rightarrow> bool option"

text \<open>The critical section of a kick; the result says whether it starts a promotion.\<close>

definition KickDeploymentQueue :: "kicks \<Rightarrow> uuid \<Rightarrow> bool \<times> kicks" where
  "KickDeploymentQueue pending environment =
     (case pending environment of
        Some _ \<Rightarrow> (False, pending(environment \<mapsto> True))
      | None \<Rightarrow> (True, pending(environment \<mapsto> False)))"

text \<open>The critical section after a promotion; the result says whether it runs again.\<close>

definition kick_finished :: "kicks \<Rightarrow> uuid \<Rightarrow> bool \<times> kicks" where
  "kick_finished pending environment =
     (if pending environment = Some True then (True, pending(environment \<mapsto> False))
      else (False, pending(environment := None)))"

section \<open>The sweeper\<close>

definition deploymentQueueRetention :: duration where "deploymentQueueRetention = 30 * 24 * hour"
definition deploymentQueueSweepBatch :: nat where "deploymentQueueSweepBatch = 100"

text \<open>A failed promotion is only logged; \<open>ro e\<close> are the rounds of the Environment \<open>e\<close>.\<close>

fun sweep_promote :: "(uuid \<Rightarrow> rounds) \<Rightarrow> uuid list \<Rightarrow> uuid list \<Rightarrow> database \<Rightarrow> database" where
  "sweep_promote ro seen [] db = db"
| "sweep_promote ro seen (e # es) db =
     (if e \<in> set seen then sweep_promote ro seen es db
      else sweep_promote ro (e # seen) es (snd (PromoteDeploymentQueue (ro e) 0 e db)))"

definition SweepDeploymentQueue ::
  "(uuid \<Rightarrow> bool) \<Rightarrow> (uuid \<Rightarrow> rounds) \<Rightarrow> instant \<Rightarrow> instant \<Rightarrow> database \<Rightarrow> database" where
  "SweepDeploymentQueue locked ro now wall db =
     (let (changed, db1) = ExpireDeploymentQueueItems locked now db deploymentQueueSweepBatch;
          (_, db2) = PruneDeploymentQueue db1 (wall - deploymentQueueRetention);
          due = DueDeploymentQueueEnvironments now db2 deploymentQueueSweepBatch
      in sweep_promote ro [] (changed @ due) db2)"

end
