(* ===== verification/Request_Contract.thy ===== *)
theory Request_Contract
  imports Creation_Contract
begin

text \<open>
  What the deployment endpoint guarantees its callers: idempotent replay, the state a refused
  request leaves, what an answer means, the effect of a dry run, and the bounds of the queue TTL.
\<close>

section \<open>Replay\<close>

text \<open>The Environment row a creation leaves, and the rows it may find by key afterwards.\<close>

lemma created_environment:
  assumes "CreateDeployment row_ok now wall fresh db org project env p = Inr (s, db')"
    and "dep_inv db" and "env_identity db org project env (cp_env_uuid p)"
  obtains e where "find_env org project env db' = Some e" "env_id e = cp_env_uuid p" "same_env org project env e"
    "\<And>d. d \<in> set (deployments db) \<Longrightarrow> dep_de_id d = env_id e \<Longrightarrow> \<exists>e0. find_env org project env db = Some e0 \<and> env_id e0 = env_id e"
proof -
  have ref: "ref_inv db'" using CreateDeployment_dep_inv [OF assms] by (simp add: dep_inv_def)
  from assms(1) obtain db1 db2 where u: "upsert_environment wall org project env p fresh db1 = Inr db2"
    and e1: "environments db1 = environments db" and e2: "cp_env_uuid p \<in> env_id ` set (environments db2)"
    and db': "environments db' = environments db2"
    by (rule CreateDeployment_cases) (auto split: if_splits elim!: acquire_lease_cases)
  have moved: "env_moved p fresh org project env (environments db) (environments db')"
    using upsert_environment_moved [OF u] assms(2,3) e1 e2 db' by (simp add: dep_inv_def ref_inv_def env_identity_def)
  then obtain e where e: "e \<in> set (environments db')" "env_id e = cp_env_uuid p" "same_env org project env e"
    unfolding env_moved_def by blast
  have "find_env org project env db' = Some e"
    using find_env_unique [of db' e] e ref by (simp add: ref_inv_def)
  moreover have "\<exists>e0. find_env org project env db = Some e0 \<and> env_id e0 = env_id e"
    if "d \<in> set (deployments db)" "dep_de_id d = env_id e" for d
  proof -
    have "cp_env_uuid p \<in> env_id ` set (environments db)"
      using assms(2) that e(2) unfolding dep_inv_def ref_inv_def by (metis imageI)
    with moved e(2) show ?thesis by (auto simp: env_moved_def find_env_def split: option.splits)
  qed
  ultimately show thesis using e(2,3) that by blast
qed

lemma find_append_new: "\<forall>x \<in> set xs. \<not> p x \<Longrightarrow> find p (xs @ ys) = find p ys"
  by (induction xs) auto

lemma lookup_created:
  assumes c: "CreateDeployment row_ok now wall fresh db org project env p = Inr (s, db')"
    and inv: "dep_inv db" "env_identity db org project env (cp_env_uuid p)"
    and unused: "GetDeploymentByIdempotencyKeyDigest wall db org project env digest = Inl err"
    and key: "cp_key_digest p = Some digest" and time: "wall \<le> wall'" "wall' < wall + idempotencyDigestTimeLimit"
  shows "\<exists>e. GetDeploymentByIdempotencyKeyDigest wall' db' org project env digest =
     Inr ((blank_summary org e (new_deployment wall p fresh))
       \<lparr>sum_module_version_request_digest := cp_module_version_request_digest p\<rparr>, cp_manifest p)"
proof -
  obtain e where e: "find_env org project env db' = Some e" "env_id e = cp_env_uuid p"
    and old: "\<And>d. d \<in> set (deployments db) \<Longrightarrow> dep_de_id d = env_id e \<Longrightarrow> \<exists>e0. find_env org project env db = Some e0 \<and> env_id e0 = env_id e"
    using created_environment [OF c inv] by blast
  let ?p = "\<lambda>d. dep_de_id d = env_id e \<and> dep_idempotency_key_digest d = Some digest \<and> dep_created_at d > wall' - idempotencyDigestTimeLimit"
  have "\<not> ?p d" if d: "d \<in> set (deployments db)" for d
  proof
    assume p: "?p d"
    with old d obtain e0 where "find_env org project env db = Some e0" "env_id e0 = env_id e" by blast
    with unused d p time(1) show False
      by (auto simp: GetDeploymentByIdempotencyKeyDigest_def find_None_iff split: option.splits)
  qed
  then have "find ?p (deployments db @ [new_deployment wall p fresh]) = Some (new_deployment wall p fresh)"
    using e(2) key time(2) by (subst find_append_new) (auto simp: new_deployment_def)
  moreover have "deployments db' = deployments db @ [new_deployment wall p fresh]"
    using c by (rule CreateDeployment_cases) simp
  ultimately show ?thesis
    using e by (auto simp: GetDeploymentByIdempotencyKeyDigest_def new_deployment_def)
qed

lemma key_lookup_cong:
  assumes "deployments db' = deployments db" "environments db' = environments db"
  shows "GetDeploymentByIdempotencyKeyDigest wall db' = GetDeploymentByIdempotencyKeyDigest wall db"
  unfolding fun_eq_iff GetDeploymentByIdempotencyKeyDigest_def find_env_def assms by blast

lemma new_graph_manifest:
  "new_graph tk rq manifest rf ma = Inr (manifest', g, before) \<Longrightarrow>
   manifest' = (if useLastGraph (rq_mode rq) \<and> rf_graph rf \<noteq> None then rf_manifest rf else manifest)"
  by (auto simp: new_graph_def split: option.splits if_splits)

lemma compile_manifest:
  assumes "compile_request tk cl db rq ops runner = Inr cd"
  obtains rf manifest where "find_reference tk db rq = Inr rf" "effective_manifest rq ops rf = Inr manifest"
    "cd_manifest cd = tk_manifest_text tk (if useLastGraph (rq_mode rq) \<and> rf_graph rf \<noteq> None then rf_manifest rf else manifest)"
proof -
  from assms obtain rf manifest ma manifest' g before where "find_reference tk db rq = Inr rf" "effective_manifest rq ops rf = Inr manifest"
    "new_graph tk rq manifest rf ma = Inr (manifest', g, before)" "cd_manifest cd = tk_manifest_text tk manifest'"
    by (auto simp: compile_request_def)
  with that new_graph_manifest show thesis by blast
qed

text \<open>Looking for the key again after a creation with that key finds its row.\<close>

definition same_key_again :: "instant \<Rightarrow> instant \<Rightarrow> bool" where
  "same_key_again wall wall' \<longleftrightarrow> wall \<le> wall' \<and> wall' < wall + idempotencyDigestTimeLimit"

lemma key_found_again:
  assumes c: "cn_outcome (CreateDeploymentWithOptions tk cl c now wall fresh db rq ops) = Inr (d, Some diff, db')"
    and dry: "\<not> rq_dry_run rq" and inv: "dep_inv db"
    and ident: "env_identity db (rq_org rq) (rq_project rq) (rq_env rq) (ce_uuid (rq_environment rq))"
    and key: "key_digest tk rq ops = Some digest" and time: "same_key_again wall wall'"
  obtains cd runner e where "creation_guards rq ops = Inr ()" "assigned_runner cl (rq_environment rq) = Inr runner"
    "compile_request tk cl db rq ops runner = Inr cd" "sum_id d = fresh"
    "GetDeploymentByIdempotencyKeyDigest wall' db' (rq_org rq) (rq_project rq) (rq_env rq) digest =
       Inr ((blank_summary (rq_org rq) e (new_deployment wall (creation_params tk rq ops cd) fresh))
         \<lparr>sum_module_version_request_digest := request_digest tk ops\<rparr>, cd_manifest cd)"
  using c
proof (cases rule: creation_cases)
  case (created cd a runner)
  let ?kept = "cn_kept (CreateDeploymentWithOptions tk cl c now wall fresh db rq ops)" and ?p = "creation_params tk rq ops cd"
  note kept = steps_tables [OF creation_kept_steps [of db tk cl c now wall fresh rq ops]]
  obtain db1 db2 where cr: "CreateDeployment (tk_row_ok tk) now wall fresh ?kept (rq_org rq) (rq_project rq) (rq_env rq) ?p = Inr (d, db1)"
    and st: "admission_step\<^sup>*\<^sup>* db1 db2" and w: "write_resources tk db2 d (cd_graph cd) = Inr db'"
    using created(6) by (rule create_admitted_cases)
  obtain n e where "db' = db2\<lparr>nodes := n, edges := e\<rparr>" using write_resources_frame [OF w] ..
  then have look: "GetDeploymentByIdempotencyKeyDigest wall' db' = GetDeploymentByIdempotencyKeyDigest wall' db1"
    using steps_tables [OF st] by (intro key_lookup_cong) simp_all
  from created(2) key obtain err where "GetDeploymentByIdempotencyKeyDigest wall db (rq_org rq) (rq_project rq) (rq_env rq) digest = Inl err"
    by (auto simp: find_replay_def conflictC_def split: sum.splits if_splits)
  then have unused: "GetDeploymentByIdempotencyKeyDigest wall ?kept (rq_org rq) (rq_project rq) (rq_env rq) digest = Inl err"
    by (simp add: key_lookup_cong [OF kept(1,2)])
  have kept_inv: "dep_inv ?kept" "env_identity ?kept (rq_org rq) (rq_project rq) (rq_env rq) (cp_env_uuid ?p)"
    using inv ident dep_inv_cong [of ?kept db] kept by (simp_all add: env_identity_def)
  obtain e where "GetDeploymentByIdempotencyKeyDigest wall' db' (rq_org rq) (rq_project rq) (rq_env rq) digest =
       Inr ((blank_summary (rq_org rq) e (new_deployment wall ?p fresh))
         \<lparr>sum_module_version_request_digest := request_digest tk ops\<rparr>, cd_manifest cd)"
    using lookup_created [OF cr kept_inv unused, of wall'] key time by (auto simp: look same_key_again_def)
  with that created(3-5) create_admitted_row(2) [OF created(6)] show thesis by blast
qed (use dry in auto)

text \<open>The contract of the encoding: what was decoded once decodes to the same manifest again.\<close>

definition manifest_codec :: "toolkit \<Rightarrow> bool" where
  "manifest_codec tk \<longleftrightarrow> (\<forall>t m. tk_manifest_of tk t = Inr m \<longrightarrow> tk_manifest_of tk (tk_manifest_text tk m) = Inr m)"

lemma reference_decoded:
  assumes "find_reference tk db rq = Inr rf" "rf_graph rf \<noteq> None" "manifest_codec tk"
  shows "tk_manifest_of tk (tk_manifest_text tk (rf_manifest rf)) = Inr (rf_manifest rf)"
proof -
  from assms(1,2) obtain t where "tk_manifest_of tk t = Inr (rf_manifest rf)"
    by (auto simp: find_reference_def no_reference_def conflictC_def split: sum.splits if_splits)
  with assms(3) show ?thesis unfolding manifest_codec_def by blast
qed

lemma find_replay_key: "find_replay tk wall db rq ops = Inr (Some d) \<Longrightarrow> key_digest tk rq ops \<noteq> None"
  by (cases "key_digest tk rq ops") (simp_all add: find_replay_def)

lemma creation_of_replay:
  assumes "creation_guards rq ops = Inr ()" "assigned_runner cl (rq_environment rq) = Inr runner"
  shows "find_replay tk wall db rq ops = Inr (Some d) \<Longrightarrow>
      cn_outcome (CreateDeploymentWithOptions tk cl c now wall fresh db rq ops) = Inr (d, None, db)"
    and "find_replay tk wall db rq ops = Inl e \<Longrightarrow>
      cn_outcome (CreateDeploymentWithOptions tk cl c now wall fresh db rq ops) = Inl e"
  using assms by (simp_all add: CreateDeploymentWithOptions_def)


text \<open>
  A rollback is not replayed. The stored manifest of a rollback is the one of its target,
  while a replay compares it with the manifest of the request, which a rollback must not have: the
  repeated request is refused as a conflict.
\<close>

lemma rollback_replay_refused:
  assumes "cn_outcome (CreateDeploymentWithOptions tk cl c now wall fresh db rq ops) = Inr (d, Some diff, db')"
    and "\<not> rq_dry_run rq" "dep_inv db"
    and "env_identity db (rq_org rq) (rq_project rq) (rq_env rq) (ce_uuid (rq_environment rq))"
    and "key_digest tk rq ops = Some digest" "same_key_again wall wall'"
    and "rq_mode rq = ModeRollback" "find_reference tk db rq = Inr rf" "rf_graph rf \<noteq> None" "man_workloads (rf_manifest rf) \<noteq> []"
    and "manifest_codec tk"
  shows "cn_outcome (CreateDeploymentWithOptions tk cl c' now' wall' fresh' db' rq ops) =
     Inl (ModelFailure (NewErrConflict ''incorrect manifest or mode for this idempotency key''))"
proof -
  obtain cd runner e where g: "creation_guards rq ops = Inr ()" "assigned_runner cl (rq_environment rq) = Inr runner"
    and cd: "compile_request tk cl db rq ops runner = Inr cd"
    and look: "GetDeploymentByIdempotencyKeyDigest wall' db' (rq_org rq) (rq_project rq) (rq_env rq) digest =
       Inr ((blank_summary (rq_org rq) e (new_deployment wall (creation_params tk rq ops cd) fresh))
         \<lparr>sum_module_version_request_digest := request_digest tk ops\<rparr>, cd_manifest cd)"
    using key_found_again [OF assms(1-6)] by metis
  have m: "cd_manifest cd = tk_manifest_text tk (rf_manifest rf)"
    using cd
  proof (rule compile_manifest)
    fix rf' manifest
    assume "find_reference tk db rq = Inr rf'"
      "cd_manifest cd = tk_manifest_text tk (if useLastGraph (rq_mode rq) \<and> rf_graph rf' \<noteq> None then rf_manifest rf' else manifest)"
    with assms(7-9) show ?thesis by (simp add: useLastGraph_def isRollback_def)
  qed
  have "man_workloads (rq_manifest rq) = []"
    using g(1) assms(7) by (auto simp: creation_guards_def useLastGraph_def isRollback_def split: if_splits)
  then have "find_replay tk wall' db' rq ops = conflictC ''incorrect manifest or mode for this idempotency key''"
    using look m assms(5,7,10) reference_decoded [OF assms(8,9,11)] by (auto simp: find_replay_def manifest_equal_def)
  with creation_of_replay(2) [OF g] show ?thesis by (simp add: conflictC_def)
qed

section \<open>What an answer means\<close>

lemma error_answer_not [simp]:
  "error_answer e \<noteq> Created d p" "error_answer e \<noteq> Accepted i" "error_answer e \<noteq> DryRun r diff p" "error_answer e \<noteq> Panicked"
  by (simp_all add: error_answer_def split: sum.split)

lemma requested_steps:
  assumes "createRequestedDeployment sv now wall fresh attempt db rq request base = (r, db')" "\<And>x. r = Inr x \<Longrightarrow> rq_dry_run rq"
  shows "admission_step\<^sup>*\<^sup>* db db'"
proof -
  let ?ops = "(deploymentOptions sv attempt (rq_actor rq) (rq_org rq) (rq_environment rq) (rq_mode rq) request (opt_or (rq_key rq) '''') (rq_dry_run rq))
            \<lparr>op_expected_base := base\<rparr>"
  let ?cn = "CreateDeploymentWithOptions (sv_toolkit sv) (sv_control sv) (sv_core sv) now wall fresh db rq ?ops"
  have kept: "admission_step\<^sup>*\<^sup>* db (cn_kept ?cn)" by (rule creation_kept_steps)
  have "admission_step\<^sup>*\<^sup>* db (snd (sealed_state sv now ?cn))" by (rule rtranclp_trans [OF kept sealed_state_steps])
  with kept assms show ?thesis
    unfolding createRequestedDeployment_def Let_def by (auto split: sum.splits option.splits prod.splits)
qed

lemma requested_outcome:
  assumes "createRequestedDeployment sv now wall fresh attempt db rq request base = (Inr r, db')" "\<not> rq_dry_run rq"
  obtains ops where "cn_outcome (CreateDeploymentWithOptions (sv_toolkit sv) (sv_control sv) (sv_core sv) now wall fresh db rq ops) =
      Inr (rd_deployment r, rd_diff r, db')" "op_key_digest ops = None"
proof (rule that)
  let ?ops = "(deploymentOptions sv attempt (rq_actor rq) (rq_org rq) (rq_environment rq) (rq_mode rq) request (opt_or (rq_key rq) '''') (rq_dry_run rq))
            \<lparr>op_expected_base := base\<rparr>"
  show "op_key_digest ?ops = None" by (simp add: deploymentOptions_def)
  show "cn_outcome (CreateDeploymentWithOptions (sv_toolkit sv) (sv_control sv) (sv_core sv) now wall fresh db rq ?ops) =
      Inr (rd_deployment r, rd_diff r, db')"
    using assms unfolding createRequestedDeployment_def Let_def by (auto split: sum.splits option.splits prod.splits)
qed

lemma enqueue_refused:
  "enqueueDeployment sv orgToken now wall item db request = (answer, db', ks) \<Longrightarrow> (\<And>i. answer \<noteq> Accepted i) \<Longrightarrow> db' = db"
  by (auto simp: enqueueDeployment_def split: if_splits sum.splits)

lemma enqueue_not_created: "enqueueDeployment sv orgToken now wall item db request \<noteq> (Created d p, db', ks)"
  by (auto simp: enqueueDeployment_def split: sum.splits)

lemma queue_first_answer:
  assumes "queue_first sv orgToken now wall item db env whenBusy key queued = Some (answer, db', ks)"
  shows "answer \<noteq> Created d p" "(\<And>i. answer \<noteq> Accepted i) \<Longrightarrow> db' = db"
  using assms enqueue_not_created [of sv orgToken now wall item db queued d p db' ks] enqueue_refused [of sv orgToken now wall item db queued]
  unfolding queue_first_def by (fastforce split: sum.splits option.splits if_splits prod.splits)+

text \<open>The ways through the handler, once a request is valid and its caller may deploy.\<close>

lemma serve_valid_cases:
  assumes "serve_valid sv orgToken now wall ids db actor org key b draftTests env m mode ttl = answer"
  obtains (queued) item whenBusy q where "queue_first sv orgToken now wall item db env whenBusy key q = Some answer"
  | (tried) base mayQueue q where "answer_request sv orgToken now wall ids db
        (creation_of actor org (cb_project b) (cb_env b) env mode (request_of draftTests b m) key (cb_dry_run b))
        (request_of draftTests b m) base mayQueue q = answer"
  using assms unfolding serve_valid_def Let_def by (auto split: option.splits if_splits)

lemma createDeployment_cases:
  assumes "createDeployment sv orgToken now wall ids db actor org key b draftTests = (answer, db', ks)"
  obtains (invalid) "db' = db" "\<And>d p. answer \<noteq> Created d p"
  | (valid) response env m mode ttl where "sv_environment sv org (cb_project b) (cb_env b) = Some response"
      "er_environment response = Some env" "checkEnvAuthorization sv actor org (ce_uuid env) PermissionDeploymentWrite = None"
      "validate_body sv b = Inr (m, mode, ttl)"
      "serve_valid sv orgToken now wall ids db actor org key b draftTests env m mode ttl = (answer, db', ks)"
  using assms unfolding createDeployment_def
  by (auto split: option.splits sum.splits if_splits prod.splits)

lemma answer_request_cases:
  assumes "answer_request sv orgToken now wall ids db rq request base mayQueue queued = (answer, db', ks)"
  obtains (failed) e where "createRequestedDeployment sv now wall (id_deployment ids) (id_attempt ids) db rq request base = (Inl e, db')"
      "answer = error_answer e"
  | (queued) e db1 where "createRequestedDeployment sv now wall (id_deployment ids) (id_attempt ids) db rq request base = (Inl e, db1)"
      "failure_Is e ErrEnvironmentBusy" "mayQueue" "enqueueDeployment sv orgToken now wall (id_item ids) db1 queued = (answer, db', ks)"
  | (dry) r where "createRequestedDeployment sv now wall (id_deployment ids) (id_attempt ids) db rq request base = (Inr r, db')"
      "rq_dry_run rq" "\<And>d p. answer \<noteq> Created d p"
  | (created) r where "createRequestedDeployment sv now wall (id_deployment ids) (id_attempt ids) db rq request base = (Inr r, db')"
      "\<not> rq_dry_run rq" "answer = Created (rd_deployment r) (rd_pending r)" "ks = []"
  using assms unfolding answer_request_def by (auto split: sum.splits option.splits if_splits prod.splits)

lemma answer_request_refused:
  assumes "answer_request sv orgToken now wall ids db rq request base mayQueue queued = (answer, db', ks)"
    and "\<And>d p. answer \<noteq> Created d p" "\<And>i. answer \<noteq> Accepted i"
  shows "admission_step\<^sup>*\<^sup>* db db'"
  using assms(1)
proof (cases rule: answer_request_cases)
  case (queued e db1)
  then have "db' = db1" using enqueue_refused assms(3) by blast
  with requested_steps [OF queued(1)] show ?thesis by simp
qed (use assms(2) in \<open>auto intro: requested_steps\<close>)

lemma createDeployment_refused:
  assumes "createDeployment sv orgToken now wall ids db actor org key b draftTests = (answer, db', ks)"
    and "\<And>d p. answer \<noteq> Created d p" "\<And>i. answer \<noteq> Accepted i"
  shows "admission_step\<^sup>*\<^sup>* db db'"
  using assms(1)
proof (cases rule: createDeployment_cases)
  case (valid response env m mode ttl)
  from valid(5) show ?thesis
  proof (cases rule: serve_valid_cases)
    case (queued item whenBusy q)
    then have "db' = db" using queue_first_answer(2) assms(3) by blast
    then show ?thesis by simp
  next
    case (tried base mayQueue q)
    with assms(2,3) show ?thesis by (blast intro: answer_request_refused)
  qed
qed simp

text \<open>
  (C34) A deployment request that is neither answered with a Deployment nor put into the queue
  (refused as invalid or unauthorized, in conflict, failed on a service, or a dry run) leaves every
  table but the admission receipts as it was.
\<close>

theorem refused_request_keeps_state:
  assumes "createDeployment sv orgToken now wall ids db actor org key b draftTests = (answer, db', ks)"
    and "\<And>d p. answer \<noteq> Created d p" "\<And>i. answer \<noteq> Accepted i"
  shows "\<exists>receipts. db' = db\<lparr>admissions := receipts\<rparr>"
  using createDeployment_refused [OF assms] by (rule admission_steps_frame)


text \<open>
  A busy Environment queues: a valid deploy or rollback request of a user, without
  Idempotency-Key and not asking to be rejected, that finds the Environment busy creates no
  Deployment. It is accepted at the end of the Environment's queue, whose promotion is kicked, or
  the queue refuses it and nothing changes.
\<close>

lemma busy_request_queued:
  assumes "sv_environment sv org (cb_project b) (cb_env b) = Some \<lparr>er_status = 200, er_environment = Some env\<rparr>"
    and "checkEnvAuthorization sv actor org (ce_uuid env) PermissionDeploymentWrite = None"
    and "validate_body sv b = Inr (m, mode, ttl)" "mode = ModeDeploy \<or> mode = ModeRollback" "\<not> cb_dry_run b"
    and "cb_when_busy b \<noteq> Some RejectWhenBusy" "\<not> ce_deleting env"
    and "CheckEnvironmentAvailable now db org (cb_project b) (cb_env b) (ce_uuid env) uuid_nil = Inl e" "conflict_Is e ErrEnvironmentBusy"
    and "createDeployment sv False now wall ids db actor org None b draftTests = (answer, db', ks)"
  shows "(\<exists>item. answer = Accepted item \<and> q_id (fst item) = id_item ids \<and>
        waiting db' (ce_uuid env) = waiting db (ce_uuid env) @ [id_item ids] \<and> deployments db' = deployments db \<and> ks = [ce_uuid env]) \<or>
     (\<exists>refusal. answer = error_answer (ModelFailure refusal) \<and> db' = db \<and> ks = [])"
proof -
  let ?q = "(newDeploymentQueueItem sv actor org (cb_project b) (cb_env b) (ce_uuid env) mode (request_of draftTests b m) None
    (cb_expected_base b) ttl)\<lparr>nq_halt_on_failure := opt_or (cb_halt_on_failure b) False\<rparr>"
  have q: "nq_org ?q = org" "nq_project ?q = cb_project b" "nq_env ?q = cb_env b" "nq_environment ?q = ce_uuid env" "nq_key_digest ?q = None"
    by (simp_all add: newDeploymentQueueItem_def)
  have busy: "opt_or (cb_when_busy b) QueueWhenBusy = QueueWhenBusy"
    using assms(6) when_busy.exhaust by (cases "cb_when_busy b") (auto simp: opt_or_def)
  have "queue_first sv False now wall (id_item ids) db env QueueWhenBusy None ?q =
      Some (enqueueDeployment sv False now wall (id_item ids) db ?q)"
    using assms(7-9) q by (simp add: queue_first_def)
  then have a: "enqueueDeployment sv False now wall (id_item ids) db ?q = (answer, db', ks)"
    using assms(1-5,10) busy by (simp add: createDeployment_def serve_valid_def Let_def)
  show ?thesis
  proof (cases "EnqueueDeployment (sv_intent_sha sv) now wall (id_item ids) db ?q (qf_max_depth (deploymentQueueConfig sv))")
    case (Inl refusal)
    with a show ?thesis by (auto simp: enqueueDeployment_def)
  next
    case (Inr p)
    obtain item replayed db1 where p: "p = (item, replayed, db1)" using prod_cases3 by blast
    note en = Inr [unfolded p]
    have new: "\<not> replayed" using en by (cases rule: EnqueueDeployment_cases) (simp_all add: q)
    with en have en': "EnqueueDeployment (sv_intent_sha sv) now wall (id_item ids) db ?q (qf_max_depth (deploymentQueueConfig sv)) = Inr (item, False, db1)"
      by simp
    have "deployments db1 = deployments db" using EnqueueDeployment_frame [OF en'] by (metis database.select_convs(1) database.surjective database.update_convs(14,15))
    moreover have "answer = Accepted item" "db' = db1" "ks = [ce_uuid env]"
      using a en' q(4) by (simp_all add: enqueueDeployment_def)
    ultimately show ?thesis
      using EnqueueDeployment_waiting [OF en'] q(4) by (intro disjI1 exI [of _ item]) simp
  qed
qed

section \<open>Dry runs\<close>

text \<open>
  A dry run that carries the Idempotency-Key of an existing Deployment it matches is answered
  by the replay, which has no difference, and the handler dereferences the missing difference: the
  request panics.
\<close>

lemma dry_run_replay_panics:
  assumes "sv_environment sv org (cb_project b) (cb_env b) = Some \<lparr>er_status = 200, er_environment = Some env\<rparr>"
    and "checkEnvAuthorization sv actor org (ce_uuid env) PermissionDeploymentWrite = None"
    and "validate_body sv b = Inr (m, mode, ttl)" "cb_dry_run b"
    and "rq = creation_of actor org (cb_project b) (cb_env b) env mode (request_of draftTests b m) key True"
    and "ops = (deploymentOptions sv (id_attempt ids) actor org env mode (request_of draftTests b m) (opt_or key '''') True)
      \<lparr>op_expected_base := cb_expected_base b\<rparr>"
    and "creation_guards rq ops = Inr ()" "assigned_runner (sv_control sv) env = Inr runner"
    and "find_replay (sv_toolkit sv) wall db rq ops = Inr (Some d)"
  shows "createDeployment sv orgToken now wall ids db actor org key b draftTests = (Panicked, db, [])"
proof -
  have rq: "rq_dry_run rq" "rq_actor rq = actor" "rq_org rq = org" "rq_environment rq = env" "rq_mode rq = mode" "rq_key rq = key"
    by (simp_all add: assms(5) creation_of_def)
  have "cn_outcome (CreateDeploymentWithOptions (sv_toolkit sv) (sv_control sv) (sv_core sv) now wall (id_deployment ids) db rq ops) = Inr (d, None, db)"
    using creation_of_replay(1) assms(7-9) rq(4) by simp
  moreover have "cn_kept (CreateDeploymentWithOptions (sv_toolkit sv) (sv_control sv) (sv_core sv) now wall (id_deployment ids) db rq ops) = db"
    using assms(7-9) rq(4) by (simp add: CreateDeploymentWithOptions_def)
  ultimately have "\<exists>r. rd_diff r = None \<and> createRequestedDeployment sv now wall (id_deployment ids) (id_attempt ids) db rq
      (request_of draftTests b m) (cb_expected_base b) = (Inr r, db)"
    by (simp add: createRequestedDeployment_def Let_def rq assms(6) [symmetric])
  then show ?thesis
    using assms(1-4) rq(1) by (auto simp: createDeployment_def serve_valid_def answer_request_def assms(5) [symmetric])
qed

section \<open>The time to live of a queued request\<close>

text \<open>
  The TTL of a request in seconds is its TTL up to 9223372036 seconds; the conversion to
  nanoseconds is a 64-bit product, so a request for one second more becomes negative and passes the
  check against the maximum, and 18446744074 seconds become less than a third of a second.
\<close>

lemma queue_ttl_wraps:
  "(0 \<le> n \<and> n \<le> 9223372036 \<longrightarrow> seconds_duration n = n * second) \<and>
   queue_ttl sv (b\<lparr>cb_when_busy := None, cb_queue_ttl_seconds := Some 9223372037\<rparr>) = Inr (- 9223372036709551616) \<and>
   (290448384 \<le> qf_max_ttl (deploymentQueueConfig sv) \<longrightarrow>
      queue_ttl sv (b\<lparr>cb_when_busy := None, cb_queue_ttl_seconds := Some 18446744074\<rparr>) = Inr 290448384)"
proof -
  have exact: "seconds_duration k = k * second" if "0 \<le> k" "k \<le> 9223372036" for k
  proof -
    have "- (2 ^ 63) \<le> k * second" "k * second < 2 ^ 63" using that by (simp_all add: second_def)
    then have "signed_take_bit 63 (k * second) = k * second" by (simp add: signed_take_bit_int_eq_self)
    then show ?thesis unfolding seconds_duration_def wi_hom_mult sint_sbintrunc' by simp
  qed
  have wrap: "seconds_duration 9223372037 = - 9223372036709551616" "seconds_duration 18446744074 = 290448384"
    by code_simp+
  have "0 < qf_max_ttl (deploymentQueueConfig sv)"
    by (simp add: deploymentQueueConfig_def DefaultDeploymentQueueConfig_def Let_def hour_def minute_def second_def)
  with exact wrap show ?thesis by (simp add: queue_ttl_def opt_or_def Let_def)
qed

section \<open>Invariants\<close>

text \<open>
  (C35) Composition: a creation through the whole pipeline (guards, replay, compilation, admission,
  the Deployment, its receipt and its resources) keeps the invariant of the Deployments, the queue
  and the Runner capacity, and the constraints of the admission receipts, in the state it leaves
  when it succeeds and in the state that stays when it is undone.
\<close>

theorem creation_keeps_invariant:
  assumes "cn = CreateDeploymentWithOptions tk cl c now wall fresh db rq ops" "sys_inv limit_of db" "admission_inv db"
    and "env_identity db (rq_org rq) (rq_project rq) (rq_env rq) (ce_uuid (rq_environment rq))"
  shows "sys_inv limit_of (cn_kept cn) \<and> admission_inv (cn_kept cn) \<and>
     (case cn_outcome cn of Inl e \<Rightarrow> True | Inr (d, diff, db') \<Rightarrow> sys_inv limit_of db' \<and> admission_inv db')"
proof -
  have kept: "sys_inv limit_of (cn_kept cn)" "admission_inv (cn_kept cn)"
    using creation_kept_steps [of db tk cl c now wall fresh rq ops] assms(1-3)
    by (auto intro: steps_sys_inv dest: admission_steps_evolve)
  have "sys_inv limit_of db' \<and> admission_inv db'" if "cn_outcome cn = Inr (d, diff, db')" for d diff db'
    using creation_sys_inv [OF that [unfolded assms(1)] assms(2,4)] creation_admission_inv [OF that [unfolded assms(1)] assms(3)] by simp
  with kept show ?thesis by (auto split: sum.split)
qed

section \<open>Samples\<close>

definition sample_creation :: creation where
  "sample_creation = CreateDeploymentWithOptions sample_toolkit sample_control sample_core 100 100 21 empty_database sample_creation_request sample_options"

lemma sample_creation_outcome: "case cn_outcome sample_creation of Inr (d, Some diff, db) \<Rightarrow> sum_id d = 21 | _ \<Rightarrow> False"
  by code_simp

definition sample_db :: database where
  "sample_db = (case cn_outcome sample_creation of Inr (d, diff, db) \<Rightarrow> db | Inl e \<Rightarrow> empty_database)"

lemma sample_creation_cases:
  obtains d diff where "cn_outcome (CreateDeploymentWithOptions sample_toolkit sample_control sample_core 100 100 21 empty_database
      sample_creation_request sample_options) = Inr (d, Some diff, sample_db)" "sum_id d = 21"
  using sample_creation_outcome unfolding sample_db_def sample_creation_def
  by (auto split: sum.splits option.splits prod.splits)

lemma sample_facts:
  "\<not> rq_dry_run sample_creation_request" "key_digest sample_toolkit sample_creation_request sample_options = Some ''k''"
  "same_key_again 100 200" "\<not> isRollback (rq_mode sample_creation_request)" "\<not> op_reuse_manifest sample_options"
  "tk_manifest_of sample_toolkit (tk_manifest_text sample_toolkit (rq_manifest sample_creation_request)) = Inr (rq_manifest sample_creation_request)"
  by code_simp+

lemma sample_codec: "manifest_codec sample_toolkit"
  by (simp add: manifest_codec_def sample_toolkit_def)

lemma env_identity_empty: "env_identity empty_database org project env u"
  by (simp add: env_identity_def empty_database_def)


text \<open>The Deployment succeeds and is rolled back to.\<close>

definition sample_success :: update_params where
  "sample_success = \<lparr>up_status = StatusSucceeded, up_status_message = ''ok'', up_outputs = None,
     up_metrics = zero_metrics, up_expected_revision = Some 1, up_completion_proven = True\<rparr>"

definition sample_succeeded :: database where
  "sample_succeeded = (case UpdateDeploymentStatusAndOutputs 150 150 sample_db 21 sample_success of Inr (s, db) \<Rightarrow> db | Inl e \<Rightarrow> empty_database)"

definition sample_rollback :: creation_request where
  "sample_rollback = sample_creation_request\<lparr>rq_mode := ModeRollback, rq_rollback_to := Some 21, rq_manifest := empty_manifest, rq_key := Some ''r''\<rparr>"

definition sample_rolled_back :: creation where
  "sample_rolled_back = CreateDeploymentWithOptions sample_toolkit sample_control sample_core 200 200 22 sample_succeeded sample_rollback sample_options"

lemma sample_update_outcome: "case UpdateDeploymentStatusAndOutputs 150 150 sample_db 21 sample_success of Inr r \<Rightarrow> True | Inl e \<Rightarrow> False"
  by code_simp

lemma sample_db_inv: "dep_inv sample_db"
proof -
  obtain d diff where c: "cn_outcome (CreateDeploymentWithOptions sample_toolkit sample_control sample_core 100 100 21 empty_database
      sample_creation_request sample_options) = Inr (d, Some diff, sample_db)"
    by (rule sample_creation_cases)
  from creation_sys_inv [OF c sys_inv_empty env_identity_empty] show ?thesis by (simp add: sys_inv_def)
qed

lemma sample_succeeded_inv: "dep_inv sample_succeeded"
proof -
  obtain r where r: "UpdateDeploymentStatusAndOutputs 150 150 sample_db 21 sample_success = Inr r"
    using sample_update_outcome by (auto split: sum.splits)
  obtain x db where p: "r = (x, db)" by (cases r)
  have "up_status sample_success \<noteq> StatusExecuting" by (simp add: sample_success_def)
  from UpdateDeployment_dep_inv [OF r [unfolded p] this sample_db_inv] show ?thesis by (simp add: sample_succeeded_def r p)
qed

lemma sample_rollback_outcome: "case cn_outcome sample_rolled_back of Inr (d, Some diff, db) \<Rightarrow> sum_id d = 22 | _ \<Rightarrow> False"
  by code_simp

lemma sample_rollback_reference:
  "case find_reference sample_toolkit sample_succeeded sample_rollback of Inr rf \<Rightarrow> rf_graph rf \<noteq> None \<and> man_workloads (rf_manifest rf) \<noteq> [] | _ \<Rightarrow> False"
  by code_simp

lemma sample_rollback_facts:
  "\<not> rq_dry_run sample_rollback" "key_digest sample_toolkit sample_rollback sample_options = Some ''r''" "same_key_again 200 300"
  "rq_mode sample_rollback = ModeRollback"
  "list_all (\<lambda>e. env_id e = ce_uuid (rq_environment sample_rollback) \<longrightarrow>
     same_env (rq_org sample_rollback) (rq_project sample_rollback) (rq_env sample_rollback) e) (environments sample_succeeded)"
  by code_simp+

lemma rollback_replay_refused_witness:
  "\<exists>db. cn_outcome (CreateDeploymentWithOptions sample_toolkit sample_control sample_core 300 300 23 db sample_rollback sample_options) =
     Inl (ModelFailure (NewErrConflict ''incorrect manifest or mode for this idempotency key''))"
proof -
  obtain d diff db where c: "cn_outcome (CreateDeploymentWithOptions sample_toolkit sample_control sample_core 200 200 22 sample_succeeded
      sample_rollback sample_options) = Inr (d, Some diff, db)"
    using sample_rollback_outcome unfolding sample_rolled_back_def by (auto split: sum.splits option.splits prod.splits)
  obtain rf where rf: "find_reference sample_toolkit sample_succeeded sample_rollback = Inr rf" "rf_graph rf \<noteq> None" "man_workloads (rf_manifest rf) \<noteq> []"
    using sample_rollback_reference by (auto split: sum.splits)
  from rollback_replay_refused [OF c sample_rollback_facts(1) sample_succeeded_inv sample_rollback_facts(5) [folded env_identity_def]
      sample_rollback_facts(2-4) rf sample_codec]
  show ?thesis by blast
qed

definition sample_ids :: creation_ids where
  "sample_ids = \<lparr>id_deployment = 21, id_attempt = 31, id_item = 41\<rparr>"

definition sample_answer :: "database \<Rightarrow> string option \<Rightarrow> bool \<Rightarrow> create_answer \<times> database \<times> uuid list" where
  "sample_answer db key dry = createDeployment sample_server False 100 100 sample_ids db 5 ''acme'' key (sample_body\<lparr>cb_dry_run := dry\<rparr>) []"

lemma sample_dry_answer: "case fst (sample_answer empty_database None True) of DryRun r diff p \<Rightarrow> True | _ \<Rightarrow> False"
  by code_simp

lemma refused_request_keeps_state_witness:
  "\<exists>receipts. fst (snd (sample_answer empty_database None True)) = empty_database\<lparr>admissions := receipts\<rparr>"
proof -
  obtain answer db' ks where a: "sample_answer empty_database None True = (answer, db', ks)" using prod_cases3 by blast
  have "answer \<noteq> Created d p" "answer \<noteq> Accepted i" for d p i using sample_dry_answer a by auto
  with refused_request_keeps_state [OF a [unfolded sample_answer_def]] show ?thesis by (simp add: a)
qed

lemma empty_deployments: "deployments empty_database = []"
  by (simp add: empty_database_def)

lemma sample_created_answer: "case fst (sample_answer empty_database (Some ''k'') False) of Created d p \<Rightarrow> True | _ \<Rightarrow> False"
  by code_simp


lemma sample_busy:
  "case CheckEnvironmentAvailable 100 sample_db ''acme'' ''shop'' ''prod'' 7 uuid_nil of Inl e \<Rightarrow> conflict_Is e ErrEnvironmentBusy | Inr u \<Rightarrow> False"
  "sv_environment sample_server ''acme'' (cb_project sample_body) (cb_env sample_body) = Some \<lparr>er_status = 200, er_environment = Some sample_environment\<rparr>"
  "checkEnvAuthorization sample_server 5 ''acme'' (ce_uuid sample_environment) PermissionDeploymentWrite = None"
  "validate_body sample_server sample_body = Inr (Some sample_manifest, ModeDeploy, 2 * hour)" "\<not> cb_dry_run sample_body"
  "cb_when_busy sample_body \<noteq> Some RejectWhenBusy" "\<not> ce_deleting sample_environment"
  by code_simp+

lemma sample_body_dry: "sample_body\<lparr>cb_dry_run := False\<rparr> = sample_body"
  by (simp add: sample_body_def)

lemma busy_request_queued_witness:
  "(\<exists>item. fst (sample_answer sample_db None False) = Accepted item) \<or> (\<exists>refusal. fst (sample_answer sample_db None False) = error_answer (ModelFailure refusal))"
proof -
  obtain answer db' ks where a: "sample_answer sample_db None False = (answer, db', ks)" using prod_cases3 by blast
  obtain e where e: "CheckEnvironmentAvailable 100 sample_db ''acme'' (cb_project sample_body) (cb_env sample_body) (ce_uuid sample_environment) uuid_nil = Inl e"
    "conflict_Is e ErrEnvironmentBusy"
    using sample_busy(1) by (auto simp: sample_body_def sample_environment_def split: sum.splits)
  from busy_request_queued [OF sample_busy(2-4) disjI1 [OF refl] sample_busy(5-7) e a [unfolded sample_answer_def sample_body_dry]]
  show ?thesis by (auto simp: a)
qed

definition sample_dry_request :: creation_request where
  "sample_dry_request = creation_of 5 ''acme'' ''shop'' ''prod'' sample_environment ModeDeploy
     (request_of [] (sample_body\<lparr>cb_dry_run := True\<rparr>) (Some sample_manifest)) (Some ''k'') True"

definition sample_dry_options :: deployment_options where
  "sample_dry_options = (deploymentOptions sample_server 31 5 ''acme'' sample_environment ModeDeploy
     (request_of [] (sample_body\<lparr>cb_dry_run := True\<rparr>) (Some sample_manifest)) (opt_or (Some ''k'') '''') True)\<lparr>op_expected_base := None\<rparr>"

lemma sample_dry_replay:
  "creation_guards sample_dry_request sample_dry_options = Inr ()"
  "assigned_runner (sv_control sample_server) sample_environment = Inr ''r1''"
  "case find_replay (sv_toolkit sample_server) 100 sample_db sample_dry_request sample_dry_options of Inr (Some d) \<Rightarrow> True | _ \<Rightarrow> False"
  "validate_body sample_server (sample_body\<lparr>cb_dry_run := True\<rparr>) = Inr (Some sample_manifest, ModeDeploy, 2 * hour)"
  by code_simp+

lemma dry_run_replay_panics_witness: "sample_answer sample_db (Some ''k'') True = (Panicked, sample_db, [])"
proof -
  obtain d where d: "find_replay (sv_toolkit sample_server) 100 sample_db sample_dry_request sample_dry_options = Inr (Some d)"
    using sample_dry_replay(3) by (auto split: sum.splits option.splits)
  let ?b = "sample_body\<lparr>cb_dry_run := True\<rparr>"
  have env: "sv_environment sample_server ''acme'' (cb_project ?b) (cb_env ?b) = Some \<lparr>er_status = 200, er_environment = Some sample_environment\<rparr>"
    using sample_busy(2) by simp
  have rq: "sample_dry_request = creation_of 5 ''acme'' (cb_project ?b) (cb_env ?b) sample_environment ModeDeploy (request_of [] ?b (Some sample_manifest)) (Some ''k'') True"
    by (simp add: sample_dry_request_def sample_body_def)
  have ops: "sample_dry_options = (deploymentOptions sample_server (id_attempt sample_ids) 5 ''acme'' sample_environment ModeDeploy
      (request_of [] ?b (Some sample_manifest)) (opt_or (Some ''k'') '''') True)\<lparr>op_expected_base := cb_expected_base ?b\<rparr>"
    by (simp add: sample_dry_options_def sample_body_def sample_ids_def)
  have "cb_dry_run ?b" by simp
  from dry_run_replay_panics [OF env sample_busy(3) sample_dry_replay(4) this rq ops sample_dry_replay(1,2) d, where orgToken = False and now = 100]
  show ?thesis by (simp add: sample_answer_def)
qed

lemma queue_ttl_wraps_witness:
  "seconds_duration 3600 = 3600 * second \<and>
   queue_ttl sample_server (sample_body\<lparr>cb_when_busy := None, cb_queue_ttl_seconds := Some 18446744074\<rparr>) = Inr 290448384"
proof -
  have "290448384 \<le> qf_max_ttl (deploymentQueueConfig sample_server)" by code_simp
  with queue_ttl_wraps [of 3600 sample_server sample_body] show ?thesis by simp
qed

lemma creation_keeps_invariant_witness: "sys_inv (\<lambda>org runner. 1) sample_db \<and> admission_inv sample_db"
proof -
  have adm: "admission_inv empty_database" by (simp add: admission_inv_def empty_database_def)
  obtain d diff where c: "cn_outcome (CreateDeploymentWithOptions sample_toolkit sample_control sample_core 100 100 21 empty_database
      sample_creation_request sample_options) = Inr (d, Some diff, sample_db)"
    by (rule sample_creation_cases)
  from creation_keeps_invariant [OF refl sys_inv_empty adm env_identity_empty, where tk = sample_toolkit and cl = sample_control
      and c = sample_core and now = 100 and wall = 100 and fresh = 21 and rq = sample_creation_request and ops = sample_options
      and limit_of = "\<lambda>org runner. 1"]
  show ?thesis by (simp add: c)
qed

end
