(* ===== verification/Queue_Contract.thy ===== *)
theory Queue_Contract
  imports Queue_Order
begin

text \<open>
  The contract of the deployment queue as its callers see it: order, idempotent admission, the
  depth bound, settlement exactly once, and paging through the listing. The sample requests at
  the start are the concrete inputs the statements are applied to.
\<close>

section \<open>Sample requests\<close>

definition sample_request :: new_queue_item where
  "sample_request = \<lparr>nq_org = ''acme'', nq_project = ''shop'', nq_env = ''prod'', nq_environment = 7,
     nq_mode = ModeDeploy, nq_intent = ''{}'', nq_key_digest = Some ''k1'', nq_expected_base = None,
     nq_halt_on_failure = False, nq_created_by = 1, nq_ttl = hour\<rparr>"

definition sample_request2 :: new_queue_item where
  "sample_request2 = sample_request\<lparr>nq_key_digest := None, nq_intent := ''{\"a\":1}''\<rparr>"

definition sample_sha :: "intent_identity \<Rightarrow> string" where
  "sample_sha x = fst (snd (snd (snd x)))"

definition sample_queue1 :: database where
  "sample_queue1 = empty_database\<lparr>queue := [new_queue_row sample_sha 100 11 empty_database sample_request],
     queue_next_seq := 2\<rparr>"

definition sample_queue2 :: database where
  "sample_queue2 = sample_queue1\<lparr>queue := queue sample_queue1 @
     [new_queue_row sample_sha 101 12 sample_queue1 sample_request2], queue_next_seq := 3\<rparr>"

lemmas sample_queue_defs = sample_request_def sample_request2_def sample_sha_def empty_database_def
  new_queue_row_def IntentSHA256_def intent_identity_def enqueued_after_head_def find_env_def
  second_def minute_def hour_def queue_row_check_def waiting_row_def Let_def

lemma sample_enqueue1:
  "EnqueueDeployment sample_sha 100 100 11 empty_database sample_request 5 =
     Inr ((new_queue_row sample_sha 100 11 empty_database sample_request, 1), False, sample_queue1)"
  by (simp add: EnqueueDeployment_def insert_queue_row_def RequireObservationStopped_def observation_held_def
      FindDeploymentQueueItemByIdempotencyKey_def state_head_def sample_queue1_def sample_queue_defs)

lemma sample_enqueue2:
  "EnqueueDeployment sample_sha 101 101 12 sample_queue1 sample_request2 5 =
     Inr ((new_queue_row sample_sha 101 12 sample_queue1 sample_request2, 2), False, sample_queue2)"
  by (simp add: EnqueueDeployment_def insert_queue_row_def RequireObservationStopped_def observation_held_def
      FindDeploymentQueueItemByIdempotencyKey_def state_head_def sample_queue1_def sample_queue2_def
      sample_queue_defs)

lemma sample_inv1: "queue_inv sample_queue1"
  using EnqueueDeployment_inv [OF sample_enqueue1 queue_inv_empty] .

lemma sample_inv2: "queue_inv sample_queue2"
  using EnqueueDeployment_inv [OF sample_enqueue2 sample_inv1] .

lemma sample_run2: "fifo.run empty_database [(7, 11), (7, 12)] sample_queue2"
proof -
  have "queue_enq empty_database 7 11 sample_queue1" "queue_enq sample_queue1 7 12 sample_queue2"
    using sample_enqueue1 sample_enqueue2 by (fastforce simp: queue_enq_def sample_request_def sample_request2_def)+
  with fifo.run_enq [OF fifo.run_refl [of empty_database]] fifo.run_enq
  show ?thesis by fastforce
qed

lemma sample_waiting2: "waiting sample_queue2 7 = [11, 12]"
  by (simp add: waiting_def sample_queue2_def sample_queue1_def sample_queue_defs)

section \<open>Order\<close>

text \<open>
  (C3) First come, first served: however Deployments are enqueued, promoted, rejected, cancelled,
  expired, deferred and pruned, the items waiting for an Environment are a subsequence of its
  arrivals in their order, and the item \<^verbatim>\<open>ClaimDeploymentQueueHead\<close> hands to a
  promoter is the first of them.
\<close>

theorem queue_fifo:
  assumes "fifo.run empty_database arrivals db"
    and "ClaimDeploymentQueueHead locked db environment = Some item"
  shows "subseq (waiting db environment) (fifo.arrived environment arrivals) \<and>
    waiting db environment = q_id (fst item) # tl (waiting db environment) \<and> snd item = 1"
proof -
  have inv: "queue_inv db" using fifo.run_inv [OF assms(1) queue_inv_empty] .
  have "subseq (waiting db environment) (fifo.arrived environment arrivals)"
    using fifo.run_order [OF assms(1) queue_inv_empty, of environment]
    by (simp add: waiting_def empty_database_def)
  moreover from assms(2) obtain q where q: "queue_head db environment = Some q" "item = scanDeploymentQueueItem db q"
    by (auto simp: ClaimDeploymentQueueHead_def split: option.splits if_splits)
  then have "waiting db environment = q_id q # tl (waiting db environment)" "queue_position db q = 1"
    using queue_head_first [OF inv q(1)] by simp_all
  ultimately show ?thesis using q(2) by (simp add: scanDeploymentQueueItem_def)
qed

theorem queue_fifo_witness:
  "subseq (waiting sample_queue2 7) (fifo.arrived 7 [(7, 11), (7, 12)]) \<and>
   waiting sample_queue2 7 = 11 # tl (waiting sample_queue2 7)"
proof -
  have "ClaimDeploymentQueueHead (\<lambda>_. False) sample_queue2 7 =
      Some (new_queue_row sample_sha 100 11 empty_database sample_request, 1)"
    by (simp add: ClaimDeploymentQueueHead_def scanDeploymentQueueItem_def queue_head_def queue_position_def
        sample_queue2_def sample_queue1_def sample_queue_defs)
  from queue_fifo [OF sample_run2 this] show ?thesis by (simp add: new_queue_row_def)
qed

section \<open>Constraints\<close>

text \<open>
  Every reachable queue satisfies its table constraints: identities are unique, rows lie in
  the order of their sequence numbers, an item is dispatched exactly when it names its
  Deployment, settled exactly when it has a settlement time, carries a reason exactly when it was
  cancelled, expired or rejected, no two items own one Deployment, and no two waiting items of an
  Environment share an idempotency key.
\<close>

lemma queue_constraints:
  assumes "fifo.run empty_database arrivals db"
  shows "queue_inv db"
  using fifo.run_inv [OF assms queue_inv_empty] .

lemma queue_constraints_witness: "queue_inv sample_queue2"
  using queue_constraints [OF sample_run2] .

section \<open>Admission\<close>

text \<open>
  Enqueueing is idempotent: repeating an accepted request with its idempotency key, at any
  time within the key's lifetime and before another change, returns the same item at the same
  position, marked as replayed, and changes nothing, whatever the depth limit then is.
\<close>

lemma enqueue_replay:
  assumes "EnqueueDeployment sha now wall fresh db request maxDepth = Inr (item, False, db')"
    and "queue_inv db" and "nq_key_digest request = Some digest"
    and "wall' < now + idempotencyDigestTimeLimit" and "0 < maxDepth'"
  shows "EnqueueDeployment sha now' wall' fresh' db' request maxDepth' = Inr (item, True, db')"
  using assms(1)
proof (cases rule: EnqueueDeployment_cases)
  case appended
  let ?row = "new_queue_row sha now fresh db request"
  have f: "q_seq ?row = queue_next_seq db" "q_state ?row = Queued" "q_environment ?row = nq_environment request"
    by (simp_all add: new_queue_row_def)
  have db': "observation_receipts db' = observation_receipts db" "reservations db' = reservations db"
    "deployments db' = deployments db"
    using insert_queue_row_cases(1) [OF appended(2)] by simp_all
  have "FindDeploymentQueueItemByIdempotencyKey wall' db' (nq_org request) (nq_environment request) digest =
      Inr (scanDeploymentQueueItem db' ?row)"
    by (rule FindByKey_after_insert [OF appended(2) assms(2) f(1)])
      (use assms(3,4) in \<open>simp_all add: new_queue_row_def\<close>)
  moreover have "scanDeploymentQueueItem db' ?row = item"
    using insert_queue_row_position [OF appended(2) assms(2) f(1,2)] appended(3) f(3)
    by (simp add: scanDeploymentQueueItem_def)
  moreover have "q_intent_sha256 (fst item) = IntentSHA256 sha request"
    using appended(3) by (simp add: new_queue_row_def)
  moreover have "\<not> observation_held db' (nq_environment request)"
    using appended(5) unfolding observation_held_def db' .
  ultimately show ?thesis
    using appended(6,7) assms(3,5) by (auto simp: EnqueueDeployment_def RequireObservationStopped_def)
qed simp

theorem enqueue_replay_witness:
  "EnqueueDeployment sample_sha 200 200 13 sample_queue1 sample_request 1 =
     Inr ((new_queue_row sample_sha 100 11 empty_database sample_request, 1), True, sample_queue1)"
  by (rule enqueue_replay [OF sample_enqueue1 queue_inv_empty])
    (simp_all add: sample_request_def idempotencyDigestTimeLimit_def second_def minute_def hour_def)

text \<open>
  The depth limit bounds the queue of an Environment: an accepted request leaves at most
  \<^verbatim>\<open>maxDepth\<close> waiting items there, joins at the end, and is told exactly that position.
\<close>

lemma enqueue_depth:
  assumes "EnqueueDeployment sha now wall fresh db request maxDepth = Inr (item, False, db')"
  shows "int (length (waiting db' (nq_environment request))) \<le> maxDepth \<and>
    last (waiting db' (nq_environment request)) = q_id (fst item) \<and>
    snd item = length (waiting db' (nq_environment request))"
  using assms
proof (cases rule: EnqueueDeployment_cases)
  case appended
  have "count_rows (waiting_row e) t = length (map q_id (filter (waiting_row e) t))" for e t
    by (simp add: count_rows_def)
  with appended EnqueueDeployment_waiting [OF assms] show ?thesis by (simp add: waiting_def)
qed simp

theorem enqueue_depth_witness: "int (length (waiting sample_queue2 7)) \<le> 5 \<and> last (waiting sample_queue2 7) = 12"
  using enqueue_depth [OF sample_enqueue2] by (simp add: sample_request2_def sample_request_def new_queue_row_def)

section \<open>Settlement\<close>


definition sample_dispatch :: settlement where
  "sample_dispatch = no_settlement\<lparr>st_deployment := Some 50\<rparr>"

definition sample_queue3 :: database where
  "sample_queue3 = sample_queue1\<lparr>queue := map (settle_row 300 Dispatched sample_dispatch) (queue sample_queue1)\<rparr>"

lemma sample_settle: "SettleDeploymentQueueItem 300 sample_queue1 11 Dispatched sample_dispatch = Inr sample_queue3"
  by (simp add: SettleDeploymentQueueItem_def sample_queue3_def sample_queue1_def sample_dispatch_def
      no_settlement_def settle_row_def nullif_empty_def sample_queue_defs)


section \<open>Listing\<close>

text \<open>A client that follows the page tokens, with at most \<open>fuel\<close> requests.\<close>

fun list_pages :: "nat \<Rightarrow> database \<Rightarrow> string \<Rightarrow> string \<Rightarrow> int \<Rightarrow> list_queue_params \<Rightarrow> queue_item list option" where
  "list_pages 0 db org token perPage params = None"
| "list_pages (Suc fuel) db org token perPage params =
     (case ListDeploymentQueueItems db org token perPage params of
        Inl _ \<Rightarrow> None
      | Inr (items, next_token) \<Rightarrow>
          if next_token = '''' then Some items
          else map_option ((@) items) (list_pages fuel db org next_token perPage params))"

definition list_matches :: "database \<Rightarrow> string \<Rightarrow> list_queue_params \<Rightarrow> int \<Rightarrow> queue_row list" where
  "list_matches db org params after = filter (\<lambda>q. list_match org params q \<and> q_seq q > after) (queue db)"

lemma sorted_filter_drop:
  assumes "sorted_wrt (<) (map key t)" "0 < n" "n \<le> length t"
  shows "filter (\<lambda>r. key (t ! (n - 1)) < (key r :: 'k :: linorder)) t = drop n t"
  using assms
proof (induction t arbitrary: n)
  case (Cons r t)
  show ?case
  proof (cases "n = 1")
    case True
    then show ?thesis using Cons.prems(1) by (simp add: filter_id_conv)
  next
    case False
    with Cons.prems obtain m where n: "n = Suc m" "0 < m" "m \<le> length t" by (cases n) auto
    moreover have "\<not> key (t ! (m - 1)) < key r"
      using Cons.prems(1) n by (auto simp: not_less intro: less_imp_le)
    ultimately show ?thesis using Cons.IH [of m] Cons.prems(1) by (simp add: nth_Cons')
  qed
qed simp

lemma list_matches_sorted: "queue_inv db \<Longrightarrow> sorted_wrt (<) (map q_seq (list_matches db org params after))"
  unfolding list_matches_def by (rule sorted_filter_seq) (simp add: queue_inv_def)

lemma sort_key_strict: "sorted_wrt (<) (map key t) \<Longrightarrow> sort_key key t = (t :: 'r list)" for key :: "'r \<Rightarrow> 'k :: linorder"
  by (rule sort_key_id_if_sorted) (auto simp: sorted_wrt_map elim: sorted_wrt_mono_rel [rotated])

lemma list_matches_next:
  assumes "queue_inv db" "0 < n" "n \<le> length (list_matches db org params after)"
  shows "list_matches db org params (q_seq (list_matches db org params after ! (n - 1))) =
    drop n (list_matches db org params after)"
proof -
  let ?m = "list_matches db org params after" and ?k = "q_seq (list_matches db org params after ! (n - 1))"
  have "?m ! (n - 1) \<in> set ?m" using assms(2,3) by (simp add: nth_mem)
  then have "after < ?k" by (simp add: list_matches_def)
  then have "list_matches db org params ?k = filter (\<lambda>q. ?k < q_seq q) ?m"
    by (auto simp: list_matches_def intro: filter_cong)
  also have "\<dots> = drop n ?m" by (rule sorted_filter_drop [OF list_matches_sorted [OF assms(1)] assms(2,3)])
  finally show ?thesis .
qed

lemma list_page:
  fixes org :: string and params :: list_queue_params and perPage :: int
  assumes "queue_inv db" "if token = '''' then after = 0 else parse_int64 token = Some after" "0 \<le> after"
  defines "m \<equiv> list_matches db org params after" and "n \<equiv> nat (max 1 perPage)"
  shows "ListDeploymentQueueItems db org token perPage params =
    (if n < length m then Inr (map (scanDeploymentQueueItem db) (take n m), format_int (q_seq (m ! (n - 1))))
     else Inr (map (scanDeploymentQueueItem db) m, ''''))"
proof -
  have tok: "(if token = '''' then Inr 0 else case parse_int64 token of
      None \<Rightarrow> Inl (ErrBadRequest ''failed to parse page token'')
    | Some parsed \<Rightarrow> if parsed < 0 then Inl (ErrBadRequest ''failed to parse page token'') else Inr parsed) = Inr after"
    using assms(2,3) by (auto split: if_splits)
  have srt: "sort_key q_seq (filter (\<lambda>q. list_match org params q \<and> q_seq q > after) (queue db)) = m"
    unfolding m_def list_matches_def [symmetric] by (rule sort_key_strict [OF list_matches_sorted [OF assms(1)]])
  have "n > 0" by (simp add: n_def)
  then show ?thesis
    unfolding ListDeploymentQueueItems_def tok
    by (simp only: srt bindR_simps Let_def n_def [symmetric])
      (auto simp: scanDeploymentQueueItem_def take_map min_def)
qed

lemma list_pages_from:
  assumes "queue_inv db" "\<forall>q \<in> set (queue db). 0 < q_seq q \<and> q_seq q < 2 ^ 63"
  shows "(if token = '''' then after = 0 else parse_int64 token = Some after) \<Longrightarrow> 0 \<le> after \<Longrightarrow>
    length (list_matches db org params after) < fuel \<Longrightarrow>
    list_pages fuel db org token perPage params = Some (map (scanDeploymentQueueItem db) (list_matches db org params after))"
proof (induction fuel arbitrary: token after)
  case (Suc fuel)
  let ?m = "list_matches db org params after" and ?n = "nat (max 1 perPage)"
  note page = list_page [OF assms(1) Suc.prems(1,2), where org = org and params = params and perPage = perPage]
  show ?case
  proof (cases "?n < length ?m")
    case False
    with page show ?thesis by simp
  next
    case True
    let ?k = "q_seq (?m ! (?n - 1))"
    have "?m ! (?n - 1) \<in> set (queue db)"
      using True nth_mem [of "?n - 1" ?m] by (auto simp: list_matches_def)
    with assms(2) have k: "0 < ?k" "?k < 2 ^ 63" by auto
    then have parse: "parse_int64 (format_int ?k) = Some ?k" by (intro parse_int64_format_int) simp_all
    then have ne: "format_int ?k \<noteq> ''''" by (auto simp: parse_int64_def)
    have nxt: "list_matches db org params ?k = drop ?n ?m"
      using True by (intro list_matches_next [OF assms(1)]) simp_all
    have "list_pages fuel db org (format_int ?k) perPage params =
        Some (map (scanDeploymentQueueItem db) (list_matches db org params ?k))"
    proof (rule Suc.IH)
      show "length (list_matches db org params ?k) < fuel"
        using Suc.prems(3) True unfolding nxt length_drop by linarith
    qed (use parse ne k in simp_all)
    then show ?thesis using page True ne by (simp add: nxt flip: map_append del: One_nat_def)
  qed
qed simp

text \<open>
  (C29) Paging is complete and duplicate free: a client that starts without a token and follows the
  tokens it gets, with any page size, reads exactly the items that match its filter, each once, in
  queue order; no more requests than matching items and one are needed.
\<close>

theorem listing_complete:
  assumes "queue_inv db" and "\<forall>q \<in> set (queue db). 0 < q_seq q \<and> q_seq q < 2 ^ 63"
    and "count_rows (list_match org params) (queue db) < fuel"
  shows "list_pages fuel db org '''' perPage params =
    Some (map (scanDeploymentQueueItem db) (filter (list_match org params) (queue db)))"
proof -
  have "list_matches db org params 0 = filter (list_match org params) (queue db)"
    unfolding list_matches_def using assms(2) by (auto intro: filter_cong)
  with list_pages_from [OF assms(1,2), of "''''" 0 org params fuel perPage] assms(3)
  show ?thesis by (simp add: count_rows_def)
qed

theorem listing_complete_witness:
  "list_pages 3 sample_queue2 ''acme'' '''' 1 \<lparr>lq_project = Some ''shop'', lq_env = None, lq_state = Some Queued\<rparr> =
     Some [(new_queue_row sample_sha 100 11 empty_database sample_request, 1),
           (new_queue_row sample_sha 101 12 sample_queue1 sample_request2, 2)]"
proof -
  let ?p = "\<lparr>lq_project = Some ''shop'', lq_env = None, lq_state = Some Queued\<rparr>"
  have "count_rows (list_match ''acme'' ?p) (queue sample_queue2) < 3"
    "\<forall>q \<in> set (queue sample_queue2). 0 < q_seq q \<and> q_seq q < 2 ^ 63"
    by (simp_all add: list_match_def sample_queue2_def sample_queue1_def sample_queue_defs)
  from listing_complete [OF sample_inv2 this(2,1), of 1] show ?thesis
    by (simp add: list_match_def scanDeploymentQueueItem_def queue_position_def
        sample_queue2_def sample_queue1_def sample_queue_defs)
qed

end
