(* ===== verification/Deployment_Contract.thy ===== *)
theory Deployment_Contract
  imports System Queue_Contract
begin

text \<open>
  What the Deployment tables promise: at most one executing Deployment per Environment, creation
  that yields to running and queued work, compare-and-set settlement, an immutable dispatch
  budget, Runner slots that are bounded and only released by proof, and the round trip from
  creation to reading. The sample states at the start are the concrete inputs.
\<close>

section \<open>Sample states\<close>

definition sample_params :: create_params where
  "sample_params = \<lparr>cp_created_by = 1, cp_env_uuid = 7, cp_mode = ModeDeploy, cp_manifest = ''{}'',
     cp_rollback_to = None, cp_graph = ''{}'', cp_tofu = ''tf'', cp_key_digest = None, cp_runner_id = ''r1'',
     cp_outputs_recipient = None, cp_logs_recipient = None, cp_metrics = zero_metrics,
     cp_runner_log_level = ''info'', cp_module_artifacts = [], cp_module_version_request_digest = '''',
     cp_expected_current = None, cp_retry_of_rollback = None, cp_expected_base = None, cp_queue_item = None\<rparr>"

definition sample_ok :: "deployment_row \<Rightarrow> bool" where
  "sample_ok d \<longleftrightarrow> dep_runner_log_level d \<in> {''debug'', ''info'', ''warn'', ''error''}"

definition sample_create :: "(deployment_summary \<times> database) result" where
  "sample_create = CreateDeployment sample_ok 100 100 21 empty_database ''acme'' ''shop'' ''prod'' sample_params"

definition sample_created :: database where
  "sample_created = empty_database
     \<lparr>leases := [new_lease 100 7 ''acme'' ''shop'' ''prod'' 21],
      environments := [\<lparr>env_id = 7, env_org = ''acme'', env_project = ''shop'', env_name = ''prod'',
        env_last_executing = 21, env_last_executing_at = 100, env_last_state = 21, env_last_state_at = 100\<rparr>],
      deployments := [new_deployment 100 sample_params 21],
      budgets := [\<lparr>bud_deployment = 21, bud_revision = 1, bud_first_attempt_at = None, bud_deadline = None,
        bud_completion_received_at = None, bud_legacy = False\<rparr>]\<rparr>"

lemmas sample_dep_defs = sample_params_def sample_ok_def empty_database_def new_lease_def new_deployment_def
  find_env_def same_env_def Let_def

lemma sample_create_eq: "sample_create = Inr (created_summary 100 ''acme'' ''shop'' ''prod'' sample_params 21, sample_created)"
  by (simp add: sample_create_def CreateDeployment_def param_check_def RequireObservationStopped_def observation_held_def
      RequiresEnvironmentLease_def IsPlanDeployment_def acquire_lease_def lease_name_taken_def creation_checks_def
      last_executing_def requireQueueHead_def queue_head_def captured_base_check_def upsert_environment_def
      insert_deployment_def insert_budget_def sample_created_def sample_dep_defs)

lemma sample_created_reachable: "dp_reachable limit_of sample_created"
proof -
  have "env_identity empty_database ''acme'' ''shop'' ''prod'' (cp_env_uuid sample_params)"
    by (simp add: env_identity_def empty_database_def)
  with sample_create_eq have "dp_step limit_of empty_database sample_created"
    unfolding sample_create_def by (rule step_create)
  then show ?thesis by (auto simp: dp_reachable_def)
qed

lemma sample_created_row: "new_deployment 100 sample_params 21 \<in> set (deployments sample_created)"
  "dep_status (new_deployment 100 sample_params 21) = StatusExecuting"
  "dep_de_id (new_deployment 100 sample_params 21) = 7"
  by (simp_all add: sample_created_def new_deployment_def sample_params_def)

section \<open>Exclusion\<close>

text \<open>
  (C2) Mutual exclusion: in every reachable state an Environment has at most one executing
  Deployment.
\<close>

theorem one_executing:
  assumes "dp_reachable limit_of db" and "d1 \<in> set (deployments db)" and "d2 \<in> set (deployments db)"
    and "dep_status d1 = StatusExecuting" and "dep_status d2 = StatusExecuting" and "dep_de_id d1 = dep_de_id d2"
  shows "d1 = d2"
proof -
  have inv: "ref_inv db" "exec_inv db"
    using sys_inv_reachable [OF assms(1)] by (simp_all add: sys_inv_def dep_inv_def)
  from inv(2) assms obtain e1 e2 where "e1 \<in> set (environments db)" "e2 \<in> set (environments db)"
    "env_id e1 = dep_de_id d1" "env_last_executing e1 = dep_id d1"
    "env_id e2 = dep_de_id d2" "env_last_executing e2 = dep_id d2"
    unfolding exec_inv_def by blast
  moreover from this inv(1) assms(6) have "e1 = e2" unfolding ref_inv_def by (metis distinct_key_eq)
  ultimately have "dep_id d1 = dep_id d2" by simp
  then show ?thesis using inv(1) assms(2,3) unfolding ref_inv_def by (metis distinct_key_eq)
qed

theorem one_executing_witness:
  "\<exists>d \<in> set (deployments sample_created). dep_status d = StatusExecuting \<and> d = new_deployment 100 sample_params 21"
  using one_executing [OF sample_created_reachable sample_created_row(1,1,2,2)] sample_created_row by blast

text \<open>
  While a Deployment executes, no creation of any mode in its Environment succeeds, plans and
  observations included, and whether or not the lease has expired.
\<close>

lemma executing_blocks_creation:
  assumes "dp_reachable limit_of db" and "d \<in> set (deployments db)" and "dep_status d = StatusExecuting"
    and "dep_de_id d = cp_env_uuid p" and "env_identity db org project env (cp_env_uuid p)"
  shows "\<exists>e. CreateDeployment row_ok now wall fresh db org project env p = Inl e"
proof (rule ccontr)
  assume "\<not> ?thesis"
  then obtain s db' where "CreateDeployment row_ok now wall fresh db org project env p = Inr (s, db')"
    by (cases "CreateDeployment row_ok now wall fresh db org project env p") auto
  then have c: "creation_checks db org project env p = Inr ()" by (rule CreateDeployment_cases)
  have inv: "ref_inv db" "exec_inv db"
    using sys_inv_reachable [OF assms(1)] by (simp_all add: sys_inv_def dep_inv_def)
  from inv(1) assms(2) obtain e where e: "e \<in> set (environments db)" "env_id e = dep_de_id d" by (auto simp: ref_inv_def)
  with assms(4,5) have "same_env org project env e" by (auto simp: env_identity_def list_all_iff)
  with e inv(1) have "find_env org project env db = Some e" by (intro find_env_unique) (simp_all add: ref_inv_def)
  from checked_idle [OF c inv assms(2,3) this] e(2) show False by simp
qed

theorem executing_blocks_creation_witness:
  "\<exists>e. CreateDeployment sample_ok 5000000000000 5000000000000 22 sample_created ''acme'' ''shop'' ''prod''
     (sample_params\<lparr>cp_mode := ModeDeployPlan\<rparr>) = Inl e"
  by (rule executing_blocks_creation [OF sample_created_reachable sample_created_row(1,2)])
    (simp_all add: new_deployment_def sample_created_def env_identity_def same_env_def sample_params_def)

text \<open>
  (C12) Queued work goes first: a mutating creation succeeds only for the item at the head of the
  Environment's queue, or, when it promotes no item, only while nothing is queued there.
\<close>

theorem creation_yields_to_queue:
  assumes "CreateDeployment row_ok now wall fresh db org project env p = Inr (s, db')" and "queue_inv db"
    and "RequiresEnvironmentLease (cp_mode p)"
  shows "case waiting db (cp_env_uuid p) of
      [] \<Rightarrow> opt_or (cp_queue_item p) uuid_nil = uuid_nil
    | i # _ \<Rightarrow> opt_or (cp_queue_item p) uuid_nil = i"
proof -
  from assms(1) have "creation_checks db org project env p = Inr ()" by (rule CreateDeployment_cases)
  from creation_checks_Inr(3) [OF this assms(3)]
  have h: "case queue_head db (cp_env_uuid p) of None \<Rightarrow> opt_or (cp_queue_item p) uuid_nil = uuid_nil
      | Some q \<Rightarrow> q_id q = opt_or (cp_queue_item p) uuid_nil"
    by (auto simp: requireQueueHead_def split: option.splits)
  show ?thesis
  proof (cases "queue_head db (cp_env_uuid p)")
    case None
    then have "waiting db (cp_env_uuid p) = []" by (simp add: waiting_def queue_head_None filter_empty_conv)
    with h None show ?thesis by simp
  next
    case (Some q)
    from queue_head_first [OF assms(2) Some] obtain w where "waiting db (cp_env_uuid p) = q_id q # w" by metis
    with h Some show ?thesis by simp
  qed
qed

theorem creation_yields_to_queue_witness:
  "waiting empty_database 7 = [] \<and> opt_or (cp_queue_item sample_params) uuid_nil = uuid_nil"
  using creation_yields_to_queue [OF sample_create_eq [unfolded sample_create_def] queue_inv_empty]
  by (simp add: waiting_def empty_database_def sample_params_def RequiresEnvironmentLease_def)

section \<open>Creation and reading\<close>

lemma find_deployment_unique:
  "distinct (map dep_id (deployments db)) \<Longrightarrow> d \<in> set (deployments db) \<Longrightarrow> find_deployment (dep_id d) db = Some d"
  unfolding find_deployment_def by (rule lookup_row_distinct)

text \<open>
  What was created can be read back: after a creation, reading its identity returns the
  returned summary (completed by the Runner log level, which the summary of a creation leaves
  empty) with the manifest, the configuration and the graph of the request; the Deployment is the
  Environment's executing one.
\<close>

lemma create_then_get:
  assumes "CreateDeployment row_ok now wall fresh db org project env p = Inr (s, db')"
    and "dep_inv db" and "env_identity db org project env (cp_env_uuid p)"
  shows "GetDeployment db' org fresh =
      Inr (s\<lparr>sum_runner_log_level := cp_runner_log_level p\<rparr>, cp_manifest p, cp_tofu p, cp_graph p) \<and>
    env_executing db' org project env"
proof -
  have ref: "ref_inv db'" using CreateDeployment_dep_inv [OF assms] by (simp add: dep_inv_def)
  from assms(1) obtain db1 db2 where u: "upsert_environment wall org project env p fresh db1 = Inr db2"
    and e1: "environments db1 = environments db" and e2: "cp_env_uuid p \<in> env_id ` set (environments db2)"
    and db': "deployments db' = deployments db @ [new_deployment wall p fresh]" "environments db' = environments db2"
    and s: "s = created_summary wall org project env p fresh"
    by (rule CreateDeployment_cases) (auto split: if_splits elim!: acquire_lease_cases)
  have "env_moved p fresh org project env (environments db) (environments db')"
    using upsert_environment_moved [OF u] assms(2,3) e1 e2 db'(2) by (simp add: dep_inv_def ref_inv_def env_identity_def)
  then obtain e where e: "e \<in> set (environments db')" "env_id e = cp_env_uuid p" "env_last_executing e = fresh"
    "same_env org project env e"
    unfolding env_moved_def by blast
  let ?d = "new_deployment wall p fresh"
  have f: "find_deployment fresh db' = Some ?d"
    using find_deployment_unique [of db' ?d] ref db'(1) by (simp add: ref_inv_def new_deployment_def)
  have l: "lookup_row env_id (dep_de_id ?d) (environments db') = Some e"
    using lookup_row_distinct [of env_id "environments db'" e] e(1,2) ref by (simp add: ref_inv_def new_deployment_def)
  have "GetDeployment db' org fresh = Inr (full_summary org e ?d, cp_manifest p, cp_tofu p, cp_graph p)"
    using f l e(4) by (simp add: GetDeployment_def same_env_def new_deployment_def)
  moreover have "full_summary org e ?d = s\<lparr>sum_runner_log_level := cp_runner_log_level p\<rparr>"
    using e(2,4) by (simp add: s full_summary_def blank_summary_def created_summary_def new_deployment_def same_env_def)
  moreover have "find_env org project env db' = Some e"
    using find_env_unique [of db' e] e ref by (simp add: ref_inv_def)
  then have "env_executing db' org project env"
    using db'(1) e(2,3) by (simp add: env_executing_def new_deployment_def)
  ultimately show ?thesis by simp
qed

theorem create_then_get_witness:
  "GetDeployment sample_created ''acme'' 21 =
     Inr ((created_summary 100 ''acme'' ''shop'' ''prod'' sample_params 21)\<lparr>sum_runner_log_level := ''info''\<rparr>, ''{}'', ''tf'', ''{}'')"
proof -
  have "env_identity empty_database ''acme'' ''shop'' ''prod'' (cp_env_uuid sample_params)"
    by (simp add: env_identity_def empty_database_def)
  from create_then_get [OF sample_create_eq [unfolded sample_create_def] dep_inv_empty this]
  show ?thesis by (simp add: sample_params_def)
qed

section \<open>Settling\<close>

definition sample_failure :: update_params where
  "sample_failure = \<lparr>up_status = StatusFailed, up_status_message = ''boom'', up_outputs = None,
     up_metrics = zero_metrics, up_expected_revision = Some 1, up_completion_proven = False\<rparr>"

definition sample_failed :: database where
  "sample_failed = snd (projr (UpdateDeploymentStatusAndOutputs 200 200 sample_created 21 sample_failure))"

definition sample_failed_summary :: deployment_summary where
  "sample_failed_summary = fst (projr (UpdateDeploymentStatusAndOutputs 200 200 sample_created 21 sample_failure))"

lemma sample_update:
  "UpdateDeploymentStatusAndOutputs 200 200 sample_created 21 sample_failure = Inr (sample_failed_summary, sample_failed)"
  unfolding sample_failed_def sample_failed_summary_def
  by (simp add: UpdateDeploymentStatusAndOutputs_def find_deployment_def sample_failure_def sample_created_def
      sample_dep_defs)

text \<open>
  Settlement is a compare-and-set on the revision: once an update has been applied at a
  revision, every other update that expects this revision is refused as a conflict, so two
  handlers of one outcome never both apply it.
\<close>

lemma update_cas:
  assumes "UpdateDeploymentStatusAndOutputs now wall db i p = Inr (s, db')"
    and "up_status p \<noteq> StatusExecuting" and "up_expected_revision p = Some r" and "up_expected_revision p' = Some r"
  shows "UpdateDeploymentStatusAndOutputs now' wall' db' i p' = Inl (NewErrConflict ''deployment not found at revision'')"
  using assms(1,2)
proof (rule UpdateDeployment_cases)
  fix d e
  assume d: "find_deployment i db = Some d" "up_expected_revision p = None \<or> up_expected_revision p = Some (dep_revision d)"
    and db': "db' = terminal_effects now i (up_completion_proven p)
       (db\<lparr>deployments := update_rows (\<lambda>d. dep_id d = i) (settled_row wall p) (deployments db)\<rparr>)"
  have "find_deployment i db' = map_option (\<lambda>d. if dep_id d = i then settled_row wall p d else d) (find_deployment i db)"
    unfolding db' find_deployment_def by (simp add: lookup_row_update_rows)
  then have "find_deployment i db' = Some (settled_row wall p d)"
    using d(1) find_deployment_Some [OF d(1)] by simp
  with d(2) assms(3,4) show ?thesis
    by (simp add: UpdateDeploymentStatusAndOutputs_def Let_def split: option.split)
qed

theorem update_cas_witness:
  "UpdateDeploymentStatusAndOutputs 201 201 sample_failed 21 (sample_failure\<lparr>up_status := StatusSucceeded\<rparr>) =
     Inl (NewErrConflict ''deployment not found at revision'')"
  by (rule update_cas [OF sample_update]) (simp_all add: sample_failure_def)

text \<open>
  A terminal outcome frees the Environment: afterwards the Deployment is settled one revision
  later with its completion time, no lease names it, and if it was executing then nothing in its
  Environment is.
\<close>

lemma terminal_update_frees:
  assumes "UpdateDeploymentStatusAndOutputs now wall db i p = Inr (s, db')"
    and "up_status p \<noteq> StatusExecuting" and "dep_inv db" and "find_deployment i db = Some d" and "dep_status d = StatusExecuting"
  shows "find_deployment i db' = Some (settled_row wall p d) \<and>
    sum_status s = up_status p \<and> sum_revision s = dep_revision d + 1 \<and>
    \<not> exists_row (\<lambda>l. lease_deployment l = Some i) (leases db') \<and>
    \<not> exists_row (\<lambda>x. dep_de_id x = dep_de_id d \<and> dep_status x = StatusExecuting) (deployments db')"
  using assms(1,2)
proof (rule UpdateDeployment_cases)
  fix d' e
  assume d': "find_deployment i db = Some d'" and s: "s = (blank_summary (env_org e) e (settled_row wall p d'))\<lparr>sum_created_by := uuid_nil\<rparr>"
    and db': "db' = terminal_effects now i (up_completion_proven p)
       (db\<lparr>deployments := update_rows (\<lambda>d. dep_id d = i) (settled_row wall p) (deployments db)\<rparr>)"
  have D: "deployments db' = update_rows (\<lambda>d. dep_id d = i) (settled_row wall p) (deployments db)" by (simp add: db')
  have d: "d \<in> set (deployments db)" "dep_id d = i" using find_deployment_Some [OF assms(4)] by simp_all
  have "find_deployment i db' = map_option (\<lambda>d. if dep_id d = i then settled_row wall p d else d) (find_deployment i db)"
    unfolding D find_deployment_def by (simp add: lookup_row_update_rows)
  then have "find_deployment i db' = Some (settled_row wall p d)" using assms(4) d(2) by simp
  moreover have "\<not> exists_row (\<lambda>l. lease_deployment l = Some i) (leases db')" by (simp add: db')
  moreover have "\<not> (dep_de_id x = dep_de_id d \<and> dep_status x = StatusExecuting)" if "x \<in> set (deployments db')" for x
    using that unfolding D
  proof (cases rule: update_rowsE)
    case miss
    from assms(3) have ref: "ref_inv db" and ex: "exec_inv db" by (simp_all add: dep_inv_def)
    show ?thesis
    proof
      assume x: "dep_de_id x = dep_de_id d \<and> dep_status x = StatusExecuting"
      with ex miss(1) d(1) assms(5) obtain e1 e2 where "e1 \<in> set (environments db)" "env_id e1 = dep_de_id d" "env_last_executing e1 = dep_id x"
        "e2 \<in> set (environments db)" "env_id e2 = dep_de_id d" "env_last_executing e2 = dep_id d"
        unfolding exec_inv_def by metis
      with ref have "dep_id x = dep_id d" unfolding ref_inv_def by (metis distinct_key_eq)
      with miss(2) d(2) show False by simp
    qed
  qed (use assms(2) in simp)
  ultimately show ?thesis using s d' assms(4) by (auto simp: blank_summary_def)
qed

theorem terminal_update_frees_witness:
  "\<not> exists_row (\<lambda>x. dep_de_id x = 7 \<and> dep_status x = StatusExecuting) (deployments sample_failed) \<and>
   \<not> exists_row (\<lambda>l. lease_deployment l = Some 21) (leases sample_failed)"
proof -
  have "dep_inv sample_created" using sys_inv_reachable [OF sample_created_reachable] by (simp add: sys_inv_def)
  moreover have "find_deployment 21 sample_created = Some (new_deployment 100 sample_params 21)"
    by (simp add: find_deployment_def sample_created_def new_deployment_def)
  ultimately show ?thesis
    using terminal_update_frees [OF sample_update] sample_created_row(2,3)
    by (simp add: sample_failure_def)
qed

section \<open>The dispatch budget\<close>

text \<open>What a step may do to a budget row: nothing once it has started, except recording completion.\<close>

definition budget_kept :: "database \<Rightarrow> database \<Rightarrow> bool" where
  "budget_kept db db' \<longleftrightarrow> (\<forall>i b t. lookup_row bud_deployment i (budgets db) = Some b \<longrightarrow> bud_first_attempt_at b = Some t \<longrightarrow>
     (case lookup_row bud_deployment i (budgets db') of
        None \<Rightarrow> True
      | Some b' \<Rightarrow> bud_first_attempt_at b' = Some t \<and> bud_deadline b' = bud_deadline b \<and> bud_revision b' = bud_revision b))"

lemma budget_kept_same: "budgets db' = budgets db \<Longrightarrow> budget_kept db db'"
  by (simp add: budget_kept_def split: option.split)

lemma budget_kept_trans: "budgets db1 = budgets db \<Longrightarrow> budget_kept db1 db' \<Longrightarrow> budget_kept db db'"
  by (simp add: budget_kept_def)

lemma budget_kept_completion:
  "budget_kept db (db'\<lparr>budgets := update_rows (\<lambda>b. bud_deployment b = i)
     (\<lambda>b. b\<lparr>bud_completion_received_at := f b\<rparr>) (budgets db)\<rparr>)"
  by (auto simp: budget_kept_def lookup_row_update_rows split: option.split)

lemma RecordDeploymentCompletion_budget: "budget_kept db (RecordDeploymentCompletion now i db)"
proof -
  have "budgets (RecordDeploymentCompletion now i db) = budgets (db\<lparr>budgets := update_rows (\<lambda>b. bud_deployment b = i)
     (\<lambda>b. b\<lparr>bud_completion_received_at := Some (opt_or (bud_completion_received_at b) now)\<rparr>) (budgets db)\<rparr>)"
    by (simp add: RecordDeploymentCompletion_def)
  then show ?thesis using budget_kept_completion [of db i "\<lambda>b. Some (opt_or (bud_completion_received_at b) now)" db]
    unfolding budget_kept_def by simp
qed

lemma lookup_row_delete_rows:
  "distinct (map key t) \<Longrightarrow> lookup_row key k (delete_rows p t) = Some r \<Longrightarrow> lookup_row key k t = Some r"
  using lookup_row_Some [of key k "delete_rows p t" r] lookup_row_distinct [of key t r] by auto

lemma terminal_effects_budget: "budget_kept db (terminal_effects now i proven db)"
proof (cases proven)
  case True
  then have "budgets (terminal_effects now i proven db) = budgets (RecordDeploymentCompletion now i db)"
    by (simp add: RecordDeploymentCompletion_def)
  then show ?thesis using RecordDeploymentCompletion_budget [of db now i] unfolding budget_kept_def by simp
qed (simp add: budget_kept_same)

lemma DeleteDeploymentsForEnv_budget:
  assumes "DeleteDeploymentsForEnv db org project env force expected = Inr db'" "dep_inv db"
  shows "budget_kept db db'"
  using assms(1)
proof (rule DeleteDeploymentsForEnv_cases)
  fix db2
  assume del: "delete_environment org project env expected db2 = Inr db'" and b2: "budgets db2 = budgets db"
  from del obtain p where "budgets db' = delete_rows p (budgets db)"
    unfolding delete_environment_def Let_def by (auto dest!: cascade_tables(6) simp: b2)
  moreover have "distinct (map bud_deployment (budgets db))" using assms(2) by (simp add: dep_inv_def budget_inv_def)
  ultimately show ?thesis
    by (auto simp: budget_kept_def split: option.split dest: lookup_row_delete_rows)
qed

lemma budget_kept_step:
  assumes "dep_inv db" "dp_step limit_of db db'"
  shows "budget_kept db db'"
  using assms(2)
proof cases
  case (step_create row_ok now wall fresh org project env p s)
  from step_create(1) obtain c where "budgets db' = budgets db @ [c]" by (rule CreateDeployment_cases) auto
  then show ?thesis by (simp add: budget_kept_def lookup_row_append)
next
  case (step_update now wall i p s)
  from step_update have db': "db' = terminal_effects now i (up_completion_proven p)
     (db\<lparr>deployments := update_rows (\<lambda>d. dep_id d = i) (settled_row wall p) (deployments db)\<rparr>)"
    by (blast elim: UpdateDeployment_cases)
  show ?thesis unfolding db' by (rule budget_kept_trans [OF _ terminal_effects_budget]) simp
next
  case (step_renew now i ttl r)
  then show ?thesis by (auto simp: RenewDeploymentLease_def Let_def intro: budget_kept_same)
next
  case (step_dispatch now wall dep deadline)
  then have "db' = start_budget now (sum_id dep) (sum_revision dep) db" by (blast elim: BeginDeploymentDispatch_cases)
  then show ?thesis by (auto simp: budget_kept_def start_budget_immutable)
next
  case (step_complete now i)
  then show ?thesis by (simp add: RecordDeploymentCompletion_budget)
next
  case (step_late sha now dep body handled)
  from step_late(1) show ?thesis
    by (cases rule: RecordLate_cases) (auto intro: budget_kept_same budget_kept_trans [OF _ RecordDeploymentCompletion_budget])
next
  case (step_delete org project env force expected)
  then show ?thesis using assms(1) by (blast intro: DeleteDeploymentsForEnv_budget)
next
  case (step_history dep)
  then show ?thesis
    by (auto simp: CreateDeploymentHistoryRecord_def split: sum.splits if_splits intro: budget_kept_same)
next
  case (step_event event org runner i kind applied)
  then show ?thesis by (auto simp: TryRecordRunnerEvent_def split: if_splits intro: budget_kept_same)
next
  case (step_enqueue qsha now wall fresh request maxDepth item replayed)
  from EnqueueDeployment_tables(4) [OF step_enqueue] show ?thesis by (rule budget_kept_same)
next
  case (step_settle K)
  from queue_settle_tables(4) [OF step_settle] show ?thesis by (rule budget_kept_same)
qed (auto simp: same_core_def dest: ReserveRunnerJob_tables(4) intro: budget_kept_same)

text \<open>
  (C27) The dispatch budget is immutable: once the first attempt of a Deployment has started, no
  transaction of the Data Plane changes the attempt's start, its deadline or the revision it is
  bound to, however often the dispatch is redelivered.
\<close>

theorem budget_immutable:
  assumes "dp_reachable limit_of db" and "dp_step limit_of db db'"
    and "lookup_row bud_deployment i (budgets db) = Some b" and "bud_first_attempt_at b = Some t"
    and "lookup_row bud_deployment i (budgets db') = Some b'"
  shows "bud_first_attempt_at b' = Some t \<and> bud_deadline b' = Some (t + RunnerExecutionBudget) \<and> bud_revision b' = bud_revision b"
proof -
  have inv: "dep_inv db" using sys_inv_reachable [OF assms(1)] by (simp add: sys_inv_def)
  have "budget_kept db db'" by (rule budget_kept_step [OF inv assms(2)])
  moreover have "budget_ok b" using inv lookup_row_Some [OF assms(3)] by (simp add: dep_inv_def budget_inv_def)
  ultimately show ?thesis using assms(3-5) unfolding budget_kept_def by (fastforce simp: budget_ok_def)
qed

definition sample_summary :: deployment_summary where
  "sample_summary = created_summary 100 ''acme'' ''shop'' ''prod'' sample_params 21"

definition sample_dispatched :: database where
  "sample_dispatched = sample_created\<lparr>budgets := [\<lparr>bud_deployment = 21, bud_revision = 1, bud_first_attempt_at = Some 150,
     bud_deadline = Some 3600000000150, bud_completion_received_at = None, bud_legacy = False\<rparr>]\<rparr>"

lemma sample_dispatch1: "BeginDeploymentDispatch 150 150 sample_created sample_summary = Inr (3600000000150, sample_dispatched)"
  and sample_dispatch2: "BeginDeploymentDispatch 900 900 sample_dispatched sample_summary = Inr (3600000000150, sample_dispatched)"
  by (simp_all add: BeginDeploymentDispatch_def find_deployment_def start_budget_def ReadDeploymentDispatchBudget_def
      sample_summary_def created_summary_def sample_dispatched_def sample_created_def sample_dep_defs
      second_def minute_def hour_def)

lemma sample_dispatched_reachable: "dp_reachable limit_of sample_dispatched"
  using sample_created_reachable [of limit_of] step_dispatch [OF sample_dispatch1]
  unfolding dp_reachable_def by (rule rtranclp.rtrancl_into_rtrancl)

theorem budget_immutable_witness:
  "\<exists>b. lookup_row bud_deployment 21 (budgets sample_dispatched) = Some b \<and> bud_first_attempt_at b = Some 150 \<and>
     bud_deadline b = Some (150 + RunnerExecutionBudget)"
proof -
  have b: "lookup_row bud_deployment 21 (budgets sample_dispatched) = Some (hd (budgets sample_dispatched))"
    "bud_first_attempt_at (hd (budgets sample_dispatched)) = Some 150"
    by (simp_all add: sample_dispatched_def)
  from budget_immutable [OF sample_dispatched_reachable step_dispatch [OF sample_dispatch2] b b(1)] b show ?thesis by blast
qed

section \<open>Runner capacity\<close>


definition sample_reserved :: database where
  "sample_reserved = sample_dispatched\<lparr>reservations := [\<lparr>res_deployment = 21, res_org = ''acme'', res_runner = ''r1'',
     res_reserved_at = 160, res_released_at = None\<rparr>]\<rparr>"

lemma sample_reserve: "ReserveRunnerJob 160 sample_dispatched sample_summary 1 = Inr sample_reserved"
  by (simp add: ReserveRunnerJob_def find_deployment_def live_reservation_def live_on_runner_def sample_summary_def
      created_summary_def sample_reserved_def sample_dispatched_def sample_created_def sample_dep_defs)

lemma sample_reserved_reachable: "dp_reachable (\<lambda>org runner. 1) sample_reserved"
  using sample_dispatched_reachable [of "\<lambda>org runner. 1"] step_reserve [of 160 sample_dispatched sample_summary "\<lambda>org runner. 1"]
    sample_reserve
  unfolding dp_reachable_def by (blast intro: rtranclp.rtrancl_into_rtrancl)


text \<open>The rows that a step may release, described on the state after it.\<close>

definition slots_kept :: "database \<Rightarrow> database \<Rightarrow> bool" where
  "slots_kept db db' \<longleftrightarrow> (\<forall>r \<in> set (reservations db). res_released_at r = None \<longrightarrow>
     r \<in> set (reservations db') \<or> release_proven db' r)"

lemma release_proven_cong:
  assumes "budgets db' = budgets db" "runner_inbox db' = runner_inbox db" "late_results db' = late_results db"
    and "acknowledgements db' = acknowledgements db"
  shows "release_proven db' r = release_proven db r"
  unfolding release_proven_def result_received_def assms ..

lemma slots_kept_superset: "set (reservations db) \<subseteq> set (reservations db') \<Longrightarrow> slots_kept db db'"
  by (auto simp: slots_kept_def)

lemma slots_kept_from: "slots_kept db1 db' \<Longrightarrow> reservations db1 = reservations db \<Longrightarrow> slots_kept db db'"
  by (simp add: slots_kept_def)

lemma slots_kept_release: "slots_kept db (ReleaseRunnerJob now i db)"
  unfolding slots_kept_def
proof (intro ballI impI)
  fix r assume r: "r \<in> set (reservations db)" "res_released_at r = None"
  show "r \<in> set (reservations (ReleaseRunnerJob now i db)) \<or> release_proven (ReleaseRunnerJob now i db) r"
    using ReleaseRunnerJob_kept [OF r, of now i] release_proven_cong [of "ReleaseRunnerJob now i db" db r] by auto
qed

lemma slots_kept_complete: "slots_kept db (RecordDeploymentCompletion now i db)"
proof -
  let ?db = "db\<lparr>budgets := update_rows (\<lambda>b. bud_deployment b = i)
     (\<lambda>b. b\<lparr>bud_completion_received_at := Some (opt_or (bud_completion_received_at b) now)\<rparr>) (budgets db)\<rparr>"
  have "slots_kept ?db (ReleaseRunnerJob now i ?db)" by (rule slots_kept_release)
  then show ?thesis unfolding RecordDeploymentCompletion_def slots_kept_def by simp
qed

lemma slots_kept_terminal: "slots_kept db (terminal_effects now i proven db)"
proof -
  let ?c = "if proven then RecordDeploymentCompletion now i db else db"
  have a: "slots_kept db ?c" using slots_kept_complete slots_kept_superset by auto
  have b: "slots_kept ?c (ReleaseRunnerJob now i ?c)" by (rule slots_kept_release)
  have p: "release_proven (terminal_effects now i proven db) r = release_proven ?c r" for r
    by (rule release_proven_cong) (simp_all add: terminal_effects_def Let_def)
  have q: "release_proven (ReleaseRunnerJob now i ?c) r = release_proven ?c r" for r
    by (rule release_proven_cong) simp_all
  have "reservations (terminal_effects now i proven db) = reservations (ReleaseRunnerJob now i ?c)"
    by (simp add: terminal_effects_def Let_def)
  then show ?thesis using a b unfolding slots_kept_def p q by metis
qed

lemma slots_kept_delete:
  assumes "DeleteDeploymentsForEnv db org project env force expected = Inr db'"
  shows "slots_kept db db'"
  using assms
proof (rule DeleteDeploymentsForEnv_cases)
  fix db2
  assume del: "delete_environment org project env expected db2 = Inr db'"
    and res: "case find_env org project env db of
       None \<Rightarrow> reservations db2 = reservations db
     | Some e \<Rightarrow> (expected = None \<or> expected = Some (env_id e)) \<and>
         (\<forall>r \<in> set (reservations db). env_deployment db (env_id e) (res_deployment r) \<longrightarrow> res_released_at r \<noteq> None) \<and>
         reservations db2 = delete_rows (\<lambda>r. env_deployment db (env_id e) (res_deployment r) \<and> res_released_at r \<noteq> None) (reservations db)"
  from del have "reservations db' = reservations db2"
    unfolding delete_environment_def Let_def by (auto dest: cascade_tables(4))
  with res show ?thesis by (auto simp: slots_kept_def split: option.splits)
qed

lemma slots_kept_step:
  assumes "dp_step limit_of db db'"
  shows "slots_kept db db'"
  using assms
proof cases
  case (step_create row_ok now wall fresh org project env p s)
  from CreateDeployment_frame(1) [OF step_create(1)] show ?thesis by (simp add: slots_kept_superset)
next
  case (step_update now wall i p s)
  from step_update have db': "db' = terminal_effects now i (up_completion_proven p)
     (db\<lparr>deployments := update_rows (\<lambda>d. dep_id d = i) (settled_row wall p) (deployments db)\<rparr>)"
    by (blast elim: UpdateDeployment_cases)
  show ?thesis unfolding db' by (rule slots_kept_from [OF slots_kept_terminal]) simp
next
  case (step_renew now i ttl r)
  then show ?thesis by (auto simp: RenewDeploymentLease_def Let_def intro: slots_kept_superset)
next
  case (step_dispatch now wall dep deadline)
  then have "db' = start_budget now (sum_id dep) (sum_revision dep) db" by (blast elim: BeginDeploymentDispatch_cases)
  then show ?thesis by (simp add: slots_kept_superset)
next
  case (step_reserve now dep)
  then show ?thesis by (cases rule: ReserveRunnerJob_cases) (auto intro: slots_kept_superset)
next
  case (step_late sha now dep body handled)
  from step_late(1) show ?thesis
  proof (cases rule: RecordLate_cases)
    case proven
    show ?thesis unfolding proven(2) by (rule slots_kept_from [OF slots_kept_complete]) simp
  qed (auto intro: slots_kept_superset)
next
  case (step_delete org project env force expected)
  then show ?thesis by (rule slots_kept_delete)
next
  case (step_history dep)
  then show ?thesis
    by (auto simp: CreateDeploymentHistoryRecord_def split: sum.splits if_splits intro: slots_kept_superset)
next
  case (step_event event org runner i kind applied)
  then show ?thesis by (auto simp: TryRecordRunnerEvent_def split: if_splits intro: slots_kept_superset)
next
  case (step_enqueue qsha now wall fresh request maxDepth item replayed)
  from EnqueueDeployment_tables(5) [OF step_enqueue] show ?thesis by (simp add: slots_kept_superset)
next
  case (step_settle K)
  from queue_settle_tables(5) [OF step_settle] show ?thesis by (simp add: slots_kept_superset)
qed (auto simp: slots_kept_release slots_kept_complete same_core_def intro: slots_kept_superset)

text \<open>
  (C6) A Runner slot is released only by proof: whatever transaction ends a live reservation, the
  state after it holds the evidence that the Runner stopped, that no command was ever sent, or that
  an operator acknowledged the outcome. In particular no failure report of the watchdog and no
  forced deletion of the Environment frees a slot of a possibly live job.
\<close>

theorem release_needs_proof:
  assumes "dp_step limit_of db db'" and "r \<in> set (reservations db)" and "res_released_at r = None"
    and "r \<notin> set (reservations db')"
  shows "(\<exists>b \<in> set (budgets db'). bud_deployment b = res_deployment r \<and>
       (bud_completion_received_at b \<noteq> None \<or> bud_first_attempt_at b = None \<and> \<not> bud_legacy b)) \<or>
     result_received db' (res_org r) (res_runner r) (res_deployment r) \<or>
     (\<exists>l \<in> set (late_results db'). late_deployment l = res_deployment r) \<or>
     (\<exists>a \<in> set (acknowledgements db'). ack_deployment a = res_deployment r)"
proof -
  have "release_proven db' r" using slots_kept_step [OF assms(1)] assms(2-4) by (auto simp: slots_kept_def)
  then show ?thesis by (simp add: release_proven_def)
qed

lemma release_needs_proof_witness:
  "\<exists>b \<in> set (budgets (RecordDeploymentCompletion 170 21 sample_reserved)).
     bud_deployment b = 21 \<and> bud_completion_received_at b \<noteq> None"
proof -
  let ?r = "hd (reservations sample_reserved)"
  have r: "?r \<in> set (reservations sample_reserved)" "res_released_at ?r = None" "res_deployment ?r = 21"
    "?r \<notin> set (reservations (RecordDeploymentCompletion 170 21 sample_reserved))"
    by (simp_all add: RecordDeploymentCompletion_def ReleaseRunnerJob_def release_proven_def sample_reserved_def sample_dispatched_def)
  have none: "late_results (RecordDeploymentCompletion 170 21 sample_reserved) = []"
    "acknowledgements (RecordDeploymentCompletion 170 21 sample_reserved) = []"
    "\<not> result_received (RecordDeploymentCompletion 170 21 sample_reserved) (res_org ?r) (res_runner ?r) 21"
    "\<forall>b \<in> set (budgets (RecordDeploymentCompletion 170 21 sample_reserved)). bud_first_attempt_at b \<noteq> None"
    by code_simp+
  from release_needs_proof [OF step_complete r(1,2,4)] none show ?thesis unfolding r(3) by auto
qed

section \<open>Deletion\<close>

lemma DeleteDeploymentsForEnv_leases:
  "DeleteDeploymentsForEnv db org project env force expected = Inr db' \<Longrightarrow> leases db' = leases db"
  by (erule DeleteDeploymentsForEnv_cases, unfold delete_environment_def Let_def, drule cascade_tables(3)) simp

text \<open>
  Deleting an Environment leaves its lease row behind. If the Environment is recreated under
  its old name with a new identity, the unique logical name of the stale row makes every mutating
  creation fail with an internal error, at any later time: the statement that takes the lease only
  replaces an expired row of the same identity.
\<close>

lemma stale_lease_blocks_recreation:
  assumes "DeleteDeploymentsForEnv db org project env force expected = Inr db'"
    and "l \<in> set (leases db)" and "lease_org l = org" and "lease_project l = project" and "lease_env l = env"
    and "lease_environment l \<noteq> cp_env_uuid p" and "cp_env_uuid p \<notin> lease_environment ` set (leases db)"
    and "param_check p = Inr ()" and "\<not> observation_held db' (cp_env_uuid p)" and "RequiresEnvironmentLease (cp_mode p)"
  shows "CreateDeployment row_ok now wall fresh db' org project env p =
    Inl (ErrInternal ''failed to acquire environment deployment lease'')"
proof -
  have L: "leases db' = leases db" using DeleteDeploymentsForEnv_leases [OF assms(1)] .
  have "lease_name_taken (new_lease now (cp_env_uuid p) org project env fresh) db'"
    using assms(2-6) by (auto simp: lease_name_taken_def new_lease_def L)
  moreover have "lookup_row lease_environment (cp_env_uuid p) (leases db') = None"
    using assms(7) by (simp add: L lookup_row_None)
  ultimately have "acquire_lease now (new_lease now (cp_env_uuid p) org project env fresh) db' =
      Inl (ErrInternal ''failed to acquire environment deployment lease'')"
    by (simp add: acquire_lease_def new_lease_def)
  with assms(8-10) show ?thesis by (simp add: CreateDeployment_def RequireObservationStopped_def)
qed

definition sample_deleted :: database where
  "sample_deleted = empty_database\<lparr>leases := leases sample_created\<rparr>"

lemma sample_delete: "DeleteDeploymentsForEnv sample_created ''acme'' ''shop'' ''prod'' True None = Inr sample_deleted"
  by (simp add: DeleteDeploymentsForEnv_def delete_environment_def cascade_deployments_def cascade_nodes_def delete_rows_def
      sample_deleted_def sample_created_def sample_dep_defs)

theorem stale_lease_blocks_recreation_witness:
  "CreateDeployment sample_ok 9000000000000000 9000000000000000 31 sample_deleted ''acme'' ''shop'' ''prod''
     (sample_params\<lparr>cp_env_uuid := 8\<rparr>) = Inl (ErrInternal ''failed to acquire environment deployment lease'')"
  by (rule stale_lease_blocks_recreation [OF sample_delete, of "new_lease 100 7 ''acme'' ''shop'' ''prod'' 21"])
    (simp_all add: sample_created_def sample_deleted_def param_check_def observation_held_def RequiresEnvironmentLease_def
      sample_dep_defs)



end
