(* ===== verification/Promotion_Contract.thy ===== *)
theory Promotion_Contract
  imports Promotion Request_Contract Queue_Contract Deployment_Contract
begin

text \<open>
  What promotion guarantees: the classification agrees with the answers of the direct path, the
  backoff has a closed form, a promotion takes items off the front of one queue only and creates
  at most the Deployment of the head, and no kick is lost.
\<close>

section \<open>A round is a queue operation on the head\<close>

text \<open>
  Up to tables other than the queue, a round does nothing, settles the head, settles all, or
  defers the head.
\<close>

lemma committed_cases:
  assumes "committed kept continue r = (x, db')"
  obtains (failed) e where "r = Inl e" "x = Inl e" "db' = kept" | (finished) "r = Inr db'" "x = Inr continue"
  using assms by (auto simp: committed_def split: sum.splits)

definition settles :: "uuid \<Rightarrow> database \<Rightarrow> database \<Rightarrow> bool" where
  "settles environment db db' \<longleftrightarrow> (\<exists>db1 K. queue db1 = queue db \<and> queue_next_seq db1 = queue_next_seq db \<and>
     (db' = db1 \<and> K = {} \<or> queue_settle db1 K db') \<and>
     (K = {} \<or> (\<exists>item. queue_head db environment = Some item \<and> K = {q_id item}) \<or> K = set (waiting db environment)))"

lemma settles_same: "queue db1 = queue db \<Longrightarrow> queue_next_seq db1 = queue_next_seq db \<Longrightarrow> settles environment db db1"
  unfolding settles_def by blast

lemma settles_head:
  assumes "committed kept continue (SettleDeploymentQueueItem now db1 (q_id item) state s) = (r, db')"
    and "queue db1 = queue db \<and> queue_next_seq db1 = queue_next_seq db"
    and "queue kept = queue db \<and> queue_next_seq kept = queue_next_seq db" "queue_head db environment = Some item"
  shows "settles environment db db'"
  using assms(1)
proof (cases rule: committed_cases)
  case finished
  with assms show ?thesis unfolding settles_def by (blast intro: queue_settle.settle_one)
qed (use assms settles_same in simp)

lemma settles_all:
  assumes "committed kept continue (rejectQueuedDeployments now db1 environment cause) = (r, db')"
    and "queue db1 = queue db \<and> queue_next_seq db1 = queue_next_seq db"
    and "queue kept = queue db \<and> queue_next_seq kept = queue_next_seq db"
  shows "settles environment db db'"
  using assms(1)
proof (cases rule: committed_cases)
  case finished
  then obtain n s where "SettleQueuedDeployments now db1 environment Rejected s = Inr (n, db')"
    by (auto simp: rejectQueuedDeployments_def)
  then have "queue_settle db1 (set (waiting db1 environment)) db'" by (rule queue_settle.settle_all)
  with assms waiting_cong [of db1 db] show ?thesis unfolding settles_def by metis
qed (use assms settles_same in simp)

lemma settles_failed:
  assumes "failed_attempt now db1 environment item err = (r, db')" "queue_head db environment = Some item"
    and q: "queue db1 = queue db \<and> queue_next_seq db1 = queue_next_seq db"
  shows "settles environment db db'"
proof (cases "classifyQueuePromotionError err")
  case (Pair verdict reason)
  show ?thesis
  proof (cases verdict)
    case queueRetryLater
    then have "queue_settle db1 {} db'"
      using assms(1) Pair by (auto simp: failed_attempt_def intro: queue_settle.intros)
    with q show ?thesis unfolding settles_def by blast
  next
    case queueRejectItem
    with assms Pair show ?thesis by (auto simp: failed_attempt_def intro: settles_head)
  next
    case queueRejectAll
    with assms Pair show ?thesis by (auto simp: failed_attempt_def intro: settles_all)
  qed
qed

lemma settles_order:
  assumes "settles environment db db'" "queue_inv db"
  shows "\<exists>n. waiting db' environment = drop n (waiting db environment)"
    and "e \<noteq> environment \<Longrightarrow> waiting db' e = waiting db e" and "queue_inv db'"
proof -
  from assms(1) obtain db1 K where q: "queue db1 = queue db" "queue_next_seq db1 = queue_next_seq db"
    and s: "db' = db1 \<and> K = {} \<or> queue_settle db1 K db'"
    and k: "K = {} \<or> (\<exists>item. queue_head db environment = Some item \<and> K = {q_id item}) \<or> K = set (waiting db environment)"
    by (auto simp: settles_def)
  note inv1 = assms(2) [folded queue_inv_cong [OF q]] and w1 = waiting_cong [OF q(1)]
  show "queue_inv db'" using s inv1 queue_settle_inv by blast
  have w: "waiting db' e = filter (\<lambda>j. j \<notin> K) (waiting db e)" for e
    using s queue_settle_waiting [OF _ inv1, of K db' e] w1 by auto
  have sub: "K \<subseteq> set (waiting db environment)"
    using k queue_head_Some [of db environment] by (auto simp: waiting_env)
  show "waiting db' e = waiting db e" if "e \<noteq> environment"
    unfolding w using waiting_disjoint [OF assms(2)] that sub by (auto simp: filter_id_conv)
  from k consider "K = {}" | item where "queue_head db environment = Some item" "K = {q_id item}"
    | "K = set (waiting db environment)" by blast
  then show "\<exists>n. waiting db' environment = drop n (waiting db environment)"
  proof cases
    case 1 then show ?thesis unfolding w by (intro exI [of _ 0]) simp
  next
    case (2 item)
    with fifo.head_first [OF assms(2), of environment "q_id item"] obtain rest
      where "waiting db environment = q_id item # rest" "q_id item \<notin> set rest" by auto
    then show ?thesis unfolding w 2(2) by (intro exI [of _ 1]) (auto simp: filter_id_conv)
  next
    case 3 then show ?thesis unfolding w by (intro exI [of _ "length (waiting db environment)"]) simp
  qed
qed

context queue_creator
begin

lemma settles_attempt:
  assumes "attempt_head create now db environment item = (r, db')" "queue_head db environment = Some item"
  shows "settles environment db db'"
proof (cases "qc_outcome (create db item)")
  case (Inl err)
  with assms sealed_queue [of db item] show ?thesis
    by (auto simp: attempt_head_def Let_def intro: settles_failed)
next
  case (Inr p)
  with assms created_queue [of db item] rolled_back_queue [of db item] show ?thesis
    by (auto simp: attempt_head_def Let_def intro: settles_head split: prod.splits)
qed

lemma round_settles:
  assumes "promoteDeploymentQueueHead locked create now wall db environment = (r, db')"
  shows "settles environment db db'"
proof (cases "ClaimDeploymentQueueHead locked db environment")
  case None
  with assms show ?thesis by (simp add: promoteDeploymentQueueHead_def settles_same)
next
  case (Some p)
  obtain item pos where p: "p = (item, pos)" by fastforce
  with Some have h: "queue_head db environment = Some item"
    by (auto simp: ClaimDeploymentQueueHead_def scanDeploymentQueueItem_def split: option.splits if_splits)
  show ?thesis
    using assms Some p h unfolding promoteDeploymentQueueHead_def
    by (auto split: if_splits sum.splits option.splits intro: settles_same settles_all settles_head settles_attempt)
qed

end

section \<open>Order\<close>

lemma round_order:
  assumes "promote_round ro k db environment = (r, db')" "queue_inv db"
  shows "\<exists>n. waiting db' environment = drop n (waiting db environment)"
    and "e \<noteq> environment \<Longrightarrow> waiting db' e = waiting db e" and "queue_inv db'"
  using settles_order [OF queued.round_settles [OF assms(1) [unfolded promote_round_def]] assms(2)] by blast+

lemma promotion_order:
  "PromoteDeploymentQueue ro k environment db = (err, db') \<Longrightarrow> queue_inv db \<Longrightarrow>
   (\<exists>n. waiting db' environment = drop n (waiting db environment)) \<and>
   (\<forall>e. e \<noteq> environment \<longrightarrow> waiting db' e = waiting db e) \<and> queue_inv db'"
proof (induction ro k environment db rule: PromoteDeploymentQueue.induct)
  case (1 ro k environment db)
  obtain r db1 where r: "promote_round ro k db environment = (r, db1)" by fastforce
  note first = round_order [OF r 1(3)]
  show ?case
  proof (cases "r = Inr True")
    case True
    then have "PromoteDeploymentQueue ro (Suc k) environment db1 = (err, db')"
      using 1(2) r by (simp add: PromoteDeploymentQueue.simps [of ro k])
    with 1(1) [OF r [symmetric]] True first(3)
    have "(\<exists>n. waiting db' environment = drop n (waiting db1 environment)) \<and>
       (\<forall>e. e \<noteq> environment \<longrightarrow> waiting db' e = waiting db1 e) \<and> queue_inv db'" by auto
    with first(1,2) show ?thesis by (auto simp: drop_drop)
  next
    case False
    then have "db' = db1" using 1(2) r by (auto simp: PromoteDeploymentQueue.simps [of ro k] split: sum.splits if_splits)
    with first show ?thesis by blast
  qed
qed

text \<open>
  (C26) Promotion is in order: whatever the services answer and whichever rows other transactions
  hold, promoting the queue of an Environment returns, and leaves a suffix of its waiting requests.
  No request is overtaken, no other Environment's queue changes, and the queue keeps its constraints.
\<close>

theorem promotion_in_order:
  assumes "queue_inv db"
  shows "\<exists>err db' n. PromoteDeploymentQueue ro k environment db = (err, db') \<and>
     waiting db' environment = drop n (waiting db environment) \<and>
     (\<forall>e. e \<noteq> environment \<longrightarrow> waiting db' e = waiting db e) \<and> queue_inv db'"
proof -
  obtain err db' where p: "PromoteDeploymentQueue ro k environment db = (err, db')" by fastforce
  with promotion_order [OF p assms] show ?thesis by blast
qed

section \<open>What a round creates\<close>

lemma claimed_head:
  "ClaimDeploymentQueueHead locked db environment = Some (item, pos) \<Longrightarrow> queue_head db environment = Some item \<and> \<not> locked (q_id item)"
  by (auto simp: ClaimDeploymentQueueHead_def scanDeploymentQueueItem_def split: option.splits if_splits)

lemma settle_tables:
  "SettleDeploymentQueueItem now db i state s = Inr db' \<Longrightarrow> deployments db' = deployments db"
  "SettleQueuedDeployments now db environment state s = Inr (n, db') \<Longrightarrow> deployments db' = deployments db"
  "deployments (DeferDeploymentQueueItem now db i e delay) = deployments db"
  by (auto dest: SettleDeploymentQueueItem_cases(2) SettleQueuedDeployments_cases(4) simp: DeferDeploymentQueueItem_def)

lemma committed_deployments:
  assumes "committed kept continue r = (x, db')" "deployments kept = D" "\<And>db1. r = Inr db1 \<Longrightarrow> deployments db1 = D"
  shows "deployments db' = D"
  using assms by (auto simp: committed_def split: sum.splits)

lemma reject_deployments: "rejectQueuedDeployments now db environment cause = Inr db' \<Longrightarrow> deployments db' = deployments db"
  by (auto simp: rejectQueuedDeployments_def dest: settle_tables(2))

lemma failed_attempt_deployments:
  "failed_attempt now db environment item err = (r, db') \<Longrightarrow> deployments db' = deployments db"
  unfolding failed_attempt_def
  by (auto split: prod.splits queuePromotionVerdict.splits intro: committed_deployments simp: settle_tables reject_deployments)

lemma queued_created:
  assumes "qc_outcome (queued_creation sv now wall ids db item) = Inr (i, db')"
  shows "deployments db' = deployments db \<or>
     (\<exists>row. deployments db' = deployments db @ [row] \<and> dep_id row = i \<and> dep_status row = StatusExecuting \<and>
        dep_de_id row = q_environment item \<and> dep_mode row = q_mode item \<and> dep_created_by row = q_created_by item \<and>
        dep_idempotency_key_digest row = q_key_digest item)"
proof -
  from assms obtain s diff where c: "cn_outcome (createQueuedDeployment sv now wall ids db item) = Inr (s, diff, db')" "i = sum_id s"
    by (auto simp: queued_creation_def Let_def)
  then obtain env request where e: "queued_environment sv item = Inr env"
    and cr: "cn_outcome (CreateDeploymentWithOptions (sv_toolkit sv) (sv_control sv) (sv_core sv) now wall (id_deployment ids) db
       (creation_of (q_created_by item) (q_org item) (q_project item) (q_env item) env (q_mode item) request None False)
       ((deploymentOptions sv (id_attempt ids) (q_created_by item) (q_org item) env (q_mode item) request '''' False)
          \<lparr>op_expected_base := q_expected_base item, op_key_digest := q_key_digest item, op_queue_item := Some (q_id item)\<rparr>)) = Inr (s, diff, db')"
    by (auto simp: createQueuedDeployment_def split: option.splits sum.splits)
  have env: "ce_uuid env = q_environment item" using e by (auto simp: queued_environment_def split: option.splits if_splits)
  have "\<not> rq_dry_run (creation_of (q_created_by item) (q_org item) (q_project item) (q_env item) env (q_mode item) request None False)"
    by (simp add: creation_of_def)
  with cr show ?thesis
  proof (cases rule: creation_created)
    case (created cd runner)
    then show ?thesis using env c(2) by (auto simp: new_deployment_def creation_of_def key_digest_def)
  qed simp
qed

lemma committed_same:
  "committed db continue (SettleDeploymentQueueItem now db i state s) = (x, db') \<Longrightarrow> deployments db' = deployments db"
  "committed db continue (rejectQueuedDeployments now db environment cause) = (x, db') \<Longrightarrow> deployments db' = deployments db"
  by (auto intro: committed_deployments simp: settle_tables reject_deployments)

lemma round_reaches_attempt:
  assumes "promoteDeploymentQueueHead locked create now wall db environment = (r, db')" "deployments db' \<noteq> deployments db"
  obtains item where "queue_head db environment = Some item" "\<not> locked (q_id item)" "wall < q_expires_at item"
    "CheckEnvironmentAvailable now db (q_org item) (q_project item) (q_env item) environment (q_id item) = Inr ()"
    "HaltingDeploymentQueuePredecessor db item = None" "attempt_head create now db environment item = (r, db')"
proof -
  note p = assms(1) [unfolded promoteDeploymentQueueHead_def]
  obtain item pos where cl: "ClaimDeploymentQueueHead locked db environment = Some (item, pos)"
    using p assms(2) by (cases "ClaimDeploymentQueueHead locked db environment") auto
  show thesis
  proof (rule that)
    show "queue_head db environment = Some item" "\<not> locked (q_id item)" using claimed_head [OF cl] by simp_all
    show "wall < q_expires_at item" "CheckEnvironmentAvailable now db (q_org item) (q_project item) (q_env item) environment (q_id item) = Inr ()"
      "HaltingDeploymentQueuePredecessor db item = None" "attempt_head create now db environment item = (r, db')"
      using p assms(2) cl by (auto split: if_splits sum.splits option.splits dest: committed_same)
  qed
qed

lemma attempt_dispatches:
  assumes "attempt_head (queued_creation sv now wall ids) now db environment item = (r, db')" "deployments db' \<noteq> deployments db"
  obtains i db1 where "qc_outcome (queued_creation sv now wall ids db item) = Inr (i, db1)" "r = Inr False"
    "SettleDeploymentQueueItem now db1 (q_id item) Dispatched (no_settlement\<lparr>st_deployment := Some i\<rparr>) = Inr db'"
proof (cases "qc_outcome (queued_creation sv now wall ids db item)")
  case (Inl err)
  then have "deployments db' = deployments (qc_sealed (queued_creation sv now wall ids db item))"
    using assms(1) by (auto simp: attempt_head_def Let_def dest: failed_attempt_deployments)
  with assms(2) steps_tables(1) [OF queued_creation_steps(2)] show thesis by simp
next
  case (Inr x)
  obtain i db1 where x: "x = (i, db1)" by fastforce
  from assms(1) Inr x have "committed (qc_rolled_back (queued_creation sv now wall ids db item)) False
      (SettleDeploymentQueueItem now db1 (q_id item) Dispatched (no_settlement\<lparr>st_deployment := Some i\<rparr>)) = (r, db')"
    by (simp add: attempt_head_def Let_def)
  then show thesis
  proof (cases rule: committed_cases)
    case (failed e)
    with assms(2) steps_tables(1) [OF queued_creation_steps(1)] show ?thesis by simp
  next
    case finished
    with Inr x that show ?thesis by blast
  qed
qed

text \<open>
  (C13) A round creates only what may be created: when it adds a Deployment, the head of the queue
  was claimed, had not expired, the Environment was available to it and no failed predecessor halts
  it; exactly one executing Deployment is added, in the head's Environment and mode, as the user
  who enqueued it and with its Idempotency-Key, the head is settled as dispatched to it, and the
  promotion stops.
\<close>

theorem promotion_creates_only_head:
  assumes "promote_round ro k db environment = (r, db')" "deployments db' \<noteq> deployments db"
  shows "\<exists>item row. queue_head db environment = Some item \<and> \<not> ro_locked ro k (q_id item) \<and> ro_wall ro k < q_expires_at item \<and>
     CheckEnvironmentAvailable (ro_now ro k) db (q_org item) (q_project item) (q_env item) environment (q_id item) = Inr () \<and>
     HaltingDeploymentQueuePredecessor db item = None \<and> r = Inr False \<and>
     deployments db' = deployments db @ [row] \<and> dep_status row = StatusExecuting \<and> dep_de_id row = environment \<and>
     dep_mode row = q_mode item \<and> dep_created_by row = q_created_by item \<and> dep_idempotency_key_digest row = q_key_digest item \<and>
     (\<exists>q \<in> set (queue db'). q_id q = q_id item \<and> q_state q = Dispatched \<and> q_deployment q = Some (dep_id row))"
proof -
  let ?create = "queued_creation (ro_server ro k) (ro_now ro k) (ro_wall ro k) (ro_ids ro k)"
  obtain item where h: "queue_head db environment = Some item" "\<not> ro_locked ro k (q_id item)" "ro_wall ro k < q_expires_at item"
    "CheckEnvironmentAvailable (ro_now ro k) db (q_org item) (q_project item) (q_env item) environment (q_id item) = Inr ()"
    "HaltingDeploymentQueuePredecessor db item = None" "attempt_head ?create (ro_now ro k) db environment item = (r, db')"
    using assms unfolding promote_round_def by (rule round_reaches_attempt)
  obtain i db1 where c: "qc_outcome (?create db item) = Inr (i, db1)" and r: "r = Inr False"
    and st: "SettleDeploymentQueueItem (ro_now ro k) db1 (q_id item) Dispatched (no_settlement\<lparr>st_deployment := Some i\<rparr>) = Inr db'"
    using h(6) assms(2) by (rule attempt_dispatches)
  note settled = SettleDeploymentQueueItem_cases [OF st]
  have env: "q_environment item = environment" using queue_head_Some [OF h(1)] by (simp add: waiting_row_def)
  obtain row where row: "deployments db' = deployments db @ [row]" "dep_id row = i" "dep_status row = StatusExecuting"
    "dep_de_id row = environment" "dep_mode row = q_mode item" "dep_created_by row = q_created_by item" "dep_idempotency_key_digest row = q_key_digest item"
    using queued_created [OF c] settle_tables(1) [OF st] assms(2) env by auto
  obtain q where q: "q \<in> set (queue db1)" "q_id q = q_id item" "q_state q = Queued" using settled(3) by blast
  have "settle_row (ro_now ro k) Dispatched (no_settlement\<lparr>st_deployment := Some i\<rparr>) q \<in> set (queue db')"
    unfolding settled(2) using q by (simp add: update_rows_hit)
  then have "\<exists>q \<in> set (queue db'). q_id q = q_id item \<and> q_state q = Dispatched \<and> q_deployment q = Some (dep_id row)"
    using q(2) row(2) by (intro bexI) simp_all
  with h r row show ?thesis by blast
qed

lemma settle_rejects:
  assumes "queue_inv db" "item \<in> set (queue db)" "waiting_row environment item"
    and "state \<noteq> Queued" "state \<noteq> Dispatched" "st_reason_code s \<noteq> ''''" "st_deployment s = None"
  obtains db' where "SettleDeploymentQueueItem now db (q_id item) state s = Inr db'"
proof -
  let ?rows = "update_rows (\<lambda>q. q_id q = q_id item \<and> q_state q = Queued) (settle_row now state s) (queue db)"
  have waits: "q_state item = Queued" using assms(3) by (simp add: waiting_row_def)
  have "queue_row_check q" if "q \<in> set ?rows" "q_id q = q_id item" for q
    using that(1)
  proof (rule update_rowsE)
    fix q0 assume q0: "q0 \<in> set (queue db)" "q_id q0 = q_id item \<and> q_state q0 = Queued" "q = settle_row now state s q0"
    then have "queue_row_check q0" using assms(1) by (simp add: queue_inv_def)
    with q0 assms(4-7) show ?thesis by (auto simp: queue_row_check_def settle_row_def nullif_empty_def)
  next
    assume q: "q \<in> set (queue db)" "\<not> (q_id q = q_id item \<and> q_state q = Queued)"
    with assms(1,2) that(2) have "q = item" by (auto simp: queue_inv_def intro: distinct_key_eq)
    with q that(2) waits show ?thesis by simp
  qed
  then have "list_all queue_row_check (filter (\<lambda>q. q_id q = q_id item) ?rows)" by (auto simp: list_all_iff)
  moreover have "exists_row (\<lambda>q. q_id q = q_id item \<and> q_state q = Queued) (queue db)" using assms(2) waits by auto
  ultimately have "SettleDeploymentQueueItem now db (q_id item) state s = Inr (db\<lparr>queue := ?rows\<rparr>)"
    unfolding SettleDeploymentQueueItem_def Let_def using assms(4,7) by (simp only: if_False not_True_eq_False simp_thms)
  then show thesis by (rule that)
qed

text \<open>
  A request that halts on failure is not tried after the state head it did not see when it was
  enqueued has failed: the round rejects it with that Deployment as the reason, adds no Deployment,
  and lets the next request proceed.
\<close>

lemma halted_head_rejected:
  assumes "queue_head db environment = Some item" "\<not> locked (q_id item)" "wall < q_expires_at item"
    and "CheckEnvironmentAvailable now db (q_org item) (q_project item) (q_env item) environment (q_id item) = Inr ()"
    and "HaltingDeploymentQueuePredecessor db item = Some failed" "queue_inv db"
  shows "\<exists>db'. promoteDeploymentQueueHead locked create now wall db environment = (Inr True, db') \<and>
     deployments db' = deployments db \<and>
     (\<exists>q \<in> set (queue db'). q_id q = q_id item \<and> q_state q = Rejected \<and>
        q_reason_code q = Some QueueReasonPreviousDeploymentFailed \<and> q_reason_deployment q = Some failed)"
proof -
  let ?s = "no_settlement\<lparr>st_reason_code := QueueReasonPreviousDeploymentFailed,
     st_reason_message := ''the previous Deployment failed'', st_reason_deployment := Some failed\<rparr>"
  have it: "item \<in> set (queue db)" "waiting_row environment item" using queue_head_Some [OF assms(1)] by simp_all
  obtain db' where db': "SettleDeploymentQueueItem now db (q_id item) Rejected ?s = Inr db'"
    by (rule settle_rejects [OF assms(6) it, of Rejected ?s now]) (simp_all add: no_settlement_def QueueReasonPreviousDeploymentFailed_def)
  have "settle_row now Rejected ?s item \<in> set (queue db')"
    unfolding SettleDeploymentQueueItem_cases(2) [OF db'] using it by (simp add: update_rows_hit waiting_row_def)
  then have "\<exists>q \<in> set (queue db'). q_id q = q_id item \<and> q_state q = Rejected \<and>
      q_reason_code q = Some QueueReasonPreviousDeploymentFailed \<and> q_reason_deployment q = Some failed"
    by (intro bexI) (simp_all add: settle_row_def nullif_empty_def QueueReasonPreviousDeploymentFailed_def)
  moreover have "promoteDeploymentQueueHead locked create now wall db environment = (Inr True, db')"
    using assms(1-5) db' by (simp add: promoteDeploymentQueueHead_def ClaimDeploymentQueueHead_def scanDeploymentQueueItem_def committed_def)
  ultimately show ?thesis using settle_tables(1) [OF db'] by blast
qed

text \<open>
  Behind an outcome that was never reconciled nothing waits: the round settles every waiting
  request of the Environment as rejected with that reason, leaves the other queues and the
  Deployments alone, and stops.
\<close>

lemma unreconciled_rejects_all:
  assumes "queue_head db environment = Some item" "\<not> locked (q_id item)" "wall < q_expires_at item"
    and "CheckEnvironmentAvailable now db (q_org item) (q_project item) (q_env item) environment (q_id item) = Inl e"
    and "conflict_Is e ErrOutcomeUnreconciled" "\<not> conflict_Is e ErrEnvironmentBusy" "queue_inv db"
  shows "\<exists>db'. promoteDeploymentQueueHead locked create now wall db environment = (Inr False, db') \<and> waiting db' environment = [] \<and>
     (\<forall>other. other \<noteq> environment \<longrightarrow> waiting db' other = waiting db other) \<and> deployments db' = deployments db \<and>
     (\<forall>q \<in> set (queue db). waiting_row environment q \<longrightarrow>
        (\<exists>q' \<in> set (queue db'). q_id q' = q_id q \<and> q_state q' = Rejected \<and> q_reason_code q' = Some CodeOutcomeUnreconciled))"
proof -
  let ?s = "no_settlement\<lparr>st_reason_code := CodeOutcomeUnreconciled, st_reason_message := create_error_text (ModelFailure e),
     st_reason_deployment := conflict_deployment (ModelFailure e)\<rparr>"
  let ?db = "db\<lparr>queue := update_rows (waiting_row environment) (settle_row_bulk now Rejected ?s) (queue db)\<rparr>"
  have s: "SettleQueuedDeployments now db environment Rejected ?s = Inr (count_rows (waiting_row environment) (queue db), ?db)"
    by (simp add: SettleQueuedDeployments_def no_settlement_def CodeOutcomeUnreconciled_def)
  have "promoteDeploymentQueueHead locked create now wall db environment = (Inr False, ?db)"
    using assms(1-6) s by (simp add: promoteDeploymentQueueHead_def ClaimDeploymentQueueHead_def scanDeploymentQueueItem_def
      committed_def rejectQueuedDeployments_def)
  moreover have "waiting ?db environment = []" unfolding SettleQueuedDeployments_waiting [OF s assms(7)] by simp
  moreover have "waiting ?db other = waiting db other" if "other \<noteq> environment" for other
    unfolding SettleQueuedDeployments_waiting [OF s assms(7)] using waiting_disjoint [OF assms(7)] that by (auto simp: filter_id_conv)
  moreover have "\<exists>q' \<in> set (queue ?db). q_id q' = q_id q \<and> q_state q' = Rejected \<and> q_reason_code q' = Some CodeOutcomeUnreconciled"
    if "q \<in> set (queue db)" "waiting_row environment q" for q
  proof -
    have "settle_row_bulk now Rejected ?s q \<in> set (queue ?db)" using that by (simp add: update_rows_hit)
    then show ?thesis by (rule rev_bexI) (simp add: settle_row_bulk_def)
  qed
  ultimately show ?thesis by (intro exI [of _ ?db]) simp
qed

section \<open>Classification and backoff\<close>

text \<open>
  (C36) The queue and the endpoint agree on what is final: an error the endpoint answers with a
  4xx response makes a queued request retry exactly when it says that the Environment is busy;
  otherwise the request is rejected, with a reason that is never empty.
\<close>

theorem queue_agrees_with_endpoint:
  assumes "createDeploymentErrorResponse e = Inr answer"
  shows "(fst (classifyQueuePromotionError e) = queueRetryLater \<longleftrightarrow> failure_Is e ErrEnvironmentBusy \<and> \<not> failure_Is e ErrOutcomeUnreconciled) \<and>
     (fst (classifyQueuePromotionError e) \<noteq> queueRetryLater \<longrightarrow> snd (classifyQueuePromotionError e) \<noteq> '''')"
  using assms
  by (cases e rule: createDeploymentErrorResponse.cases)
    (auto simp: classifyQueuePromotionError_def reason_defs CodeOutcomeUnreconciled_def split: if_splits model_error.splits)

lemma queue_agrees_with_endpoint_witness:
  "fst (classifyQueuePromotionError (AdmissionDenied 409 ''module_blocked'')) \<noteq> queueRetryLater"
  using queue_agrees_with_endpoint [of "AdmissionDenied 409 ''module_blocked''"]
  by (simp add: deploymentAdmissionDeniedResponse_def Generate409Response_def)

lemma backoff_loop_power:
  assumes "1 \<le> retry" "0 < delay"
  shows "min (backoff_loop retry attempt delay) deploymentQueueMaxRetryBackoff =
     min (delay * 2 ^ nat (attempt - retry)) deploymentQueueMaxRetryBackoff"
  using assms
proof (induction retry attempt delay rule: backoff_loop.induct)
  case (1 retry attempt delay)
  consider (more) "retry < attempt" "delay < deploymentQueueMaxRetryBackoff" | (over) "retry < attempt" "deploymentQueueMaxRetryBackoff \<le> delay"
    | (enough) "attempt \<le> retry" by linarith
  then show ?case
  proof cases
    case more
    then have "nat (attempt - retry) = Suc (nat (attempt - (retry + 1)))" by simp
    then show ?thesis using 1 more by (simp add: backoff_loop.simps [of retry] mult.assoc)
  next
    case over
    have "delay * 1 \<le> delay * 2 ^ nat (attempt - retry)" using 1(3) by (intro mult_left_mono) simp_all
    with over show ?thesis by (simp add: backoff_loop.simps [of retry])
  next
    case enough
    then show ?thesis by (simp add: backoff_loop.simps [of retry])
  qed
qed

text \<open>
  (C37) The retry delay is the doubling it stands for: five seconds times two to the number of
  earlier attempts, but never more than two minutes; the loop stops early and returns the same.
\<close>

theorem backoff_closed_form:
  "deploymentQueueBackoff (int n) = min (5 * second * 2 ^ (n - 1)) (2 * minute)"
proof -
  have "nat (int n - 1) = n - 1" by simp
  with backoff_loop_power [of 1 deploymentQueueRetryBackoff "int n"] show ?thesis
    by (simp add: deploymentQueueBackoff_def deploymentQueueRetryBackoff_def deploymentQueueMaxRetryBackoff_def second_def)
qed

section \<open>Kicks\<close>

text \<open>
  The goroutines around \<^verbatim>\<open>deploymentQueueKicks\<close>: kicks and the one worker an
  Environment may have. Between its critical sections a worker is about to promote or promoting.
  \<open>ki_unserved\<close> records the Environments that were kicked after the last promotion of
  theirs began.
\<close>

datatype kick_worker = Starting | Promoting

record kick_state =
  ki_pending :: kicks
  ki_worker :: "uuid \<Rightarrow> kick_worker option"
  ki_unserved :: "uuid set"

inductive kick_step :: "kick_state \<Rightarrow> kick_state \<Rightarrow> bool" where
  kick: "KickDeploymentQueue (ki_pending s) e = (start, p) \<Longrightarrow>
    kick_step s (s\<lparr>ki_pending := p, ki_worker := (if start then (ki_worker s)(e \<mapsto> Starting) else ki_worker s),
      ki_unserved := insert e (ki_unserved s)\<rparr>)"
| promote: "ki_worker s e = Some Starting \<Longrightarrow>
    kick_step s (s\<lparr>ki_worker := (ki_worker s)(e \<mapsto> Promoting), ki_unserved := ki_unserved s - {e}\<rparr>)"
| finish: "ki_worker s e = Some Promoting \<Longrightarrow> kick_finished (ki_pending s) e = (again, p) \<Longrightarrow>
    kick_step s (s\<lparr>ki_pending := p, ki_worker := (ki_worker s)(e := if again then Some Starting else None)\<rparr>)"

definition no_kicks :: kick_state where
  "no_kicks = \<lparr>ki_pending = Map.empty, ki_worker = Map.empty, ki_unserved = {}\<rparr>"

definition kick_ok :: "bool option \<Rightarrow> kick_worker option \<Rightarrow> bool \<Rightarrow> bool" where
  "kick_ok pending w unserved \<longleftrightarrow> (pending = None \<longleftrightarrow> w = None) \<and>
     (unserved \<longrightarrow> w = Some Starting \<or> w = Some Promoting \<and> pending = Some True)"

definition kick_inv :: "kick_state \<Rightarrow> bool" where
  "kick_inv s \<longleftrightarrow> (\<forall>e. kick_ok (ki_pending s e) (ki_worker s e) (e \<in> ki_unserved s))"

lemma kick_inv_step:
  assumes "kick_step s t" "kick_inv s"
  shows "kick_inv t"
  unfolding kick_inv_def
proof
  fix e'
  have old: "kick_ok (ki_pending s e) (ki_worker s e) (e \<in> ki_unserved s)" for e using assms(2) by (simp add: kick_inv_def)
  from assms(1) show "kick_ok (ki_pending t e') (ki_worker t e') (e' \<in> ki_unserved t)"
  proof (cases rule: kick_step.cases)
    case (kick e start p)
    have w: "w \<noteq> Starting \<Longrightarrow> w = Promoting" for w by (cases w) simp_all
    from kick old [of e'] show ?thesis
      by (cases "e' = e"; cases "ki_pending s e") (auto simp: kick_ok_def KickDeploymentQueue_def intro: w)
  next
    case (promote e)
    then show ?thesis using old [of e'] by (cases "e' = e") (auto simp: kick_ok_def)
  next
    case (finish e again p)
    then show ?thesis using old [of e'] by (cases "e' = e") (auto simp: kick_ok_def kick_finished_def split: if_splits)
  qed
qed

lemma kick_inv_reachable: "kick_step\<^sup>*\<^sup>* no_kicks s \<Longrightarrow> kick_inv s"
proof (induction rule: rtranclp_induct)
  case base
  show ?case by (simp add: no_kicks_def kick_inv_def kick_ok_def)
next
  case (step s t)
  then show ?case by (blast intro: kick_inv_step)
qed

text \<open>
  (C38) No kick is lost and no two promotions of an Environment run at once in a process: in every
  interleaving, an Environment that was kicked after its last promotion began has a worker that is
  about to promote it or will promote it again, and a kick starts a worker only when there is none.
\<close>

theorem kicks_not_lost:
  assumes "kick_step\<^sup>*\<^sup>* no_kicks s"
  shows "(e \<in> ki_unserved s \<longrightarrow> ki_worker s e = Some Starting \<or>
       ki_worker s e = Some Promoting \<and> fst (kick_finished (ki_pending s) e)) \<and>
     (fst (KickDeploymentQueue (ki_pending s) e) \<longleftrightarrow> ki_worker s e = None)"
proof -
  have "kick_ok (ki_pending s e) (ki_worker s e) (e \<in> ki_unserved s)"
    using kick_inv_reachable [OF assms] by (simp add: kick_inv_def)
  then show ?thesis
    by (cases "ki_pending s e") (auto simp: kick_ok_def kick_finished_def KickDeploymentQueue_def)
qed

section \<open>Samples\<close>

lemma kicks_not_lost_witness:
  "\<exists>s. kick_step\<^sup>*\<^sup>* no_kicks s \<and> 7 \<in> ki_unserved s \<and> ki_worker s 7 = Some Starting"
proof -
  obtain start p where k: "KickDeploymentQueue (ki_pending no_kicks) 7 = (start, p)" by fastforce
  let ?s = "no_kicks\<lparr>ki_pending := p, ki_worker := (if start then (ki_worker no_kicks)(7 \<mapsto> Starting) else ki_worker no_kicks),
      ki_unserved := insert 7 (ki_unserved no_kicks)\<rparr>"
  have r: "kick_step\<^sup>*\<^sup>* no_kicks ?s" using kick_step.kick [OF k] by blast
  have start: "start" using k by (simp add: no_kicks_def KickDeploymentQueue_def)
  with kicks_not_lost [OF r, of 7] r show ?thesis by (intro exI [of _ ?s]) auto
qed

definition sample_rounds :: rounds where
  "sample_rounds = \<lparr>ro_server = (\<lambda>k. sample_server), ro_locked = (\<lambda>k i. False), ro_now = (\<lambda>k. 300), ro_wall = (\<lambda>k. 300),
     ro_ids = (\<lambda>k. \<lparr>id_deployment = 50 + of_nat k, id_attempt = 60, id_item = 70\<rparr>)\<rparr>"

lemma promotion_in_order_witness:
  "\<exists>err db' n. PromoteDeploymentQueue sample_rounds 0 7 sample_queue2 = (err, db') \<and> waiting db' 7 = drop n [11, 12] \<and> queue_inv db'"
  using promotion_in_order [OF sample_inv2, of sample_rounds 0 7] sample_waiting2 by metis

lemma sample_promoted: "deployments (snd (promote_round sample_rounds 0 sample_queue2 7)) \<noteq> deployments sample_queue2"
  by code_simp

lemma promotion_creates_only_head_witness:
  "\<exists>item row. queue_head sample_queue2 7 = Some item \<and> deployments (snd (promote_round sample_rounds 0 sample_queue2 7)) = [row] \<and>
     dep_created_by row = q_created_by item"
proof -
  obtain r db' where p: "promote_round sample_rounds 0 sample_queue2 7 = (r, db')" by fastforce
  have "deployments sample_queue2 = []" by (simp add: sample_queue2_def sample_queue1_def empty_database_def)
  with promotion_creates_only_head [OF p] sample_promoted p show ?thesis by auto
qed

text \<open>A request that halts on failure, behind a Deployment that fails.\<close>

definition sample_waiting_behind :: "bool \<Rightarrow> database \<Rightarrow> database" where
  "sample_waiting_behind halt db = snd (projr (UpdateDeploymentStatusAndOutputs 200 200
     (snd (snd (projr (EnqueueDeployment sample_sha 110 110 11 db (sample_request\<lparr>nq_halt_on_failure := halt\<rparr>) 5)))) 21 sample_failure))"

lemma sample_halting:
  "case queue_head (sample_waiting_behind True sample_created) 7 of
     Some item \<Rightarrow> 300 < q_expires_at item \<and> HaltingDeploymentQueuePredecessor (sample_waiting_behind True sample_created) item = Some 21 \<and>
       CheckEnvironmentAvailable 300 (sample_waiting_behind True sample_created) (q_org item) (q_project item) (q_env item) 7 (q_id item) = Inr ()
   | None \<Rightarrow> False"
  "queue_inv (sample_waiting_behind True sample_created)"
  by code_simp+

lemma halted_head_rejected_witness:
  "\<exists>db'. promoteDeploymentQueueHead (\<lambda>i. False) (queued_creation sample_server 300 300 sample_ids) 300 300 (sample_waiting_behind True sample_created) 7 =
     (Inr True, db') \<and> deployments db' = deployments (sample_waiting_behind True sample_created)"
proof -
  obtain item where i: "queue_head (sample_waiting_behind True sample_created) 7 = Some item" "300 < q_expires_at item"
    "CheckEnvironmentAvailable 300 (sample_waiting_behind True sample_created) (q_org item) (q_project item) (q_env item) 7 (q_id item) = Inr ()"
    "HaltingDeploymentQueuePredecessor (sample_waiting_behind True sample_created) item = Some 21"
    using sample_halting(1) by (auto split: option.splits)
  have "\<not> (\<lambda>i. False) (q_id item)" by simp
  from halted_head_rejected [OF i(1) this i(2-4) sample_halting(2)] show ?thesis by blast
qed

text \<open>A Deployment a plugin dispatched fails without a word of its Runner.\<close>

definition sample_plugin :: database where
  "sample_plugin = sample_reserved\<lparr>external_receipts := [\<lparr>ext_org = ''acme'', ext_plugin = ''p'', ext_operation_ref = ''o'', ext_fence = 1,
     ext_request = ''r'', ext_assertion_action = ''a'', ext_service_action = ''s'', ext_body_sha256 = ''h'', ext_actor = ''u'',
     ext_project = ''shop'', ext_env = ''prod'', ext_project_uuid = None, ext_environment_uuid = Some 7, ext_plan_snapshot = None,
     ext_base_deployment = None, ext_deployment = 21, ext_forward_deployment = None, ext_retry_of_rollback = None, ext_created_at = 100\<rparr>]\<rparr>"

lemma sample_fenced:
  "case queue_head (sample_waiting_behind False sample_plugin) 7 of
     Some item \<Rightarrow> 300 < q_expires_at item \<and>
       (case CheckEnvironmentAvailable 300 (sample_waiting_behind False sample_plugin) (q_org item) (q_project item) (q_env item) 7 (q_id item) of
          Inl e \<Rightarrow> conflict_Is e ErrOutcomeUnreconciled \<and> \<not> conflict_Is e ErrEnvironmentBusy | Inr u \<Rightarrow> False)
   | None \<Rightarrow> False"
  "queue_inv (sample_waiting_behind False sample_plugin)"
  by code_simp+

lemma unreconciled_rejects_all_witness:
  "\<exists>db'. promoteDeploymentQueueHead (\<lambda>i. False) (queued_creation sample_server 300 300 sample_ids) 300 300 (sample_waiting_behind False sample_plugin) 7 =
     (Inr False, db') \<and> waiting db' 7 = []"
proof -
  obtain item e where i: "queue_head (sample_waiting_behind False sample_plugin) 7 = Some item" "300 < q_expires_at item"
    "CheckEnvironmentAvailable 300 (sample_waiting_behind False sample_plugin) (q_org item) (q_project item) (q_env item) 7 (q_id item) = Inl e"
    "conflict_Is e ErrOutcomeUnreconciled" "\<not> conflict_Is e ErrEnvironmentBusy"
    using sample_fenced(1) by (auto split: option.splits sum.splits)
  have "\<not> (\<lambda>i. False) (q_id item)" by simp
  from unreconciled_rejects_all [OF i(1) this i(2-5) sample_fenced(2)] show ?thesis by blast
qed

end
