(* ===== verification/Graph_Contract.thy ===== *)
theory Graph_Contract
  imports Request_Contract
begin

text \<open>
  What compilation guarantees: the parameters of a built graph have the types their modules
  declare, and the difference reported for a rollback or a destroy, which compares the graph with
  itself, is empty.
\<close>

section \<open>Module parameters\<close>

lemma fold_checks:
  "foldr (\<lambda>e r. bindR (check e) (\<lambda>_. r)) es (Inr ()) = Inr u \<longleftrightarrow> (\<forall>e \<in> set es. check e = Inr ())"
  by (induction es) auto

lemma as_string_not: "\<not> snd (as_string v) \<Longrightarrow> fst (as_string v) = ''''"
  by (cases v) (simp_all add: as_string_def)

text \<open>A value that is not a string has no prefix, so the branch for expressions is never taken.\<close>

lemma check_param_ok:
  "check_param params (k, p) = Inr () \<longleftrightarrow>
   (case param_value params k of None \<Rightarrow> par_optional p | Some v \<Rightarrow> doesModuleParamTypeMatch (par_type p) v)"
proof (cases "param_value params k")
  case (Some v)
  obtain s ok where a: "as_string v = (s, ok)" by fastforce
  then have "\<not> (\<not> ok \<and> has_prefix s ''${'' \<and> has_suffix s ''}'')"
    using as_string_not [of v] by (auto simp: has_prefix_def)
  with Some a show ?thesis by (auto simp: check_param_def)
qed (simp add: check_param_def)

definition params_typed :: "catalogue_module \<Rightarrow> (string \<times> json) list \<Rightarrow> bool" where
  "params_typed d params \<longleftrightarrow>
     (\<forall>(k, p) \<in> set (entries (cm_params d)).
        case param_value params k of None \<Rightarrow> par_optional p | Some v \<Rightarrow> doesModuleParamTypeMatch (par_type p) v) \<and>
     fst ` set params \<subseteq> fst ` set (entries (cm_params d))"

lemma params_valid_iff: "validateModuleParamInner d params = Inr u \<longleftrightarrow> params_typed d params"
proof -
  have "validateModuleParamInner d params = Inr u \<longleftrightarrow>
      (\<forall>e \<in> set (entries (cm_params d)). check_param params e = Inr ()) \<and> fst ` set params \<subseteq> fst ` set (entries (cm_params d))"
    by (simp add: validateModuleParamInner_def fold_checks list_all_iff image_subset_iff case_prod_unfold)
  then show ?thesis unfolding params_typed_def check_param_ok [symmetric] by auto
qed

lemma built_graph_valid:
  assumes "BuildGraph dfs seed manifest defs lastGraph = Inr (g, assigned)"
  shows "\<forall>c \<in> set (dfs g). validate_node (graph_node_at g c) = Inr ()"
  using assms by (auto simp: BuildGraph_def validateModuleParams_def fold_checks split: option.splits)


text \<open>
  An expression in the place of a number is refused, although the code means to leave expressions
  to the Runner.
\<close>

lemma expression_param_rejected:
  assumes "(k, p) \<in> set (entries (cm_params d))" "par_type p = TNumber" "param_value params k = Some (JStr (''${'' @ x @ ''}''))"
  shows "validateModuleParamInner d params \<noteq> Inr ()"
proof
  assume "validateModuleParamInner d params = Inr ()"
  then have "params_typed d params" by (simp add: params_valid_iff)
  with assms show False by (auto simp: params_typed_def)
qed

section \<open>Differences\<close>

lemma go_map_equal_refl [simp]: "go_map_equal m m"
  by (simp add: go_map_equal_def)

lemma node_at: "c \<in> fst ` set (g_nodes g) \<Longrightarrow> map_of (g_nodes g) c = Some (graph_node_at g c)"
  by (cases "map_of (g_nodes g) c") (simp_all add: graph_node_at_def map_of_eq_None_iff)

lemma node_change_self:
  "c \<in> fst ` set (g_nodes g) \<Longrightarrow> node_change hash environment g c (graph_node_at g c) = Inr []"
  by (auto simp: node_change_def node_at split: option.splits)

lemma collect_changes_none: "\<forall>x \<in> set xs. f x = Inr [] \<Longrightarrow> collect_changes f xs = Inr []"
  by (induction xs) auto

lemma removal_self:
  "c \<in> fst ` set (g_nodes g) \<Longrightarrow> x \<in> set (removal hash environment g c (graph_node_at g c)) \<Longrightarrow>
   dc_type x = Removed \<and> \<not> live_node (graph_node_at g c)"
  by (auto simp: removal_def node_at change_at_def split: if_splits)

lemma diff_self:
  assumes "DiffGraphs dfs hash environment g g = Inr diff" "set (dfs g) \<subseteq> fst ` set (g_nodes g)"
  shows "\<forall>x \<in> set (df_changes diff). dc_type x = Removed" and "df_added diff = 0" and "df_changed diff = 0"
    and "(\<forall>c \<in> set (dfs g). live_node (graph_node_at g c)) \<Longrightarrow> df_changes diff = []"
proof -
  let ?removed = "concat (map (\<lambda>c. removal hash environment g c (graph_node_at g c)) (dfs g))"
  have "collect_changes (\<lambda>c. node_change hash environment g c (graph_node_at g c)) (dfs g) = Inr []"
    by (rule collect_changes_none) (use assms(2) in \<open>auto intro: node_change_self\<close>)
  then have diff: "df_changes diff = ?removed" "df_added diff = count_changes Added ?removed"
    "df_changed diff = int (length ?removed) - count_changes Added ?removed - count_changes Removed ?removed"
    using assms(1) by (auto simp: DiffGraphs_def Let_def)
  have all: "\<forall>x \<in> set ?removed. dc_type x = Removed" using assms(2) removal_self by fastforce
  then have "filter (\<lambda>x. dc_type x = Added) ?removed = []" "filter (\<lambda>x. dc_type x = Removed) ?removed = ?removed"
    by (auto simp: filter_empty_conv filter_id_conv)
  with diff all show "\<forall>x \<in> set (df_changes diff). dc_type x = Removed" "df_added diff = 0" "df_changed diff = 0"
    by (simp_all add: count_changes_def)
  show "df_changes diff = []" if "\<forall>c \<in> set (dfs g). live_node (graph_node_at g c)"
  proof -
    have "removal hash environment g c (graph_node_at g c) = []" if c: "c \<in> set (dfs g)" for c
      using removal_self [of c g _ hash environment] c assms(2) \<open>\<forall>c \<in> set (dfs g). live_node (graph_node_at g c)\<close>
      by (metis list.set_intros(1) neq_Nil_conv subsetD)
    then show ?thesis unfolding diff(1) by simp
  qed
qed

text \<open>
  The difference a rollback or a destroy reports says nothing: both go on with the very graph
  of the Deployment they refer to, so it is compared with itself. Nothing is ever added or
  changed, and the difference is empty unless the graph holds nodes that were deleted before. The
  hypothesis on the graph library is that an iteration visits nodes of the graph.
\<close>

lemma rollback_diff_empty:
  assumes "compile_request tk cl db rq ops runner = Inr cd" "useLastGraph (rq_mode rq)" "find_reference tk db rq = Inr rf" "rf_graph rf \<noteq> None"
    and "set (tk_dfs tk (cd_graph cd)) \<subseteq> fst ` set (g_nodes (cd_graph cd))"
  shows "df_added (cd_diff cd) = 0 \<and> df_changed (cd_diff cd) = 0 \<and>
     ((\<forall>c \<in> set (tk_dfs tk (cd_graph cd)). live_node (graph_node_at (cd_graph cd) c)) \<longrightarrow> df_changes (cd_diff cd) = [])"
proof -
  from assms(1,3) obtain manifest manifest' g before ma graph diff where
    n: "new_graph tk rq manifest rf ma = Inr (manifest', g, before)"
    and d: "DiffGraphs (tk_dfs tk) (tk_hash tk) (ce_uuid (rq_environment rq)) (before graph) graph = Inr diff"
    and cd: "cd_graph cd = graph" "cd_diff cd = diff"
    by (auto simp: compile_request_def)
  have "before graph = graph" using n assms(2,4) by (auto simp: new_graph_def split: option.splits if_splits)
  with d have "DiffGraphs (tk_dfs tk) (tk_hash tk) (ce_uuid (rq_environment rq)) graph graph = Inr diff" by simp
  note self = diff_self [OF this] show ?thesis using self assms(5) unfolding cd by blast
qed

section \<open>Samples\<close>

definition sample_definition :: catalogue_module where
  "sample_definition = \<lparr>cm_id = ''pg'', cm_org = ''acme'', cm_module_uuid = 81, cm_version = ''2'', cm_version_uuid = 82,
     cm_resource_type = ''postgres'', cm_resource_type_version = None, cm_resource_type_version_uuid = None, cm_source = ''git::x'',
     cm_source_code = None, cm_inputs = None, cm_params = Some [(''size'', \<lparr>par_type = TNumber, par_optional = False\<rparr>)],
     cm_dependencies = None, cm_coprovisioned = None, cm_provider_mapping = None, cm_output_schema = None, cm_artifact_digest = '''',
     cm_rules = [], cm_semantic_status = None, cm_semantic_version = None, cm_migration_generation = None,
     cm_verification_status = None, cm_draft_test = None\<rparr>"

definition sample_typed_node :: graph_node where
  "sample_typed_node = (sample_graph_node (Some ((sample_module False)\<lparr>mc_definition := Some sample_definition\<rparr>)))
     \<lparr>gn_params := Some [(''size'', JNum 3)]\<rparr>"

definition sample_typed_graph :: graph where
  "sample_typed_graph = \<lparr>g_nodes = [(sample_coordinate ''a'', sample_typed_node)], g_edges = []\<rparr>"

definition sample_build :: "graph_error + graph \<times> graph option" where
  "sample_build = BuildGraph (\<lambda>g. map fst (g_nodes g)) (\<lambda>m index previous. Inr sample_typed_graph) () [sample_definition] None"

lemma sample_build_graph: "sample_build = Inr (sample_typed_graph, None)"
  by (simp add: sample_build_def BuildGraph_def references_valid_def DraftTestReferenceFromCatalogue_def lift_graph_def
      sample_typed_graph_def sample_typed_node_def sample_graph_node_def sample_definition_def validateModuleParams_def graph_node_at_def
      validate_node_def sample_module_def validateModuleParamInner_def check_param_def param_value_def as_string_def entries_def
      definition_entry_def)


lemma sample_rollback_compiled:
  "case compile_request sample_toolkit sample_control sample_succeeded sample_rollback sample_options ''r1'' of
     Inr cd \<Rightarrow> list_all (\<lambda>c. c \<in> set (map fst (g_nodes (cd_graph cd)))) (tk_dfs sample_toolkit (cd_graph cd)) | Inl e \<Rightarrow> False"
  "useLastGraph (rq_mode sample_rollback)"
  by code_simp+

lemma rollback_diff_empty_witness:
  "\<exists>cd. compile_request sample_toolkit sample_control sample_succeeded sample_rollback sample_options ''r1'' = Inr cd \<and>
     df_added (cd_diff cd) = 0 \<and> df_changed (cd_diff cd) = 0"
proof -
  obtain cd where cd: "compile_request sample_toolkit sample_control sample_succeeded sample_rollback sample_options ''r1'' = Inr cd"
    and visits: "set (tk_dfs sample_toolkit (cd_graph cd)) \<subseteq> fst ` set (g_nodes (cd_graph cd))"
    using sample_rollback_compiled(1) by (auto simp: list_all_iff split: sum.splits)
  obtain rf where "find_reference sample_toolkit sample_succeeded sample_rollback = Inr rf" "rf_graph rf \<noteq> None"
    using sample_rollback_reference by (auto split: sum.splits)
  from rollback_diff_empty [OF cd sample_rollback_compiled(2) this visits] cd show ?thesis by blast
qed

end
