(* ===== verification/Lifecycle.thy ===== *)
theory Lifecycle
  imports Deployment_Contract
begin

text \<open>
  An abstract specification of an Environment: what it runs and who waits for it. The locale
  \<open>simulation\<close> is the interface between a transition system and its specification; it is
  interpreted on the transactions of the Data Plane (\<open>dp_step\<close>), seen from one Environment.
\<close>

section \<open>Simulations\<close>

text \<open>
  A step of the system keeps an invariant and is, in the view of the specification, one of its
  steps or no change.
\<close>

locale simulation =
  fixes step :: "'s \<Rightarrow> 's \<Rightarrow> bool"
    and inv :: "'s \<Rightarrow> bool"
    and view :: "'s \<Rightarrow> 'v"
    and next_view :: "'v \<Rightarrow> 'v \<Rightarrow> bool"
  assumes step_inv: "step s s' \<Longrightarrow> inv s \<Longrightarrow> inv s'"
    and step_view: "step s s' \<Longrightarrow> inv s \<Longrightarrow> view s' = view s \<or> next_view (view s) (view s')"
begin

lemma run_inv: "step\<^sup>*\<^sup>* s s' \<Longrightarrow> inv s \<Longrightarrow> inv s'"
  by (induction rule: rtranclp_induct) (auto intro: step_inv)

lemma run_view: "step\<^sup>*\<^sup>* s s' \<Longrightarrow> inv s \<Longrightarrow> next_view\<^sup>*\<^sup>* (view s) (view s')"
proof (induction rule: rtranclp_induct)
  case (step y z)
  then have "view z = view y \<or> next_view (view y) (view z)" using step_view run_inv by blast
  with step show ?case by (metis rtranclp.rtrancl_into_rtrancl)
qed simp

text \<open>A property the steps of the specification keep holds along every run of the system.\<close>

lemma run_property:
  assumes "step\<^sup>*\<^sup>* s s'" "inv s" "P (view s)" "\<And>v v'. P v \<Longrightarrow> next_view v v' \<Longrightarrow> P v'"
  shows "P (view s')"
proof -
  have "next_view\<^sup>*\<^sup>* (view s) (view s')" using assms(1,2) by (rule run_view)
  then show ?thesis using assms(3) by (induction rule: rtranclp_induct) (auto intro: assms(4))
qed

end

section \<open>The specification of an Environment\<close>

record env_view =
  view_running :: "uuid option"
  view_line :: "uuid list"

text \<open>
  An idle Environment may start a Deployment; the running one may finish; a request joins at the
  end of the line; requests leave it; the Environment is removed with all it holds. Nothing else
  happens: in particular a running Deployment is never replaced and the line never reordered.
\<close>

inductive env_next :: "env_view \<Rightarrow> env_view \<Rightarrow> bool" where
  env_start: "view_running v = None \<Longrightarrow> env_next v (v\<lparr>view_running := Some d\<rparr>)"
| env_finish: "view_running v = Some d \<Longrightarrow> env_next v (v\<lparr>view_running := None\<rparr>)"
| env_join: "i \<notin> set (view_line v) \<Longrightarrow> env_next v (v\<lparr>view_line := view_line v @ [i]\<rparr>)"
| env_leave: "env_next v (v\<lparr>view_line := filter (\<lambda>j. j \<notin> K) (view_line v)\<rparr>)"
| env_remove: "env_next v \<lparr>view_running = None, view_line = filter (\<lambda>j. j \<notin> K) (view_line v)\<rparr>"

definition executing_in :: "uuid \<Rightarrow> deployment_row \<Rightarrow> bool" where
  "executing_in e d \<longleftrightarrow> dep_de_id d = e \<and> dep_status d = StatusExecuting"

definition running :: "database \<Rightarrow> uuid \<Rightarrow> uuid option" where
  "running db e = map_option dep_id (find (executing_in e) (deployments db))"

definition env_view :: "uuid \<Rightarrow> database \<Rightarrow> env_view" where
  "env_view e db = \<lparr>view_running = running db e, view_line = waiting db e\<rparr>"

lemma env_view_same:
  assumes "deployments db' = deployments db" "queue db' = queue db"
  shows "env_view e db' = env_view e db \<or> env_next (env_view e db) (env_view e db')"
  using assms
  by (simp add: env_view_def running_def waiting_def)

lemma running_None: "running db e = None \<longleftrightarrow> (\<forall>d \<in> set (deployments db). \<not> executing_in e d)"
  by (auto simp: running_def find_None_iff)

lemma find_append: "find p (xs @ ys) = (case find p xs of None \<Rightarrow> find p ys | Some x \<Rightarrow> Some x)"
  by (induction xs) simp_all

lemma executing_unique:
  assumes "dep_inv db" "d1 \<in> set (deployments db)" "d2 \<in> set (deployments db)" "executing_in e d1" "executing_in e d2"
  shows "d1 = d2"
proof -
  have inv: "ref_inv db" "exec_inv db" using assms(1) by (simp_all add: dep_inv_def)
  from inv(2) assms obtain e1 e2 where "e1 \<in> set (environments db)" "e2 \<in> set (environments db)"
    "env_id e1 = e" "env_last_executing e1 = dep_id d1" "env_id e2 = e" "env_last_executing e2 = dep_id d2"
    unfolding exec_inv_def executing_in_def by metis
  moreover from this inv(1) have "e1 = e2" unfolding ref_inv_def by (metis distinct_key_eq)
  ultimately have "dep_id d1 = dep_id d2" by simp
  then show ?thesis using inv(1) assms(2,3) unfolding ref_inv_def by (metis distinct_key_eq)
qed

text \<open>When the rows that execute afterwards executed before, the Environment goes on or is idle.\<close>

lemma running_less:
  assumes "dep_inv db" "\<And>d. d \<in> set (deployments db') \<Longrightarrow> executing_in e d \<Longrightarrow> d \<in> set (deployments db)"
  shows "running db' e = running db e \<or> running db' e = None"
proof (cases "find (executing_in e) (deployments db')")
  case (Some d)
  then have d: "d \<in> set (deployments db)" "executing_in e d" using find_SomeD [OF Some] assms(2) by auto
  then obtain d' where "find (executing_in e) (deployments db) = Some d'"
    by (cases "find (executing_in e) (deployments db)") (auto simp: find_None_iff)
  moreover from this d executing_unique [OF assms(1)] have "d' = d" by (metis find_SomeD)
  ultimately show ?thesis using Some by (simp add: running_def)
qed (simp add: running_def)

section \<open>Refinement\<close>

lemma view_create:
  assumes "CreateDeployment row_ok now wall fresh db org project env p = Inr (s, db')"
    and "env_identity db org project env (cp_env_uuid p)" "sys_inv limit_of db"
  shows "env_view e db' = env_view e db \<or> env_next (env_view e db) (env_view e db')"
proof -
  have inv: "dep_inv db" using assms(3) by (simp add: sys_inv_def)
  then have inv': "dep_inv db'" using CreateDeployment_dep_inv [OF assms(1) _ assms(2)] by simp
  from assms(1) have db': "deployments db' = deployments db @ [new_deployment wall p fresh]"
    by (rule CreateDeployment_cases) simp
  have q: "waiting db' e = waiting db e" using CreateDeployment_frame(2) [OF assms(1)] by (simp add: waiting_def)
  show ?thesis
  proof (cases "e = cp_env_uuid p")
    case True
    then have new: "executing_in e (new_deployment wall p fresh)" by (simp add: executing_in_def new_deployment_def)
    from assms(1) have f: "fresh \<notin> dep_id ` set (deployments db)" by (rule CreateDeployment_cases)
    have "\<not> executing_in e d" if "d \<in> set (deployments db)" for d
    proof
      assume "executing_in e d"
      then have "d = new_deployment wall p fresh"
        using executing_unique [OF inv', of d "new_deployment wall p fresh" e] new that db' by simp
      with f that show False by (auto simp: new_deployment_def image_iff)
    qed
    then have "running db e = None" by (simp add: running_None)
    moreover from this new have "running db' e = Some fresh"
      by (simp add: running_def db' find_append new_deployment_def)
    ultimately show ?thesis using env_start [of "env_view e db" fresh] q by (simp add: env_view_def)
  next
    case False
    then have "running db' e = running db e"
      by (cases "find (executing_in e) (deployments db)")
        (simp_all add: running_def db' executing_in_def new_deployment_def find_append)
    with q show ?thesis by (simp add: env_view_def)
  qed
qed

lemma view_fewer:
  assumes "dep_inv db" "\<And>d. d \<in> set (deployments db') \<Longrightarrow> executing_in e d \<Longrightarrow> d \<in> set (deployments db)"
    and "waiting db' e = waiting db e"
  shows "env_view e db' = env_view e db \<or> env_next (env_view e db) (env_view e db')"
proof (cases "running db e")
  case None
  with running_less [OF assms(1), of db' e] assms(2,3) show ?thesis by (simp add: env_view_def)
next
  case (Some d)
  with running_less [OF assms(1), of db' e] assms(2,3) env_finish [of "env_view e db" d] show ?thesis
    by (auto simp: env_view_def)
qed

lemma waiting_delete:
  "map q_id (filter (waiting_row e) (delete_rows p t)) = filter (\<lambda>j. j \<notin> q_id ` {q \<in> set t. p q}) (map q_id (filter (waiting_row e) t))"
  if "distinct (map q_id t)"
  using that
proof (induction t)
  case (Cons q t)
  have "filter (\<lambda>j. j \<notin> q_id ` {r \<in> set (q # t). p r}) (map q_id (filter (waiting_row e) t)) =
      filter (\<lambda>j. j \<notin> q_id ` {r \<in> set t. p r}) (map q_id (filter (waiting_row e) t))"
    using Cons.prems by (intro filter_cong) (auto simp: image_iff)
  with Cons show ?case by (auto simp: delete_rows_def)
qed (simp add: delete_rows_def)

lemma view_delete:
  assumes "DeleteDeploymentsForEnv db org project env force expected = Inr db'" "sys_inv limit_of db"
  shows "env_view e db' = env_view e db \<or> env_next (env_view e db) (env_view e db')"
  using assms(1)
proof (rule DeleteDeploymentsForEnv_cases)
  fix db2
  let ?gone = "\<lambda>q. q_org q = org \<and> q_project q = project \<and> q_env q = env \<and> (expected = None \<or> expected = Some (q_environment q))"
  assume del: "delete_environment org project env expected db2 = Inr db'"
    and t: "deployments db2 = deployments db" "queue db2 = delete_rows ?gone (queue db)"
  from del have q: "queue db' = delete_rows ?gone (queue db)" and d: "set (deployments db') \<subseteq> set (deployments db)"
    unfolding delete_environment_def Let_def t(2) [symmetric] t(1) [symmetric] by (auto dest: cascade_tables(1,5))
  have inv: "dep_inv db" "distinct (map q_id (queue db))" using assms(2) by (simp_all add: sys_inv_def queue_inv_def)
  let ?K = "q_id ` {r \<in> set (queue db). ?gone r}"
  have w: "waiting db' e = filter (\<lambda>j. j \<notin> ?K) (waiting db e)"
    unfolding waiting_def q by (rule waiting_delete [OF inv(2)])
  have "running db' e = running db e \<or> running db' e = None" by (rule running_less [OF inv(1)]) (use d in blast)
  then show ?thesis
    using env_leave [of "env_view e db" ?K] env_remove [of "env_view e db" ?K] w by (auto simp: env_view_def)
qed

lemma view_enqueue:
  assumes "EnqueueDeployment sha now wall fresh db request maxDepth = Inr (item, replayed, db')" "sys_inv limit_of db"
  shows "env_view e db' = env_view e db \<or> env_next (env_view e db) (env_view e db')"
proof -
  have d: "deployments db' = deployments db" by (rule EnqueueDeployment_tables(1) [OF assms(1)])
  show ?thesis
  proof (cases replayed)
    case True
    with assms(1) have "db' = db" by (cases rule: EnqueueDeployment_cases) simp_all
    then show ?thesis by simp
  next
    case False
    with assms have w: "waiting db' = (waiting db)(nq_environment request := waiting db (nq_environment request) @ [fresh])"
      and "queue_inv db'" by (auto dest: EnqueueDeployment_waiting intro: EnqueueDeployment_inv simp: sys_inv_def)
    then have "distinct (waiting db' e)" unfolding waiting_def by (simp only: queue_inv_def distinct_map_filter)
    with w d env_join [of fresh "env_view e db"] show ?thesis
      by (cases "e = nq_environment request") (auto simp: env_view_def running_def)
  qed
qed

lemma view_step:
  assumes "dp_step limit_of db db'" "sys_inv limit_of db"
  shows "env_view e db' = env_view e db \<or> env_next (env_view e db) (env_view e db')"
  using assms
proof (induction rule: dp_step.induct)
  case (step_create row_ok now wall fresh db org project env p s db')
  then show ?case by (rule view_create)
next
  case (step_update now wall db i p s db')
  from step_update.hyps have db': "db' = terminal_effects now i (up_completion_proven p)
       (db\<lparr>deployments := update_rows (\<lambda>d. dep_id d = i) (settled_row wall p) (deployments db)\<rparr>)"
    by (rule UpdateDeployment_cases)
  show ?case
  proof (rule view_fewer)
    fix d assume "d \<in> set (deployments db')" "executing_in e d"
    then show "d \<in> set (deployments db)"
      using step_update.hyps(2) by (auto simp: db' executing_in_def elim!: update_rowsE)
  qed (use step_update.prems in \<open>simp_all add: sys_inv_def db' waiting_def\<close>)
next
  case (step_late sha now db dep body handled db')
  from step_late.hyps show ?case
    by (cases rule: RecordLate_cases; intro env_view_same) (simp_all add: RecordDeploymentCompletion_def)
next
  case (step_delete db org project env force expected db')
  then show ?case by (rule view_delete)
next
  case (step_enqueue qsha now wall fresh db request maxDepth item replayed db')
  then show ?case by (rule view_enqueue)
next
  case (step_settle db K db')
  have "deployments db' = deployments db" by (rule queue_settle_tables(1) [OF step_settle.hyps])
  moreover have "waiting db' e = filter (\<lambda>j. j \<notin> K) (waiting db e)"
    using queue_settle_waiting step_settle by (blast dest: sys_inv_def [THEN iffD1])
  ultimately show ?case using env_leave [of "env_view e db" K] by (simp add: env_view_def running_def)
next
  case (step_dispatch now wall db dep deadline db')
  from step_dispatch.hyps have "db' = start_budget now (sum_id dep) (sum_revision dep) db"
    by (rule BeginDeploymentDispatch_cases)
  then show ?case by (intro env_view_same) (simp_all add: start_budget_def)
next
  case (step_reserve now db dep db')
  then show ?case using ReserveRunnerJob_tables(1,5) by (intro env_view_same) blast+
qed ((rule env_view_same; auto simp: RenewDeploymentLease_def RecordDeploymentCompletion_def CreateDeploymentHistoryRecord_def
    TryRecordRunnerEvent_def same_core_def Let_def split: sum.splits if_splits)+)

interpretation lifecycle: simulation "dp_step limit_of" "sys_inv limit_of" "env_view e" env_next for limit_of e
  by unfold_locales (rule sys_inv_step, assumption+, rule view_step)

section \<open>The contract\<close>



end
