(* ===== verification/Acknowledgements.thy ===== *)
theory Acknowledgements
  imports Lifecycle Catalogue
begin

text \<open>
  \<^verbatim>\<open>internal/model/deployment_outcome_acknowledgements.go\<close>: the audited statement
  of an operator that the Runner attempt of a failed Deployment can no longer change its
  Environment. It is the only way out of a fence or a held Runner slot without proof of stop.
  \<open>now\<close> is the transaction time of the database, \<open>wall\<close> the process clock
  the caller passes. The acknowledgement is shown to be a sequence of transactions of
  \<open>dp_step\<close>, so what holds along those holds along it.
\<close>

section \<open>Operations\<close>

text \<open>Runes of a valid UTF-8 text; \<^verbatim>\<open>btrim\<close> strips spaces only.\<close>

definition rune_count :: "string \<Rightarrow> nat" where
  "rune_count s = length (filter (\<lambda>c. \<not> (128 \<le> (of_char c :: nat) \<and> (of_char c :: nat) < 192)) s)"

definition btrim :: "string \<Rightarrow> string" where
  "btrim s = rev (dropWhile (\<lambda>c. c = CHR '' '') (rev (dropWhile (\<lambda>c. c = CHR '' '') s)))"

definition acknowledgementConflict :: "stop_evidence \<Rightarrow> bool \<Rightarrow> bool \<Rightarrow> instant option \<Rightarrow> instant \<Rightarrow> unit result" where
  "acknowledgementConflict e completed head deadline wall =
     (if \<not> ev_plugin_dispatched e \<and> \<not> ev_capacity_reserved e
      then Inl (NewErrConflict ''Deployment has no unreconciled plugin outcome or retained Runner ownership'')
      else if ev_capacity_reserved e \<and> deadline = None
      then Inl (NewErrConflict ''Runner ownership has no authoritative closed dispatch budget'')
      else if \<not> ev_failed e \<or> \<not> completed
      then Inl (NewErrConflict ''only a terminal failed Deployment can have its outcome acknowledged'')
      else if \<not> head \<and> \<not> ev_capacity_reserved e
      then Inl (NewErrConflict ''deployment is no longer the Environment head and blocks nothing'')
      else if \<not> OutcomeUnreconciled e
      then Inl (NewErrConflict ''deployment already has Runner stop evidence; there is nothing to acknowledge'')
      else case deadline of
        Some t \<Rightarrow> guardR (\<not> wall < t) (NewErrConflict ''the Runner dispatch window is open'')
      | None \<Rightarrow> Inr ())"

text \<open>The plugin and the operation that dispatched the Deployment, when one did.\<close>

definition dispatched_by :: "database \<Rightarrow> string \<Rightarrow> uuid \<Rightarrow> string \<times> string" where
  "dispatched_by db org i =
     (let ext = (case find (\<lambda>x. ext_deployment x = i \<and> ext_org x = org) (external_receipts db) of
            None \<Rightarrow> ('''', '''') | Some x \<Rightarrow> (ext_plugin x, ext_operation_ref x));
          both = (if fst ext \<noteq> '''' then ext
            else case find (\<lambda>x. obs_deployment x = Some i \<and> obs_org x = org) (observation_receipts db) of
              None \<Rightarrow> ext | Some x \<Rightarrow> (obs_plugin x, uuid_text (obs_grant x)))
      in (fst both, if snd both = '''' then uuid_text i else snd both))"

definition acknowledgement_of ::
  "instant \<Rightarrow> database \<Rightarrow> string \<Rightarrow> uuid \<Rightarrow> uuid \<Rightarrow> uuid \<Rightarrow> string \<Rightarrow> acknowledgement_row" where
  "acknowledgement_of now db org i environment actor reason =
     \<lparr>ack_deployment = i, ack_org = org, ack_environment = environment,
      ack_plugin = fst (dispatched_by db org i), ack_operation_ref = snd (dispatched_by db org i),
      ack_actor = actor, ack_reason = reason, ack_at = now\<rparr>"

text \<open>The writes: the audit record, the requests that waited behind the fence, the Runner slot.\<close>

definition record_acknowledgement ::
  "instant \<Rightarrow> database \<Rightarrow> acknowledgement_row \<Rightarrow> bool \<Rightarrow> database result" where
  "record_acknowledgement now db a plugin_dispatched =
     (if lookup_row ack_deployment (ack_deployment a) (acknowledgements db) \<noteq> None \<or>
         \<not> (1 \<le> rune_count (btrim (ack_reason a)) \<and> rune_count (btrim (ack_reason a)) \<le> 1000)
      then Inl (ErrInternal ''failed to record deployment outcome acknowledgement'')
      else
        let db1 = db\<lparr>acknowledgements := acknowledgements db @ [a]\<rparr> in
        bindR (if plugin_dispatched
               then SettleQueuedDeployments now db1 (ack_environment a) Rejected
                 (no_settlement\<lparr>st_reason_code := CodeOutcomeUnreconciled,
                    st_reason_message := ''plugin-dispatched Deployment failed with an unreconciled outcome'',
                    st_reason_deployment := Some (ack_deployment a)\<rparr>)
               else Inr (0, db1)) (\<lambda>(_, db2).
          Inr (ReleaseRunnerJob now (ack_deployment a) db2)))"

definition AcknowledgeDeploymentOutcome ::
  "instant \<Rightarrow> instant \<Rightarrow> database \<Rightarrow> string \<Rightarrow> uuid \<Rightarrow> uuid \<Rightarrow> string \<Rightarrow> (acknowledgement_row \<times> bool \<times> database) result" where
  "AcknowledgeDeploymentOutcome now wall db org i actor reason =
     (case find_deployment i db of
        None \<Rightarrow> Inl (ErrNotFound ''deployment not found'')
      | Some d \<Rightarrow>
          (case lookup_row env_id (dep_de_id d) (environments db) of
             None \<Rightarrow> Inl (ErrNotFound ''deployment not found'')
           | Some e \<Rightarrow>
               if env_org e \<noteq> org then Inl (ErrNotFound ''deployment not found'')
               else case find (\<lambda>a. ack_deployment a = i \<and> ack_org a = org) (acknowledgements db) of
                 Some a \<Rightarrow>
                   if ack_actor a \<noteq> actor \<or> ack_reason a \<noteq> reason
                   then Inl (NewErrConflict ''deployment outcome was already acknowledged by a different request'')
                   else Inr (a, True, db)
               | None \<Rightarrow>
                   let head = (if dep_mode d = ModeObservation then env_last_executing e else env_last_state e);
                       deadline = (case ReadDeploymentDispatchBudget db i of Inl _ \<Rightarrow> None | Inr b \<Rightarrow> bud_deadline b);
                       a = acknowledgement_of now db org i (dep_de_id d) actor reason in
                   bindR (ReadDeploymentStopEvidence db i) (\<lambda>ev.
                   bindR (acknowledgementConflict ev (dep_completed_at d \<noteq> None) (head = i) deadline wall) (\<lambda>_.
                   bindR (record_acknowledgement now db a (ev_plugin_dispatched ev)) (\<lambda>db'.
                     Inr (a, False, db'))))))"

section \<open>What an acknowledgement does\<close>

lemma record_acknowledgement_cases:
  assumes "record_acknowledgement now db a plugin = Inr db'"
  obtains db2 where "db' = ReleaseRunnerJob now (ack_deployment a) db2"
    "lookup_row ack_deployment (ack_deployment a) (acknowledgements db) = None"
    "deployments db2 = deployments db" "environments db2 = environments db" "leases db2 = leases db"
    "budgets db2 = budgets db" "reservations db2 = reservations db" "runner_inbox db2 = runner_inbox db"
    "late_results db2 = late_results db" "external_receipts db2 = external_receipts db"
    "observation_receipts db2 = observation_receipts db"
    "acknowledgements db2 = acknowledgements db @ [a]"
    "if plugin then \<exists>n s. SettleQueuedDeployments now (db\<lparr>acknowledgements := acknowledgements db @ [a]\<rparr>)
         (ack_environment a) Rejected s = Inr (n, db2)
     else db2 = db\<lparr>acknowledgements := acknowledgements db @ [a]\<rparr>"
proof -
  let ?db1 = "db\<lparr>acknowledgements := acknowledgements db @ [a]\<rparr>"
  let ?s = "no_settlement\<lparr>st_reason_code := CodeOutcomeUnreconciled,
      st_reason_message := ''plugin-dispatched Deployment failed with an unreconciled outcome'',
      st_reason_deployment := Some (ack_deployment a)\<rparr>"
  from assms obtain n db2 where "lookup_row ack_deployment (ack_deployment a) (acknowledgements db) = None"
    and s: "(if plugin then SettleQueuedDeployments now ?db1 (ack_environment a) Rejected ?s else Inr (0, ?db1)) = Inr (n, db2)"
    and "db' = ReleaseRunnerJob now (ack_deployment a) db2"
    unfolding record_acknowledgement_def Let_def by (auto split: if_splits)
  moreover have "\<exists>q. db2 = ?db1\<lparr>queue := q\<rparr>"
  proof (cases plugin)
    case True
    with s have "SettleQueuedDeployments now ?db1 (ack_environment a) Rejected ?s = Inr (n, db2)" by simp
    from SettleQueuedDeployments_cases(4) [OF this] show ?thesis by blast
  next
    case False
    with s have "db2 = ?db1\<lparr>queue := queue db\<rparr>" by (cases db) auto
    then show ?thesis ..
  qed
  moreover have "if plugin then \<exists>n s. SettleQueuedDeployments now ?db1 (ack_environment a) Rejected s = Inr (n, db2) else db2 = ?db1"
    using s by (cases plugin) auto
  ultimately show ?thesis by (intro that [of db2]) auto
qed

lemma acknowledge_cases:
  assumes "AcknowledgeDeploymentOutcome now wall db org i actor reason = Inr (a, replayed, db')"
  obtains (replay) "replayed" "db' = db" "a \<in> set (acknowledgements db)"
  | (recorded) d e ev where "\<not> replayed" "find_deployment i db = Some d"
      "lookup_row env_id (dep_de_id d) (environments db) = Some e" "env_org e = org"
      "a = acknowledgement_of now db org i (dep_de_id d) actor reason"
      "ReadDeploymentStopEvidence db i = Inr ev"
      "acknowledgementConflict ev (dep_completed_at d \<noteq> None)
         ((if dep_mode d = ModeObservation then env_last_executing e else env_last_state e) = i)
         (case ReadDeploymentDispatchBudget db i of Inl _ \<Rightarrow> None | Inr b \<Rightarrow> bud_deadline b) wall = Inr ()"
      "record_acknowledgement now db a (ev_plugin_dispatched ev) = Inr db'"
  using assms unfolding AcknowledgeDeploymentOutcome_def Let_def
  by (auto split: option.splits if_splits dest: find_in_set)

text \<open>It is three transactions of the system: the audit record, the settlement of the queue, the release.\<close>

lemma acknowledge_steps:
  assumes "AcknowledgeDeploymentOutcome now wall db org i actor reason = Inr (a, replayed, db')"
  shows "(dp_step limit_of)\<^sup>*\<^sup>* db db'"
  using assms
proof (cases rule: acknowledge_cases)
  case (recorded d e ev)
  from recorded(8) show ?thesis
  proof (rule record_acknowledgement_cases)
    fix db2
    let ?db1 = "db\<lparr>acknowledgements := acknowledgements db @ [a]\<rparr>"
    assume db': "db' = ReleaseRunnerJob now (ack_deployment a) db2"
      and q: "if ev_plugin_dispatched ev then \<exists>n s. SettleQueuedDeployments now ?db1 (ack_environment a) Rejected s = Inr (n, db2)
         else db2 = ?db1"
    have "dp_step limit_of db ?db1" by (rule step_other) (simp add: same_core_def)
    moreover have "(dp_step limit_of)\<^sup>*\<^sup>* ?db1 db2"
      using q by (cases "ev_plugin_dispatched ev") (auto intro!: r_into_rtranclp step_settle settle_all)
    moreover have "dp_step limit_of db2 db'" unfolding db' by (rule step_release)
    ultimately show ?thesis by (meson converse_rtranclp_into_rtranclp rtranclp.rtrancl_into_rtrancl)
  qed
qed simp

lemma acknowledgementConflict_Inr:
  assumes "acknowledgementConflict ev completed head deadline wall = Inr u"
  shows "ev_failed ev" "completed" "OutcomeUnreconciled ev" "head \<or> ev_capacity_reserved ev"
    "\<forall>t. deadline = Some t \<longrightarrow> t \<le> wall"
  using assms by (auto simp: acknowledgementConflict_def not_less split: if_splits option.splits)

lemma stop_evidence_acknowledged:
  assumes "ReadDeploymentStopEvidence db i = Inr ev"
    and "deployments db' = deployments db" "environments db' = environments db"
    and "find_deployment i db = Some d" "lookup_row env_id (dep_de_id d) (environments db) = Some e"
    and "a \<in> set (acknowledgements db')" "ack_deployment a = i" "ack_org a = env_org e"
  shows "\<exists>ev'. ReadDeploymentStopEvidence db' i = Inr ev' \<and> ev_acknowledged ev'"
  using assms by (auto simp: ReadDeploymentStopEvidence_def find_deployment_def Let_def)

lemma acknowledged_released:
  assumes "a \<in> set (acknowledgements db)" "ack_deployment a = i" "r \<in> set (reservations (ReleaseRunnerJob now i db))" "res_deployment r = i"
  shows "res_released_at r \<noteq> None"
  using assms ReleaseRunnerJob_live [of r now i db] by (auto simp: release_proven_def)

lemma record_acknowledgement_waiting:
  assumes "record_acknowledgement now db a plugin = Inr db'" "queue_inv db"
  shows "waiting db' e = (if plugin \<and> e = ack_environment a then [] else waiting db e)"
  using assms(1)
proof (rule record_acknowledgement_cases)
  fix db2
  let ?db1 = "db\<lparr>acknowledgements := acknowledgements db @ [a]\<rparr>"
  assume db': "db' = ReleaseRunnerJob now (ack_deployment a) db2"
    and q: "if plugin then \<exists>n s. SettleQueuedDeployments now ?db1 (ack_environment a) Rejected s = Inr (n, db2) else db2 = ?db1"
  have w: "waiting db' e = waiting db2 e" by (simp add: waiting_def db')
  have inv1: "queue_inv ?db1" using assms(2) queue_inv_cong [of ?db1 db] by simp
  have w1: "waiting ?db1 = waiting db" by (rule waiting_cong) simp
  show ?thesis
  proof (cases plugin)
    case True
    with q obtain n s where "SettleQueuedDeployments now ?db1 (ack_environment a) Rejected s = Inr (n, db2)" by auto
    from SettleQueuedDeployments_waiting [OF this inv1, of e] True show ?thesis
      using waiting_disjoint [OF inv1, of _ e "ack_environment a"]
      by (auto simp: w w1 filter_empty_conv filter_id_conv)
  qed (use q w w1 in simp)
qed

section \<open>The contract\<close>

text \<open>
  (C24) An acknowledgement is the way out of a fence, and only of a closed one: it is recorded only
  for a Deployment that failed and completed, whose outcome is unreconciled and whose dispatch
  window is over; afterwards the outcome counts as reconciled, the Deployment no longer blocks its
  Environment and holds no Runner slot, the requests that waited behind a plugin's Deployment are
  all rejected and every other queue is as it was. Repeating it returns the same record and changes
  nothing.
\<close>

theorem acknowledge_unblocks:
  assumes "AcknowledgeDeploymentOutcome now wall db org i actor reason = Inr (a, False, db')" "queue_inv db"
  shows "\<exists>d ev ev'. find_deployment i db = Some d \<and> dep_status d = StatusFailed \<and> dep_completed_at d \<noteq> None \<and>
     ReadDeploymentStopEvidence db i = Inr ev \<and> OutcomeUnreconciled ev \<and>
     (\<forall>b t. lookup_row bud_deployment i (budgets db) = Some b \<longrightarrow> bud_deadline b = Some t \<longrightarrow> t \<le> wall) \<and>
     ReadDeploymentStopEvidence db' i = Inr ev' \<and> \<not> OutcomeUnreconciled ev' \<and> requireReplaceableStateHead db' i = Inr () \<and>
     (\<forall>r \<in> set (reservations db'). res_deployment r = i \<longrightarrow> res_released_at r \<noteq> None) \<and>
     deployments db' = deployments db \<and>
     (\<forall>e. waiting db' e = (if ev_plugin_dispatched ev \<and> e = dep_de_id d then [] else waiting db e)) \<and>
     (\<forall>now' wall'. AcknowledgeDeploymentOutcome now' wall' db' org i actor reason = Inr (a, True, db'))"
  using assms(1)
proof (cases rule: acknowledge_cases)
  case (recorded d e ev)
  note ok = acknowledgementConflict_Inr [OF recorded(7)]
  from recorded(5) have a: "ack_deployment a = i" "ack_org a = org" "ack_actor a = actor" "ack_reason a = reason"
    "ack_environment a = dep_de_id d" by (simp_all add: acknowledgement_of_def)
  from recorded(8) show ?thesis
  proof (rule record_acknowledgement_cases)
    fix db2
    assume db': "db' = ReleaseRunnerJob now (ack_deployment a) db2"
      and none: "lookup_row ack_deployment (ack_deployment a) (acknowledgements db) = None"
      and t: "deployments db2 = deployments db" "environments db2 = environments db" "acknowledgements db2 = acknowledgements db @ [a]"
    have t': "deployments db' = deployments db" "environments db' = environments db" "acknowledgements db' = acknowledgements db @ [a]"
      by (simp_all add: db' t)
    obtain ev' where ev': "ReadDeploymentStopEvidence db' i = Inr ev'" "ev_acknowledged ev'"
      using stop_evidence_acknowledged [OF recorded(6) t'(1,2) recorded(2,3), of a] t'(3) a(1,2) recorded(4) by auto
    then have "\<not> OutcomeUnreconciled ev'" by (simp add: OutcomeUnreconciled_def)
    moreover from this ev'(1) have "requireReplaceableStateHead db' i = Inr ()"
      by (simp add: requireReplaceableStateHead_def ReadEnvironmentFence_def BlocksReplacement_def)
    moreover have "dep_status d = StatusFailed"
      using ok(1) recorded(2,3,6) by (auto simp: ReadDeploymentStopEvidence_def Let_def)
    moreover have "\<forall>b t. lookup_row bud_deployment i (budgets db) = Some b \<longrightarrow> bud_deadline b = Some t \<longrightarrow> t \<le> wall"
      using ok(5) by (auto simp: ReadDeploymentDispatchBudget_def)
    moreover have "\<forall>r \<in> set (reservations db'). res_deployment r = i \<longrightarrow> res_released_at r \<noteq> None"
      using acknowledged_released [of a db2 i _ now] by (auto simp: db' a(1) t(3))
    moreover have "waiting db' x = (if ev_plugin_dispatched ev \<and> x = dep_de_id d then [] else waiting db x)" for x
      using record_acknowledgement_waiting [OF recorded(8) assms(2)] by (simp add: a(5))
    moreover have "AcknowledgeDeploymentOutcome now' wall' db' org i actor reason = Inr (a, True, db')" for now' wall'
    proof -
      have "find (\<lambda>b. ack_deployment b = i \<and> ack_org b = org) (acknowledgements db) = None"
        using none a(1) unfolding find_None_iff lookup_row_None by blast
      then have "find (\<lambda>b. ack_deployment b = i \<and> ack_org b = org) (acknowledgements db') = Some a"
        by (simp add: t'(3) find_append a)
      with recorded(2-4) t' show ?thesis
        by (simp add: AcknowledgeDeploymentOutcome_def find_deployment_def a(3,4))
    qed
    ultimately show ?thesis using recorded(2,6) ok ev'(1) t'(1) by blast
  qed
qed simp

text \<open>A plugin's Deployment that was dispatched and failed without a word of its Runner.\<close>

definition sample_unreconciled :: database where
  "sample_unreconciled = (snd (projr (UpdateDeploymentStatusAndOutputs 200 200 sample_reserved 21 sample_failure)))
     \<lparr>external_receipts := [\<lparr>ext_org = ''acme'', ext_plugin = ''p'', ext_operation_ref = ''op'', ext_fence = 1,
        ext_request = ''r'', ext_assertion_action = ''a'', ext_service_action = ''external-deployment.admit'',
        ext_body_sha256 = ''x'', ext_actor = ''1'', ext_project = ''shop'', ext_env = ''prod'', ext_project_uuid = None,
        ext_environment_uuid = Some 7, ext_plan_snapshot = None, ext_base_deployment = None, ext_deployment = 21,
        ext_forward_deployment = None, ext_retry_of_rollback = None, ext_created_at = 100\<rparr>]\<rparr>"

definition sample_acknowledge :: "instant \<Rightarrow> (acknowledgement_row \<times> bool \<times> database) result" where
  "sample_acknowledge wall = AcknowledgeDeploymentOutcome 500 wall sample_unreconciled ''acme'' 21 9 ''checked the cluster''"

lemma sample_acknowledged:
  "case sample_acknowledge 3600000000150 of Inr (a, replayed, db') \<Rightarrow> \<not> replayed | Inl e \<Rightarrow> False"
  "case sample_acknowledge 3600000000149 of Inl e \<Rightarrow> True | Inr x \<Rightarrow> False"
  "reservations sample_unreconciled \<noteq> []" "queue sample_unreconciled = []"
  by code_simp+

lemma acknowledge_unblocks_witness:
  "\<exists>a db'. sample_acknowledge 3600000000150 = Inr (a, False, db') \<and> requireReplaceableStateHead db' 21 = Inr () \<and>
     (\<forall>r \<in> set (reservations db'). res_deployment r = 21 \<longrightarrow> res_released_at r \<noteq> None)"
proof -
  obtain a db' where s: "sample_acknowledge 3600000000150 = Inr (a, False, db')"
    using sample_acknowledged(1) by (auto split: sum.splits)
  have "queue_inv sample_unreconciled"
    using sample_acknowledged(4) by (simp add: queue_inv_def dispatch_unique_def key_unique_def)
  from acknowledge_unblocks [OF s [unfolded sample_acknowledge_def] this] s show ?thesis by blast
qed

end
