(* ===== verification/Observations.thy ===== *)
theory Observations
  imports Acknowledgements Deployment_Reads Graph_Types
begin

text \<open>
  \<^verbatim>\<open>internal/model/environment_observations.go\<close> with the files
  \<^verbatim>\<open>environment_observation_recovery.go\<close>,
  \<^verbatim>\<open>environment_observation_provenance.go\<close> and
  \<^verbatim>\<open>environment_observation_retention.go\<close>: a plugin asks for a read-only run
  against the last succeeded Deployment of an Environment; each request leaves one receipt, accepted
  or skipped, or is sealed without having started; a completed run stores its result.
  \<open>clock k\<close> is the k-th reading of the process clock in an operation. The transaction
  isolation, the digest of a request, the decoding of a stored graph, the parsing of a URL and the
  row constraints come as the fields of \<open>observation_kit\<close>. An advisory lock orders
  transactions and has no effect of its own.
\<close>

section \<open>Data\<close>

record observation_request =
  oq_admission_deadline :: instant
  oq_env :: string
  oq_environment :: uuid
  oq_grant :: uuid
  oq_grant_revision :: int
  oq_occurrence :: instant
  oq_project :: string
  oq_project_uuid :: uuid
  oq_request :: uuid

record url_parts =
  url_scheme :: string
  url_host :: string
  url_path :: string
  url_fragment :: string
  url_has_password :: bool
  url_query :: "(string \<times> string list) list option"

record observation_kit =
  ok_isolation :: string
  ok_request_sha :: "observation_request \<Rightarrow> string"
  ok_sha :: "string \<Rightarrow> string"
  ok_artifacts_text :: "module_artifact list \<Rightarrow> string"
  ok_graph_of :: "string \<Rightarrow> string + graph"
  ok_parse_url :: "string \<Rightarrow> url_parts option"
  ok_row_ok :: "deployment_row \<Rightarrow> bool"

datatype run_status = RunExecuting | RunExpired | RunFailed | RunStale | RunSucceeded | RunUnavailable

record observation_run =
  run_completed_at :: "instant option"
  run_receipt :: observation_receipt
  run_result :: "observation_result option"
  run_status :: run_status

datatype resolution = NotStarted | AcceptedAs observation_receipt

definition ObservationResultRetention :: duration where
  "ObservationResultRetention = 30 * 24 * hour"

definition ObservationResultUnavailableMessage :: string where
  "ObservationResultUnavailableMessage = ''observation result unavailable''"

definition observationReplacementActionCount :: nat where "observationReplacementActionCount = 2"

section \<open>Provenance\<close>

definition InlineModuleSource :: string where "InlineModuleSource = ''inline''"

definition observationFullGitCommit :: "string \<Rightarrow> bool" where
  "observationFullGitCommit s \<longleftrightarrow> (length s = 40 \<or> length s = 64) \<and> list_all lower_hex s"

definition immutableObservationGitSource :: "(string \<Rightarrow> url_parts option) \<Rightarrow> string \<Rightarrow> bool" where
  "immutableObservationGitSource parse source \<longleftrightarrow>
     has_prefix source ''git::'' \<and> source = trim_space source \<and> CHR ''#'' \<notin> set source \<and>
     (case parse (drop 5 source) of
        None \<Rightarrow> False
      | Some u \<Rightarrow>
          url_host u \<noteq> '''' \<and> url_path u \<noteq> '''' \<and> (url_scheme u = ''https'' \<or> url_scheme u = ''ssh'') \<and>
          url_fragment u = '''' \<and> \<not> url_has_password u \<and>
          (case url_query u of
             Some [(''ref'', [commit])] \<Rightarrow> observationFullGitCommit commit
           | _ \<Rightarrow> False))"

definition HasObservationProvenance :: "(string \<Rightarrow> url_parts option) \<Rightarrow> module_artifact \<Rightarrow> bool" where
  "HasObservationProvenance parse a \<longleftrightarrow>
     art_draft_test a = None \<and> art_module_id a \<noteq> '''' \<and> art_version a \<noteq> '''' \<and> art_source a \<noteq> '''' \<and>
     art_module_uuid a \<noteq> uuid_nil \<and> art_version_uuid a \<noteq> uuid_nil \<and>
     (art_source a = InlineModuleSource \<or> art_digest a \<noteq> '''' \<or> immutableObservationGitSource parse (art_source a))"

section \<open>Request identities\<close>

definition LockObservationRequest :: "observation_kit \<Rightarrow> unit result" where
  "LockObservationRequest kit = guardR (ok_isolation kit = ''read committed'')
     (ErrInternal ''observation request arbitration requires READ COMMITTED isolation'')"

definition seal_key :: "string \<Rightarrow> string \<Rightarrow> observation_request_kind \<Rightarrow> uuid \<Rightarrow> seal_row \<Rightarrow> bool" where
  "seal_key org plugin kind i s \<longleftrightarrow> seal_org s = org \<and> seal_plugin s = plugin \<and> seal_kind s = kind \<and> seal_request s = i"

definition RequireObservationRequestUnsealed ::
  "database \<Rightarrow> observation_request_kind \<Rightarrow> string \<Rightarrow> string \<Rightarrow> uuid \<Rightarrow> uuid \<Rightarrow> uuid \<Rightarrow> string \<Rightarrow> unit result" where
  "RequireObservationRequestUnsealed db kind org plugin i actor run digest =
     (case find (seal_key org plugin kind i) (seals db) of
        None \<Rightarrow> Inr ()
      | Some s \<Rightarrow>
          if seal_actor s \<noteq> actor \<or> seal_request_sha256 s \<noteq> digest \<or> (seal_run s \<noteq> None) \<noteq> (run \<noteq> uuid_nil) \<or>
             (seal_run s \<noteq> None \<and> seal_run s \<noteq> Some run)
          then Inl (NewErrConflict ''sealed observation request identity has different content'')
          else Inl ErrObservationRequestSealed)"

text \<open>The primary key and the check that only a redeployment names a run.\<close>

definition sealObservationRequest ::
  "database \<Rightarrow> observation_request_kind \<Rightarrow> string \<Rightarrow> string \<Rightarrow> uuid \<Rightarrow> uuid \<Rightarrow> uuid \<Rightarrow> string \<Rightarrow> database result" where
  "sealObservationRequest db kind org plugin i actor run digest =
     (if exists_row (seal_key org plugin kind i) (seals db) \<or> (kind = KindRedeploy) \<noteq> (run \<noteq> uuid_nil)
      then Inl (ErrInternal ''environment_observation_request_seals'')
      else Inr (db\<lparr>seals := seals db @ [\<lparr>seal_org = org, seal_plugin = plugin, seal_kind = kind, seal_request = i,
        seal_actor = actor, seal_request_sha256 = digest, seal_run = (if run \<noteq> uuid_nil then Some run else None)\<rparr>]\<rparr>))"

definition receipt_key :: "string \<Rightarrow> string \<Rightarrow> uuid \<Rightarrow> observation_receipt_row \<Rightarrow> bool" where
  "receipt_key org plugin i o' \<longleftrightarrow> obs_org o' = org \<and> obs_plugin o' = plugin \<and> obs_request o' = i"

definition ReadObservationReceipt :: "database \<Rightarrow> string \<Rightarrow> string \<Rightarrow> uuid \<Rightarrow> observation_receipt result" where
  "ReadObservationReceipt db org plugin i =
     (case find (receipt_key org plugin i) (observation_receipts db) of
        None \<Rightarrow> Inl (ErrNotFound ''observation request not found'')
      | Some r \<Rightarrow> Inr (obs_receipt r))"

definition ReplayObservationRequest ::
  "observation_kit \<Rightarrow> database \<Rightarrow> string \<Rightarrow> string \<Rightarrow> uuid \<Rightarrow> observation_request \<Rightarrow> observation_receipt result" where
  "ReplayObservationRequest kit db org plugin actor rq =
     bindR (LockObservationRequest kit) (\<lambda>_.
     bindR (RequireObservationRequestUnsealed db KindObservation org plugin (oq_request rq) actor uuid_nil (ok_request_sha kit rq)) (\<lambda>_.
     case find (receipt_key org plugin (oq_request rq)) (observation_receipts db) of
       None \<Rightarrow> Inl (ErrNotFound ''observation request not found'')
     | Some r \<Rightarrow>
         if ok_request_sha kit rq \<noteq> obs_request_sha256 r \<or> obs_actor r \<noteq> actor
         then Inl (NewErrConflict ''observation request identity was already used with different content'')
         else ReadObservationReceipt db org plugin (oq_request rq)))"

section \<open>The baseline of an observation\<close>

definition environment_busy :: "instant \<Rightarrow> database \<Rightarrow> uuid \<Rightarrow> bool" where
  "environment_busy now db environment \<longleftrightarrow>
     exists_row (\<lambda>l. lease_environment l = environment \<and> lease_expires_at l > now) (leases db) \<or>
     exists_row (\<lambda>d. dep_de_id d = environment \<and> dep_status d = StatusExecuting) (deployments db) \<or>
     exists_row (\<lambda>q. q_environment q = environment \<and> q_state q = Queued) (queue db)"

definition uncertain_owner :: "database \<Rightarrow> uuid \<Rightarrow> bool" where
  "uncertain_owner db environment \<longleftrightarrow>
     exists_row (\<lambda>r. res_released_at r = None \<and>
       exists_row (\<lambda>d. dep_id d = res_deployment r \<and> dep_de_id d = environment \<and> dep_status d = StatusFailed) (deployments db))
       (reservations db)"

text \<open>A node of the stored graph is retained when the first artifact of its version has provenance.\<close>

definition node_retained :: "(string \<Rightarrow> url_parts option) \<Rightarrow> module_artifact list \<Rightarrow> graph_node \<Rightarrow> bool" where
  "node_retained parse artifacts n \<longleftrightarrow>
     (case gn_config n of
        None \<Rightarrow> True
      | Some c \<Rightarrow> mc_deleted c \<or>
          (mc_draft_test c = None \<and>
           (case find (\<lambda>a. art_module_id a = mc_definition_id c \<and> art_version a = mc_version_id c) artifacts of
              None \<Rightarrow> False
            | Some a \<Rightarrow> HasObservationProvenance parse a \<and>
                mc_has_inline_source c = (art_source a = InlineModuleSource))))"

datatype baseline_decision = NoBaseline receipt_reason | Baseline deployment_detail

definition snapshot_baseline :: "observation_kit \<Rightarrow> deployment_detail \<Rightarrow> baseline_decision" where
  "snapshot_baseline kit detail =
     (case detail of (base, manifest, tofu, graph) \<Rightarrow>
        if \<not> CompleteDeploymentSnapshot manifest tofu graph then NoBaseline ReasonNoBaseline
        else case ok_graph_of kit graph of
          Inl _ \<Rightarrow> NoBaseline ReasonNoBaseline
        | Inr g \<Rightarrow>
            if list_all (\<lambda>e. node_retained (ok_parse_url kit) (sum_module_artifacts base) (snd e)) (g_nodes g) \<and>
               list_all (HasObservationProvenance (ok_parse_url kit)) (sum_module_artifacts base)
            then Baseline detail else NoBaseline ReasonNoBaseline)"

definition observationBaseline ::
  "observation_kit \<Rightarrow> instant \<Rightarrow> database \<Rightarrow> string \<Rightarrow> observation_request \<Rightarrow> baseline_decision result" where
  "observationBaseline kit now db org rq =
     (case RequireObservationStopped db (oq_environment rq) of
        Inl e \<Rightarrow> if IsErrConflict e then Inr (NoBaseline ReasonOutcomeUnreconciled) else Inl e
      | Inr _ \<Rightarrow>
          if environment_busy now db (oq_environment rq) then Inr (NoBaseline ReasonBusy)
          else if uncertain_owner db (oq_environment rq) then Inr (NoBaseline ReasonOutcomeUnreconciled)
          else case GetLastDeployment db org (oq_project rq) (oq_env rq) True of
            Inl e \<Rightarrow> if IsErrNotFound e then Inr (NoBaseline ReasonNoBaseline) else Inl e
          | Inr (head, _) \<Rightarrow>
              bindR (GetDeployment db org (sum_id head)) (\<lambda>(base, manifest, tofu, graph).
                if sum_env_uuid base \<noteq> oq_environment rq then Inr (NoBaseline ReasonNoBaseline)
                else if sum_status base \<noteq> StatusSucceeded \<or> sum_completed_at base = None \<or>
                  (sum_mode base \<noteq> ModeDeploy \<and> sum_mode base \<noteq> ModeRollback)
                then bindR (DeploymentOutcomeUnreconciled db (sum_id base)) (\<lambda>unknown.
                  Inr (NoBaseline (if unknown then ReasonOutcomeUnreconciled else ReasonNoBaseline)))
                else Inr (snapshot_baseline kit (base, manifest, tofu, graph))))"

text \<open>What is written to the hash: each part behind its length.\<close>

definition baseline_text :: "string list \<Rightarrow> string" where
  "baseline_text parts = concat (map (\<lambda>part. format_nat (length part) @ '':'' @ part) parts)"

definition ObservationBaselineFingerprint ::
  "(string \<Rightarrow> string) \<Rightarrow> (module_artifact list \<Rightarrow> string) \<Rightarrow> string \<Rightarrow> string \<Rightarrow> string \<Rightarrow> module_artifact list \<Rightarrow> string" where
  "ObservationBaselineFingerprint sha artifacts_text manifest tofu graph artifacts =
     ''sha256:'' @ sha (baseline_text [manifest, tofu, graph, artifacts_text artifacts])"

section \<open>Starting an observation\<close>

definition observation_params :: "uuid \<Rightarrow> observation_request \<Rightarrow> string \<Rightarrow> deployment_detail \<Rightarrow> create_params" where
  "observation_params actor rq runner detail =
     (case detail of (base, manifest, tofu, graph) \<Rightarrow>
        \<lparr>cp_created_by = actor, cp_env_uuid = oq_environment rq, cp_mode = ModeObservation, cp_manifest = manifest,
         cp_rollback_to = None, cp_graph = graph, cp_tofu = tofu, cp_key_digest = None, cp_runner_id = runner,
         cp_outputs_recipient = None, cp_logs_recipient = None, cp_metrics = sum_metrics base,
         cp_runner_log_level = ''error'', cp_module_artifacts = sum_module_artifacts base,
         cp_module_version_request_digest = sum_module_version_request_digest base,
         cp_expected_current = None, cp_retry_of_rollback = None, cp_expected_base = None, cp_queue_item = None\<rparr>)"

definition skipped_receipt :: "uuid \<Rightarrow> receipt_reason \<Rightarrow> instant \<Rightarrow> observation_receipt" where
  "skipped_receipt i reason at = \<lparr>rec_request = i, rec_disposition = DispositionSkipped, rec_reason = reason,
     rec_recorded_at = at, rec_run = None, rec_baseline = None, rec_fingerprint = None\<rparr>"

text \<open>
  Within the savepoint: the Deployment and its Runner slot, or the reason for which both are undone.
\<close>

definition start_observation ::
  "observation_kit \<Rightarrow> instant \<Rightarrow> (nat \<Rightarrow> instant) \<Rightarrow> uuid \<Rightarrow> database \<Rightarrow> string \<Rightarrow> uuid \<Rightarrow> observation_request \<Rightarrow> string \<Rightarrow> int
     \<Rightarrow> deployment_detail \<Rightarrow> (observation_receipt \<times> database) result" where
  "start_observation kit now clock fresh db org actor rq runner limit detail =
     bindR (CreateDeployment (ok_row_ok kit) now (clock 2) fresh db org (oq_project rq) (oq_env rq)
         (observation_params actor rq runner detail)) (\<lambda>(dep, db1).
       case ReserveRunnerJob now db1 dep limit of
         Inl e \<Rightarrow>
           if e = ErrRunnerCapacityFull then Inr (skipped_receipt (oq_request rq) ReasonRunnerFull (clock 4), db) else Inl e
       | Inr db2 \<Rightarrow>
           if \<not> clock 3 < oq_admission_deadline rq
           then Inr (skipped_receipt (oq_request rq) ReasonExpired (clock 4), db)
           else
             (case detail of (base, manifest, tofu, graph) \<Rightarrow>
                Inr (\<lparr>rec_request = oq_request rq, rec_disposition = DispositionAccepted, rec_reason = ReasonAccepted,
                  rec_recorded_at = clock 4, rec_run = Some (sum_id dep), rec_baseline = Some (sum_id base),
                  rec_fingerprint = Some (ObservationBaselineFingerprint (ok_sha kit) (ok_artifacts_text kit)
                    manifest tofu graph (sum_module_artifacts base))\<rparr>, db2)))"

definition decide_observation ::
  "observation_kit \<Rightarrow> instant \<Rightarrow> (nat \<Rightarrow> instant) \<Rightarrow> uuid \<Rightarrow> database \<Rightarrow> string \<Rightarrow> uuid \<Rightarrow> observation_request \<Rightarrow> string \<Rightarrow> int \<Rightarrow> bool
     \<Rightarrow> (observation_receipt \<times> database) result" where
  "decide_observation kit now clock fresh db org actor rq runner limit supported =
     (if \<not> clock 0 < oq_admission_deadline rq then Inr (skipped_receipt (oq_request rq) ReasonExpired (clock 4), db)
      else bindR (observationBaseline kit now db org rq) (\<lambda>b.
        if \<not> clock 1 < oq_admission_deadline rq then Inr (skipped_receipt (oq_request rq) ReasonExpired (clock 4), db)
        else case b of
          NoBaseline reason \<Rightarrow> Inr (skipped_receipt (oq_request rq) reason (clock 4), db)
        | Baseline detail \<Rightarrow>
            if \<not> supported \<or> limit \<le> 0 then Inr (skipped_receipt (oq_request rq) ReasonUnsupported (clock 4), db)
            else start_observation kit now clock fresh db org actor rq runner limit detail))"

text \<open>
  The insert of the receipt with its primary key, the unique run, the check on the grant revision
  and the trigger that refuses a sealed request.
\<close>

definition insert_receipt :: "observation_receipt_row \<Rightarrow> database \<Rightarrow> database result" where
  "insert_receipt r db =
     (if exists_row (receipt_key (obs_org r) (obs_plugin r) (obs_request r)) (observation_receipts db) \<or>
         exists_row (seal_key (obs_org r) (obs_plugin r) KindObservation (obs_request r)) (seals db) \<or>
         obs_grant_revision r \<le> 0 \<or>
         (obs_deployment r \<noteq> None \<and> exists_row (\<lambda>x. obs_deployment x = obs_deployment r) (observation_receipts db))
      then Inl (ErrInternal ''environment_observation_receipts'')
      else Inr (db\<lparr>observation_receipts := observation_receipts db @ [r]\<rparr>))"

definition TryStartObservation ::
  "observation_kit \<Rightarrow> instant \<Rightarrow> (nat \<Rightarrow> instant) \<Rightarrow> uuid \<Rightarrow> database \<Rightarrow> string \<Rightarrow> string \<Rightarrow> uuid \<Rightarrow> observation_request \<Rightarrow> string \<Rightarrow> int
     \<Rightarrow> bool \<Rightarrow> (observation_receipt \<times> database) result" where
  "TryStartObservation kit now clock fresh db org plugin actor rq runner limit supported =
     (let digest = ok_request_sha kit rq in
      bindR (LockObservationRequest kit) (\<lambda>_.
      bindR (RequireObservationRequestUnsealed db KindObservation org plugin (oq_request rq) actor uuid_nil digest) (\<lambda>_.
      case find (receipt_key org plugin (oq_request rq)) (observation_receipts db) of
        Some r \<Rightarrow>
          if obs_request_sha256 r \<noteq> digest \<or> obs_actor r \<noteq> actor
          then Inl (NewErrConflict ''observation request identity was already used with different content'')
          else bindR (ReadObservationReceipt db org plugin (oq_request rq)) (\<lambda>receipt. Inr (receipt, db))
      | None \<Rightarrow>
          bindR (decide_observation kit now clock fresh db org actor rq runner limit supported) (\<lambda>(receipt, db1).
          bindR (insert_receipt \<lparr>obs_org = org, obs_plugin = plugin, obs_request = oq_request rq, obs_request_sha256 = digest,
              obs_environment = oq_environment rq, obs_actor = actor, obs_grant = oq_grant rq,
              obs_grant_revision = oq_grant_revision rq, obs_receipt = receipt, obs_deployment = rec_run receipt,
              obs_baseline = rec_baseline receipt, obs_completion_sha256 = None, obs_result = None,
              obs_result_expires_at = None\<rparr> db1) (\<lambda>db2.
            Inr (receipt, db2))))))"

section \<open>Reading a run\<close>

definition stored_status :: "deployment_status \<Rightarrow> run_status" where
  "stored_status s = (case s of StatusExecuting \<Rightarrow> RunExecuting | StatusFailed \<Rightarrow> RunFailed | StatusSucceeded \<Rightarrow> RunSucceeded)"

text \<open>The state head of the Environment, when it is a completed, succeeded deploy or rollback.\<close>

definition current_head :: "database \<Rightarrow> string \<Rightarrow> uuid \<Rightarrow> deployment_row option" where
  "current_head db org environment =
     (case find (\<lambda>e. env_id e = environment \<and> env_org e = org) (environments db) of
        None \<Rightarrow> None | Some e \<Rightarrow> find_deployment (env_last_state e) db)"

definition ReadObservationRun :: "instant \<Rightarrow> database \<Rightarrow> string \<Rightarrow> string \<Rightarrow> uuid \<Rightarrow> observation_run result" where
  "ReadObservationRun wall db org plugin run =
     (case find (\<lambda>r. obs_org r = org \<and> obs_plugin r = plugin \<and> rec_run (obs_receipt r) = Some run) (observation_receipts db) of
        None \<Rightarrow> Inl (ErrNotFound ''observation run not found'')
      | Some r \<Rightarrow>
          let d = (case obs_deployment r of None \<Rightarrow> None | Some i \<Rightarrow> find_deployment i db);
              status = (case d of None \<Rightarrow> RunExpired | Some x \<Rightarrow> stored_status (dep_status x));
              status1 = (case d of
                  Some x \<Rightarrow> if dep_status x = StatusFailed \<and> dep_status_message x = ObservationResultUnavailableMessage
                    then RunUnavailable else status
                | None \<Rightarrow> status);
              (status2, result) = (if status = RunSucceeded
                then if (case obs_result_expires_at r of None \<Rightarrow> False | Some t \<Rightarrow> \<not> wall < t) then (RunExpired, None)
                  else if obs_result r = None \<or> obs_result_expires_at r = None then (RunUnavailable, None)
                  else (RunSucceeded, obs_result r)
                else (status1, None));
              status3 = (if status2 = RunSucceeded
                then case current_head db org (obs_environment r) of
                    None \<Rightarrow> RunUnavailable
                  | Some c \<Rightarrow>
                      if dep_completed_at c = None \<or> dep_status c \<noteq> StatusSucceeded \<or>
                         (dep_mode c \<noteq> ModeDeploy \<and> dep_mode c \<noteq> ModeRollback) then RunUnavailable
                      else if rec_baseline (obs_receipt r) \<noteq> Some (dep_id c) then RunStale else RunSucceeded
                else status2)
          in Inr \<lparr>run_completed_at = (case d of None \<Rightarrow> None | Some x \<Rightarrow> dep_completed_at x),
               run_receipt = obs_receipt r, run_result = result, run_status = status3\<rparr>)"

end
