(* ===== verification/Observation_Results.thy ===== *)
theory Observation_Results
  imports Observations
begin

text \<open>
  The other operations on observation receipts: what a Runner may report
  (\<^verbatim>\<open>ValidateObservationResult\<close>), storing it within the retention bound, the
  proof of stop (\<^verbatim>\<open>RecordObservationCompletion\<close>), the resolution of a request
  whose outcome its caller does not know, and the cleanup of expired results. The JSON text of a
  result is computed as \<^verbatim>\<open>encoding/json\<close> and PostgreSQL's \<^verbatim>\<open>jsonb\<close>
  print it, since both are bounded.
\<close>

section \<open>Patterns\<close>

definition ascii_letter :: "char \<Rightarrow> bool" where
  "ascii_letter c \<longleftrightarrow> (let n = (of_char c :: nat) in (65 \<le> n \<and> n \<le> 90) \<or> (97 \<le> n \<and> n \<le> 122))"

definition ascii_digit :: "char \<Rightarrow> bool" where
  "ascii_digit c \<longleftrightarrow> (let n = (of_char c :: nat) in 48 \<le> n \<and> n \<le> 57)"

definition observationIDPattern :: "string \<Rightarrow> bool" where
  "observationIDPattern s \<longleftrightarrow> 1 \<le> length s \<and> length s \<le> 64 \<and>
     list_all (\<lambda>c. ascii_letter c \<or> ascii_digit c \<or> c = CHR ''_'' \<or> c = CHR ''-'') s"

definition observationTypePattern :: "string \<Rightarrow> bool" where
  "observationTypePattern s \<longleftrightarrow>
     (case s of [] \<Rightarrow> False
      | c # cs \<Rightarrow> ascii_letter c \<and> length cs \<le> 127 \<and>
          list_all (\<lambda>c. ascii_letter c \<or> ascii_digit c \<or> c = CHR ''_'') cs)"

text \<open>One or more digits; the rest of the text.\<close>

definition after_digits :: "string \<Rightarrow> string option" where
  "after_digits s = (if takeWhile ascii_digit s = [] then None else Some (dropWhile ascii_digit s))"

definition after_dot :: "string \<Rightarrow> string option" where
  "after_dot s = (case s of c # cs \<Rightarrow> if c = CHR ''.'' then Some cs else None | [] \<Rightarrow> None)"

definition version_suffix :: "string \<Rightarrow> bool" where
  "version_suffix s \<longleftrightarrow>
     (case s of [] \<Rightarrow> True
      | c # cs \<Rightarrow> (c = CHR ''-'' \<or> c = CHR ''+'') \<and> cs \<noteq> [] \<and>
          list_all (\<lambda>c. ascii_letter c \<or> ascii_digit c \<or> c = CHR ''.'' \<or> c = CHR ''-'') cs)"

definition observationVersionPattern :: "string \<Rightarrow> bool" where
  "observationVersionPattern s \<longleftrightarrow>
     (case Option.bind (Option.bind (Option.bind (Option.bind (after_digits s) after_dot) after_digits) after_dot) after_digits of
        None \<Rightarrow> False | Some rest \<Rightarrow> version_suffix rest)"

section \<open>Validation\<close>

definition action_valid :: "string \<Rightarrow> bool" where
  "action_valid a \<longleftrightarrow> a \<in> set [''create'', ''delete'', ''forget'', ''no-op'', ''read'', ''update'']"

definition tool_valid :: "string \<Rightarrow> bool" where
  "tool_valid t \<longleftrightarrow> t \<in> set [''opentofu'', ''terraform'']"

definition check_change :: "string list \<Rightarrow> observation_change \<Rightarrow> unit result" where
  "check_change seen c =
     (if \<not> observationIDPattern (ch_id c) \<or> \<not> observationTypePattern (ch_resource_type c) \<or>
         length (ch_actions c) < 1 \<or> length (ch_actions c) > observationReplacementActionCount \<or> ch_id c \<in> set seen
      then Inl (ErrBadRequest ''observation changes are invalid'')
      else if length (ch_actions c) = observationReplacementActionCount \<and>
         ch_actions c \<noteq> [''create'', ''delete''] \<and> ch_actions c \<noteq> [''delete'', ''create'']
      then Inl (ErrBadRequest ''observation action pair is not a supported replacement'')
      else guardR (list_all action_valid (ch_actions c)) (ErrBadRequest ''observation action is unsupported''))"

primrec check_changes :: "string list \<Rightarrow> observation_change list \<Rightarrow> unit result" where
  "check_changes seen [] = Inr ()"
| "check_changes seen (c # cs) = bindR (check_change seen c) (\<lambda>_. check_changes (ch_id c # seen) cs)"

definition ValidateObservationResult :: "observation_result \<Rightarrow> unit result" where
  "ValidateObservationResult r =
     (case (or_observed r, or_proposed r) of
        (Some observed, Some proposed) \<Rightarrow>
          if or_schema_version r \<noteq> ''1'' \<or> \<not> or_complete r \<or> \<not> tool_valid (or_tool r) \<or>
             length (or_tool_version r) > 64 \<or> \<not> observationVersionPattern (or_tool_version r) \<or>
             or_output_changes r < 0 \<or> or_output_changes r > 1000000 \<or>
             length observed > 2000 \<or> length proposed > 2000
          then Inl (ErrBadRequest ''observation result is incomplete or unsupported'')
          else bindR (check_changes [] observed) (\<lambda>_. check_changes [] proposed)
      | _ \<Rightarrow> Inl (ErrBadRequest ''observation result is incomplete or unsupported''))"

section \<open>The text of a result\<close>

text \<open>
  JSON with the given separators. Strings are quoted as they are: the texts of a validated result
  hold no character an encoder would escape.
\<close>

definition quoted :: "string \<Rightarrow> string" where
  "quoted s = CHR 0x22 # s @ [CHR 0x22]"

definition separated :: "string \<Rightarrow> string list \<Rightarrow> string" where
  "separated sep xs = (case xs of [] \<Rightarrow> [] | y # ys \<Rightarrow> y @ concat (map (\<lambda>x. sep @ x) ys))"

fun render :: "string \<Rightarrow> string \<Rightarrow> json \<Rightarrow> string" where
  "render sep col JNull = ''null''"
| "render sep col (JBool b) = (if b then ''true'' else ''false'')"
| "render sep col (JNum n) = format_int n"
| "render sep col (JStr s) = quoted s"
| "render sep col (JArr xs) = ''['' @ separated sep (map (render sep col) xs) @ '']''"
| "render sep col (JObj fs) = ''{'' @ separated sep (map (\<lambda>(k, v). quoted k @ col @ render sep col v) fs) @ ''}''"

definition change_json :: "observation_change \<Rightarrow> json" where
  "change_json c = JObj [(''actions'', JArr (map JStr (ch_actions c))), (''id'', JStr (ch_id c)),
     (''resource_type'', JStr (ch_resource_type c))]"

definition changes_json :: "observation_change list option \<Rightarrow> json" where
  "changes_json cs = (case cs of None \<Rightarrow> JNull | Some xs \<Rightarrow> JArr (map change_json xs))"

text \<open>\<^verbatim>\<open>json.Marshal\<close> prints the fields in the order of the struct.\<close>

definition result_json :: "observation_result \<Rightarrow> json" where
  "result_json r = JObj [(''complete'', JBool (or_complete r)), (''observed_changes'', changes_json (or_observed r)),
     (''output_change_count'', JNum (or_output_changes r)), (''proposed_changes'', changes_json (or_proposed r)),
     (''schema_version'', JStr (or_schema_version r)), (''tool'', JStr (or_tool r)),
     (''tool_version'', JStr (or_tool_version r))]"

definition marshal_result :: "observation_result \<Rightarrow> string" where
  "marshal_result r = render '','' '':'' (result_json r)"

text \<open>\<^verbatim>\<open>jsonb::text\<close> has a blank after each separator; its order of the keys does not change the length.\<close>

definition stored_text :: "observation_result \<Rightarrow> string" where
  "stored_text r = render '', '' '': '' (result_json r)"

section \<open>Storing and completing\<close>

definition StoreObservationResult :: "instant \<Rightarrow> database \<Rightarrow> uuid \<Rightarrow> observation_result \<Rightarrow> database result" where
  "StoreObservationResult now db i r =
     bindR (ValidateObservationResult r) (\<lambda>_.
       if length (marshal_result r) > 2 ^ 20 then Inl (ErrBadRequest ''observation result exceeds retention bound'')
       else if length (stored_text r) > 1048576 \<and> exists_row (\<lambda>x. obs_deployment x = Some i) (observation_receipts db)
       then Inl (ErrInternal ''environment_observation_receipts_result_check'')
       else Inr (db\<lparr>observation_receipts := update_rows (\<lambda>x. obs_deployment x = Some i)
         (\<lambda>x. x\<lparr>obs_result := Some r, obs_result_expires_at := Some (now + ObservationResultRetention)\<rparr>)
         (observation_receipts db)\<rparr>))"

definition RecordObservationCompletion ::
  "('p \<Rightarrow> string) \<Rightarrow> instant \<Rightarrow> database \<Rightarrow> uuid \<Rightarrow> 'p \<Rightarrow> (bool \<times> database) result" where
  "RecordObservationCompletion sha now db i body =
     (case find (\<lambda>x. obs_deployment x = Some i) (observation_receipts db) of
        None \<Rightarrow> Inl ErrNoRows
      | Some x \<Rightarrow>
          (case obs_completion_sha256 x of
             Some digest \<Rightarrow>
               if digest \<noteq> sha body then Inl (NewErrConflict ''observation completion conflicts with immutable retained result'')
               else Inr (True, db)
           | None \<Rightarrow>
               Inr (False, RecordDeploymentCompletion now i
                 (db\<lparr>observation_receipts := update_rows (\<lambda>x. obs_deployment x = Some i)
                   (\<lambda>x. x\<lparr>obs_completion_sha256 := Some (sha body)\<rparr>) (observation_receipts db)\<rparr>))))"

section \<open>Resolving an uncertain request\<close>

definition ResolveObservationRequest ::
  "observation_kit \<Rightarrow> database \<Rightarrow> string \<Rightarrow> string \<Rightarrow> uuid \<Rightarrow> observation_request \<Rightarrow> (resolution \<times> database) result" where
  "ResolveObservationRequest kit db org plugin actor rq =
     (let i = oq_request rq; digest = ok_request_sha kit rq in
      bindR (LockObservationRequest kit) (\<lambda>_.
      case RequireObservationRequestUnsealed db KindObservation org plugin i actor uuid_nil digest of
        Inl e \<Rightarrow> if e = ErrObservationRequestSealed then Inr (NotStarted, db) else Inl e
      | Inr _ \<Rightarrow>
          (case ReplayObservationRequest kit db org plugin actor rq of
             Inr receipt \<Rightarrow>
               (case rec_disposition receipt of
                  DispositionAccepted \<Rightarrow>
                    if rec_run receipt = None \<or> rec_run receipt = Some uuid_nil
                    then Inl (ErrInternal ''retained accepted observation receipt has no run identity'')
                    else Inr (AcceptedAs receipt, db)
                | DispositionSkipped \<Rightarrow>
                    (case find (receipt_key org plugin i) (observation_receipts db) of
                       None \<Rightarrow> Inl ErrNoRows
                     | Some r \<Rightarrow>
                         if obs_deployment r \<noteq> None \<or> rec_run receipt \<noteq> None
                         then Inl (ErrInternal ''retained skipped observation receipt has an execution identity'')
                         else Inr (NotStarted, db)))
           | Inl e \<Rightarrow>
               if \<not> IsErrNotFound e then Inl e
               else bindR (sealObservationRequest db KindObservation org plugin i actor uuid_nil digest) (\<lambda>db'.
                 Inr (NotStarted, db')))))"

record redeploy_request =
  rr_fingerprint :: string
  rr_baseline :: uuid
  rr_env :: string
  rr_environment :: uuid
  rr_project :: string
  rr_project_uuid :: uuid
  rr_request :: uuid

datatype redeploy_status = RedeployExecuting | RedeployFailed | RedeploySucceeded | RedeployUnavailable

record redeploy_receipt =
  rp_request :: uuid
  rp_deployment :: uuid
  rp_baseline :: uuid
  rp_status :: redeploy_status

definition redeploy_status_of :: "database \<Rightarrow> uuid \<Rightarrow> redeploy_status" where
  "redeploy_status_of db i = (case find_deployment i db of
     None \<Rightarrow> RedeployUnavailable
   | Some d \<Rightarrow> (case dep_status d of StatusExecuting \<Rightarrow> RedeployExecuting | StatusFailed \<Rightarrow> RedeployFailed | StatusSucceeded \<Rightarrow> RedeploySucceeded))"

definition redeploy_key :: "string \<Rightarrow> string \<Rightarrow> uuid \<Rightarrow> redeploy_receipt_row \<Rightarrow> bool" where
  "redeploy_key org plugin i r \<longleftrightarrow> rdp_org r = org \<and> rdp_plugin r = plugin \<and> rdp_request r = i"

definition read_redeploy :: "database \<Rightarrow> redeploy_receipt_row \<Rightarrow> redeploy_receipt" where
  "read_redeploy db r = \<lparr>rp_request = rdp_request r, rp_deployment = rdp_deployment r, rp_baseline = rdp_baseline r,
     rp_status = redeploy_status_of db (rdp_deployment r)\<rparr>"

definition ResolveObservationRedeploy ::
  "observation_kit \<Rightarrow> (redeploy_request \<Rightarrow> string) \<Rightarrow> database \<Rightarrow> string \<Rightarrow> string \<Rightarrow> uuid \<Rightarrow> uuid \<Rightarrow> redeploy_request
     \<Rightarrow> (redeploy_receipt option \<times> database) result" where
  "ResolveObservationRedeploy kit sha db org plugin actor run rq =
     (let i = rr_request rq; digest = sha rq in
      bindR (LockObservationRequest kit) (\<lambda>_.
      case RequireObservationRequestUnsealed db KindRedeploy org plugin i actor run digest of
        Inl e \<Rightarrow> if e = ErrObservationRequestSealed then Inr (None, db) else Inl e
      | Inr _ \<Rightarrow>
          (case find (redeploy_key org plugin i) (redeploy_receipts db) of
             Some r \<Rightarrow>
               if rdp_actor r \<noteq> actor \<or> rdp_run r \<noteq> run \<or> rdp_request_sha256 r \<noteq> digest
               then Inl (NewErrConflict ''redeploy request identity already used with different content'')
               else Inr (Some (read_redeploy db r), db)
           | None \<Rightarrow> bindR (sealObservationRequest db KindRedeploy org plugin i actor run digest) (\<lambda>db'. Inr (None, db')))))"

section \<open>Retention\<close>

definition ObservationResultCleanupMaxBatchSize :: int where "ObservationResultCleanupMaxBatchSize = 2000"

definition result_expired :: "instant \<Rightarrow> database \<Rightarrow> observation_receipt_row \<Rightarrow> bool" where
  "result_expired now db r \<longleftrightarrow>
     (case obs_result_expires_at r of None \<Rightarrow> False | Some t \<Rightarrow> t \<le> now) \<and> obs_result r \<noteq> None \<and>
     \<not> exists_row (\<lambda>d. obs_deployment r = Some (dep_id d) \<and> dep_completed_at d = None) (deployments db)"

definition receipt_id :: "observation_receipt_row \<Rightarrow> string \<times> string \<times> uuid" where
  "receipt_id r = (obs_org r, obs_plugin r, obs_request r)"

text \<open>\<open>locked\<close>: the rows another transaction holds, which \<^verbatim>\<open>SKIP LOCKED\<close> passes over.\<close>

definition DeleteExpiredObservationResults ::
  "(observation_receipt_row \<Rightarrow> bool) \<Rightarrow> instant \<Rightarrow> database \<Rightarrow> int \<Rightarrow> (nat \<times> database) result" where
  "DeleteExpiredObservationResults locked now db batchSize =
     (if batchSize < 1 \<or> batchSize > ObservationResultCleanupMaxBatchSize
      then Inl (ErrBadRequest ''observation result cleanup batch must be between 1 and 2000'')
      else
        let chosen = map receipt_id (take (nat batchSize) (sort_key (\<lambda>r. opt_or (obs_result_expires_at r) 0)
              (filter (\<lambda>r. result_expired now db r \<and> \<not> locked r) (observation_receipts db))));
            hit = (\<lambda>r. receipt_id r \<in> set chosen)
        in Inr (count_rows hit (observation_receipts db), db\<lparr>observation_receipts :=
          update_rows hit (\<lambda>r. r\<lparr>obs_result := None\<rparr>) (observation_receipts db)\<rparr>))"

end
