(* ===== verification/Runner_Results.thy ===== *)
theory Runner_Results
  imports Observation_Results Active_Resources Api_Errors "HOL-Library.AList"
begin

text \<open>
  What a Runner reports: the second half of \<^verbatim>\<open>internal/api/deployments.go\<close> (the
  enrichment of an error message, the result of a Deployment over HTTP and over the message bus,
  Runner errors, the forced failure), \<^verbatim>\<open>internal/api/late_runner_results.go\<close> and
  the bus handler \<^verbatim>\<open>internal/worker/handlers/runnerresulthandler/handler.go\<close>.
  The JSON, base64, SHA-256 and UUID codecs, the decoder of graphs and the subjects of the message
  bus are the fields of \<open>runner_kit\<close>. Outbox messages and log lines are left out. The
  transactions of one handler follow each other without another one in between.
\<close>

section \<open>Data\<close>

text \<open>A status is the text of the body: \<^verbatim>\<open>success\<close> and \<^verbatim>\<open>failure\<close> are valid.\<close>

record result_body =
  rb_status :: string
  rb_error :: "(string \<times> string) option"
  rb_outputs :: "string option"
  rb_metadata :: "(string \<times> (string \<times> json) list) list"
  rb_observation :: "observation_result option"
  rb_resources :: int
  rb_resources_added :: int
  rb_resources_changed :: int
  rb_resources_removed :: int

definition status_valid :: "string \<Rightarrow> bool" where
  "status_valid s \<longleftrightarrow> s = ''failure'' \<or> s = ''success''"

definition empty_body :: result_body where
  "empty_body = \<lparr>rb_status = '''', rb_error = None, rb_outputs = None, rb_metadata = [], rb_observation = None,
     rb_resources = 0, rb_resources_added = 0, rb_resources_changed = 0, rb_resources_removed = 0\<rparr>"

record runner_event =
  re_event :: string
  re_runner :: string
  re_type :: string

text \<open>A zero \<^verbatim>\<open>time.Time\<close> is \<open>None\<close>.\<close>

record event_envelope =
  ee_protocol :: string
  ee_type :: string
  ee_event :: string
  ee_command :: string
  ee_org :: string
  ee_runner :: string
  ee_deployment :: string
  ee_created_at :: "instant option"
  ee_payload :: string

text \<open>The payload of a Runner error: job, code, message, retryable.\<close>

record runner_error_payload =
  rp_job :: string
  rp_code :: string
  rp_message :: string
  rp_retryable :: bool

record runner_kit =
  rk_body_sha :: "result_body \<Rightarrow> string"
  rk_envelope_sha :: "event_envelope \<Rightarrow> string"
  rk_parse_object :: "string \<Rightarrow> json option"
  rk_marshal :: "json \<Rightarrow> string"
  rk_graph_of :: "string \<Rightarrow> string + graph"
  rk_base64_reader :: "string \<Rightarrow> bool"
  rk_base64_decode :: "string \<Rightarrow> string option"
  rk_token_sha :: "string \<Rightarrow> string"
  rk_token_salt :: string
  rk_parse_uuid :: "string \<Rightarrow> uuid option"
  rk_body_of :: "string \<Rightarrow> result_body option"
  rk_error_of :: "string \<Rightarrow> runner_error_payload option"
  rk_envelope_of :: "string \<Rightarrow> event_envelope option"
  rk_protocol :: string
  rk_subject :: "string \<Rightarrow> string \<Rightarrow> string \<Rightarrow> string option"

text \<open>
  \<open>TargetInvalid\<close> wraps an error in \<^verbatim>\<open>ErrRunnerEventTargetInvalid\<close>,
  \<open>TargetReason\<close> wraps a reason; \<open>BadOutputs\<close> is
  \<^verbatim>\<open>errRunnerOutputsInvalidBase64\<close>.
\<close>

datatype result_error = Plain model_error | TargetInvalid model_error | TargetReason string | BadOutputs

type_synonym 'a outcome = "result_error + 'a"

definition lift_plain :: "'a result \<Rightarrow> 'a outcome" where
  "lift_plain r = map_sum Plain id r"

fun IsTargetInvalid :: "result_error \<Rightarrow> bool" where
  "IsTargetInvalid (TargetInvalid e) = True"
| "IsTargetInvalid (TargetReason s) = True"
| "IsTargetInvalid _ = False"

lemma lift_plain_simps [simp]: "lift_plain (Inl e) = Inl (Plain e)" "lift_plain (Inr x) = Inr x"
  by (simp_all add: lift_plain_def)

lemma lift_plain_Inr [simp]: "lift_plain r = Inr x \<longleftrightarrow> r = Inr x"
  by (cases r) simp_all

section \<open>The message of a failure\<close>

definition stripIdentifierPattern :: "string \<Rightarrow> string" where
  "stripIdentifierPattern s = filter (\<lambda>c. ascii_letter c \<or> ascii_digit c \<or> c = CHR ''_'' \<or> c = CHR ''-'') s"

text \<open>The text before the last underscore, and the two parts around the first dot.\<close>

definition before_last_underscore :: "string \<Rightarrow> string option" where
  "before_last_underscore s =
     (if CHR ''_'' \<in> set s then Some (rev (tl (dropWhile (\<lambda>c. c \<noteq> CHR ''_'') (rev s)))) else None)"

definition split_at_dot :: "string \<Rightarrow> (string \<times> string) option" where
  "split_at_dot s = (if CHR ''.'' \<in> set s
     then Some (takeWhile (\<lambda>c. c \<noteq> CHR ''.'') s, tl (dropWhile (\<lambda>c. c \<noteq> CHR ''.'') s)) else None)"

text \<open>\<^verbatim>\<open>variant[:8]\<close> panics on a shorter variant.\<close>

definition LocalProviderName :: "string \<Rightarrow> string \<Rightarrow> string \<Rightarrow> string option" where
  "LocalProviderName providerType providerId variant =
     (if length variant < 8 then None
      else Some (filter (\<lambda>c. c \<noteq> CHR ''_'') (providerType @ ''-'' @ providerId @ ''-'' @ take 8 variant)))"

definition panic_slice :: model_error where
  "panic_slice = ErrInternal ''slice bounds out of range''"

fun set_field :: "string \<Rightarrow> string \<Rightarrow> json \<Rightarrow> json" where
  "set_field k v (JObj fs) = JObj (AList.update k (JStr v) fs)"
| "set_field k v j = j"

fun text_field :: "string \<Rightarrow> json \<Rightarrow> string" where
  "text_field k (JObj fs) = (case map_of fs k of Some (JStr s) \<Rightarrow> s | _ \<Rightarrow> '''')"
| "text_field k j = ''''"

definition getDeploymentGraph :: "runner_kit \<Rightarrow> database \<Rightarrow> string \<Rightarrow> uuid \<Rightarrow> graph result" where
  "getDeploymentGraph kit db org i =
     bindR (GetDeployment db org i) (\<lambda>(_, _, _, encoded).
       case rk_graph_of kit encoded of Inl e \<Rightarrow> Inl (ErrInternal e) | Inr g \<Rightarrow> Inr g)"

definition node_identifier :: "coordinate \<Rightarrow> string" where
  "node_identifier c = stripIdentifierPattern (co_type c @ ''_'' @ co_class c @ ''_'' @ co_id c)"

definition enrich_module :: "json \<Rightarrow> string \<Rightarrow> string \<Rightarrow> graph \<Rightarrow> json" where
  "enrich_module j entity version g =
     (if version \<noteq> '''' then set_field ''module_version'' version (set_field ''module_id'' entity j)
      else case before_last_underscore entity of
        None \<Rightarrow> j
      | Some name \<Rightarrow>
          (case find (\<lambda>(c, n). node_identifier c = name \<and> gn_config n \<noteq> None) (g_nodes g) of
             Some (c, n) \<Rightarrow>
               (case gn_config n of
                  Some m \<Rightarrow> set_field ''module_version'' (mc_version_id m) (set_field ''module_id'' (mc_definition_id m) j)
                | None \<Rightarrow> j)
           | None \<Rightarrow> j))"

text \<open>The local names of the providers in the order they are assigned; a later one replaces an earlier one.\<close>

fun provider_names :: "(string \<times> string) list \<Rightarrow> (string \<times> string) list result" where
  "provider_names [] = Inr []"
| "provider_names ((full, variant) # rest) =
     (case split_at_dot full of
        None \<Rightarrow> provider_names rest
      | Some (t, i) \<Rightarrow>
          (case LocalProviderName t i variant of
             None \<Rightarrow> Inl panic_slice
           | Some name \<Rightarrow> bindR (provider_names rest) (\<lambda>ns. Inr ((name, full) # ns))))"

definition enrich_provider :: "json \<Rightarrow> string \<Rightarrow> graph \<Rightarrow> json result" where
  "enrich_provider j entity g =
     bindR (provider_names (concat (map (\<lambda>(c, n). case gn_config n of None \<Rightarrow> [] | Some m \<Rightarrow> mc_provider_mapping m) (g_nodes g)))) (\<lambda>names.
       Inr (case map_of (rev names) entity of
         None \<Rightarrow> j
       | Some full \<Rightarrow>
           (case split_at_dot full of
              Some (t, i) \<Rightarrow> set_field ''provider_id'' i (set_field ''provider_type'' t j)
            | None \<Rightarrow> j)))"

definition enrichDeploymentError :: "runner_kit \<Rightarrow> database \<Rightarrow> string \<Rightarrow> uuid \<Rightarrow> string \<Rightarrow> string \<Rightarrow> string result" where
  "enrichDeploymentError kit db org i errorCode errorMessage =
     (let plain = ''runner failed with code '' @ errorCode @ '': '' @ errorMessage in
      if errorCode \<noteq> ''TF_DIAGNOSTIC_ERROR'' then Inr plain
      else case rk_parse_object kit errorMessage of
        None \<Rightarrow> Inr plain
      | Some j \<Rightarrow>
          let entity = text_field ''entity_id'' j; kind = text_field ''entity_type'' j; version = text_field ''entity_version'' j in
          if entity = '''' then Inr (rk_marshal kit j)
          else if kind = ''module''
          then bindR (getDeploymentGraph kit db org i) (\<lambda>g. Inr (rk_marshal kit (enrich_module j entity version g)))
          else if kind = ''provider''
          then bindR (getDeploymentGraph kit db org i) (\<lambda>g. bindR (enrich_provider j entity g) (\<lambda>j'. Inr (rk_marshal kit j')))
          else if kind = ''output'' then Inr (rk_marshal kit (set_field ''workload'' entity j))
          else Inr (rk_marshal kit j))"

section \<open>Applying a result\<close>

definition deploymentResultUpdateParams ::
  "runner_kit \<Rightarrow> database \<Rightarrow> string \<Rightarrow> uuid \<Rightarrow> result_body \<Rightarrow> update_params outcome" where
  "deploymentResultUpdateParams kit db org i body =
     (if \<not> status_valid (rb_status body) then Inl (Plain (ErrBadRequest ''unsupported Runner completion status''))
      else if (case rb_outputs body of None \<Rightarrow> False | Some t \<Rightarrow> \<not> rk_base64_reader kit t) then Inl BadOutputs
      else
        let p = \<lparr>up_status = StatusSucceeded, up_status_message = '''', up_outputs = rb_outputs body, up_metrics = zero_metrics,
              up_expected_revision = None, up_completion_proven = False\<rparr> in
        if rb_status body = ''success'' then Inr p
        else case rb_error body of
          None \<Rightarrow> Inr (p\<lparr>up_status := StatusFailed, up_status_message := ''runner failed without error details''\<rparr>)
        | Some (code, message) \<Rightarrow>
            bindR (lift_plain (enrichDeploymentError kit db org i code message)) (\<lambda>enriched.
              Inr (p\<lparr>up_status := StatusFailed, up_status_message := enriched\<rparr>)))"

text \<open>
  The part of an observation: \<open>Handled\<close> when the completion was only recorded,
  \<open>Apply\<close> with the changed parameters and metadata when the Deployment is still to be settled.
\<close>

datatype stage = Handled database | Apply update_params "(string \<times> (string \<times> json) list) list" database

definition store_observation ::
  "instant \<Rightarrow> database \<Rightarrow> uuid \<Rightarrow> result_body \<Rightarrow> update_params \<Rightarrow> (update_params \<times> database) result" where
  "store_observation now db i body p =
     (let unsafe = (rb_outputs body \<noteq> None \<or> rb_metadata body \<noteq> []);
          failed = p\<lparr>up_outputs := None, up_status := StatusFailed, up_status_message :=
            (if rb_status body = ''success'' then ObservationResultUnavailableMessage else ''observation failed'')\<rparr> in
      case rb_observation body of
        Some r \<Rightarrow>
          if up_status p = StatusSucceeded \<and> \<not> unsafe \<and> ValidateObservationResult r = Inr ()
          then bindR (StoreObservationResult now db i r) (\<lambda>db'.
            Inr (p\<lparr>up_outputs := None, up_status_message := ''observation completed''\<rparr>, db'))
          else Inr (failed, db)
      | None \<Rightarrow> Inr (failed, db))"

definition observation_stage ::
  "runner_kit \<Rightarrow> instant \<Rightarrow> database \<Rightarrow> deployment_summary \<Rightarrow> result_body \<Rightarrow> update_params \<Rightarrow> bool \<Rightarrow> stage result" where
  "observation_stage kit now db dep body p proven =
     (if sum_mode dep = ModeObservation
      then bindR (if proven then RecordObservationCompletion (rk_body_sha kit) now db (sum_id dep) body else Inr (False, db)) (\<lambda>(replayed, db1).
        if proven \<and> (replayed \<or> sum_completed_at dep \<noteq> None) then Inr (Handled db1)
        else bindR (store_observation now db1 (sum_id dep) body p) (\<lambda>(p', db2). Inr (Apply p' [] db2)))
      else if rb_observation body \<noteq> None then Inl (ErrBadRequest ''observation result requires observation mode'')
      else Inr (Apply p (rb_metadata body) db))"

definition late_stage ::
  "runner_kit \<Rightarrow> instant \<Rightarrow> database \<Rightarrow> deployment_summary \<Rightarrow> result_body \<Rightarrow> bool \<Rightarrow> (bool \<times> database) result" where
  "late_stage kit now db dep body proven =
     (if proven \<and> sum_mode dep \<noteq> ModeObservation \<and> sum_completed_at dep \<noteq> None
      then RecordLateOrdinaryRunnerCompletion (rk_body_sha kit) now db dep body else Inr (False, db))"

definition result_metrics :: "metrics \<Rightarrow> result_body \<Rightarrow> metrics" where
  "result_metrics m body = m\<lparr>m_tf_total := rb_resources body, m_tf_added := rb_resources_added body,
     m_tf_changed := rb_resources_changed body, m_tf_removed := rb_resources_removed body\<rparr>"

text \<open>The Deployment, its history record and the active resources of its Environment.\<close>

definition settle_result ::
  "instant \<Rightarrow> instant \<Rightarrow> database \<Rightarrow> uuid \<Rightarrow> update_params \<Rightarrow> (string \<times> (string \<times> json) list) list
     \<Rightarrow> (deployment_summary \<times> database) result" where
  "settle_result now wall db i p metadata =
     bindR (UpdateDeploymentStatusAndOutputs now wall db i p) (\<lambda>(dep, db1).
     bindR (CreateDeploymentHistoryRecord db1 dep) (\<lambda>db2.
       let db3 = (if \<not> IsPlanDeployment (sum_mode dep) \<and> up_status p = StatusSucceeded
                  then DiscardOldActiveResources db2 (sum_env_uuid dep) (sum_id dep) else db2);
           updates = map (\<lambda>(h, fs). (h, Some (JObj fs))) (filter (\<lambda>(h, fs). fs \<noteq> []) metadata)
       in Inr (dep, if updates \<noteq> [] then BulkUpdateActiveResources db3 (sum_env_uuid dep) (sum_id dep) updates else db3)))"

definition commonUpdateDeploymentResults ::
  "runner_kit \<Rightarrow> instant \<Rightarrow> instant \<Rightarrow> database \<Rightarrow> string \<Rightarrow> uuid \<Rightarrow> result_body \<Rightarrow> update_params \<Rightarrow> runner_event option \<Rightarrow> bool
     \<Rightarrow> (deployment_summary \<times> database) outcome" where
  "commonUpdateDeploymentResults kit now wall db org i body p event proven =
     (let completed = NewErrConflict ''deployment already completed'' in
      case GetDeployment db org i of
        Inl e \<Rightarrow> Inl (if event \<noteq> None \<and> IsErrNotFound e then TargetInvalid e else Plain e)
      | Inr (dep, _) \<Rightarrow>
          if (case event of None \<Rightarrow> False | Some ev \<Rightarrow> sum_runner_id dep \<noteq> re_runner ev)
          then Inl (TargetInvalid (NewErrConflict ''runner event does not belong to the deployment runner''))
          else
            let (inserted, db1) = (case event of
                  None \<Rightarrow> (True, db)
                | Some ev \<Rightarrow> TryRecordRunnerEvent db (re_event ev) org (re_runner ev) i (re_type ev)) in
            if \<not> inserted then Inr (dep, db1)
            else bindR (lift_plain (late_stage kit now db1 dep body proven)) (\<lambda>(handled, db2).
              if handled then Inr (dep, db2)
              else bindR (lift_plain (observation_stage kit now db2 dep body p proven)) (\<lambda>st.
                case st of
                  Handled db3 \<Rightarrow> Inr (dep, db3)
                | Apply p' metadata db3 \<Rightarrow>
                    if sum_completed_at dep \<noteq> None then Inl (if event \<noteq> None then TargetInvalid completed else Plain completed)
                    else lift_plain (settle_result now wall db3 i
                      (p'\<lparr>up_completion_proven := proven \<and> event = None, up_metrics := result_metrics (sum_metrics dep) body\<rparr>) metadata))))"

datatype results_answer = Results204 | Results200 deployment_summary | Results400 string | Results404 string | Results409 http_answer

fun results_error :: "result_error \<Rightarrow> results_answer outcome" where
  "results_error (Plain (ErrNotFound m)) = Inr (Results404 m)"
| "results_error (Plain (ErrConflict m c d)) = Inr (Results409 (Generate409FromModelErr m c))"
| "results_error e = Inl e"

definition UpdateDeploymentResults ::
  "runner_kit \<Rightarrow> instant \<Rightarrow> instant \<Rightarrow> database \<Rightarrow> string \<Rightarrow> uuid \<Rightarrow> string \<Rightarrow> result_body \<Rightarrow> results_answer outcome \<times> database" where
  "UpdateDeploymentResults kit now wall db org i token body =
     (if token = '''' \<or> GenerateHashedRunnerToken (rk_token_sha kit) (rk_token_salt kit) org (uuid_text i) \<noteq> token
      then (Inr (Results400 ''the runner token is not valid''), db)
      else case deploymentResultUpdateParams kit db org i body of
        Inl e \<Rightarrow> (if e = BadOutputs then Inr (Results400 ''outputs were invalid base64, expected std encoding'') else Inl e, db)
      | Inr p \<Rightarrow>
          (case commonUpdateDeploymentResults kit now wall db org i body p None True of
             Inl e \<Rightarrow> (results_error e, db)
           | Inr (_, db') \<Rightarrow> (Inr Results204, db')))"

definition ApplyRunnerError ::
  "runner_kit \<Rightarrow> instant \<Rightarrow> instant \<Rightarrow> database \<Rightarrow> string \<Rightarrow> string \<Rightarrow> uuid \<Rightarrow> string \<Rightarrow> string \<Rightarrow> string \<Rightarrow> database outcome" where
  "ApplyRunnerError kit now wall db org runner i event code message =
     bindR (commonUpdateDeploymentResults kit now wall db org i
         (empty_body\<lparr>rb_status := ''failure'', rb_error := Some (code, message)\<rparr>)
         \<lparr>up_status = StatusFailed, up_status_message = message, up_outputs = None, up_metrics = zero_metrics,
          up_expected_revision = None, up_completion_proven = False\<rparr>
         (Some \<lparr>re_event = event, re_runner = runner, re_type = ''runner-error''\<rparr>) False)
       (\<lambda>(_, db'). Inr db')"

text \<open>Only the system user may force a failure; the check of the caller is the argument.\<close>

definition InternalForceFailDeployment ::
  "runner_kit \<Rightarrow> instant \<Rightarrow> instant \<Rightarrow> database \<Rightarrow> bool \<Rightarrow> string \<Rightarrow> uuid \<Rightarrow> results_answer outcome \<times> database" where
  "InternalForceFailDeployment kit now wall db is_system org i =
     (if \<not> is_system then (Inl (Plain (ErrInternal ''only the system user id can force a deployment to fail'')), db)
      else case commonUpdateDeploymentResults kit now wall db org i empty_body
          \<lparr>up_status = StatusFailed, up_status_message = ''deployment was manually failed by an operator'', up_outputs = None,
           up_metrics = zero_metrics, up_expected_revision = None, up_completion_proven = False\<rparr> None False of
        Inl e \<Rightarrow> (results_error e, db)
      | Inr (dep, db') \<Rightarrow> (Inr (Results200 dep), db'))"

end
