(* ===== verification/Late_Results.thy ===== *)
theory Late_Results
  imports Runner_Results
begin

text \<open>
  \<^verbatim>\<open>internal/api/late_runner_results.go\<close>: a Runner result that arrives after a
  watchdog failed the Deployment is retained as evidence that the attempt stopped, and never rewrites
  the failure; the application of a bus event of \<^verbatim>\<open>deployments.go\<close> that chooses
  between the ordinary and the late path; and the bus handler with its decision between
  acknowledging, retrying and terminating a delivery.
\<close>

section \<open>Ownership of a late result\<close>

definition digits_of :: "string \<Rightarrow> string" where "digits_of s = takeWhile ascii_digit s"

text \<open>The pattern \<^verbatim>\<open>^vault:v[1-9][0-9]*:.+$\<close>.\<close>

definition vault_ciphertext :: "string \<Rightarrow> bool" where
  "vault_ciphertext s \<longleftrightarrow>
     (let n = digits_of (drop 7 s); rest = drop (7 + length n) s in
      has_prefix s ''vault:v'' \<and> n \<noteq> [] \<and> hd n \<noteq> CHR ''0'' \<and> has_prefix rest '':'' \<and> length rest > 1)"

definition late_event_id :: "uuid \<Rightarrow> string" where
  "late_event_id i = uuid_text i @ '':deployment-result''"

definition create_command_id :: "uuid \<Rightarrow> int \<Rightarrow> string" where
  "create_command_id i revision = ''create-job:'' @ uuid_text i @ '':'' @ format_int revision"

text \<open>The join of the plugin receipt with the anchor of its operation in one Environment.\<close>

definition anchored :: "external_receipt_row \<Rightarrow> anchor_row \<Rightarrow> bool" where
  "anchored r a \<longleftrightarrow> anc_org a = ext_org r \<and> anc_plugin a = ext_plugin r \<and> anc_operation_ref a = ext_operation_ref r \<and>
     ext_environment_uuid r = Some (anc_environment a)"

definition receipt_owns :: "database \<Rightarrow> deployment_summary \<Rightarrow> external_receipt_row \<Rightarrow> anchor_row \<Rightarrow> bool" where
  "receipt_owns db dep r a \<longleftrightarrow>
     anchored r a \<and> ext_deployment r = sum_id dep \<and> ext_org r = sum_org dep \<and>
     ext_environment_uuid r = Some (sum_env_uuid dep) \<and> ext_project r = sum_project dep \<and> ext_env r = sum_env dep \<and>
     ext_project_uuid r = Some (anc_project_uuid a) \<and> anc_project a = ext_project r \<and> anc_env a = ext_env r \<and> ext_fence r > 0 \<and>
     ((ext_service_action r = ''external-deployment.admit'' \<and>
       (ext_forward_deployment r = Some (sum_id dep) \<or> (ext_forward_deployment r = None \<and> anc_first_forward a = sum_id dep))) \<or>
      (ext_service_action r = ''external-deployment.rollback'' \<and> ext_forward_deployment r \<noteq> None)) \<and>
     exists_row (\<lambda>b. dep_id b = anc_rollback_base a \<and> dep_de_id b = sum_env_uuid dep \<and> dep_status b = StatusSucceeded \<and>
       dep_completed_at b \<noteq> None \<and> dep_manifest b \<noteq> [] \<and> dep_graph b \<noteq> [] \<and> dep_tofu b \<noteq> []) (deployments db)"

definition late_owned :: "database \<Rightarrow> deployment_summary \<Rightarrow> bool" where
  "late_owned db dep \<longleftrightarrow> exists_row (\<lambda>r. exists_row (receipt_owns db dep r) (anchors db)) (external_receipts db)"

definition late_base :: "database \<Rightarrow> deployment_summary \<Rightarrow> uuid option" where
  "late_base db dep = map_option (\<lambda>(r, a). anc_rollback_base a)
     (find (\<lambda>(r, a). anchored r a \<and> ext_deployment r = sum_id dep) (List.product (external_receipts db) (anchors db)))"

definition material_owned :: "database \<Rightarrow> deployment_summary \<Rightarrow> string \<Rightarrow> bool" where
  "material_owned db dep recipient \<longleftrightarrow>
     exists_row (\<lambda>r. ext_deployment r = sum_id dep \<and>
       exists_row (\<lambda>m. mat_org m = ext_org r \<and> mat_plugin m = ext_plugin r \<and>
         uuid_text (mat_operation_ref m) = ext_operation_ref r \<and> mat_recipient m = recipient \<and>
         vault_ciphertext (mat_identity m)) (materials db)) (external_receipts db)"

definition maxExternalMaterialEncodedBytes :: nat where
  "maxExternalMaterialEncodedBytes = 24 * 2 ^ 20"

definition check_late_outputs :: "runner_kit \<Rightarrow> database \<Rightarrow> deployment_summary \<Rightarrow> string option \<Rightarrow> unit outcome" where
  "check_late_outputs kit db dep outputs =
     (case outputs of
        None \<Rightarrow> Inr ()
      | Some t \<Rightarrow>
          if length t > maxExternalMaterialEncodedBytes
          then Inl (TargetReason ''late encrypted outputs exceed material retention limit'')
          else if (case rk_base64_decode kit t of None \<Rightarrow> True | Some d \<Rightarrow> \<not> has_prefix d (''age-encryption.org/v1'' @ [CHR 10]))
          then Inl (TargetReason ''late outputs are not age-encrypted material'')
          else case sum_outputs_recipient dep of
            None \<Rightarrow> Inl (TargetReason ''late outputs have no retained recipient'')
          | Some recipient \<Rightarrow>
              guardR (material_owned db dep recipient)
                (TargetReason ''late outputs are not owned by the retained operation recipient''))"

section \<open>Retaining a late result\<close>

text \<open>The Deployment is still the failed head of its Environment and the envelope names its dispatch.\<close>

definition check_late_attempt ::
  "database \<Rightarrow> deployment_summary \<Rightarrow> string \<Rightarrow> event_envelope \<Rightarrow> result_body \<Rightarrow> deployment_summary outcome" where
  "check_late_attempt db previous runner envelope body =
     (case find (\<lambda>e. env_id e = sum_env_uuid previous \<and> same_env (sum_org previous) (sum_project previous) (sum_env previous) e)
         (environments db) of
        None \<Rightarrow> Inl (Plain ErrNoRows)
      | Some e \<Rightarrow>
          bindR (lift_plain (GetDeployment db (sum_org previous) (sum_id previous))) (\<lambda>(dep, _).
          let before = (\<lambda>t. case ee_created_at envelope of None \<Rightarrow> True | Some c \<Rightarrow> c < t) in
          if sum_runner_id dep \<noteq> runner \<or> sum_status dep \<noteq> StatusFailed \<or> sum_completed_at dep = None \<or>
             env_last_state e \<noteq> sum_id dep \<or> before (sum_created_at dep) \<or> \<not> status_valid (rb_status body)
          then Inl (TargetReason ''late completion does not belong to the current failed Runner attempt'')
          else bindR (lift_plain (ReadDeploymentDispatchBudget db (sum_id dep))) (\<lambda>budget.
            if (case bud_first_attempt_at budget of None \<Rightarrow> True | Some t \<Rightarrow> before t) \<or> bud_revision budget + 1 \<noteq> sum_revision dep
            then Inl (TargetReason ''late completion does not match the durable dispatch attempt'')
            else if ee_command envelope \<noteq> '''' \<and> ee_command envelope \<noteq> create_command_id (sum_id dep) (bud_revision budget)
            then Inl (TargetReason ''late completion command does not match durable dispatch revision'')
            else if exists_row (\<lambda>l. lease_environment l = sum_env_uuid dep \<and>
                (lease_holder l \<noteq> sum_id dep \<or> lease_deployment l \<noteq> Some (sum_id dep))) (leases db)
            then Inl (TargetReason ''late completion conflicts with another Environment lease'')
            else Inr dep)))"

definition check_late_base :: "database \<Rightarrow> deployment_summary \<Rightarrow> unit outcome" where
  "check_late_base db dep =
     (if \<not> late_owned db dep
      then Inl (TargetReason ''late completion has no exact retained operation receipt and rollback anchor'')
      else case late_base db dep of
        None \<Rightarrow> Inl (Plain ErrNoRows)
      | Some b \<Rightarrow>
          bindR (lift_plain (GetDeployment db (sum_org dep) b)) (\<lambda>(base, manifest, tofu, graph).
            guardR (sum_env_uuid base = sum_env_uuid dep \<and> sum_project base = sum_project dep \<and> sum_env base = sum_env dep \<and>
                sum_status base = StatusSucceeded \<and> sum_completed_at base \<noteq> None \<and> CompleteDeploymentSnapshot manifest tofu graph)
              (TargetReason ''late completion has no complete captured successful rollback base'')))"

text \<open>
  \<^verbatim>\<open>INSERT ... ON CONFLICT DO NOTHING\<close> on the Deployment or the event, then the
  exact row has to be there.
\<close>

definition insert_late_result :: "database \<Rightarrow> late_result_row \<Rightarrow> database outcome" where
  "insert_late_result db l =
     (if exists_row (\<lambda>x. late_deployment x = late_deployment l \<or> late_event x = late_event l) (late_results db)
      then if exists_row (\<lambda>x. late_deployment x = late_deployment l \<and> late_event x = late_event l \<and> late_org x = late_org l \<and>
             late_runner x = late_runner l \<and> late_payload_sha256 x = late_payload_sha256 l \<and> late_success x = late_success l \<and>
             late_occurred_at x = late_occurred_at l \<and> late_outputs x = late_outputs l \<and> late_recipient x = late_recipient l)
             (late_results db)
        then Inr db else Inl (TargetReason ''late completion conflicts with an immutable retained result'')
      else Inr (db\<lparr>late_results := late_results db @ [l]\<rparr>))"

definition retainLateRunnerResult ::
  "runner_kit \<Rightarrow> instant \<Rightarrow> database \<Rightarrow> deployment_summary \<Rightarrow> string \<Rightarrow> event_envelope \<Rightarrow> string \<Rightarrow> result_body \<Rightarrow> database outcome" where
  "retainLateRunnerResult kit now db previous runner envelope digest body =
     (let event = ee_event envelope in
      if event \<noteq> late_event_id (sum_id previous)
      then Inl (TargetReason ''late completion lacks exact gateway Deployment event identity'')
      else case find (\<lambda>l. late_deployment l = sum_id previous \<and> late_org l = sum_org previous \<and> late_runner l = runner \<and>
          late_event l = event) (late_results db) of
        Some l \<Rightarrow>
          if late_payload_sha256 l \<noteq> digest
          then Inl (TargetReason ''late completion conflicts with an immutable retained result'')
          else Inr db
      | None \<Rightarrow>
          if exists_row (\<lambda>x. inb_event x = event \<and> inb_org x = sum_org previous \<and> inb_runner x = runner \<and>
              inb_deployment x = sum_id previous \<and> inb_type x = ''deployment-result'') (runner_inbox db)
          then Inr db
          else bindR (check_late_attempt db previous runner envelope body) (\<lambda>dep.
            bindR (check_late_base db dep) (\<lambda>_.
            bindR (check_late_outputs kit db dep (rb_outputs body)) (\<lambda>_.
            bindR (insert_late_result db \<lparr>late_deployment = sum_id dep, late_event = event, late_org = sum_org dep,
                late_runner = runner, late_payload_sha256 = digest, late_success = (rb_status body = ''success''),
                late_occurred_at = opt_or (ee_created_at envelope) 0, late_received_at = now, late_outputs = rb_outputs body,
                late_recipient = sum_outputs_recipient dep\<rparr>) (\<lambda>db1.
              let db2 = RecordDeploymentCompletion now (sum_id dep) db1 in
              Inr (db2\<lparr>leases := delete_rows (\<lambda>l. lease_deployment l = Some (sum_id dep) \<and> lease_holder l = sum_id dep)
                (leases db2)\<rparr>))))))"

definition lateSuccessfulOutputs :: "database \<Rightarrow> deployment_summary \<Rightarrow> bool" where
  "lateSuccessfulOutputs db dep \<longleftrightarrow>
     exists_row (\<lambda>l. late_deployment l = sum_id dep \<and> late_org l = sum_org dep \<and> late_runner l = sum_runner_id dep \<and>
       late_success l \<and> late_outputs l \<noteq> None \<and> sum_outputs_recipient dep \<noteq> None \<and> late_recipient l = sum_outputs_recipient dep)
       (late_results db)"

definition retainLateOrdinaryCapacityCompletion ::
  "runner_kit \<Rightarrow> instant \<Rightarrow> database \<Rightarrow> deployment_summary \<Rightarrow> string \<Rightarrow> result_body \<Rightarrow> event_envelope \<Rightarrow> (bool \<times> database) outcome" where
  "retainLateOrdinaryCapacityCompletion kit now db previous runner body envelope =
     bindR (lift_plain (GetDeployment db (sum_org previous) (sum_id previous))) (\<lambda>(dep, _).
       if sum_runner_id dep \<noteq> runner then Inl (TargetReason ''foreign Runner identity'')
       else bindR (if sum_mode dep = ModeObservation then Inr ()
          else bindR (lift_plain (ReadDeploymentStopEvidence db (sum_id dep))) (\<lambda>ev.
            if \<not> ev_plugin_dispatched ev \<and> ev_capacity_reserved ev
            then bindR (lift_plain (ReadDeploymentDispatchBudget db (sum_id dep))) (\<lambda>budget.
              guardR (\<not> ((case bud_first_attempt_at budget of None \<Rightarrow> True
                    | Some t \<Rightarrow> (case ee_created_at envelope of None \<Rightarrow> True | Some c \<Rightarrow> c < t)) \<or>
                  ee_event envelope \<noteq> late_event_id (sum_id dep) \<or>
                  (ee_command envelope \<noteq> '''' \<and> ee_command envelope \<noteq> create_command_id (sum_id dep) (bud_revision budget))))
                (TargetReason ''late completion does not identify owned Runner attempt''))
            else Inr ())) (\<lambda>_.
         bindR (lift_plain (RecordLateOrdinaryRunnerCompletion (rk_body_sha kit) now db dep body)) (\<lambda>(handled, db').
           Inr (handled, if handled then db' else db))))"

section \<open>Bus events\<close>

definition applyRunnerDeploymentResult ::
  "runner_kit \<Rightarrow> instant \<Rightarrow> instant \<Rightarrow> database \<Rightarrow> string \<Rightarrow> string \<Rightarrow> uuid \<Rightarrow> string \<Rightarrow> result_body \<Rightarrow> event_envelope option
     \<Rightarrow> database outcome" where
  "applyRunnerDeploymentResult kit now wall db org runner i event body envelope =
     (case deploymentResultUpdateParams kit db org i body of
        Inl (Plain e) \<Rightarrow> Inl (if IsErrNotFound e then TargetInvalid e else Plain e)
      | Inl e \<Rightarrow> Inl e
      | Inr p \<Rightarrow>
          let ordinary = commonUpdateDeploymentResults kit now wall db org i body p
                (Some \<lparr>re_event = event, re_runner = runner, re_type = ''deployment-result''\<rparr>) True in
          case envelope of
            None \<Rightarrow> bindR ordinary (\<lambda>(_, db'). Inr db')
          | Some env \<Rightarrow>
              (case GetDeployment db org i of
                 Inl e \<Rightarrow> Inl (TargetInvalid e)
               | Inr (dep, _) \<Rightarrow>
                   if sum_completed_at dep \<noteq> None \<and> sum_status dep = StatusFailed \<and> sum_mode dep \<noteq> ModeObservation
                   then bindR (retainLateOrdinaryCapacityCompletion kit now db dep runner body env) (\<lambda>(handled, db').
                     if handled then Inr db' else retainLateRunnerResult kit now db dep runner env (rk_envelope_sha kit env) body)
                   else case ordinary of
                     Inr (_, db') \<Rightarrow> Inr db'
                   | Inl e \<Rightarrow>
                       if IsTargetInvalid e \<and> sum_status dep = StatusFailed \<and> sum_completed_at dep \<noteq> None
                       then retainLateRunnerResult kit now db dep runner env (rk_envelope_sha kit env) body
                       else Inl e))"

text \<open>\<open>wall\<close> is read before the transaction; a minute of clock skew is tolerated.\<close>

definition ApplyRunnerDeploymentResultEnvelope ::
  "runner_kit \<Rightarrow> instant \<Rightarrow> instant \<Rightarrow> database \<Rightarrow> event_envelope \<Rightarrow> result_body \<Rightarrow> database outcome" where
  "ApplyRunnerDeploymentResultEnvelope kit now wall db env body =
     (case rk_parse_uuid kit (ee_deployment env) of
        None \<Rightarrow> Inl (TargetReason ''invalid completion envelope'')
      | Some i \<Rightarrow>
          if ee_protocol env \<noteq> rk_protocol kit \<or> ee_type env \<noteq> ''deployment-result'' \<or> ee_event env = '''' \<or>
             (case ee_created_at env of None \<Rightarrow> True | Some t \<Rightarrow> t > wall + minute)
          then Inl (TargetReason ''invalid completion envelope'')
          else if rk_body_of kit (ee_payload env) \<noteq> Some body
          then Inl (TargetReason ''completion body differs from authenticated envelope'')
          else applyRunnerDeploymentResult kit now wall db (ee_org env) (ee_runner env) i (ee_event env) body (Some env))"

datatype verdict = Acknowledged | Terminal | Retried result_error

definition applicationError :: "result_error \<Rightarrow> verdict" where
  "applicationError e = (if IsTargetInvalid e then Terminal else Retried e)"

definition apply_verdict :: "database \<Rightarrow> database outcome \<Rightarrow> verdict \<times> database" where
  "apply_verdict db r = (case r of Inl e \<Rightarrow> (applicationError e, db) | Inr db' \<Rightarrow> (Acknowledged, db'))"

definition handle_runner_event ::
  "runner_kit \<Rightarrow> instant \<Rightarrow> instant \<Rightarrow> database \<Rightarrow> string \<Rightarrow> string \<Rightarrow> verdict \<times> database" where
  "handle_runner_event kit now wall db subject data =
     (case rk_envelope_of kit data of
        None \<Rightarrow> (Terminal, db)
      | Some env \<Rightarrow>
          if ee_protocol env \<noteq> rk_protocol kit \<or> (ee_type env \<noteq> ''deployment-result'' \<and> ee_type env \<noteq> ''runner-error'') \<or>
             ee_event env = '''' \<or> rk_subject kit (ee_org env) (ee_runner env) (ee_type env) \<noteq> Some subject
          then (Terminal, db)
          else case rk_parse_uuid kit (ee_deployment env) of
            None \<Rightarrow> (Terminal, db)
          | Some i \<Rightarrow>
              if ee_type env = ''deployment-result''
              then (case rk_body_of kit (ee_payload env) of
                  None \<Rightarrow> (Terminal, db)
                | Some body \<Rightarrow>
                    if \<not> status_valid (rb_status body) then (Terminal, db)
                    else apply_verdict db (ApplyRunnerDeploymentResultEnvelope kit now wall db env body))
              else (case rk_error_of kit (ee_payload env) of
                  None \<Rightarrow> (Terminal, db)
                | Some x \<Rightarrow>
                    if (rp_job x \<noteq> '''' \<and> rp_job x \<noteq> ee_deployment env) \<or> rp_code x = '''' \<or> rp_message x = '''' then (Terminal, db)
                    else if rp_retryable x then (Acknowledged, db)
                    else apply_verdict db (ApplyRunnerError kit now wall db (ee_org env) (ee_runner env) i (ee_event env)
                      (rp_code x) (rp_message x))))"

end
