(* ===== verification/External_Operations.thy ===== *)
theory External_Operations
  imports Requests Late_Results
begin

text \<open>
  The records that tie Deployments to the operations of plugins: the receipts of
  \<^verbatim>\<open>internal/model/external_operation_deployments.go\<close>, the planning snapshots of
  \<^verbatim>\<open>external_deployment_plans.go\<close>, the encryption material of
  \<^verbatim>\<open>external_operation_material.go\<close> and the rollback anchors of
  \<^verbatim>\<open>external_operation_rollback_anchors.go\<close>. The advisory locks are the atomicity
  of a transaction; \<open>now\<close> is the default of \<^verbatim>\<open>created_at\<close>.
\<close>

section \<open>Keys\<close>

definition ext_receipt_key :: "external_receipt_row \<Rightarrow> string \<times> string \<times> string" where
  "ext_receipt_key r = (ext_org r, ext_plugin r, ext_request r)"

definition plan_key :: "plan_row \<Rightarrow> string \<times> string \<times> string" where
  "plan_key p = (pln_org p, pln_plugin p, pln_request p)"

definition material_key :: "material_row \<Rightarrow> string \<times> string \<times> uuid" where
  "material_key m = (mat_org m, mat_plugin m, mat_operation_ref m)"

definition anchor_key :: "anchor_row \<Rightarrow> string \<times> string \<times> string \<times> uuid" where
  "anchor_key a = (anc_org a, anc_plugin a, anc_operation_ref a, anc_environment a)"

interpretation receipt_tab: db_table external_receipts external_receipts_update ext_receipt_key
  by unfold_locales simp
interpretation plan_tab: db_table plans plans_update plan_key
  by unfold_locales simp
interpretation material_tab: db_table materials materials_update material_key
  by unfold_locales simp
interpretation anchor_tab: db_table anchors anchors_update anchor_key
  by unfold_locales simp

text \<open>The pattern \<^verbatim>\<open>^[0-9a-f]{64}$\<close>.\<close>

definition sha256_text :: "string \<Rightarrow> bool" where
  "sha256_text s \<longleftrightarrow> length s = 64 \<and> list_all lower_hex s"

section \<open>Receipts\<close>

definition GetExternalOperationDeploymentReceipt :: "database \<Rightarrow> string \<Rightarrow> string \<Rightarrow> string \<Rightarrow> external_receipt_row result" where
  "GetExternalOperationDeploymentReceipt db org plugin request =
     (case lookup_row ext_receipt_key (org, plugin, request) (external_receipts db) of
        None \<Rightarrow> Inl (ErrNotFound ''no deployment receipt found for the external operation request'')
      | Some r \<Rightarrow> Inr r)"

definition ReadExternalOperationDeploymentReceiptByDeployment ::
  "database \<Rightarrow> string \<Rightarrow> string \<Rightarrow> uuid \<Rightarrow> external_receipt_row result" where
  "ReadExternalOperationDeploymentReceiptByDeployment db org plugin i =
     (case find (\<lambda>r. ext_org r = org \<and> ext_plugin r = plugin \<and> ext_deployment r = i) (external_receipts db) of
        None \<Rightarrow> Inl (ErrNotFound ''no external operation receipt found for the deployment'')
      | Some r \<Rightarrow> Inr r)"

text \<open>The primary key, the unique Deployment and the checks of the table.\<close>

definition CreateExternalOperationDeploymentReceipt ::
  "instant \<Rightarrow> database \<Rightarrow> external_receipt_row \<Rightarrow> (external_receipt_row \<times> database) result" where
  "CreateExternalOperationDeploymentReceipt now db receipt =
     (let r = receipt\<lparr>ext_created_at := now\<rparr> in
      if \<not> (ext_fence r > 0 \<and> sha256_text (ext_body_sha256 r)) \<or>
         exists_row (\<lambda>x. ext_receipt_key x = ext_receipt_key r \<or> ext_deployment x = ext_deployment r) (external_receipts db)
      then Inl (ErrInternal ''failed to insert external operation deployment receipt'')
      else Inr (r, db\<lparr>external_receipts := external_receipts db @ [r]\<rparr>))"

section \<open>Planning snapshots\<close>

definition plan_fingerprint_text :: "string \<Rightarrow> bool" where
  "plan_fingerprint_text s \<longleftrightarrow> has_prefix s ''sha256:'' \<and> sha256_text (drop 7 s)"

text \<open>
  \<open>jsonb\<close> is the text a \<^verbatim>\<open>JSONB\<close> column returns for a document, \<open>None\<close> for
  one that is not JSON; \<open>plan_ok\<close> are the checks on the documents. Checks come before the
  conflict of the request, that before the one of the identity.
\<close>

definition stored_plan :: "(string \<Rightarrow> string option) \<Rightarrow> instant \<Rightarrow> plan_row \<Rightarrow> plan_row option" where
  "stored_plan jsonb now p =
     (case (jsonb (pln_manifest p), jsonb (pln_graph p), jsonb (pln_diff p)) of
        (Some m, Some g, Some d) \<Rightarrow> Some (p\<lparr>pln_manifest := m, pln_graph := g, pln_diff := d, pln_created_at := now\<rparr>)
      | _ \<Rightarrow> None)"

definition GetExternalDeploymentPlanSnapshot :: "database \<Rightarrow> string \<Rightarrow> string \<Rightarrow> string \<Rightarrow> plan_row result" where
  "GetExternalDeploymentPlanSnapshot db org plugin request =
     (case lookup_row plan_key (org, plugin, request) (plans db) of
        None \<Rightarrow> Inl (ErrNotFound ''external deployment plan snapshot not found'')
      | Some p \<Rightarrow> Inr p)"

definition insert_plan :: "(string \<Rightarrow> string option) \<Rightarrow> (plan_row \<Rightarrow> bool) \<Rightarrow> instant \<Rightarrow> database \<Rightarrow> plan_row \<Rightarrow> database result" where
  "insert_plan jsonb plan_ok now db candidate =
     (let refused = Inl (ErrInternal ''failed to store external deployment plan snapshot'') in
      case stored_plan jsonb now candidate of
        None \<Rightarrow> refused
      | Some p \<Rightarrow>
          if \<not> (sha256_text (pln_body_sha256 p) \<and> plan_fingerprint_text (pln_fingerprint p) \<and> plan_ok p) then refused
          else if exists_row (\<lambda>x. plan_key x = plan_key p) (plans db) then Inr db
          else if exists_row (\<lambda>x. pln_id x = pln_id p) (plans db) then refused
          else Inr (db\<lparr>plans := plans db @ [p]\<rparr>))"

definition CreateOrGetExternalDeploymentPlanSnapshot ::
  "(string \<Rightarrow> string option) \<Rightarrow> (plan_row \<Rightarrow> bool) \<Rightarrow> instant \<Rightarrow> uuid \<Rightarrow> database \<Rightarrow> plan_row \<Rightarrow> (plan_row \<times> database) result" where
  "CreateOrGetExternalDeploymentPlanSnapshot jsonb plan_ok now fresh db candidate =
     (let c = (if pln_id candidate = uuid_nil then candidate\<lparr>pln_id := fresh\<rparr> else candidate) in
      bindR (insert_plan jsonb plan_ok now db c) (\<lambda>db1.
      bindR (GetExternalDeploymentPlanSnapshot db1 (pln_org c) (pln_plugin c) (pln_request c)) (\<lambda>p.
        if pln_actor p \<noteq> pln_actor c \<or> pln_body_sha256 p \<noteq> pln_body_sha256 c \<or> pln_project p \<noteq> pln_project c \<or>
           pln_project_uuid p \<noteq> pln_project_uuid c \<or> pln_env p \<noteq> pln_env c \<or> pln_environment p \<noteq> pln_environment c
        then Inl (NewErrConflict ''external deployment planning request identity was reused with different authority or scope'')
        else Inr (p, db1))))"

definition GetExternalDeploymentPlanSnapshotByID :: "database \<Rightarrow> string \<Rightarrow> string \<Rightarrow> uuid \<Rightarrow> plan_row result" where
  "GetExternalDeploymentPlanSnapshotByID db org plugin i =
     (case find (\<lambda>p. pln_id p = i \<and> pln_org p = org \<and> pln_plugin p = plugin) (plans db) of
        None \<Rightarrow> Inl (ErrNotFound ''external deployment plan snapshot not found'')
      | Some p \<Rightarrow> GetExternalDeploymentPlanSnapshot db org plugin (pln_request p))"

section \<open>Encryption material\<close>

definition GetExternalOperationMaterial :: "database \<Rightarrow> string \<Rightarrow> string \<Rightarrow> uuid \<Rightarrow> material_row result" where
  "GetExternalOperationMaterial db org plugin operation =
     (case lookup_row material_key (org, plugin, operation) (materials db) of
        None \<Rightarrow> Inl (ErrNotFound ''external operation encryption material not found'')
      | Some m \<Rightarrow> Inr m)"

definition StoreExternalOperationMaterial :: "instant \<Rightarrow> database \<Rightarrow> material_row \<Rightarrow> (material_row \<times> database) result" where
  "StoreExternalOperationMaterial now db m =
     (let db' = (if exists_row (\<lambda>x. material_key x = material_key m) (materials db) then db
                 else db\<lparr>materials := materials db @ [m\<lparr>mat_created_at := now\<rparr>]\<rparr>) in
      bindR (GetExternalOperationMaterial db' (mat_org m) (mat_plugin m) (mat_operation_ref m)) (\<lambda>stored. Inr (stored, db')))"

section \<open>Rollback anchors\<close>

text \<open>A scope is an anchor whose two Deployments are not read.\<close>

definition ReadExternalOperationRollbackAnchor :: "database \<Rightarrow> anchor_row \<Rightarrow> anchor_row option result" where
  "ReadExternalOperationRollbackAnchor db scope =
     (case lookup_row anchor_key (anchor_key scope) (anchors db) of
        None \<Rightarrow> Inr None
      | Some a \<Rightarrow>
          if anc_project a \<noteq> anc_project scope \<or> anc_env a \<noteq> anc_env scope \<or> anc_project_uuid a \<noteq> anc_project_uuid scope
          then Inl (NewErrConflict ''operation rollback lineage scope changed'')
          else Inr (Some a))"

definition CreateExternalOperationRollbackAnchor :: "database \<Rightarrow> anchor_row \<Rightarrow> database result" where
  "CreateExternalOperationRollbackAnchor db a =
     (if anc_first_forward a = uuid_nil \<or> anc_rollback_base a = uuid_nil \<or> anc_project_uuid a = uuid_nil \<or>
         anc_environment a = uuid_nil \<or> anc_org a = '''' \<or> anc_plugin a = '''' \<or> anc_operation_ref a = '''' \<or>
         anc_project a = '''' \<or> anc_env a = ''''
      then Inl (ErrBadRequest ''operation rollback anchor is incomplete'')
      else if exists_row (\<lambda>x. anchor_key x = anchor_key a \<or> anc_first_forward x = anc_first_forward a) (anchors db)
      then Inl (ErrInternal ''failed to retain immutable operation rollback anchor'')
      else Inr (db\<lparr>anchors := anchors db @ [a]\<rparr>))"

section \<open>What the records keep\<close>

text \<open>Receipts, plans, material and anchors are only added.\<close>

definition lineage_kept :: "database \<Rightarrow> database \<Rightarrow> bool" where
  "lineage_kept db db' \<longleftrightarrow>
     (\<forall>k. \<forall>r. lookup_row ext_receipt_key k (external_receipts db) = Some r \<longrightarrow> lookup_row ext_receipt_key k (external_receipts db') = Some r) \<and>
     (\<forall>k. \<forall>a. lookup_row anchor_key k (anchors db) = Some a \<longrightarrow> lookup_row anchor_key k (anchors db') = Some a)"

lemma lineage_kept_refl [simp]: "lineage_kept db db"
  by (simp add: lineage_kept_def)

lemma lineage_kept_trans: "lineage_kept a b \<Longrightarrow> lineage_kept b c \<Longrightarrow> lineage_kept a c"
  by (simp add: lineage_kept_def)

lemma lineage_kept_same:
  "external_receipts db' = external_receipts db \<Longrightarrow> anchors db' = anchors db \<Longrightarrow> lineage_kept db db'"
  by (simp add: lineage_kept_def)

lemma CreateReceipt_cases:
  assumes "CreateExternalOperationDeploymentReceipt now db receipt = Inr (r, db')"
  shows "r = receipt\<lparr>ext_created_at := now\<rparr>" "db' = db\<lparr>external_receipts := external_receipts db @ [r]\<rparr>"
    "lookup_row ext_receipt_key (ext_receipt_key r) (external_receipts db) = None"
    "\<not> exists_row (\<lambda>x. ext_deployment x = ext_deployment r) (external_receipts db)"
  using assms by (auto simp: CreateExternalOperationDeploymentReceipt_def Let_def lookup_row_None split: if_splits)

lemma CreateAnchor_cases:
  assumes "CreateExternalOperationRollbackAnchor db a = Inr db'"
  shows "db' = db\<lparr>anchors := anchors db @ [a]\<rparr>" "lookup_row anchor_key (anchor_key a) (anchors db) = None"
  using assms by (auto simp: CreateExternalOperationRollbackAnchor_def lookup_row_None split: if_splits)

lemma lineage_kept_receipt: "CreateExternalOperationDeploymentReceipt now db receipt = Inr (r, db') \<Longrightarrow> lineage_kept db db'"
  by (drule CreateReceipt_cases(2)) (simp add: lineage_kept_def lookup_row_append)

lemma lineage_kept_anchor: "CreateExternalOperationRollbackAnchor db a = Inr db' \<Longrightarrow> lineage_kept db db'"
  by (drule CreateAnchor_cases(1)) (simp add: lineage_kept_def lookup_row_append)

end
