(* ===== verification/External_Admission.thy ===== *)
theory External_Admission
  imports External_Operations
begin

text \<open>
  The admission of plugin requests: \<^verbatim>\<open>internal/api/external_operation_deployments.go\<close>
  (the service), \<^verbatim>\<open>external_operation_grant_client.go\<close> (the check of the grant by
  Core) and \<^verbatim>\<open>external_operation_material.go\<close>. Core, Vault and the age library are
  parameters; a rolled back transaction leaves the database as it was.
\<close>

section \<open>Data\<close>

record plugin_claims =
  pg_audience :: string
  pg_operation :: string
  pg_org :: string
  pg_plugin :: string
  pg_actor :: string
  pg_request :: string
  pg_body_sha256 :: string

record grant_request =
  gr_operation_ref :: string
  gr_fence :: int
  gr_action :: string
  gr_dispatch :: string
  gr_digest :: string
  gr_actor :: string
  gr_project_uuid :: uuid
  gr_env_uuid :: uuid
  gr_project :: string
  gr_env :: string

record authorized_deployment =
  au_operation_ref :: string
  au_fence :: int
  au_action :: string
  au_dispatch :: string
  au_digest :: string
  au_actor :: string
  au_project_uuid :: uuid
  au_env_uuid :: uuid

text \<open>\<^verbatim>\<open>ErrExternalDeploymentUnauthorized\<close>, \<^verbatim>\<open>ErrExternalDeploymentUnavailable\<close> and every other error.\<close>

datatype ext_error = ExtUnauthorized | ExtUnavailable | ExtFailure create_error

type_synonym authorizer = "plugin_claims \<Rightarrow> grant_request \<Rightarrow> ext_error + authorized_deployment"

definition ExternalDeploymentAudience :: string where "ExternalDeploymentAudience = ''platform-orchestrator-dp''"
definition ExternalDeploymentAction :: string where "ExternalDeploymentAction = ''external-deployment.admit''"
definition ExternalDeploymentRollbackAction :: string where "ExternalDeploymentRollbackAction = ''external-deployment.rollback''"

lemmas action_defs = ExternalDeploymentAction_def ExternalDeploymentRollbackAction_def

definition ext_conflict :: "string \<Rightarrow> ext_error" where
  "ext_conflict message = ExtFailure (ModelFailure (NewErrConflict message))"

definition lift_ext :: "'a result \<Rightarrow> ext_error + 'a" where
  "lift_ext r = map_sum (\<lambda>e. ExtFailure (ModelFailure e)) id r"

lemma lift_ext_simps [simp]: "lift_ext (Inl e) = Inl (ExtFailure (ModelFailure e))" "lift_ext (Inr x) = Inr x"
  by (simp_all add: lift_ext_def)

lemma lift_ext_Inr [simp]: "lift_ext r = Inr x \<longleftrightarrow> r = Inr x"
  by (cases r) simp_all

section \<open>The grant of Core\<close>

definition lower_alnum :: "char \<Rightarrow> bool" where
  "lower_alnum c \<longleftrightarrow> c \<in> set ''abcdefghijklmnopqrstuvwxyz0123456789''"

text \<open>One label of a plugin identity: \<^verbatim>\<open>[a-z0-9](?:[a-z0-9-]{0,61}[a-z0-9])?\<close>.\<close>

definition plugin_label :: "string \<Rightarrow> bool" where
  "plugin_label s \<longleftrightarrow> s \<noteq> [] \<and> length s \<le> 63 \<and> lower_alnum (hd s) \<and> lower_alnum (last s) \<and>
     list_all (\<lambda>c. lower_alnum c \<or> c = CHR ''-'') s"

definition externalPluginIDPattern :: "string \<Rightarrow> bool" where
  "externalPluginIDPattern s \<longleftrightarrow> (let labels = split_on (CHR ''.'') s in length labels \<ge> 2 \<and> list_all plugin_label labels)"

definition validExternalPathIdentity :: "string \<Rightarrow> string \<Rightarrow> bool" where
  "validExternalPathIdentity org plugin \<longleftrightarrow>
     org \<noteq> '''' \<and> length org \<le> 255 \<and> \<not> list_ex (\<lambda>c. c = CHR ''/'' \<or> c = CHR 92) org \<and> org \<noteq> ''.'' \<and> org \<noteq> ''..'' \<and>
     length plugin \<le> 255 \<and> externalPluginIDPattern plugin"

text \<open>What Core is asked and what it answers.\<close>

record dispatch_check =
  dc_fence :: int
  dc_action :: string
  dc_dispatch :: string
  dc_project :: uuid
  dc_environment :: uuid
  dc_digest :: string

record dispatch_authorization =
  da_operation :: uuid
  da_fence :: int
  da_action :: string
  da_dispatch :: string
  da_plugin :: string
  da_org :: string
  da_project :: uuid
  da_environment :: uuid
  da_digest :: string
  da_actor :: uuid

text \<open>
  \<open>gc_call\<close> is the request to Core: no answer, or a status with the strictly decoded body,
  \<open>None\<close> when it is too long or not one JSON object of that shape.
\<close>

record grant_client =
  gc_configured :: bool
  gc_parse_uuid :: "string \<Rightarrow> uuid option"
  gc_call :: "string \<Rightarrow> string \<Rightarrow> uuid \<Rightarrow> dispatch_check \<Rightarrow> (int \<times> dispatch_authorization option) option"

definition grant_matches :: "plugin_claims \<Rightarrow> grant_request \<Rightarrow> uuid \<Rightarrow> dispatch_authorization \<Rightarrow> bool" where
  "grant_matches claims rq operation x \<longleftrightarrow>
     da_operation x = operation \<and> da_fence x = gr_fence rq \<and> da_action x = gr_action rq \<and> da_dispatch x = gr_dispatch rq \<and>
     da_plugin x = pg_plugin claims \<and> da_org x = pg_org claims \<and> da_project x = gr_project_uuid rq \<and>
     da_environment x = gr_env_uuid rq \<and> da_digest x = gr_digest rq \<and> uuid_text (da_actor x) = pg_actor claims"

definition AuthorizeExternalDeployment :: "grant_client \<Rightarrow> authorizer" where
  "AuthorizeExternalDeployment gc claims rq =
     (if \<not> gc_configured gc then Inl ExtUnavailable
      else if \<not> validExternalPathIdentity (pg_org claims) (pg_plugin claims) then Inl ExtUnauthorized
      else case gc_parse_uuid gc (gr_operation_ref rq) of
        None \<Rightarrow> Inl ExtUnauthorized
      | Some operation \<Rightarrow>
          (case gc_call gc (pg_org claims) (pg_plugin claims) operation
              \<lparr>dc_fence = gr_fence rq, dc_action = gr_action rq, dc_dispatch = gr_dispatch rq, dc_project = gr_project_uuid rq,
               dc_environment = gr_env_uuid rq, dc_digest = gr_digest rq\<rparr> of
             None \<Rightarrow> Inl ExtUnavailable
           | Some (status, answer) \<Rightarrow>
               if status \<in> {401, 403, 404, 409} then Inl ExtUnauthorized
               else if status \<noteq> 200 then Inl ExtUnavailable
               else case answer of
                 None \<Rightarrow> Inl ExtUnavailable
               | Some x \<Rightarrow>
                   if \<not> grant_matches claims rq operation x then Inl ExtUnauthorized
                   else Inr \<lparr>au_operation_ref = uuid_text (da_operation x), au_fence = da_fence x, au_action = da_action x,
                     au_dispatch = da_dispatch x, au_digest = da_digest x, au_actor = uuid_text (da_actor x),
                     au_project_uuid = da_project x, au_env_uuid = da_environment x\<rparr>))"

section \<open>Admission\<close>

record external_creation =
  xc_deployment :: deployment_summary
  xc_plan :: "uuid option"
  xc_base :: "uuid option"
  xc_forward :: "uuid option"
  xc_retry :: "uuid option"

type_synonym external_creator = "database \<Rightarrow> uuid \<Rightarrow> ext_error + external_creation \<times> database"

record admission_request =
  ar_claims :: plugin_claims
  ar_operation_ref :: string
  ar_fence :: int
  ar_action :: string
  ar_project_uuid :: uuid
  ar_env_uuid :: uuid
  ar_project :: string
  ar_env :: string
  ar_create :: external_creator

definition validateExternalDeploymentAdmission :: "admission_request \<Rightarrow> unit result" where
  "validateExternalDeploymentAdmission rq =
     (let claims = ar_claims rq in
      if pg_audience claims \<noteq> ExternalDeploymentAudience \<or> pg_operation claims \<noteq> ExternalDeploymentAction
      then Inl (ErrBadRequest ''invalid external deployment audience or action'')
      else if pg_org claims = '''' \<or> pg_plugin claims = '''' \<or> pg_actor claims = '''' \<or> pg_request claims = '''' \<or>
        pg_body_sha256 claims = '''' \<or> ar_operation_ref rq = '''' \<or> ar_fence rq \<le> 0 \<or> ar_action rq = '''' \<or>
        ar_project_uuid rq = uuid_nil \<or> ar_env_uuid rq = uuid_nil \<or> ar_project rq = '''' \<or> ar_env rq = ''''
      then Inl (ErrBadRequest ''external deployment admission is incomplete'')
      else guardR (ar_action rq = ExternalDeploymentAction \<or> ar_action rq = ExternalDeploymentRollbackAction)
        (ErrBadRequest ''invalid external deployment service action''))"

definition externalDeploymentReceiptMatches :: "external_receipt_row \<Rightarrow> admission_request \<Rightarrow> uuid \<Rightarrow> authorized_deployment \<Rightarrow> bool" where
  "externalDeploymentReceiptMatches r rq actor au \<longleftrightarrow>
     ext_operation_ref r = au_operation_ref au \<and> ext_fence r = au_fence au \<and> ext_assertion_action r = pg_operation (ar_claims rq) \<and>
     ext_service_action r = ar_action rq \<and> ext_body_sha256 r = pg_body_sha256 (ar_claims rq) \<and> ext_actor r = uuid_text actor \<and>
     ext_project r = ar_project rq \<and> ext_env r = ar_env rq \<and> ext_project_uuid r = Some (ar_project_uuid rq) \<and>
     ext_environment_uuid r = Some (ar_env_uuid rq)"

definition externalDeploymentAuthorizationMatches :: "authorized_deployment \<Rightarrow> admission_request \<Rightarrow> bool" where
  "externalDeploymentAuthorizationMatches au rq \<longleftrightarrow>
     au_operation_ref au = ar_operation_ref rq \<and> au_fence au = ar_fence rq \<and> au_action au = ar_action rq \<and>
     au_dispatch au = pg_request (ar_claims rq) \<and> au_digest au = pg_body_sha256 (ar_claims rq) \<and>
     au_actor au = pg_actor (ar_claims rq) \<and> au_project_uuid au = ar_project_uuid rq \<and> au_env_uuid au = ar_env_uuid rq"

definition grant_request_of :: "admission_request \<Rightarrow> grant_request" where
  "grant_request_of rq =
     \<lparr>gr_operation_ref = ar_operation_ref rq, gr_fence = ar_fence rq, gr_action = ar_action rq,
      gr_dispatch = pg_request (ar_claims rq), gr_digest = pg_body_sha256 (ar_claims rq), gr_actor = pg_actor (ar_claims rq),
      gr_project_uuid = ar_project_uuid rq, gr_env_uuid = ar_env_uuid rq, gr_project = ar_project rq, gr_env = ar_env rq\<rparr>"

definition receipt_of :: "admission_request \<Rightarrow> authorized_deployment \<Rightarrow> external_creation \<Rightarrow> external_receipt_row" where
  "receipt_of rq au x =
     \<lparr>ext_org = pg_org (ar_claims rq), ext_plugin = pg_plugin (ar_claims rq), ext_operation_ref = au_operation_ref au,
      ext_fence = au_fence au, ext_request = pg_request (ar_claims rq), ext_assertion_action = pg_operation (ar_claims rq),
      ext_service_action = ar_action rq, ext_body_sha256 = pg_body_sha256 (ar_claims rq), ext_actor = pg_actor (ar_claims rq),
      ext_project = ar_project rq, ext_env = ar_env rq, ext_project_uuid = Some (ar_project_uuid rq),
      ext_environment_uuid = Some (ar_env_uuid rq), ext_plan_snapshot = xc_plan x, ext_base_deployment = xc_base x,
      ext_deployment = sum_id (xc_deployment x), ext_forward_deployment = xc_forward x, ext_retry_of_rollback = xc_retry x,
      ext_created_at = 0\<rparr>"

text \<open>A receipt answers with its Deployment.\<close>

definition replay_receipt ::
  "database \<Rightarrow> admission_request \<Rightarrow> uuid \<Rightarrow> authorized_deployment \<Rightarrow> external_receipt_row \<Rightarrow> ext_error + deployment_summary" where
  "replay_receipt db rq actor au r =
     (if \<not> externalDeploymentReceiptMatches r rq actor au
      then Inl (ext_conflict ''external deployment request identity was reused with different inputs'')
      else case GetDeployment db (pg_org (ar_claims rq)) (ext_deployment r) of
        Inl e \<Rightarrow> Inl (if IsErrNotFound e
          then ext_conflict ''external deployment receipt exists but its deployment is no longer retained'' else ExtFailure (ModelFailure e))
      | Inr (d, _) \<Rightarrow> Inr d)"

definition admit_new ::
  "instant \<Rightarrow> database \<Rightarrow> admission_request \<Rightarrow> uuid \<Rightarrow> authorized_deployment \<Rightarrow> ext_error + deployment_summary \<times> database" where
  "admit_new now db rq actor au =
     bindR (ar_create rq db actor) (\<lambda>(x, db1).
       let d = xc_deployment x in
       if sum_org d \<noteq> pg_org (ar_claims rq) \<or> sum_project d \<noteq> ar_project rq \<or> sum_env d \<noteq> ar_env rq \<or> sum_created_by d \<noteq> actor
       then Inl (ExtFailure (OtherFailure ''normal deployment creator returned mismatched ownership''))
       else bindR (lift_ext (CreateExternalOperationDeploymentReceipt now db1 (receipt_of rq au x))) (\<lambda>(_, db2). Inr (d, db2)))"

text \<open>The Deployment, whether it was replayed, and the state.\<close>

definition Admit ::
  "authorizer \<Rightarrow> (string \<Rightarrow> uuid option) \<Rightarrow> instant \<Rightarrow> database \<Rightarrow> admission_request \<Rightarrow> (ext_error + deployment_summary \<times> bool) \<times> database" where
  "Admit authorize parse_uuid now db rq =
     (case validateExternalDeploymentAdmission rq of
        Inl e \<Rightarrow> (Inl (ExtFailure (ModelFailure e)), db)
      | Inr _ \<Rightarrow>
          (case parse_uuid (pg_actor (ar_claims rq)) of
             None \<Rightarrow> (Inl (ExtFailure (ModelFailure (ErrBadRequest ''external deployment actor is not a UUID''))), db)
           | Some actor \<Rightarrow>
               (case authorize (ar_claims rq) (grant_request_of rq) of
                  Inl e \<Rightarrow> (Inl e, db)
                | Inr au \<Rightarrow>
                    if \<not> externalDeploymentAuthorizationMatches au rq
                    then (Inl (ext_conflict ''Core authorized a different external deployment intent''), db)
                    else case GetExternalOperationDeploymentReceipt db (pg_org (ar_claims rq)) (pg_plugin (ar_claims rq)) (pg_request (ar_claims rq)) of
                      Inr r \<Rightarrow> (map_sum id (\<lambda>d. (d, True)) (replay_receipt db rq actor au r), db)
                    | Inl _ \<Rightarrow>
                        (case admit_new now db rq actor au of
                           Inl e \<Rightarrow> (Inl e, db)
                         | Inr (d, db') \<Rightarrow> (Inr (d, False), db')))))"

section \<open>Encryption material of an operation\<close>

text \<open>
  The key of Vault: \<open>None\<close> when it cannot be read, \<open>Some None\<close> when it does not
  exist, otherwise whether it is symmetric and whether it may be exported; whether a missing key can
  be created; the new identity with its recipient; the wrapped identity.
\<close>

record vault =
  va_key :: "(bool \<times> bool) option option"
  va_create_key :: bool
  va_identity :: "(string \<times> string) option"
  va_encrypt :: "string \<Rightarrow> string option"
  va_recipient_ok :: "string \<Rightarrow> bool"

definition GetOrCreate :: "vault \<Rightarrow> instant \<Rightarrow> database \<Rightarrow> string \<Rightarrow> string \<Rightarrow> uuid \<Rightarrow> (material_row \<times> database) result" where
  "GetOrCreate v now db org plugin operation =
     (if org = '''' \<or> plugin = '''' \<or> operation = uuid_nil
      then Inl (ErrInternal ''external operation material service is not configured'')
      else case GetExternalOperationMaterial db org plugin operation of
        Inr m \<Rightarrow>
          if \<not> va_recipient_ok v (mat_recipient m) \<or> mat_identity m = ''''
          then Inl (ErrInternal ''stored external operation encryption material is invalid'') else Inr (m, db)
      | Inl _ \<Rightarrow>
          (case va_key v of
             None \<Rightarrow> Inl (ErrInternal ''failed to read external operation material Transit key'')
           | Some key \<Rightarrow>
               if (case key of None \<Rightarrow> \<not> va_create_key v | Some (symmetric, exportable) \<Rightarrow> \<not> symmetric \<or> exportable)
               then Inl (ErrInternal ''external operation material Transit key is not a non-exportable symmetric key'')
               else case va_identity v of
                 None \<Rightarrow> Inl (ErrInternal ''failed to generate external operation age identity'')
               | Some (identity, recipient) \<Rightarrow>
                   (case va_encrypt v identity of
                      None \<Rightarrow> Inl (ErrInternal ''failed to wrap external operation age identity'')
                    | Some wrapped \<Rightarrow>
                        StoreExternalOperationMaterial now db \<lparr>mat_org = org, mat_plugin = plugin, mat_operation_ref = operation,
                          mat_recipient = recipient, mat_identity = wrapped, mat_created_at = 0\<rparr>)))"

end
