(* ===== verification/External_Deployments.thy ===== *)
theory External_Deployments
  imports External_Admission
begin

text \<open>
  How a plugin request becomes a Deployment: the HTTP adapter
  \<^verbatim>\<open>internal/api/external_operation_deployments_http.go\<close>, the lineage of an operation
  in \<^verbatim>\<open>external_operation_rollback_anchors.go\<close> and
  \<^verbatim>\<open>external_deployment_legacy_lineage.go\<close>, and the fingerprint of a plan of
  \<^verbatim>\<open>external_deployment_inspection_http.go\<close>. The verification of the plugin context,
  the codecs and the Control Plane are fields of \<open>external_kit\<close>.
\<close>

section \<open>Requests\<close>

datatype external_mode = ExtDeploy | ExtRollback | ExtOther string

record plan_reference =
  plr_snapshot :: uuid
  plr_fingerprint :: string
  plr_expected :: "(string \<times> uuid) list"

record rollback_reference =
  rbr_forward :: uuid
  rbr_retry_of :: "uuid option"

record admission_body =
  ab_operation_ref :: uuid
  ab_fence :: int
  ab_mode :: external_mode
  ab_project :: string
  ab_env :: string
  ab_project_uuid :: uuid
  ab_env_uuid :: uuid
  ab_first_forward :: "uuid option"
  ab_plan :: "plan_reference option"
  ab_rollback :: "rollback_reference option"
  ab_log_level :: "string option"

text \<open>The Environment the Control Plane answers with.\<close>

record external_environment =
  xe_project :: string
  xe_env :: string
  xe_environment :: cp_environment

record external_kit =
  xk_configured :: bool
  xk_tool :: toolkit
  xk_control :: control_plane
  xk_core :: core
  xk_authorize :: authorizer
  xk_vault :: vault
  xk_parse_uuid :: "string \<Rightarrow> uuid option"
  xk_sha :: "string \<Rightarrow> string"
  xk_canonical :: "string \<Rightarrow> string"
  xk_artifacts_text :: "module_artifact list \<Rightarrow> string"
  xk_diff_text :: "deployment_diff \<Rightarrow> string"
  xk_verify :: "string \<Rightarrow> string \<Rightarrow> string \<Rightarrow> string \<Rightarrow> string \<Rightarrow> plugin_claims option"
  xk_body_of :: "string \<Rightarrow> admission_body option"
  xk_environment :: "string \<Rightarrow> string \<Rightarrow> string \<Rightarrow> (int \<times> external_environment option) option"

definition validateExternalDeploymentBody :: "(string \<Rightarrow> uuid option) \<Rightarrow> admission_body \<Rightarrow> string + deployment_mode \<times> string" where
  "validateExternalDeploymentBody parse_uuid body =
     (if ab_first_forward body = Some uuid_nil then Inl ''first_forward_deployment_id must be a nonzero UUID''
      else if ab_project body = '''' \<or> ab_env body = '''' \<or> ab_project_uuid body = uuid_nil \<or> ab_env_uuid body = uuid_nil
      then Inl ''project and Environment identities are required''
      else if (case ab_log_level body of None \<Rightarrow> False | Some l \<Rightarrow> l \<notin> {''debug'', ''error'', ''info'', ''warn''})
      then Inl ''runner_log_level is invalid''
      else case ab_mode body of
        ExtDeploy \<Rightarrow>
          (case (ab_plan body, ab_rollback body) of
             (Some plan, None) \<Rightarrow>
               if plr_snapshot plan = uuid_nil \<or> \<not> plan_fingerprint_text (plr_fingerprint plan) \<or>
                  plr_expected plan = [] \<or> length (plr_expected plan) > 1000
               then Inl ''deploy requires one valid immutable plan and no rollback reference''
               else if list_ex (\<lambda>(k, v). (case parse_uuid k of None \<Rightarrow> True | Some m \<Rightarrow> m = uuid_nil) \<or> v = uuid_nil) (plr_expected plan)
               then Inl ''expected_module_versions must map Module UUIDs to Version UUIDs''
               else Inr (ModeDeploy, ExternalDeploymentAction)
           | _ \<Rightarrow> Inl ''deploy requires one valid immutable plan and no rollback reference'')
      | ExtRollback \<Rightarrow>
          (case (ab_rollback body, ab_plan body) of
             (Some rb, None) \<Rightarrow>
               if rbr_forward rb = uuid_nil then Inl ''rollback requires one forward deployment reference and no plan''
               else if rbr_retry_of rb = Some uuid_nil then Inl ''retry_of_rollback_deployment_id must be a nonzero UUID''
               else Inr (ModeRollback, ExternalDeploymentRollbackAction)
           | _ \<Rightarrow> Inl ''rollback requires one forward deployment reference and no plan'')
      | ExtOther _ \<Rightarrow> Inl ''mode must be deploy or rollback'')"

section \<open>The fingerprint of a plan\<close>

text \<open>Every chunk after its length in eight bytes, the most significant first.\<close>

definition put_uint64 :: "nat \<Rightarrow> string" where
  "put_uint64 n = map (\<lambda>k. char_of (uint (drop_bit (8 * (7 - k)) (word_of_nat n :: 64 word)))) [0..<8]"

definition fingerprint_chunk :: "string \<Rightarrow> string" where
  "fingerprint_chunk s = put_uint64 (length s) @ s"

definition fingerprint_text :: "external_kit \<Rightarrow> uuid \<Rightarrow> string \<Rightarrow> string \<Rightarrow> string \<Rightarrow> module_artifact list \<Rightarrow> string" where
  "fingerprint_text kit base manifest graph diff artifacts =
     fingerprint_chunk (uuid_text base) @ fingerprint_chunk (xk_canonical kit manifest) @ fingerprint_chunk (xk_canonical kit graph) @
     fingerprint_chunk (xk_canonical kit diff) @ fingerprint_chunk (xk_artifacts_text kit artifacts)"

definition deploymentPlanFingerprint :: "external_kit \<Rightarrow> uuid \<Rightarrow> string \<Rightarrow> string \<Rightarrow> string \<Rightarrow> module_artifact list \<Rightarrow> string" where
  "deploymentPlanFingerprint kit base manifest graph diff artifacts =
     ''sha256:'' @ xk_sha kit (fingerprint_text kit base manifest graph diff artifacts)"

section \<open>The lineage of an operation\<close>

definition externalRollbackScope :: "string \<Rightarrow> string \<Rightarrow> admission_body \<Rightarrow> anchor_row" where
  "externalRollbackScope org plugin body =
     \<lparr>anc_org = org, anc_plugin = plugin, anc_operation_ref = uuid_text (ab_operation_ref body), anc_environment = ab_env_uuid body,
      anc_project_uuid = ab_project_uuid body, anc_project = ab_project body, anc_env = ab_env body,
      anc_first_forward = uuid_nil, anc_rollback_base = uuid_nil\<rparr>"

definition externalReceiptOwnsScope :: "external_receipt_row \<Rightarrow> anchor_row \<Rightarrow> bool" where
  "externalReceiptOwnsScope r scope \<longleftrightarrow>
     ext_operation_ref r = anc_operation_ref scope \<and> ext_project r = anc_project scope \<and> ext_env r = anc_env scope \<and>
     ext_project_uuid r = Some (anc_project_uuid scope) \<and> ext_environment_uuid r = Some (anc_environment scope)"

text \<open>Whether a Deployment was read and has the property.\<close>

definition read_ok :: "(deployment_summary \<times> string \<times> string \<times> string) result \<Rightarrow> (deployment_summary \<Rightarrow> string \<Rightarrow> string \<Rightarrow> string \<Rightarrow> bool) \<Rightarrow> bool" where
  "read_ok r p \<longleftrightarrow> (case r of Inl _ \<Rightarrow> False | Inr (d, manifest, tofu, graph) \<Rightarrow> p d manifest tofu graph)"

definition in_scope :: "anchor_row \<Rightarrow> deployment_summary \<Rightarrow> bool" where
  "in_scope a d \<longleftrightarrow> sum_env_uuid d = anc_environment a \<and> sum_project d = anc_project a \<and> sum_env d = anc_env a"

definition validateRollbackBase :: "database \<Rightarrow> anchor_row \<Rightarrow> unit result" where
  "validateRollbackBase db a =
     guardR (read_ok (GetDeployment db (anc_org a) (anc_rollback_base a)) (\<lambda>base manifest tofu graph.
         sum_status base = StatusSucceeded \<and> sum_completed_at base \<noteq> None \<and> in_scope a base \<and>
         CompleteDeploymentSnapshot manifest tofu graph))
       (NewErrConflict ''immutable rollback base is not a complete retained successful Deployment'')"

definition validateRollbackAnchor :: "database \<Rightarrow> anchor_row \<Rightarrow> unit result" where
  "validateRollbackAnchor db a =
     (if (case ReadExternalOperationDeploymentReceiptByDeployment db (anc_org a) (anc_plugin a) (anc_first_forward a) of
            Inl _ \<Rightarrow> True
          | Inr first \<Rightarrow> \<not> (externalReceiptOwnsScope first a \<and> ext_service_action first = ExternalDeploymentAction \<and>
              ext_base_deployment first = Some (anc_rollback_base a)))
      then Inl (NewErrConflict ''first forward receipt does not verify the immutable rollback anchor'')
      else if \<not> read_ok (GetDeployment db (anc_org a) (anc_first_forward a)) (\<lambda>forward _ _ _. sum_mode forward = ModeDeploy \<and> in_scope a forward)
      then Inl (NewErrConflict ''first forward Deployment is not retained in this Environment'')
      else validateRollbackBase db a)"

text \<open>Without an anchor, exactly one forward of the operation in the Environment can be adopted as the first.\<close>

definition forwards_of :: "database \<Rightarrow> anchor_row \<Rightarrow> external_receipt_row list" where
  "forwards_of db scope = filter (\<lambda>r. ext_org r = anc_org scope \<and> ext_plugin r = anc_plugin scope \<and>
     ext_operation_ref r = anc_operation_ref scope \<and>
     (ext_environment_uuid r = Some (anc_environment scope) \<or> (ext_project r = anc_project scope \<and> ext_env r = anc_env scope)) \<and>
     ext_service_action r = ExternalDeploymentAction) (external_receipts db)"

definition legacy_anchor :: "database \<Rightarrow> anchor_row \<Rightarrow> anchor_row option result" where
  "legacy_anchor db scope =
     (case forwards_of db scope of
        [] \<Rightarrow> Inr None
      | [first] \<Rightarrow>
          (case ReadExternalOperationDeploymentReceiptByDeployment db (anc_org scope) (anc_plugin scope) (ext_deployment first) of
             Inr r \<Rightarrow>
               (case (externalReceiptOwnsScope r scope, ext_base_deployment r) of
                  (True, Some base) \<Rightarrow> Inr (Some (scope\<lparr>anc_first_forward := ext_deployment first, anc_rollback_base := base\<rparr>))
                | _ \<Rightarrow> Inl (NewErrConflict ''legacy first forward lineage cannot be verified''))
           | Inl _ \<Rightarrow> Inl (NewErrConflict ''legacy first forward lineage cannot be verified''))
      | _ \<Rightarrow> Inl (NewErrConflict ''legacy operation has ambiguous first forward lineage''))"

definition operationRollbackAnchor :: "database \<Rightarrow> anchor_row \<Rightarrow> bool \<Rightarrow> (anchor_row option \<times> database) result" where
  "operationRollbackAnchor db scope lock =
     bindR (ReadExternalOperationRollbackAnchor db scope) (\<lambda>stored.
     bindR (case stored of Some a \<Rightarrow> Inr (Some a) | None \<Rightarrow> legacy_anchor db scope) (\<lambda>found.
     case found of
       None \<Rightarrow> Inr (None, db)
     | Some a \<Rightarrow>
         bindR (validateRollbackAnchor db a) (\<lambda>_.
           if lock \<and> stored = None then bindR (CreateExternalOperationRollbackAnchor db a) (\<lambda>db'. Inr (Some a, db'))
           else Inr (Some a, db))))"

section \<open>A forward Deployment\<close>

record plan_maps =
  pm_explicit :: "(string \<times> string) list"
  pm_expected :: "(string \<times> uuid) list"
  pm_targets :: "(string \<times> plan_target) list"

fun target_maps :: "plan_target list \<Rightarrow> plan_maps \<Rightarrow> plan_maps result" where
  "target_maps [] m = Inr m"
| "target_maps (t # ts) m =
     (if tgt_module_id t = '''' \<or> tgt_module_uuid t = uuid_nil \<or> tgt_version t = '''' \<or> tgt_version_uuid t = uuid_nil
      then Inl (NewErrConflict ''external deployment plan has incomplete target identity'')
      else if map_of (pm_expected m) (uuid_text (tgt_module_uuid t)) \<noteq> None
      then Inl (NewErrConflict ''external deployment plan repeats a Module identity'')
      else target_maps ts \<lparr>pm_explicit = map_put (tgt_module_id t) (tgt_version t) (pm_explicit m),
        pm_expected = map_put (uuid_text (tgt_module_uuid t)) (tgt_version_uuid t) (pm_expected m),
        pm_targets = map_put (tgt_module_id t) t (pm_targets m)\<rparr>)"

definition authorize_target :: "(string \<times> plan_target) list \<Rightarrow> string \<Rightarrow> bool \<Rightarrow> catalogue_artifact \<Rightarrow> create_error option" where
  "authorize_target targets moduleID explicitlySelected a =
     (if \<not> explicitlySelected then None
      else case map_of targets moduleID of
        None \<Rightarrow> Some (ModelFailure (NewErrConflict ''resolved Module target was not present in the immutable plan''))
      | Some t \<Rightarrow>
          if ca_module_uuid a \<noteq> tgt_module_uuid t \<or> ca_version_uuid a \<noteq> tgt_version_uuid t \<or>
             ca_semantic_version a \<noteq> tgt_semantic_version t \<or> ca_digest a \<noteq> tgt_digest t
          then Some (ModelFailure (NewErrConflict ''resolved Module target differs from the immutable plan'')) else None)"

definition plan_fingerprint :: "external_kit \<Rightarrow> plan_row \<Rightarrow> string" where
  "plan_fingerprint kit p = deploymentPlanFingerprint kit (pln_base p) (pln_manifest p) (pln_graph p) (pln_diff p) (pln_artifacts p)"

definition validate_forward_plan :: "external_kit \<Rightarrow> plan_row \<Rightarrow> plan_capture \<Rightarrow> create_error option" where
  "validate_forward_plan kit p c =
     (if pc_base c \<noteq> pln_base p \<or>
         deploymentPlanFingerprint kit (pc_base c) (pc_manifest c) (pc_graph c) (xk_diff_text kit (pc_diff c)) (pc_artifacts c) \<noteq> pln_fingerprint p \<or>
         pc_artifacts c \<noteq> pln_artifacts p
      then Some (ModelFailure (NewErrConflict ''current deployment plan differs from the immutable snapshot'')) else None)"

definition plain_options :: deployment_options where
  "plain_options = \<lparr>op_draft_tests = [], op_execution = None, op_explicit = [], op_confirmations = [], op_module_operation = None,
     op_authorize = None, op_reuse_manifest = False, op_ignore_pins = False, op_require_runner = False, op_expected_current = None,
     op_retry_of_rollback = None, op_expected_base = None, op_key_digest = None, op_queue_item = None, op_admission = None,
     op_validate_plan = None\<rparr>"

definition external_request :: "uuid \<Rightarrow> string \<Rightarrow> admission_body \<Rightarrow> cp_environment \<Rightarrow> deployment_mode \<Rightarrow> uuid option \<Rightarrow> manifest \<Rightarrow> string \<Rightarrow> creation_request" where
  "external_request actor org body environment mode target manifest recipient =
     \<lparr>rq_actor = actor, rq_org = org, rq_project = ab_project body, rq_env = ab_env body, rq_environment = environment, rq_mode = mode,
      rq_rollback_to = target, rq_manifest = manifest, rq_outputs_recipient = Some recipient, rq_logs_recipient = Some recipient,
      rq_key = None, rq_dry_run = False, rq_log_level = ab_log_level body\<rparr>"

definition create_external ::
  "external_kit \<Rightarrow> instant \<Rightarrow> instant \<Rightarrow> uuid \<Rightarrow> database \<Rightarrow> creation_request \<Rightarrow> deployment_options \<Rightarrow> ext_error + deployment_summary \<times> database" where
  "create_external kit now wall fresh db rq ops =
     (case cn_outcome (CreateDeploymentWithOptions (xk_tool kit) (xk_control kit) (xk_core kit) now wall fresh db rq ops) of
        Inl e \<Rightarrow> Inl (ExtFailure e)
      | Inr (d, _, db') \<Rightarrow> Inr (d, db'))"

definition checked_snapshot :: "external_kit \<Rightarrow> database \<Rightarrow> uuid \<Rightarrow> string \<Rightarrow> string \<Rightarrow> admission_body \<Rightarrow> plan_reference \<Rightarrow> plan_row result" where
  "checked_snapshot kit db actor org plugin body plan =
     bindR (GetExternalDeploymentPlanSnapshotByID db org plugin (plr_snapshot plan)) (\<lambda>p.
       if pln_actor p \<noteq> actor \<or> pln_project p \<noteq> ab_project body \<or> pln_project_uuid p \<noteq> ab_project_uuid body \<or>
          pln_env p \<noteq> ab_env body \<or> pln_environment p \<noteq> ab_env_uuid body \<or> pln_fingerprint p \<noteq> plr_fingerprint plan \<or>
          plan_fingerprint kit p \<noteq> pln_fingerprint p
       then Inl (NewErrConflict ''external deployment plan snapshot identity or content changed'')
       else Inr p)"

definition anchor_first :: "database \<Rightarrow> anchor_row option \<Rightarrow> anchor_row \<Rightarrow> uuid \<Rightarrow> uuid \<Rightarrow> database result" where
  "anchor_first db anchor scope first base =
     (case anchor of
        Some _ \<Rightarrow> Inr db
      | None \<Rightarrow>
          let a = scope\<lparr>anc_first_forward := first, anc_rollback_base := base\<rparr> in
          bindR (validateRollbackBase db a) (\<lambda>_. CreateExternalOperationRollbackAnchor db a))"

definition createExternalDeploymentFromSnapshot ::
  "external_kit \<Rightarrow> instant \<Rightarrow> instant \<Rightarrow> uuid \<Rightarrow> database \<Rightarrow> uuid \<Rightarrow> string \<Rightarrow> string \<Rightarrow> admission_body \<Rightarrow> plan_reference \<Rightarrow> cp_environment \<Rightarrow> string
     \<Rightarrow> ext_error + external_creation \<times> database" where
  "createExternalDeploymentFromSnapshot kit now wall fresh db actor org plugin body plan environment recipient =
     (let scope = externalRollbackScope org plugin body in
      bindR (lift_ext (operationRollbackAnchor db scope True)) (\<lambda>(anchor, db1).
      if ab_first_forward body \<noteq> None \<and> ab_first_forward body \<noteq> map_option anc_first_forward anchor
      then Inl (ext_conflict ''first forward assertion differs from immutable operation lineage'')
      else bindR (lift_ext (checked_snapshot kit db1 actor org plugin body plan)) (\<lambda>p.
      bindR (lift_ext (target_maps (pln_targets p) \<lparr>pm_explicit = [], pm_expected = [], pm_targets = []\<rparr>)) (\<lambda>m.
      if set (pm_expected m) \<noteq> set (plr_expected plan)
      then Inl (ext_conflict ''external deployment target versions differ from the immutable plan'')
      else case tk_manifest_of (xk_tool kit) (pln_manifest p) of
        Inl _ \<Rightarrow> Inl (ExtFailure (OtherFailure ''external deployment plan manifest is invalid''))
      | Inr manifest \<Rightarrow>
          bindR (create_external kit now wall fresh db1
            (external_request actor org body environment ModeDeploy None manifest recipient)
            (plain_options\<lparr>op_explicit := pm_explicit m, op_module_operation := Some (ab_operation_ref body),
               op_authorize := Some (authorize_target (pm_targets m)), op_validate_plan := Some (validate_forward_plan kit p)\<rparr>)) (\<lambda>(d, db2).
          bindR (lift_ext (anchor_first db2 anchor scope (sum_id d) (pln_base p))) (\<lambda>db3.
            Inr (\<lparr>xc_deployment = d, xc_plan = Some (pln_id p), xc_base = Some (pln_base p), xc_forward = None, xc_retry = None\<rparr>, db3)))))))"

section \<open>A rollback\<close>

fun immutable_loop :: "module_artifact list \<Rightarrow> (string \<times> uuid) list \<Rightarrow> (string \<times> uuid) list result" where
  "immutable_loop [] versions = Inr versions"
| "immutable_loop (a # rest) versions =
     (if art_module_uuid a = uuid_nil \<or> art_version_uuid a = uuid_nil
      then Inl (NewErrConflict ''Deployment lacks immutable Module Version identity'')
      else case map_of versions (uuid_text (art_module_uuid a)) of
        Some prior \<Rightarrow>
          if prior \<noteq> art_version_uuid a then Inl (NewErrConflict ''Deployment contains conflicting Module Version identities'')
          else immutable_loop rest (map_put (uuid_text (art_module_uuid a)) (art_version_uuid a) versions)
      | None \<Rightarrow> immutable_loop rest (map_put (uuid_text (art_module_uuid a)) (art_version_uuid a) versions))"

definition immutableModuleVersions :: "module_artifact list \<Rightarrow> (string \<times> uuid) list result" where
  "immutableModuleVersions artifacts = immutable_loop artifacts []"

definition rollback_forward :: "database \<Rightarrow> string \<Rightarrow> string \<Rightarrow> admission_body \<Rightarrow> uuid \<Rightarrow> deployment_summary result" where
  "rollback_forward db org plugin body forwardID =
     (case ReadExternalOperationDeploymentReceiptByDeployment db org plugin forwardID of
        Inl _ \<Rightarrow> Inl (NewErrConflict ''forward external deployment receipt was not found'')
      | Inr r \<Rightarrow>
          if ext_operation_ref r \<noteq> uuid_text (ab_operation_ref body) \<or> ext_service_action r \<noteq> ExternalDeploymentAction \<or>
             ext_project r \<noteq> ab_project body \<or> ext_env r \<noteq> ab_env body \<or> ext_project_uuid r \<noteq> Some (ab_project_uuid body) \<or>
             ext_environment_uuid r \<noteq> Some (ab_env_uuid body) \<or> ext_base_deployment r = None
          then Inl (NewErrConflict ''forward deployment is outside this external operation or lacks a captured base'')
          else (case GetDeployment db org forwardID of
              Inl _ \<Rightarrow> Inl (NewErrConflict ''forward deployment is not a stopped terminal Deployment in this Environment'')
            | Inr (forward, _) \<Rightarrow>
                if sum_mode forward \<noteq> ModeDeploy \<or> sum_completed_at forward = None \<or>
                   (sum_status forward \<noteq> StatusSucceeded \<and> sum_status forward \<noteq> StatusFailed) \<or>
                   sum_env_uuid forward \<noteq> ab_env_uuid body \<or> sum_project forward \<noteq> ab_project body \<or> sum_env forward \<noteq> ab_env body
                then Inl (NewErrConflict ''forward deployment is not a stopped terminal Deployment in this Environment'')
                else Inr forward))"

text \<open>The Deployment a rollback has to find as the head of the Environment, and the rollback it retries.\<close>

definition rollback_head ::
  "database \<Rightarrow> string \<Rightarrow> string \<Rightarrow> admission_body \<Rightarrow> anchor_row \<Rightarrow> uuid \<Rightarrow> uuid \<Rightarrow> uuid option \<Rightarrow> (uuid \<times> uuid option) result" where
  "rollback_head db org plugin body scope baseID forwardID retry =
     (case retry of
        None \<Rightarrow> Inr (forwardID, None)
      | Some previousID \<Rightarrow>
          if (case ReadExternalOperationDeploymentReceiptByDeployment db org plugin previousID of
                Inl _ \<Rightarrow> True
              | Inr r \<Rightarrow> \<not> (externalReceiptOwnsScope r scope \<and> ext_service_action r = ExternalDeploymentRollbackAction \<and>
                  ext_base_deployment r = Some baseID \<and> ext_forward_deployment r = Some forwardID))
          then Inl (NewErrConflict ''rollback retry predecessor is outside this operation or original base'')
          else if \<not> read_ok (GetDeployment db org previousID) (\<lambda>previous _ _ _.
              sum_mode previous = ModeRollback \<and> sum_status previous = StatusFailed \<and> sum_completed_at previous \<noteq> None \<and>
              sum_env_uuid previous = ab_env_uuid body \<and> sum_project previous = ab_project body \<and> sum_env previous = ab_env body \<and>
              sum_rollback_to previous = Some baseID)
          then Inl (NewErrConflict ''rollback retry requires this operation's terminal failed rollback to the original base'')
          else Inr (previousID, Some previousID))"

definition rollback_base :: "database \<Rightarrow> string \<Rightarrow> admission_body \<Rightarrow> uuid \<Rightarrow> deployment_summary result" where
  "rollback_base db org body baseID =
     (case GetDeployment db org baseID of
        Inl _ \<Rightarrow> Inl (NewErrConflict ''captured rollback base is not retained as a succeeded Deployment'')
      | Inr (base, _) \<Rightarrow>
          if sum_status base \<noteq> StatusSucceeded \<or> sum_completed_at base = None \<or> sum_env_uuid base \<noteq> ab_env_uuid body \<or>
             sum_project base \<noteq> ab_project body \<or> sum_env base \<noteq> ab_env body
          then Inl (NewErrConflict ''captured rollback base is not retained as a succeeded Deployment'')
          else Inr base)"

definition validate_rollback_plan :: "uuid \<Rightarrow> (string \<times> uuid) list \<Rightarrow> plan_capture \<Rightarrow> create_error option" where
  "validate_rollback_plan baseID expected c =
     (if (case immutableModuleVersions (pc_artifacts c) of
            Inl _ \<Rightarrow> True
          | Inr versions \<Rightarrow> pc_base c \<noteq> baseID \<or> set versions \<noteq> set expected)
      then Some (ModelFailure (NewErrConflict ''rollback resolution differs from the captured effective base'')) else None)"

definition createExternalRollback ::
  "external_kit \<Rightarrow> instant \<Rightarrow> instant \<Rightarrow> uuid \<Rightarrow> database \<Rightarrow> uuid \<Rightarrow> string \<Rightarrow> string \<Rightarrow> admission_body \<Rightarrow> rollback_reference \<Rightarrow> cp_environment \<Rightarrow> string
     \<Rightarrow> ext_error + external_creation \<times> database" where
  "createExternalRollback kit now wall fresh db actor org plugin body rb environment recipient =
     (let scope = externalRollbackScope org plugin body in
      bindR (lift_ext (operationRollbackAnchor db scope True)) (\<lambda>(anchor, db1).
      case anchor of
        None \<Rightarrow> Inl (ext_conflict ''rollback requires the immutable first forward lineage'')
      | Some a \<Rightarrow>
          if ab_first_forward body \<noteq> None \<and> ab_first_forward body \<noteq> Some (anc_first_forward a)
          then Inl (ext_conflict ''rollback requires the immutable first forward lineage'')
          else
            let baseID = anc_rollback_base a in
            bindR (lift_ext (rollback_forward db1 org plugin body (rbr_forward rb))) (\<lambda>forward.
            bindR (lift_ext (rollback_head db1 org plugin body scope baseID (sum_id forward) (rbr_retry_of rb))) (\<lambda>(expectedHead, retryOf).
            bindR (lift_ext (rollback_base db1 org body baseID)) (\<lambda>base.
            bindR (lift_ext (immutableModuleVersions (sum_module_artifacts base))) (\<lambda>expected.
            bindR (create_external kit now wall fresh db1
              (external_request actor org body environment ModeRollback (Some baseID) empty_manifest recipient)
              (plain_options\<lparr>op_confirmations := map art_version_uuid (sum_module_artifacts base), op_expected_current := Some expectedHead,
                 op_retry_of_rollback := retryOf, op_validate_plan := Some (validate_rollback_plan baseID expected)\<rparr>)) (\<lambda>(d, db2).
              Inr (\<lparr>xc_deployment = d, xc_plan = None, xc_base = Some baseID, xc_forward = Some (sum_id forward), xc_retry = retryOf\<rparr>, db2))))))))"

section \<open>The endpoint\<close>

text \<open>
  The parts of the HTTP request the handler looks at: whether there is a query or fragment, whether
  the media type is JSON, the values of the two headers, the path and the bytes of the body.
\<close>

record external_http_request =
  xr_query :: bool
  xr_json :: bool
  xr_keys :: "string list"
  xr_assertions :: "string list"
  xr_org :: string
  xr_plugin :: string
  xr_body :: string

datatype external_answer = ExtRefused http_answer | ExtAccepted int uuid bool

definition maxExternalDeploymentAdmissionBodyBytes :: int where
  "maxExternalDeploymentAdmissionBodyBytes = 2 ^ 20"

definition singleHeader :: "string list \<Rightarrow> string option" where
  "singleHeader values = (case values of [v] \<Rightarrow> Some (trim_space v) | _ \<Rightarrow> None)"

definition refused :: "int \<Rightarrow> string \<Rightarrow> string \<Rightarrow> external_answer" where
  "refused status code message = ExtRefused \<lparr>ans_status = status, ans_error = code, ans_message = message\<rparr>"

fun writeAdmissionError :: "ext_error \<Rightarrow> external_answer" where
  "writeAdmissionError ExtUnauthorized =
     refused 403 ''external_operation_not_authorized'' ''Core did not authorize this deployment dispatch''"
| "writeAdmissionError ExtUnavailable =
     refused 503 ''external_deployment_unavailable'' ''an authoritative external deployment dependency is unavailable''"
| "writeAdmissionError (ExtFailure (ModelFailure (ErrBadRequest m))) = refused 400 ''invalid_deployment'' m"
| "writeAdmissionError (ExtFailure (ModelFailure (ErrConflict m c _))) =
     refused 409 (if c = '''' then ''deployment_conflict'' else c) m"
| "writeAdmissionError (ExtFailure _) = refused 500 ''external_deployment_failed'' ''external deployment admission failed''"

definition external_creator_of ::
  "external_kit \<Rightarrow> instant \<Rightarrow> instant \<Rightarrow> uuid \<Rightarrow> string \<Rightarrow> string \<Rightarrow> admission_body \<Rightarrow> deployment_mode \<Rightarrow> cp_environment \<Rightarrow> external_creator" where
  "external_creator_of kit now wall fresh org plugin body mode environment = (\<lambda>db actor.
     case GetOrCreate (xk_vault kit) now db org plugin (ab_operation_ref body) of
       Inl _ \<Rightarrow> Inl ExtUnavailable
     | Inr (material, db1) \<Rightarrow>
         if mode = ModeDeploy
         then (case ab_plan body of
             None \<Rightarrow> Inl (ExtFailure (OtherFailure ''nil pointer dereference''))
           | Some plan \<Rightarrow> createExternalDeploymentFromSnapshot kit now wall fresh db1 actor org plugin body plan environment (mat_recipient material))
         else (case ab_rollback body of
             None \<Rightarrow> Inl (ExtFailure (OtherFailure ''nil pointer dereference''))
           | Some rb \<Rightarrow> createExternalRollback kit now wall fresh db1 actor org plugin body rb environment (mat_recipient material)))"

definition admission_request_of ::
  "external_kit \<Rightarrow> instant \<Rightarrow> instant \<Rightarrow> uuid \<Rightarrow> string \<Rightarrow> string \<Rightarrow> plugin_claims \<Rightarrow> admission_body \<Rightarrow> deployment_mode \<Rightarrow> string \<Rightarrow> cp_environment
     \<Rightarrow> admission_request" where
  "admission_request_of kit now wall fresh org plugin claims body mode action environment =
     \<lparr>ar_claims = claims, ar_operation_ref = uuid_text (ab_operation_ref body), ar_fence = ab_fence body, ar_action = action,
      ar_project_uuid = ab_project_uuid body, ar_env_uuid = ab_env_uuid body, ar_project = ab_project body, ar_env = ab_env body,
      ar_create = external_creator_of kit now wall fresh org plugin body mode environment\<rparr>"

text \<open>The Environment of the Control Plane has to be the one the request names.\<close>

definition external_target :: "external_kit \<Rightarrow> string \<Rightarrow> admission_body \<Rightarrow> external_answer + cp_environment" where
  "external_target kit org body =
     (let unavailable = Inl (refused 503 ''core_unavailable'' ''Core environment lookup did not return an authoritative target'') in
      case xk_environment kit org (ab_project body) (ab_env body) of
        None \<Rightarrow> Inl (refused 503 ''core_unavailable'' ''Core environment lookup is unavailable'')
      | Some (status, answer) \<Rightarrow>
          if status = 404 then Inl (refused 409 ''environment_not_found'' ''target environment does not exist'')
          else if status \<noteq> 200 then unavailable
          else case answer of
            None \<Rightarrow> unavailable
          | Some e \<Rightarrow>
              if ce_project (xe_environment e) = None then unavailable
              else if xe_project e \<noteq> ab_project body \<or> xe_env e \<noteq> ab_env body \<or>
                ce_project (xe_environment e) \<noteq> Some (ab_project_uuid body) \<or> ce_uuid (xe_environment e) \<noteq> ab_env_uuid body
              then Inl (refused 409 ''environment_identity_changed'' ''authorized Environment identity is no longer current'')
              else Inr (xe_environment e))"

definition admit_body ::
  "external_kit \<Rightarrow> instant \<Rightarrow> instant \<Rightarrow> uuid \<Rightarrow> database \<Rightarrow> string \<Rightarrow> string \<Rightarrow> plugin_claims \<Rightarrow> admission_body \<Rightarrow> external_answer \<times> database" where
  "admit_body kit now wall fresh db org plugin claims body =
     (if ab_operation_ref body = uuid_nil \<or> ab_fence body \<le> 0
      then (refused 400 ''invalid_request'' ''operation_ref must be a UUID and fence must be a positive signed 64-bit generation'', db)
      else case validateExternalDeploymentBody (xk_parse_uuid kit) body of
        Inl m \<Rightarrow> (refused 400 ''invalid_deployment'' m, db)
      | Inr (mode, action) \<Rightarrow>
          (case external_target kit org body of
             Inl answer \<Rightarrow> (answer, db)
           | Inr environment \<Rightarrow>
               (case Admit (xk_authorize kit) (xk_parse_uuid kit) now db
                   (admission_request_of kit now wall fresh org plugin claims body mode action environment) of
                  (Inl e, db') \<Rightarrow> (writeAdmissionError e, db')
                | (Inr (d, replayed), db') \<Rightarrow> (ExtAccepted (if replayed then 200 else 201) (sum_id d) replayed, db'))))"

definition handle_admission :: "external_kit \<Rightarrow> instant \<Rightarrow> instant \<Rightarrow> uuid \<Rightarrow> database \<Rightarrow> external_http_request \<Rightarrow> external_answer \<times> database" where
  "handle_admission kit now wall fresh db rq =
     (let context = refused 401 ''invalid_plugin_context'' ''a valid request-bound plugin context is required'';
          invalid = (\<lambda>m. refused 400 ''invalid_request'' m) in
      if \<not> xk_configured kit
      then (refused 503 ''external_deployment_unavailable'' ''external deployment admission is unavailable'', db)
      else if xr_query rq then (invalid ''query parameters are not supported'', db)
      else if \<not> xr_json rq then (refused 415 ''invalid_content_type'' ''Content-Type must be application/json'', db)
      else case singleHeader (xr_keys rq) of
        None \<Rightarrow> (refused 400 ''invalid_idempotency_key'' ''one non-empty Idempotency-Key of at most 128 characters is required'', db)
      | Some key \<Rightarrow>
          if key = '''' \<or> length key > 128
          then (refused 400 ''invalid_idempotency_key'' ''one non-empty Idempotency-Key of at most 128 characters is required'', db)
          else (case singleHeader (xr_assertions rq) of
              None \<Rightarrow> (context, db)
            | Some assertion \<Rightarrow>
                if assertion = '''' then (context, db)
                else if int (length (xr_body rq)) > maxExternalDeploymentAdmissionBodyBytes
                then (invalid ''request body is invalid or too large'', db)
                else if \<not> validExternalPathIdentity (xr_org rq) (xr_plugin rq)
                then (invalid ''organization or plugin identity is invalid'', db)
                else (case xk_verify kit assertion (xr_org rq) (xr_plugin rq) (xr_body rq) key of
                    None \<Rightarrow> (context, db)
                  | Some claims \<Rightarrow>
                      (case xk_body_of kit (xr_body rq) of
                         None \<Rightarrow> (invalid ''request body must be one strict JSON object'', db)
                       | Some body \<Rightarrow> admit_body kit now wall fresh db (xr_org rq) (xr_plugin rq) claims body))))"

section \<open>Provenance of rollbacks\<close>

text \<open>
  Whether the receipts prove the predecessor of a rollback: the forward it undoes and, for a retry,
  the rollback before it. A receipt that is missing is no proof, a Deployment that is missing an error.
\<close>

definition rollback_receipt_proves :: "external_receipt_row \<Rightarrow> anchor_row \<Rightarrow> bool" where
  "rollback_receipt_proves r a \<longleftrightarrow>
     ext_service_action r = ExternalDeploymentRollbackAction \<and> externalReceiptOwnsScope r a \<and> ext_base_deployment r = Some (anc_rollback_base a)"

definition predecessor_recorded :: "database \<Rightarrow> deployment_summary \<Rightarrow> anchor_row \<Rightarrow> uuid \<Rightarrow> uuid \<Rightarrow> bool result" where
  "predecessor_recorded db d a forwardID previousID =
     (case ReadExternalOperationDeploymentReceiptByDeployment db (anc_org a) (anc_plugin a) previousID of
        Inl e \<Rightarrow> if IsErrNotFound e then Inr False else Inl e
      | Inr r \<Rightarrow>
          if \<not> rollback_receipt_proves r a \<or> ext_forward_deployment r \<noteq> Some forwardID \<or> previousID = sum_id d then Inr False
          else bindR (GetDeployment db (anc_org a) previousID) (\<lambda>(previous, _).
            if sum_mode previous \<noteq> ModeRollback \<or> \<not> in_scope a previous \<or> sum_rollback_to previous \<noteq> Some (anc_rollback_base a)
            then Inl (ErrInternal ''retained rollback predecessor does not verify the receipt provenance'')
            else Inr True))"

definition rollbackRetryProvenanceRecorded :: "database \<Rightarrow> deployment_summary \<Rightarrow> external_receipt_row \<Rightarrow> anchor_row \<Rightarrow> bool result" where
  "rollbackRetryProvenanceRecorded db d r a =
     (if \<not> rollback_receipt_proves r a \<or> sum_rollback_to d \<noteq> Some (anc_rollback_base a) then Inr False
      else case ext_forward_deployment r of
        None \<Rightarrow> Inr False
      | Some forwardID \<Rightarrow>
          (case ReadExternalOperationDeploymentReceiptByDeployment db (anc_org a) (anc_plugin a) forwardID of
             Inl e \<Rightarrow> if IsErrNotFound e then Inr False else Inl e
           | Inr fr \<Rightarrow>
               if \<not> externalReceiptOwnsScope fr a \<or> ext_service_action fr \<noteq> ExternalDeploymentAction then Inr False
               else bindR (GetDeployment db (anc_org a) forwardID) (\<lambda>(forward, _).
                 if sum_mode forward \<noteq> ModeDeploy \<or> \<not> in_scope a forward then Inr False
                 else case ext_retry_of_rollback r of
                   None \<Rightarrow> Inr True
                 | Some previousID \<Rightarrow> predecessor_recorded db d a forwardID previousID)))"

definition projectLegacyRollbackForward :: "database \<Rightarrow> deployment_summary \<Rightarrow> external_receipt_row \<Rightarrow> anchor_row \<Rightarrow> uuid option" where
  "projectLegacyRollbackForward db d r a =
     (let scoped = (\<lambda>action x. ext_org x = anc_org a \<and> ext_plugin x = anc_plugin a \<and> ext_operation_ref x = anc_operation_ref a \<and>
            (ext_environment_uuid x = Some (anc_environment a) \<or> (ext_project x = anc_project a \<and> ext_env x = anc_env a)) \<and>
            ext_service_action x = action) in
      if ext_service_action r \<noteq> ExternalDeploymentRollbackAction \<or> \<not> externalReceiptOwnsScope r a \<or>
         sum_rollback_to d \<noteq> Some (anc_rollback_base a) \<or> ext_retry_of_rollback r \<noteq> None then None
      else if count_rows (scoped ExternalDeploymentAction) (external_receipts db) \<noteq> 1 \<or>
         count_rows (scoped ExternalDeploymentRollbackAction) (external_receipts db) \<noteq> 1 then None
      else case GetDeployment db (anc_org a) (anc_first_forward a) of
        Inl _ \<Rightarrow> None
      | Inr (forward, _) \<Rightarrow>
          if sum_completed_at forward = None \<or> (sum_status forward \<noteq> StatusSucceeded \<and> sum_status forward \<noteq> StatusFailed) then None
          else if sum_status forward = StatusFailed \<and>
            \<not> exists_row (\<lambda>x. inb_org x = anc_org a \<and> inb_runner x = sum_runner_id forward \<and> inb_deployment x = sum_id forward \<and>
                inb_type x = ''deployment-result'') (runner_inbox db)
          then None
          else Some (anc_first_forward a))"

end
