(* ===== verification/External_Contract.thy ===== *)
theory External_Contract
  imports External_Deployments Creation_Contract
begin

text \<open>
  What the Data Plane promises to plugins: a request is executed once and its repetition is answered
  with the same Deployment, and an operation keeps one rollback base per Environment, the base its
  first forward Deployment captured, whatever is admitted later.
\<close>

section \<open>A creation for a plugin\<close>

lemma CreateDeployment_lineage:
  assumes "CreateDeployment row_ok now wall fresh db org project env p = Inr (s, db')"
  shows "anchors db' = anchors db" "plans db' = plans db" "materials db' = materials db"
  using assms
  by (rule CreateDeployment_cases;
      auto simp: upsert_environment_def split: option.splits if_splits elim!: acquire_lease_cases)+

lemma create_external_cases:
  assumes "create_external kit now wall fresh db rq ops = Inr (d, db')"
    and "rq_key rq = None" "op_key_digest ops = None" "op_admission ops = None" "\<not> rq_dry_run rq"
  obtains runner cd db1 where
    "compile_request (xk_tool kit) (xk_control kit) db rq ops runner = Inr cd" "plan_refused ops cd = None"
    "CreateDeployment (tk_row_ok (xk_tool kit)) now wall fresh db (rq_org rq) (rq_project rq) (rq_env rq)
       (creation_params (xk_tool kit) rq ops cd) = Inr (d, db1)"
    "db' = db1\<lparr>nodes := nodes db', edges := edges db'\<rparr>"
proof -
  have r: "find_replay (xk_tool kit) wall db rq ops = Inr None" using assms(2,3) by (simp add: find_replay_def key_digest_def)
  have a: "admit (xk_tool kit) (xk_core kit) now db rq ops cd = (None, None, db)" for cd using assms(4) by (simp add: admit_def)
  from assms(1,5) obtain runner cd diff where c: "compile_request (xk_tool kit) (xk_control kit) db rq ops runner = Inr cd" "plan_refused ops cd = None"
    "create_admitted (xk_tool kit) now wall fresh db rq ops cd None = Inr (d, diff, db')"
    unfolding create_external_def CreateDeploymentWithOptions_def by (auto simp: r a split: sum.splits option.splits)
  from c(3) obtain db1 where "CreateDeployment (tk_row_ok (xk_tool kit)) now wall fresh db (rq_org rq) (rq_project rq) (rq_env rq)
      (creation_params (xk_tool kit) rq ops cd) = Inr (d, db1)" "write_resources (xk_tool kit) db1 d (cd_graph cd) = Inr db'"
    by (auto simp: create_admitted_def)
  with c(1,2) show thesis by (intro that [of runner cd db1] write_resources_frame)
qed

lemma plain_options_fields [simp]:
  "op_key_digest plain_options = None" "op_admission plain_options = None"
  by (simp_all add: plain_options_def)

lemma external_request_fields [simp]:
  "rq_key (external_request actor org body environment mode target manifest recipient) = None"
  "\<not> rq_dry_run (external_request actor org body environment mode target manifest recipient)"
  "rq_org (external_request actor org body environment mode target manifest recipient) = org"
  "rq_project (external_request actor org body environment mode target manifest recipient) = ab_project body"
  "rq_env (external_request actor org body environment mode target manifest recipient) = ab_env body"
  "rq_mode (external_request actor org body environment mode target manifest recipient) = mode"
  "rq_rollback_to (external_request actor org body environment mode target manifest recipient) = target"
  "rq_actor (external_request actor org body environment mode target manifest recipient) = actor"
  "rq_environment (external_request actor org body environment mode target manifest recipient) = environment"
  by (simp_all add: external_request_def)

lemma create_external_frame:
  assumes "create_external kit now wall fresh db rq ops = Inr (d, db')"
    and "rq_key rq = None" "op_key_digest ops = None" "op_admission ops = None" "\<not> rq_dry_run rq"
  shows "external_receipts db' = external_receipts db" "anchors db' = anchors db" "sum_id d = fresh"
proof -
  obtain runner cd db1 where c: "CreateDeployment (tk_row_ok (xk_tool kit)) now wall fresh db (rq_org rq) (rq_project rq) (rq_env rq)
       (creation_params (xk_tool kit) rq ops cd) = Inr (d, db1)"
    and w: "db' = db1\<lparr>nodes := nodes db', edges := edges db'\<rparr>"
    using create_external_cases [OF assms] by metis
  show "external_receipts db' = external_receipts db" using CreateDeployment_frame(7) [OF c] by (subst w) simp
  show "anchors db' = anchors db" using CreateDeployment_lineage(1) [OF c] by (subst w) simp
  show "sum_id d = fresh" using c by (rule CreateDeployment_cases) (simp add: created_summary_def)
qed

section \<open>The anchor of an operation\<close>

text \<open>The receipt of the first forward Deployment carries the rollback base of the anchor.\<close>

definition first_receipt :: "anchor_row \<Rightarrow> external_receipt_row \<Rightarrow> bool" where
  "first_receipt a r \<longleftrightarrow> anchored r a \<and> ext_deployment r = anc_first_forward a \<and>
     ext_service_action r = ExternalDeploymentAction \<and> ext_base_deployment r = Some (anc_rollback_base a)"

lemma validateRollbackAnchor_first:
  assumes "validateRollbackAnchor db a = Inr u"
  shows "\<exists>r \<in> set (external_receipts db). first_receipt a r"
proof -
  from assms obtain r where r: "ReadExternalOperationDeploymentReceiptByDeployment db (anc_org a) (anc_plugin a) (anc_first_forward a) = Inr r"
    "externalReceiptOwnsScope r a" "ext_service_action r = ExternalDeploymentAction" "ext_base_deployment r = Some (anc_rollback_base a)"
    by (auto simp: validateRollbackAnchor_def split: if_splits sum.splits)
  from r(1) have "r \<in> set (external_receipts db)" "ext_org r = anc_org a" "ext_plugin r = anc_plugin a" "ext_deployment r = anc_first_forward a"
    by (auto simp: ReadExternalOperationDeploymentReceiptByDeployment_def split: option.splits dest!: find_SomeD)
  with r show ?thesis by (intro bexI [of _ r]) (simp_all add: first_receipt_def anchored_def externalReceiptOwnsScope_def)
qed

lemma ReadAnchor_Some:
  assumes "ReadExternalOperationRollbackAnchor db scope = Inr (Some a)"
  shows "lookup_row anchor_key (anchor_key scope) (anchors db) = Some a"
  using assms by (auto simp: ReadExternalOperationRollbackAnchor_def split: option.splits if_splits)

lemma ReadAnchor_None:
  "ReadExternalOperationRollbackAnchor db scope = Inr None \<Longrightarrow> lookup_row anchor_key (anchor_key scope) (anchors db) = None"
  by (auto simp: ReadExternalOperationRollbackAnchor_def split: option.splits if_splits)

lemma legacy_anchor_key: "legacy_anchor db scope = Inr (Some a) \<Longrightarrow> anchor_key a = anchor_key scope"
  by (auto simp: legacy_anchor_def anchor_key_def split: list.splits sum.splits option.splits bool.splits)

lemma operationRollbackAnchor_cases:
  assumes "operationRollbackAnchor db scope True = Inr (found, db')"
  obtains (absent) "found = None" "db' = db" "lookup_row anchor_key (anchor_key scope) (anchors db) = None"
  | (stored) a where "found = Some a" "db' = db" "lookup_row anchor_key (anchor_key scope) (anchors db) = Some a"
      "validateRollbackAnchor db a = Inr ()"
  | (adopted) a where "found = Some a" "CreateExternalOperationRollbackAnchor db a = Inr db'" "anchor_key a = anchor_key scope"
      "validateRollbackAnchor db a = Inr ()"
proof -
  from assms obtain stored found' where r: "ReadExternalOperationRollbackAnchor db scope = Inr stored"
    and f: "(case stored of Some a \<Rightarrow> Inr (Some a) | None \<Rightarrow> legacy_anchor db scope) = Inr found'"
    and rest: "(case found' of None \<Rightarrow> Inr (None, db) | Some a \<Rightarrow> bindR (validateRollbackAnchor db a) (\<lambda>_.
       if True \<and> stored = None then bindR (CreateExternalOperationRollbackAnchor db a) (\<lambda>db'. Inr (Some a, db')) else Inr (Some a, db)))
       = Inr (found, db')"
    unfolding operationRollbackAnchor_def bindR_eq_Inr by blast
  show thesis
  proof (cases found')
    case None
    with f r rest show ?thesis by (cases stored) (auto intro: absent ReadAnchor_None)
  next
    case (Some a)
    with rest have v: "validateRollbackAnchor db a = Inr ()" by auto
    show ?thesis
    proof (cases stored)
      case None
      with f Some rest v show ?thesis by (auto intro: adopted legacy_anchor_key)
    next
      case (Some a')
      with f rest v r \<open>found' = Some a\<close> show ?thesis by (auto intro!: stored [of a] ReadAnchor_Some)
    qed
  qed
qed

section \<open>What a creator leaves\<close>

text \<open>
  The receipts are as before, the anchor of the scope is there and is the one that was there, or a new
  one; its first receipt is stored or is the one of this very creation.
\<close>

definition anchored_creation :: "database \<Rightarrow> anchor_row \<Rightarrow> bool \<Rightarrow> external_creation \<Rightarrow> database \<Rightarrow> bool" where
  "anchored_creation db scope rollback x db' \<longleftrightarrow>
     external_receipts db' = external_receipts db \<and>
     (\<exists>a. anchor_key a = anchor_key scope \<and>
        (anchors db' = anchors db \<and> lookup_row anchor_key (anchor_key scope) (anchors db) = Some a \<or>
         anchors db' = anchors db @ [a] \<and> lookup_row anchor_key (anchor_key scope) (anchors db) = None) \<and>
        ((\<exists>r \<in> set (external_receipts db). first_receipt a r) \<or>
         \<not> rollback \<and> anc_first_forward a = sum_id (xc_deployment x) \<and> xc_base x = Some (anc_rollback_base a)) \<and>
        (if rollback then xc_base x = Some (anc_rollback_base a) \<and> xc_forward x \<noteq> None else xc_forward x = None))"

lemma anchored_creationI:
  assumes "external_receipts db' = external_receipts db" "anchor_key a = anchor_key scope"
    and "anchors db' = anchors db \<and> lookup_row anchor_key (anchor_key scope) (anchors db) = Some a \<or>
         anchors db' = anchors db @ [a] \<and> lookup_row anchor_key (anchor_key scope) (anchors db) = None"
    and "(\<exists>r \<in> set (external_receipts db). first_receipt a r) \<or>
         \<not> rollback \<and> anc_first_forward a = sum_id (xc_deployment x) \<and> xc_base x = Some (anc_rollback_base a)"
    and "if rollback then xc_base x = Some (anc_rollback_base a) \<and> xc_forward x \<noteq> None else xc_forward x = None"
  shows "anchored_creation db scope rollback x db'"
  using assms unfolding anchored_creation_def by blast

text \<open>A stored or adopted anchor.\<close>

lemma found_anchor:
  assumes "operationRollbackAnchor db scope True = Inr (Some a, db')"
  shows "external_receipts db' = external_receipts db" "anchor_key a = anchor_key scope"
    "anchors db' = anchors db \<and> lookup_row anchor_key (anchor_key scope) (anchors db) = Some a \<or>
     anchors db' = anchors db @ [a] \<and> lookup_row anchor_key (anchor_key scope) (anchors db) = None"
    "\<exists>r \<in> set (external_receipts db). first_receipt a r"
  using assms
  by (cases rule: operationRollbackAnchor_cases;
      auto dest: lookup_row_key CreateAnchor_cases validateRollbackAnchor_first)+

text \<open>One step at a time through a sequence of fallible calls.\<close>

lemma bindRE: "bindR m f = Inr y \<Longrightarrow> (\<And>x. m = Inr x \<Longrightarrow> f x = Inr y \<Longrightarrow> P) \<Longrightarrow> P"
  by auto

lemma createExternalRollback_cases:
  assumes "createExternalRollback kit now wall fresh db actor org plugin body rb environment recipient = Inr (x, db')"
  obtains a db1 forward head retryOf expected d and base :: deployment_summary where
    "operationRollbackAnchor db (externalRollbackScope org plugin body) True = Inr (Some a, db1)"
    "rollback_forward db1 org plugin body (rbr_forward rb) = Inr forward"
    "rollback_head db1 org plugin body (externalRollbackScope org plugin body) (anc_rollback_base a) (sum_id forward) (rbr_retry_of rb) = Inr (head, retryOf)"
    "rollback_base db1 org body (anc_rollback_base a) = Inr base" "immutableModuleVersions (sum_module_artifacts base) = Inr expected"
    "create_external kit now wall fresh db1 (external_request actor org body environment ModeRollback (Some (anc_rollback_base a)) empty_manifest recipient)
      (plain_options\<lparr>op_confirmations := map art_version_uuid (sum_module_artifacts base), op_expected_current := Some head,
         op_retry_of_rollback := retryOf, op_validate_plan := Some (validate_rollback_plan (anc_rollback_base a) expected)\<rparr>) = Inr (d, db')"
    "xc_deployment x = d" "xc_base x = Some (anc_rollback_base a)" "xc_forward x = Some (sum_id forward)" "xc_retry x = retryOf"
proof -
  from assms show thesis
    by (clarsimp simp: createExternalRollback_def Let_def simp del: bindR_eq_Inr elim!: bindRE split: option.split_asm if_split_asm)
      (rule that, assumption, assumption, assumption, assumption, assumption, assumption, simp_all)+
qed

lemma createExternalRollback_anchored:
  assumes "createExternalRollback kit now wall fresh db actor org plugin body rb environment recipient = Inr (x, db')"
  shows "anchored_creation db (externalRollbackScope org plugin body) True x db'"
  using assms
proof (rule createExternalRollback_cases)
  fix a db1 forward head retryOf expected d and base :: deployment_summary
  assume o: "operationRollbackAnchor db (externalRollbackScope org plugin body) True = Inr (Some a, db1)"
    and c: "create_external kit now wall fresh db1 (external_request actor org body environment ModeRollback (Some (anc_rollback_base a)) empty_manifest recipient)
      (plain_options\<lparr>op_confirmations := map art_version_uuid (sum_module_artifacts base), op_expected_current := Some head,
         op_retry_of_rollback := retryOf, op_validate_plan := Some (validate_rollback_plan (anc_rollback_base a) expected)\<rparr>) = Inr (d, db')"
    and x: "xc_deployment x = d" "xc_base x = Some (anc_rollback_base a)" "xc_forward x = Some (sum_id forward)"
  note f = create_external_frame [OF c, simplified]
  from found_anchor [OF o] show ?thesis
    by (intro anchored_creationI [of _ _ a]) (auto simp: f x)
qed

lemma anchor_first_cases:
  assumes "anchor_first db anchor scope first base = Inr db'"
  obtains (kept) a where "anchor = Some a" "db' = db"
  | (anchored) "anchor = None" "lookup_row anchor_key (anchor_key scope) (anchors db) = None"
      "db' = db\<lparr>anchors := anchors db @ [scope\<lparr>anc_first_forward := first, anc_rollback_base := base\<rparr>]\<rparr>"
proof (cases anchor)
  case None
  with assms have "CreateExternalOperationRollbackAnchor db (scope\<lparr>anc_first_forward := first, anc_rollback_base := base\<rparr>) = Inr db'"
    by (auto simp: anchor_first_def Let_def)
  from CreateAnchor_cases [OF this] None show thesis by (intro anchored) (simp_all add: anchor_key_def)
qed (use assms kept in \<open>simp add: anchor_first_def\<close>)

lemma createForward_cases:
  assumes "createExternalDeploymentFromSnapshot kit now wall fresh db actor org plugin body plan environment recipient = Inr (x, db')"
  obtains anchor db1 p manifest d db2 and m :: plan_maps where
    "operationRollbackAnchor db (externalRollbackScope org plugin body) True = Inr (anchor, db1)"
    "checked_snapshot kit db1 actor org plugin body plan = Inr p"
    "create_external kit now wall fresh db1 (external_request actor org body environment ModeDeploy None manifest recipient)
      (plain_options\<lparr>op_explicit := pm_explicit m, op_module_operation := Some (ab_operation_ref body),
         op_authorize := Some (authorize_target (pm_targets m)), op_validate_plan := Some (validate_forward_plan kit p)\<rparr>) = Inr (d, db2)"
    "anchor_first db2 anchor (externalRollbackScope org plugin body) (sum_id d) (pln_base p) = Inr db'"
    "xc_deployment x = d" "xc_base x = Some (pln_base p)" "xc_forward x = None"
proof -
  from assms show thesis
    by (clarsimp simp: createExternalDeploymentFromSnapshot_def Let_def simp del: bindR_eq_Inr elim!: bindRE split: if_split_asm sum.split_asm)
      (rule that, assumption, assumption, assumption, assumption, simp_all)
qed

lemma createForward_anchored:
  assumes "createExternalDeploymentFromSnapshot kit now wall fresh db actor org plugin body plan environment recipient = Inr (x, db')"
  shows "anchored_creation db (externalRollbackScope org plugin body) False x db'"
  using assms
proof (rule createForward_cases)
  let ?scope = "externalRollbackScope org plugin body"
  fix anchor db1 p manifest d db2 and m :: plan_maps
  assume o: "operationRollbackAnchor db ?scope True = Inr (anchor, db1)"
    and c: "create_external kit now wall fresh db1 (external_request actor org body environment ModeDeploy None manifest recipient)
      (plain_options\<lparr>op_explicit := pm_explicit m, op_module_operation := Some (ab_operation_ref body),
         op_authorize := Some (authorize_target (pm_targets m)), op_validate_plan := Some (validate_forward_plan kit p)\<rparr>) = Inr (d, db2)"
    and a: "anchor_first db2 anchor ?scope (sum_id d) (pln_base p) = Inr db'"
    and x: "xc_deployment x = d" "xc_base x = Some (pln_base p)" "xc_forward x = None"
  note f = create_external_frame [OF c, simplified]
  from a show ?thesis
  proof (cases rule: anchor_first_cases)
    case (kept a)
    with o have "operationRollbackAnchor db ?scope True = Inr (Some a, db1)" by simp
    from found_anchor [OF this] kept show ?thesis by (intro anchored_creationI [of _ _ a]) (auto simp: f x)
  next
    case anchored
    from o have "db1 = db" by (cases rule: operationRollbackAnchor_cases) (use anchored(1) in auto)
    with anchored show ?thesis
      by (intro anchored_creationI [of _ _ "?scope\<lparr>anc_first_forward := sum_id d, anc_rollback_base := pln_base p\<rparr>"])
        (auto simp: f x anchor_key_def)
  qed
qed

lemma GetOrCreate_frame:
  assumes "GetOrCreate v now db org plugin operation = Inr (m, db')"
  shows "external_receipts db' = external_receipts db" "anchors db' = anchors db"
  using assms
  by (auto simp: GetOrCreate_def StoreExternalOperationMaterial_def Let_def split: if_splits sum.splits option.splits)

lemma external_creator_anchored:
  assumes "external_creator_of kit now wall fresh org plugin body mode environment db actor = Inr (x, db')"
  shows "anchored_creation db (externalRollbackScope org plugin body) (mode \<noteq> ModeDeploy) x db'"
proof -
  from assms obtain m db1 where g: "GetOrCreate (xk_vault kit) now db org plugin (ab_operation_ref body) = Inr (m, db1)"
    by (auto simp: external_creator_of_def split: sum.splits)
  have "anchored_creation db1 (externalRollbackScope org plugin body) (mode \<noteq> ModeDeploy) x db'"
    using assms g by (auto simp: external_creator_of_def split: if_splits option.splits
      intro: createForward_anchored createExternalRollback_anchored)
  then show ?thesis using GetOrCreate_frame [OF g] by (simp add: anchored_creation_def)
qed

section \<open>The lineage of operations\<close>

text \<open>
  Receipts are unique by request and by Deployment, anchors by operation and Environment; every anchor
  has the receipt of its first forward Deployment, every receipt has an anchor, and a rollback goes
  back to the base of the anchor.
\<close>

definition lineage_inv :: "database \<Rightarrow> bool" where
  "lineage_inv db \<longleftrightarrow>
     receipt_tab.keyed db \<and> distinct (map ext_deployment (external_receipts db)) \<and> anchor_tab.keyed db \<and>
     (\<forall>a \<in> set (anchors db). \<exists>r \<in> set (external_receipts db). first_receipt a r) \<and>
     (\<forall>r \<in> set (external_receipts db). \<exists>a \<in> set (anchors db). anchored r a \<and>
        (if ext_service_action r = ExternalDeploymentRollbackAction
         then ext_base_deployment r = Some (anc_rollback_base a) \<and> ext_forward_deployment r \<noteq> None
         else ext_service_action r = ExternalDeploymentAction \<and> ext_forward_deployment r = None))"

lemma actions_differ [simp]: "ExternalDeploymentAction \<noteq> ExternalDeploymentRollbackAction"
  "ExternalDeploymentRollbackAction \<noteq> ExternalDeploymentAction"
  by (simp_all add: action_defs)

lemma anchored_key: "anchored r a \<longleftrightarrow> ext_environment_uuid r = Some (anc_environment a) \<and>
    anchor_key a = (ext_org r, ext_plugin r, ext_operation_ref r, anc_environment a)"
  by (auto simp: anchored_def anchor_key_def)

lemma anchored_unique:
  assumes "lineage_inv db" "a \<in> set (anchors db)" "b \<in> set (anchors db)" "anchored r a" "anchored r b"
  shows "a = b"
proof -
  have "anchor_key a = anchor_key b" using assms(4,5) by (simp add: anchored_key)
  with assms show ?thesis unfolding lineage_inv_def anchor_tab.keyed_def by (meson inj_onD distinct_map)
qed

text \<open>A creation followed by its receipt.\<close>

lemma lineage_receipt:
  assumes inv: "lineage_inv db" and c: "anchored_creation db scope rollback x db1"
    and r: "CreateExternalOperationDeploymentReceipt now db1 receipt = Inr (r, db')"
    and key: "(ext_org receipt, ext_plugin receipt, ext_operation_ref receipt, anc_environment scope) = anchor_key scope"
      "ext_environment_uuid receipt = Some (anc_environment scope)" "ext_deployment receipt = sum_id (xc_deployment x)"
      "ext_base_deployment receipt = xc_base x" "ext_forward_deployment receipt = xc_forward x"
      "ext_service_action receipt = (if rollback then ExternalDeploymentRollbackAction else ExternalDeploymentAction)"
  shows "lineage_inv db'" "lineage_kept db db'"
proof -
  note rc = CreateReceipt_cases [OF r]
  from c obtain a where rec: "external_receipts db1 = external_receipts db" and ak: "anchor_key a = anchor_key scope"
    and an: "anchors db1 = anchors db \<and> lookup_row anchor_key (anchor_key scope) (anchors db) = Some a \<or>
         anchors db1 = anchors db @ [a] \<and> lookup_row anchor_key (anchor_key scope) (anchors db) = None"
    and first: "(\<exists>r \<in> set (external_receipts db). first_receipt a r) \<or>
         \<not> rollback \<and> anc_first_forward a = sum_id (xc_deployment x) \<and> xc_base x = Some (anc_rollback_base a)"
    and fields: "if rollback then xc_base x = Some (anc_rollback_base a) \<and> xc_forward x \<noteq> None else xc_forward x = None"
    unfolding anchored_creation_def by blast
  have receipts: "external_receipts db' = external_receipts db @ [r]" and anchors: "anchors db' = anchors db1"
    using rc(2) rec by simp_all
  have env: "anc_environment a = anc_environment scope" using ak by (simp add: anchor_key_def)
  have r_a: "anchored r a" using key(1,2) ak env by (simp add: anchored_key rc(1))
  have a_in: "a \<in> set (anchors db')" using an anchors by (auto dest: lookup_row_in_set)
  have r_fields: "ext_deployment r = sum_id (xc_deployment x)" "ext_base_deployment r = xc_base x" "ext_forward_deployment r = xc_forward x"
    "ext_service_action r = (if rollback then ExternalDeploymentRollbackAction else ExternalDeploymentAction)"
    using key by (simp_all add: rc(1))
  have first': "\<exists>r \<in> set (external_receipts db'). first_receipt a r"
    using first r_a r_fields by (auto simp: receipts first_receipt_def)
  have old: "set (anchors db) \<subseteq> set (anchors db')" "set (anchors db') \<subseteq> insert a (set (anchors db))"
    using an anchors by auto
  have "receipt_tab.keyed db'" "distinct (map ext_deployment (external_receipts db'))"
    using inv rc(3,4) by (auto simp: lineage_inv_def receipt_tab.keyed_def receipts rec lookup_row_None)
  moreover have "anchor_tab.keyed db'"
    using inv an ak by (auto simp: lineage_inv_def anchor_tab.keyed_def anchors lookup_row_None)
  moreover have "\<exists>r \<in> set (external_receipts db'). first_receipt b r" if "b \<in> set (anchors db')" for b
    using inv first' old that by (auto simp: lineage_inv_def receipts)
  moreover have "\<exists>b \<in> set (anchors db'). anchored s b \<and> (if ext_service_action s = ExternalDeploymentRollbackAction
         then ext_base_deployment s = Some (anc_rollback_base b) \<and> ext_forward_deployment s \<noteq> None
         else ext_service_action s = ExternalDeploymentAction \<and> ext_forward_deployment s = None)" if "s \<in> set (external_receipts db')" for s
  proof (cases "s = r")
    case True
    with a_in r_a r_fields fields show ?thesis by (intro bexI [of _ a]) (auto split: if_splits)
  next
    case False
    with that have "s \<in> set (external_receipts db)" by (simp add: receipts)
    with inv old(1) show ?thesis unfolding lineage_inv_def by blast
  qed
  ultimately show "lineage_inv db'" unfolding lineage_inv_def by blast
  show "lineage_kept db db'"
    using an by (auto simp: lineage_kept_def receipts anchors lookup_row_append)
qed

text \<open>The plugin context binds its claims to the path of the request.\<close>

definition claims_bound :: "external_kit \<Rightarrow> bool" where
  "claims_bound kit \<longleftrightarrow> (\<forall>assertion org plugin body key claims. xk_verify kit assertion org plugin body key = Some claims \<longrightarrow>
     pg_org claims = org \<and> pg_plugin claims = plugin)"

lemma Admit_cases:
  assumes "Admit authorize parse_uuid now db rq = (answer, db')"
  obtains (unchanged) "db' = db" "\<And>d. answer \<noteq> Inr (d, False)"
  | (admitted) actor au d where "parse_uuid (pg_actor (ar_claims rq)) = Some actor"
      "authorize (ar_claims rq) (grant_request_of rq) = Inr au" "externalDeploymentAuthorizationMatches au rq"
      "lookup_row ext_receipt_key (pg_org (ar_claims rq), pg_plugin (ar_claims rq), pg_request (ar_claims rq)) (external_receipts db) = None"
      "admit_new now db rq actor au = Inr (d, db')" "answer = Inr (d, False)"
  using assms unfolding Admit_def
  by (auto simp: GetExternalOperationDeploymentReceipt_def split: sum.splits option.splits if_splits prod.splits)

lemma admit_new_cases:
  assumes "admit_new now db rq actor au = Inr (d, db')"
  obtains x db1 r where "ar_create rq db actor = Inr (x, db1)" "d = xc_deployment x"
    "CreateExternalOperationDeploymentReceipt now db1 (receipt_of rq au x) = Inr (r, db')"
  using assms by (auto simp: admit_new_def Let_def split: if_splits)

lemma validated_action:
  assumes "validateExternalDeploymentBody parse_uuid body = Inr (mode, action)"
  shows "action = (if mode = ModeDeploy then ExternalDeploymentAction else ExternalDeploymentRollbackAction)"
  using assms by (auto simp: validateExternalDeploymentBody_def split: if_splits external_mode.splits option.splits prod.splits)

lemma admit_body_lineage:
  assumes "admit_body kit now wall fresh db org plugin claims body = (answer, db')" "lineage_inv db"
    and "pg_org claims = org" "pg_plugin claims = plugin"
  shows "lineage_inv db'" "lineage_kept db db'"
proof -
  have *: "lineage_inv db' \<and> lineage_kept db db'"
  proof (cases "db' = db")
    case False
    with assms(1) obtain mode action environment out where v: "validateExternalDeploymentBody (xk_parse_uuid kit) body = Inr (mode, action)"
      and a: "Admit (xk_authorize kit) (xk_parse_uuid kit) now db
        (admission_request_of kit now wall fresh org plugin claims body mode action environment) = (out, db')"
      by (auto simp: admit_body_def split: if_splits sum.splits prod.splits)
    from a show ?thesis
    proof (cases rule: Admit_cases)
      case (admitted actor au d)
      from admitted(5) obtain x db1 r where x: "external_creator_of kit now wall fresh org plugin body mode environment db actor = Inr (x, db1)"
        and r: "CreateExternalOperationDeploymentReceipt now db1
          (receipt_of (admission_request_of kit now wall fresh org plugin claims body mode action environment) au x) = Inr (r, db')"
        by (rule admit_new_cases) (simp add: admission_request_of_def)
      show ?thesis
        using lineage_receipt [OF assms(2) external_creator_anchored [OF x] r] admitted(3) assms(3,4) validated_action [OF v]
        by (simp add: receipt_of_def admission_request_of_def externalRollbackScope_def anchor_key_def externalDeploymentAuthorizationMatches_def)
    qed (use False in simp)
  qed (use assms(2) in simp)
  then show "lineage_inv db'" "lineage_kept db db'" by simp_all
qed

lemma handle_admission_lineage:
  assumes "handle_admission kit now wall fresh db rq = (answer, db')" "claims_bound kit" "lineage_inv db"
  shows "lineage_inv db' \<and> lineage_kept db db'"
  using assms admit_body_lineage [of kit now wall fresh db "xr_org rq" "xr_plugin rq"]
  by (auto simp: handle_admission_def Let_def claims_bound_def split: if_splits option.splits)

section \<open>Histories\<close>

text \<open>Admissions of plugins among any other steps that write neither receipts nor anchors.\<close>

inductive ext_step :: "database \<Rightarrow> database \<Rightarrow> bool" where
  ext_admission: "handle_admission kit now wall fresh db rq = (answer, db') \<Longrightarrow> claims_bound kit \<Longrightarrow> ext_step db db'"
| ext_rest: "external_receipts db' = external_receipts db \<Longrightarrow> anchors db' = anchors db \<Longrightarrow> ext_step db db'"

definition lineage_step :: "database \<Rightarrow> database \<Rightarrow> bool" where
  "lineage_step db db' \<longleftrightarrow> lineage_kept db db' \<and> (lineage_inv db \<longrightarrow> lineage_inv db')"

lemma lineage_inv_cong:
  "external_receipts db' = external_receipts db \<Longrightarrow> anchors db' = anchors db \<Longrightarrow> lineage_inv db' = lineage_inv db"
  by (simp add: lineage_inv_def receipt_tab.keyed_def anchor_tab.keyed_def)

lemma ext_step_lineage: "ext_step db db' \<Longrightarrow> lineage_inv db \<Longrightarrow> lineage_step db db'"
  unfolding lineage_step_def
proof (induction rule: ext_step.induct)
  case (ext_admission kit now wall fresh db rq answer db')
  from handle_admission_lineage [OF ext_admission] show ?case by simp
next
  case (ext_rest db' db)
  from lineage_kept_same [OF ext_rest(1,2)] lineage_inv_cong [OF ext_rest(1,2)] show ?case by simp
qed

interpretation lineage: guarantee ext_step lineage_inv lineage_step
proof
  show "lineage_step s u" if "lineage_step s t" "lineage_step t u" for s t u
    using that lineage_kept_trans unfolding lineage_step_def by blast
qed (auto simp: lineage_step_def dest: ext_step_lineage)

lemma lineage_inv_empty: "lineage_inv empty_database"
  by (simp add: lineage_inv_def receipt_tab.keyed_def anchor_tab.keyed_def empty_database_def)

end
