(* ===== verification/Runner_Workers.thy ===== *)
theory Runner_Workers
  imports Late_Results
begin

text \<open>
  The two workers that drive a Runner: \<^verbatim>\<open>createdephandler.go\<close>, which reacts to a
  created Deployment, reserves a Runner slot, opens the dispatch budget and starts the Runner, and
  \<^verbatim>\<open>runnerstatushandler.go\<close>, the watchdog that polls it and fails the Deployment
  when it is stuck, lost its lease or exceeded its budget. The Control Plane, the Runner, the bundle
  store and the publisher answer through the fields of \<open>runner_services\<close>; what a worker
  asks of them is returned as a list of effects. \<open>clock k\<close> is the k-th reading of the
  process clock.
\<close>

section \<open>Services and effects\<close>

text \<open>The Runner of the Control Plane: no answer, or a status code with the configuration of the Runner.\<close>

record runner_configuration =
  rc_max_parallel_jobs :: "int option"
  rc_protocols :: "string list"

datatype bundle_outcome = NoBundleStore | BundleStored | BundleBuildFailed | BundlePutFailed

datatype start_outcome = StartOk | PublishRetry | AgentUnreachable | StartFailed

record runner_status =
  rst_completed :: bool
  rst_stuck :: bool
  rst_message :: string

datatype check_outcome = CheckedStatus runner_status | CheckUnreachable | CheckFailed string

record runner_services =
  rs_runner :: "string \<Rightarrow> string \<Rightarrow> (int \<times> runner_configuration) option"
  rs_create_error :: "deployment_summary \<Rightarrow> string option"
  rs_running :: "deployment_summary \<Rightarrow> bool option"
  rs_bundle :: "deployment_summary \<Rightarrow> bundle_outcome"
  rs_start :: "deployment_summary \<Rightarrow> instant \<Rightarrow> start_outcome"
  rs_publish :: "deployment_summary \<Rightarrow> bool"
  rs_check :: "deployment_summary \<Rightarrow> check_outcome"

datatype worker_effect = StartRequested uuid instant | StatusCheckScheduled uuid string

text \<open>A retry error, an error for the user, any other error.\<close>

datatype worker_error = RetryError | UserError string | UnexpectedError

datatype worker_verdict = Acked | Redeliver | TerminalDelivery | Errored model_error

text \<open>What returning an error of the inner handler does to the delivery.\<close>

fun returned :: "worker_error \<Rightarrow> worker_verdict" where
  "returned RetryError = Redeliver"
| "returned (UserError m) = Errored (ErrInternal m)"
| "returned UnexpectedError = Errored (ErrInternal ''unexpected error'')"

definition magicNoOpRunnerId :: string where "magicNoOpRunnerId = ''sunshine-weary-robin-runner''"

definition KubernetesAgentConnectionIssueTolerance :: duration where
  "KubernetesAgentConnectionIssueTolerance = 120 * second"

definition MaxStatusCheckDuration :: duration where "MaxStatusCheckDuration = RunnerExecutionBudget"

definition RetryInterval :: duration where "RetryInterval = 30 * second"

definition MaxDeliveries :: int where "MaxDeliveries = MaxStatusCheckDuration div RetryInterval + 2"

section \<open>Failing a Deployment\<close>

text \<open>
  \<^verbatim>\<open>failDeployment\<close> of both workers: the Deployment as it was read before, at the
  revision it had then.
\<close>

definition failDeployment :: "instant \<Rightarrow> instant \<Rightarrow> database \<Rightarrow> deployment_summary \<Rightarrow> string \<Rightarrow> database result" where
  "failDeployment now wall db dep message =
     bindR (UpdateDeploymentStatusAndOutputs now wall db (sum_id dep)
       \<lparr>up_status = StatusFailed, up_status_message = message, up_outputs = None, up_metrics = sum_metrics dep,
        up_expected_revision = Some (sum_revision dep), up_completion_proven = False\<rparr>) (\<lambda>(dep', db1).
     CreateDeploymentHistoryRecord db1 dep')"

definition fail_verdict :: "instant \<Rightarrow> instant \<Rightarrow> database \<Rightarrow> deployment_summary \<Rightarrow> string \<Rightarrow> worker_verdict \<times> database" where
  "fail_verdict now wall db dep message =
     (case failDeployment now wall db dep message of Inl e \<Rightarrow> (Errored e, db) | Inr db' \<Rightarrow> (Acked, db'))"

section \<open>Dispatching a created Deployment\<close>

definition scheduleStatusCheck :: "runner_services \<Rightarrow> deployment_summary \<Rightarrow> worker_error option \<times> worker_effect list" where
  "scheduleStatusCheck sv d =
     (if rs_publish sv d then (None, [StatusCheckScheduled (sum_id d) (uuid_text (sum_id d) @ '':runner-status-check'')])
      else (Some RetryError, []))"

text \<open>Runner slot and budget are held; \<open>deadline\<close> is the end of the budget.\<close>

definition start_runner ::
  "runner_services \<Rightarrow> instant \<Rightarrow> deployment_summary \<Rightarrow> instant \<Rightarrow> worker_error option \<times> worker_effect list" where
  "start_runner sv wall d deadline =
     (case rs_start sv d deadline of
        StartOk \<Rightarrow>
          (case scheduleStatusCheck sv d of (e, effects) \<Rightarrow> (e, StartRequested (sum_id d) deadline # effects))
      | PublishRetry \<Rightarrow> (Some RetryError, [StartRequested (sum_id d) deadline])
      | AgentUnreachable \<Rightarrow>
          (Some (if deadline - wall > RunnerExecutionBudget - KubernetesAgentConnectionIssueTolerance then RetryError
             else UserError ''kubernetes-agent runner not reachable, please check your network connectivity and configuration''),
           [StartRequested (sum_id d) deadline])
      | StartFailed \<Rightarrow> (Some UnexpectedError, [StartRequested (sum_id d) deadline]))"

definition prepare_bundle :: "runner_services \<Rightarrow> deployment_summary \<Rightarrow> worker_error option" where
  "prepare_bundle sv d =
     (case rs_bundle sv d of
        NoBundleStore \<Rightarrow> None
      | BundleStored \<Rightarrow> None
      | BundleBuildFailed \<Rightarrow>
          Some (if sum_mode d = ModeObservation then UserError ''observation baseline material is unavailable'' else RetryError)
      | BundlePutFailed \<Rightarrow> Some RetryError)"

text \<open>
  An observation that waited its whole budget without a first attempt is given up; without a budget
  row the read fails and is retried.
\<close>

definition preparation_expired :: "instant \<Rightarrow> database \<Rightarrow> deployment_summary \<Rightarrow> worker_error option" where
  "preparation_expired wall db d =
     (if sum_mode d = ModeObservation \<and> wall - sum_created_at d \<ge> RunnerExecutionBudget
      then (case ReadDeploymentDispatchBudget db (sum_id d) of
          Inl _ \<Rightarrow> Some RetryError
        | Inr b \<Rightarrow>
            if bud_first_attempt_at b = None then Some (UserError ''observation preparation expired before Runner dispatch'') else None)
      else None)"

definition dispatch_reserved ::
  "runner_services \<Rightarrow> (nat \<Rightarrow> instant) \<Rightarrow> instant \<Rightarrow> database \<Rightarrow> deployment_summary \<Rightarrow> worker_error option \<times> worker_effect list \<times> database" where
  "dispatch_reserved sv clock now db d =
     (if rs_create_error sv d \<noteq> None then (Some UnexpectedError, [], db)
      else case rs_running sv d of
        None \<Rightarrow> (Some UnexpectedError, [], db)
      | Some True \<Rightarrow> (case scheduleStatusCheck sv d of (e, effects) \<Rightarrow> (e, effects, db))
      | Some False \<Rightarrow>
          (case prepare_bundle sv d of
             Some e \<Rightarrow> (Some e, [], db)
           | None \<Rightarrow>
               (case BeginDeploymentDispatch now (clock 1) db d of
                  Inl _ \<Rightarrow> (Some UnexpectedError, [], db)
                | Inr (deadline, db') \<Rightarrow>
                    (case start_runner sv (clock 2) d deadline of (e, effects) \<Rightarrow> (e, effects, db')))))"

definition handleInner ::
  "runner_services \<Rightarrow> (nat \<Rightarrow> instant) \<Rightarrow> instant \<Rightarrow> database \<Rightarrow> deployment_summary \<Rightarrow> worker_error option \<times> worker_effect list \<times> database" where
  "handleInner sv clock now db d =
     (case preparation_expired (clock 0) db d of
        Some e \<Rightarrow> (Some e, [], db)
      | None \<Rightarrow>
          (case rs_runner sv (sum_org d) (sum_runner_id d) of
             None \<Rightarrow> (Some RetryError, [], db)
           | Some (status, conf) \<Rightarrow>
               if status = 404 then (Some (UserError ''no runner has been configured with id''), [], db)
               else if status \<noteq> 200 then (Some UnexpectedError, [], db)
               else case RunnerAdmissionConfiguration (rc_max_parallel_jobs conf) (rc_protocols conf) of
                 Inl _ \<Rightarrow> (Some UnexpectedError, [], db)
               | Inr (limit, supported) \<Rightarrow>
                   if sum_mode d = ModeObservation \<and> (\<not> supported \<or> limit = 0)
                   then (Some (UserError ''Runner no longer supports environment-observation/v1 with bounded capacity''), [], db)
                   else case ReserveRunnerJob now db d limit of
                     Inl _ \<Rightarrow> (Some RetryError, [], db)
                   | Inr db1 \<Rightarrow> dispatch_reserved sv clock now db1 d))"

text \<open>The decoded event: organization, Deployment and revision; a revision of zero is not compared.\<close>

definition handle_created ::
  "runner_services \<Rightarrow> (nat \<Rightarrow> instant) \<Rightarrow> instant \<Rightarrow> instant \<Rightarrow> database \<Rightarrow> string \<Rightarrow> uuid \<Rightarrow> int \<Rightarrow> worker_verdict \<times> worker_effect list \<times> database" where
  "handle_created sv clock now wall db org i revision =
     (case GetDeployment db org i of
        Inl e \<Rightarrow> (if IsErrNotFound e then Acked else Errored e, [], db)
      | Inr (d, _) \<Rightarrow>
          if sum_runner_id d = '''' then (Errored (ErrInternal ''runner not defined for deployment''), [], db)
          else if (revision > 0 \<and> sum_revision d \<noteq> revision) \<or> sum_status d \<noteq> StatusExecuting then (Acked, [], db)
          else
            let (renewed, db1) = (if RequiresEnvironmentLease (sum_mode d)
                  then RenewDeploymentLease now db i DefaultEnvironmentLeaseTTL else (Inr (), db)) in
            case renewed of
              Inl e \<Rightarrow>
                if IsErrConflict e
                then (case fail_verdict now wall db1 d ''deployment lost its exclusive Environment lease before Runner dispatch''
                      of (v, db2) \<Rightarrow> (v, [], db2))
                else (Redeliver, [], db1)
            | Inr _ \<Rightarrow>
                (case handleInner sv clock now db1 d of
                   (None, effects, db2) \<Rightarrow> (Acked, effects, db2)
                 | (Some e, effects, db2) \<Rightarrow>
                     if sum_runner_id d = magicNoOpRunnerId \<or> e = RetryError then (returned e, effects, db2)
                     else (case fail_verdict now wall db2 d (case e of UserError m \<Rightarrow> m | _ \<Rightarrow> ''internal failure - please contact support'')
                           of (v, db3) \<Rightarrow> (v, effects, db3))))"

section \<open>Watching a Runner\<close>

definition check_runner ::
  "runner_services \<Rightarrow> instant \<Rightarrow> instant \<Rightarrow> database \<Rightarrow> deployment_summary \<Rightarrow> string \<Rightarrow> string \<Rightarrow> worker_verdict \<times> database" where
  "check_runner sv now wall db d org runner =
     (case rs_runner sv org runner of
        None \<Rightarrow> (Redeliver, db)
      | Some (status, conf) \<Rightarrow>
          if status = 404 then fail_verdict now wall db d ''no runner has been configured with id''
          else if status \<noteq> 200 then (Redeliver, db)
          else case rs_create_error sv d of
            Some e \<Rightarrow> fail_verdict now wall db d (''failed to create runner: '' @ e)
          | None \<Rightarrow>
              (case rs_check sv d of
                 CheckUnreachable \<Rightarrow> (Redeliver, db)
               | CheckFailed e \<Rightarrow> fail_verdict now wall db d (''failed to check runner status: '' @ e)
               | CheckedStatus s \<Rightarrow>
                   if rst_stuck s then fail_verdict now wall db d (rst_message s)
                   else (if rst_completed s then Acked else Redeliver, db)))"

definition handle_status ::
  "runner_services \<Rightarrow> instant \<Rightarrow> instant \<Rightarrow> database \<Rightarrow> string \<Rightarrow> uuid \<Rightarrow> string \<Rightarrow> worker_verdict \<times> database" where
  "handle_status sv now wall db org i runner =
     (case GetDeployment db org i of
        Inl e \<Rightarrow> (if IsErrNotFound e then Acked else Redeliver, db)
      | Inr (d, _) \<Rightarrow>
          if sum_status d \<noteq> StatusExecuting then (Acked, db)
          else case ReadDeploymentDispatchBudget db i of
            Inl _ \<Rightarrow> (Redeliver, db)
          | Inr budget \<Rightarrow>
              (case bud_deadline budget of
                 None \<Rightarrow> (TerminalDelivery, db)
               | Some deadline \<Rightarrow>
                   if \<not> wall < deadline
                   then fail_verdict now wall db d ''deployment timeout - runner did not complete within expected time''
                   else
                     let (renewed, db1) = (if RequiresEnvironmentLease (sum_mode d)
                           then RenewDeploymentLease now db i DefaultEnvironmentLeaseTTL else (Inr (), db)) in
                     case renewed of
                       Inl e \<Rightarrow>
                         if IsErrConflict e
                         then fail_verdict now wall db1 d ''deployment lost its exclusive Environment lease while the Runner was active''
                         else (Redeliver, db1)
                     | Inr _ \<Rightarrow> check_runner sv now wall db1 d org runner))"

end
