(* ===== verification/Observation_Contract.thy ===== *)
theory Observation_Contract
  imports Observation_Results
begin

text \<open>
  What the observation operations promise: a validated result always fits where it is stored; a
  request starts at most one run and its resolution is final; a run is admitted only against the
  current, succeeded, reproducible state of an idle Environment; a fingerprint determines the
  snapshot it was taken of.
\<close>

section \<open>The size of a result\<close>

lemma length_separated: "length (separated sep xs) = sum_list (map length xs) + length sep * (length xs - 1)"
proof -
  have "length (concat (map (\<lambda>x. sep @ x) ys)) = sum_list (map length ys) + length sep * length ys" for ys
    by (induction ys) simp_all
  then show ?thesis by (cases xs) (simp_all add: separated_def)
qed

lemma length_quoted [simp]: "length (quoted s) = length s + 2"
  by (simp add: quoted_def)

lemma sum_list_bound: "(\<And>x. x \<in> set xs \<Longrightarrow> f x \<le> k) \<Longrightarrow> sum_list (map f xs) \<le> k * length xs" for k :: nat
  by (induction xs) (auto simp: add_mono)

lemma length_format_nat: "0 < k \<Longrightarrow> n < 10 ^ k \<Longrightarrow> length (format_nat n) \<le> k"
proof (induction k arbitrary: n)
  case (Suc k)
  show ?case
  proof (cases "n < 10")
    case True
    then show ?thesis by (simp add: format_nat.simps [of n])
  next
    case False
    with Suc.prems have "0 < k" by (cases k) simp_all
    moreover from Suc.prems(2) have "n div 10 < 10 ^ k" by (simp add: less_mult_imp_div_less mult.commute)
    ultimately have "length (format_nat (n div 10)) \<le> k" by (rule Suc.IH)
    with False show ?thesis by (simp add: format_nat.simps [of n])
  qed
qed simp

text \<open>What validation says of one change.\<close>

lemma check_change_Inr:
  assumes "check_change seen c = Inr u"
  shows "length (ch_id c) \<le> 64" "length (ch_resource_type c) \<le> 128" "length (ch_actions c) \<le> 2"
    "sum_list (map length (ch_actions c)) \<le> 12" "ch_id c \<notin> set seen"
proof -
  from assms have ok: "observationIDPattern (ch_id c)" "observationTypePattern (ch_resource_type c)"
    "length (ch_actions c) \<le> 2" "list_all action_valid (ch_actions c)" "ch_id c \<notin> set seen"
    unfolding check_change_def observationReplacementActionCount_def by (auto split: if_splits)
  show "length (ch_id c) \<le> 64" using ok(1) by (simp add: observationIDPattern_def)
  show "length (ch_resource_type c) \<le> 128"
    using ok(2) by (cases "ch_resource_type c") (simp_all add: observationTypePattern_def)
  show "length (ch_actions c) \<le> 2" "ch_id c \<notin> set seen" by (fact ok)+
  have "length a \<le> 6" if "a \<in> set (ch_actions c)" for a
  proof -
    from that ok(4) have "action_valid a" by (simp add: list_all_iff)
    then show ?thesis unfolding action_valid_def by auto
  qed
  then have "sum_list (map length (ch_actions c)) \<le> 6 * length (ch_actions c)" by (rule sum_list_bound)
  with ok(3) show "sum_list (map length (ch_actions c)) \<le> 12" by linarith
qed

lemma check_changes_Inr: "check_changes seen cs = Inr u \<Longrightarrow> c \<in> set cs \<Longrightarrow> \<exists>s v. check_change s c = Inr v"
  by (induction cs arbitrary: seen) auto

lemma check_changes_distinct: "check_changes seen cs = Inr u \<Longrightarrow> distinct (map ch_id cs) \<and> set (map ch_id cs) \<inter> set seen = {}"
proof (induction cs arbitrary: seen)
  case (Cons c cs)
  then obtain v where "check_change seen c = Inr v" "check_changes (ch_id c # seen) cs = Inr u" by auto
  with Cons.IH [of "ch_id c # seen"] check_change_Inr(5) [of seen c] show ?case by auto
qed simp

lemma length_change:
  assumes "check_change seen c = Inr u" "length sep \<le> 2" "length col \<le> 2"
  shows "length (render sep col (change_json c)) \<le> 256"
proof -
  note b = check_change_Inr [OF assms(1)]
  have "sum_list (map (length \<circ> (render sep col \<circ> JStr)) xs) = sum_list (map length xs) + 2 * length xs" for xs
    by (induction xs) simp_all
  moreover have "length sep * (length (ch_actions c) - 1) \<le> 2 * 1"
    using assms(2) b(3) by (intro mult_le_mono) auto
  ultimately have "length (separated sep (map (render sep col \<circ> JStr) (ch_actions c))) \<le> 18"
    using b(3,4) by (simp add: length_separated)
  then show ?thesis
    using b(1,2) assms(2,3) by (simp add: change_json_def length_separated)
qed

lemma length_changes:
  assumes "check_changes [] cs = Inr u" "length cs \<le> 2000" "length sep \<le> 2" "length col \<le> 2"
  shows "length (render sep col (changes_json (Some cs))) \<le> 516002"
proof -
  have "length (render sep col (change_json c)) \<le> 256" if c: "c \<in> set cs" for c
  proof -
    from check_changes_Inr [OF assms(1) c] obtain s v where "check_change s c = Inr v" by blast
    from length_change [OF this assms(3,4)] show ?thesis .
  qed
  then have "sum_list (map (\<lambda>c. length (render sep col (change_json c))) cs) \<le> 256 * length cs" by (rule sum_list_bound)
  moreover have "length sep * (length cs - 1) \<le> 2 * 2000" using assms(2,3) by (intro mult_le_mono) auto
  ultimately show ?thesis using assms(2) by (simp add: changes_json_def length_separated comp_def)
qed

lemma ValidateObservationResult_Inr:
  assumes "ValidateObservationResult r = Inr u"
  obtains observed proposed where "or_observed r = Some observed" "or_proposed r = Some proposed"
    "check_changes [] observed = Inr ()" "check_changes [] proposed = Inr ()"
    "length observed \<le> 2000" "length proposed \<le> 2000" "or_schema_version r = ''1''" "or_complete r"
    "tool_valid (or_tool r)" "length (or_tool_version r) \<le> 64" "0 \<le> or_output_changes r" "or_output_changes r \<le> 1000000"
  using assms unfolding ValidateObservationResult_def by (auto split: option.splits if_splits)

lemma length_result:
  assumes "ValidateObservationResult r = Inr u" "length sep \<le> 2" "length col \<le> 2"
  shows "length (render sep col (result_json r)) \<le> 1032304"
  using assms(1)
proof (rule ValidateObservationResult_Inr)
  fix observed proposed
  assume r: "or_observed r = Some observed" "or_proposed r = Some proposed"
    "check_changes [] observed = Inr ()" "check_changes [] proposed = Inr ()"
    "length observed \<le> 2000" "length proposed \<le> 2000" "or_schema_version r = ''1''" "or_complete r"
    "tool_valid (or_tool r)" "length (or_tool_version r) \<le> 64" "0 \<le> or_output_changes r" "or_output_changes r \<le> 1000000"
  have "length (or_tool r) \<le> 9" using r(9) by (auto simp: tool_valid_def)
  moreover have "length (format_int (or_output_changes r)) \<le> 7"
    using r(11,12) length_format_nat [of 7 "nat (or_output_changes r)"] by (simp add: format_int_def)
  moreover have "length (render sep col (changes_json (or_observed r))) \<le> 516002"
    "length (render sep col (changes_json (or_proposed r))) \<le> 516002"
    using length_changes [OF r(3,5) assms(2,3)] length_changes [OF r(4,6) assms(2,3)] r(1,2) by simp_all
  ultimately show ?thesis
    using r(7,8,10) assms(2,3) by (simp add: result_json_def length_separated)
qed

text \<open>
  A result that passes validation fits: its JSON is at most one MiB, as the retention bound of
  the code asks, and so is the text PostgreSQL checks, which is longer by the blanks it adds. So
  storing a validated result never fails, and a completion is never lost to its size.
\<close>

lemma validated_result_fits:
  assumes "ValidateObservationResult r = Inr u"
  shows "length (marshal_result r) \<le> 2 ^ 20 \<and> length (stored_text r) \<le> 1048576 \<and>
     (\<exists>db'. StoreObservationResult now db i r = Inr db')"
proof -
  have "length (marshal_result r) \<le> 1032304" "length (stored_text r) \<le> 1032304"
    unfolding marshal_result_def stored_text_def by (rule length_result [OF assms]; simp)+
  with assms show ?thesis by (simp add: StoreObservationResult_def)
qed

definition sample_result :: observation_result where
  "sample_result = \<lparr>or_complete = True, or_observed = Some [\<lparr>ch_actions = [''delete'', ''create''], ch_id = ''a-1'',
     ch_resource_type = ''aws_db''\<rparr>], or_output_changes = 0, or_proposed = Some [], or_schema_version = ''1'',
     or_tool = ''opentofu'', or_tool_version = ''1.9.0-rc1''\<rparr>"

lemma sample_result_valid: "ValidateObservationResult sample_result = Inr ()"
  by code_simp

lemma validated_result_fits_witness:
  "length (marshal_result sample_result) \<le> 2 ^ 20 \<and> (\<exists>db'. StoreObservationResult 5 empty_database 21 sample_result = Inr db')"
  using validated_result_fits [OF sample_result_valid, of 5 empty_database 21] by blast

section \<open>The resolution of a request is final\<close>

lemma find_update_rows:
  "(\<And>r. q r \<Longrightarrow> p (f r) = p r) \<Longrightarrow> find p (update_rows q f t) = map_option (\<lambda>r. if q r then f r else r) (find p t)"
  by (induction t) auto

lemma find_map_rows: "(\<And>r. p (f r) = p r) \<Longrightarrow> find p (map f t) = map_option f (find p t)"
  by (induction t) auto

text \<open>What a later receipt keeps of an earlier one.\<close>

definition receipt_kept :: "observation_receipt_row \<Rightarrow> observation_receipt_row \<Rightarrow> bool" where
  "receipt_kept r r' \<longleftrightarrow> obs_receipt r' = obs_receipt r \<and> obs_request_sha256 r' = obs_request_sha256 r \<and>
     obs_actor r' = obs_actor r \<and> (obs_deployment r' = obs_deployment r \<or> obs_deployment r' = None)"

text \<open>
  Seals and receipts are never lost or rewritten, and a request that has its receipt is not sealed.
\<close>

definition requests_kept :: "database \<Rightarrow> database \<Rightarrow> bool" where
  "requests_kept db db' \<longleftrightarrow> (\<forall>org plugin i.
     (\<forall>s. find (seal_key org plugin KindObservation i) (seals db) = Some s \<longrightarrow>
        find (seal_key org plugin KindObservation i) (seals db') = Some s) \<and>
     (\<forall>r. find (receipt_key org plugin i) (observation_receipts db) = Some r \<longrightarrow>
        (\<exists>r'. find (receipt_key org plugin i) (observation_receipts db') = Some r' \<and> receipt_kept r r') \<and>
        find (seal_key org plugin KindObservation i) (seals db') = find (seal_key org plugin KindObservation i) (seals db)))"

lemma receipt_kept_refl [simp]: "receipt_kept r r"
  by (simp add: receipt_kept_def)

lemma receipt_kept_trans: "receipt_kept r s \<Longrightarrow> receipt_kept s t \<Longrightarrow> receipt_kept r t"
  by (auto simp: receipt_kept_def)

lemma requests_kept_trans:
  assumes "requests_kept db1 db2" "requests_kept db2 db3"
  shows "requests_kept db1 db3"
  unfolding requests_kept_def
proof (intro allI conjI impI)
  fix org plugin i s
  assume "find (seal_key org plugin KindObservation i) (seals db1) = Some s"
  with assms show "find (seal_key org plugin KindObservation i) (seals db3) = Some s" by (simp add: requests_kept_def)
next
  fix org plugin i r
  assume r: "find (receipt_key org plugin i) (observation_receipts db1) = Some r"
  with assms(1) obtain r' where r': "find (receipt_key org plugin i) (observation_receipts db2) = Some r'" "receipt_kept r r'"
    unfolding requests_kept_def by blast
  with assms(2) obtain r'' where "find (receipt_key org plugin i) (observation_receipts db3) = Some r''" "receipt_kept r' r''"
    unfolding requests_kept_def by blast
  with r'(2) show "\<exists>r'. find (receipt_key org plugin i) (observation_receipts db3) = Some r' \<and> receipt_kept r r'"
    by (blast intro: receipt_kept_trans)
  from r r'(1) assms show "find (seal_key org plugin KindObservation i) (seals db3) = find (seal_key org plugin KindObservation i) (seals db1)"
    by (simp add: requests_kept_def)
qed

lemma requests_kept_same: "observation_receipts db' = observation_receipts db \<Longrightarrow> seals db' = seals db \<Longrightarrow> requests_kept db db'"
  by (simp add: requests_kept_def)

lemma requests_kept_update:
  assumes "observation_receipts db' = update_rows p f (observation_receipts db)" "seals db' = seals db"
    and "\<And>r. receipt_kept r (f r)" "\<And>r org plugin i. receipt_key org plugin i (f r) = receipt_key org plugin i r"
  shows "requests_kept db db'"
  using assms by (auto simp: requests_kept_def find_update_rows)

lemma insert_receipt_kept:
  assumes "insert_receipt r db = Inr db'"
  shows "requests_kept db db'" "observation_receipts db' = observation_receipts db @ [r]"
  using assms by (auto simp: insert_receipt_def requests_kept_def find_append split: if_splits)

lemma sealObservationRequest_kept:
  assumes "sealObservationRequest db kind org plugin i actor run digest = Inr db'"
    and "kind = KindObservation \<Longrightarrow> find (receipt_key org plugin i) (observation_receipts db) = None"
  shows "requests_kept db db'"
  unfolding requests_kept_def
proof (intro allI conjI impI)
  fix org' plugin' i' s
  assume "find (seal_key org' plugin' KindObservation i') (seals db) = Some s"
  with assms(1) show "find (seal_key org' plugin' KindObservation i') (seals db') = Some s"
    by (auto simp: sealObservationRequest_def find_append split: if_splits)
next
  fix org' plugin' i' r
  assume r: "find (receipt_key org' plugin' i') (observation_receipts db) = Some r"
  with assms(1) show "\<exists>r'. find (receipt_key org' plugin' i') (observation_receipts db') = Some r' \<and> receipt_kept r r'"
    by (auto simp: sealObservationRequest_def split: if_splits)
  from r assms show "find (seal_key org' plugin' KindObservation i') (seals db') = find (seal_key org' plugin' KindObservation i') (seals db)"
    by (auto simp: sealObservationRequest_def find_append seal_key_def split: if_splits option.split)
qed

text \<open>Whatever creates and reserves leaves the receipts and the seals alone.\<close>

lemma start_observation_cases:
  assumes "start_observation kit now clock fresh db org actor rq runner limit detail = Inr (receipt, db')"
  obtains (skipped) reason where "db' = db" "receipt = skipped_receipt (oq_request rq) reason (clock 4)"
  | (accepted) base manifest tofu graph dep db1 where "detail = (base, manifest, tofu, graph)"
      "CreateDeployment (ok_row_ok kit) now (clock 2) fresh db org (oq_project rq) (oq_env rq)
         (observation_params actor rq runner detail) = Inr (dep, db1)"
      "ReserveRunnerJob now db1 dep limit = Inr db'" "clock 3 < oq_admission_deadline rq"
      "rec_disposition receipt = DispositionAccepted" "rec_run receipt = Some (sum_id dep)" "rec_baseline receipt = Some (sum_id base)"
      "rec_request receipt = oq_request rq" "rec_reason receipt = ReasonAccepted"
      "rec_fingerprint receipt = Some (ObservationBaselineFingerprint (ok_sha kit) (ok_artifacts_text kit)
         manifest tofu graph (sum_module_artifacts base))"
proof -
  obtain base manifest tofu graph where detail: "detail = (base, manifest, tofu, graph)" by (rule prod_cases4)
  from assms obtain dep db1 where c: "CreateDeployment (ok_row_ok kit) now (clock 2) fresh db org (oq_project rq) (oq_env rq)
      (observation_params actor rq runner detail) = Inr (dep, db1)"
    unfolding start_observation_def by auto
  show ?thesis
  proof (cases "ReserveRunnerJob now db1 dep limit")
    case (Inl e)
    with assms c have "receipt = skipped_receipt (oq_request rq) ReasonRunnerFull (clock 4) \<and> db' = db"
      unfolding start_observation_def by (auto split: if_splits)
    with skipped show ?thesis by blast
  next
    case (Inr db2)
    with assms c show ?thesis
      using skipped accepted [OF detail] unfolding start_observation_def by (auto simp: detail split: if_splits)
  qed
qed

lemma start_tables:
  assumes "CreateDeployment row_ok now wall fresh db org project env p = Inr (s, db1)" "ReserveRunnerJob now db1 dep limit = Inr db2"
  shows "observation_receipts db2 = observation_receipts db" "seals db2 = seals db"
proof -
  have "seals db1 = seals db"
    using assms(1) by (rule CreateDeployment_cases;
        auto simp: upsert_environment_def split: option.splits if_splits elim!: acquire_lease_cases)
  moreover have "seals db2 = seals db1" using assms(2) by (cases rule: ReserveRunnerJob_cases) simp_all
  ultimately show "observation_receipts db2 = observation_receipts db" "seals db2 = seals db"
    using CreateDeployment_frame(8) [OF assms(1)] ReserveRunnerJob_tables(11) [OF assms(2)] by simp_all
qed

lemma decide_observation_cases:
  assumes "decide_observation kit now clock fresh db org actor rq runner limit supported = Inr (receipt, db')"
  obtains (skipped) reason where "db' = db" "receipt = skipped_receipt (oq_request rq) reason (clock 4)"
  | (accepted) base manifest tofu graph dep db1 where "clock 1 < oq_admission_deadline rq" "supported" "0 < limit"
      "observationBaseline kit now db org rq = Inr (Baseline (base, manifest, tofu, graph))"
      "CreateDeployment (ok_row_ok kit) now (clock 2) fresh db org (oq_project rq) (oq_env rq)
         (observation_params actor rq runner (base, manifest, tofu, graph)) = Inr (dep, db1)"
      "ReserveRunnerJob now db1 dep limit = Inr db'" "clock 3 < oq_admission_deadline rq"
      "rec_disposition receipt = DispositionAccepted" "rec_run receipt = Some (sum_id dep)" "rec_baseline receipt = Some (sum_id base)"
      "rec_fingerprint receipt = Some (ObservationBaselineFingerprint (ok_sha kit) (ok_artifacts_text kit)
         manifest tofu graph (sum_module_artifacts base))"
  using assms unfolding decide_observation_def
  by (auto split: if_splits baseline_decision.splits elim!: start_observation_cases)

lemma decide_observation_tables:
  assumes "decide_observation kit now clock fresh db org actor rq runner limit supported = Inr (receipt, db')"
  shows "observation_receipts db' = observation_receipts db" "seals db' = seals db"
  using assms by (cases rule: decide_observation_cases; simp add: start_tables)+

lemma TryStartObservation_cases:
  assumes "TryStartObservation kit now clock fresh db org plugin actor rq runner limit supported = Inr (receipt, db')"
  obtains (replay) r where "find (receipt_key org plugin (oq_request rq)) (observation_receipts db) = Some r"
      "receipt = obs_receipt r" "db' = db"
  | (decided) db1 r where "find (receipt_key org plugin (oq_request rq)) (observation_receipts db) = None"
      "find (seal_key org plugin KindObservation (oq_request rq)) (seals db) = None"
      "decide_observation kit now clock fresh db org actor rq runner limit supported = Inr (receipt, db1)"
      "insert_receipt r db1 = Inr db'" "obs_deployment r = rec_run receipt" "obs_receipt r = receipt"
  using assms unfolding TryStartObservation_def Let_def
  by (auto simp: ReadObservationReceipt_def RequireObservationRequestUnsealed_def split: option.splits if_splits)

lemma TryStartObservation_kept:
  assumes "TryStartObservation kit now clock fresh db org plugin actor rq runner limit supported = Inr (receipt, db')"
  shows "requests_kept db db'"
  using assms
proof (cases rule: TryStartObservation_cases)
  case (decided db1 r)
  from requests_kept_trans [OF requests_kept_same [OF decide_observation_tables [OF decided(3)]] insert_receipt_kept(1) [OF decided(4)]]
  show ?thesis .
qed (simp add: requests_kept_same)

lemma ResolveObservationRequest_cases:
  assumes "ResolveObservationRequest kit db org plugin actor rq = Inr (res, db')"
  obtains (sealed) s where "res = NotStarted" "db' = db" "ok_isolation kit = ''read committed''"
      "find (seal_key org plugin KindObservation (oq_request rq)) (seals db) = Some s"
      "seal_actor s = actor" "seal_request_sha256 s = ok_request_sha kit rq" "seal_run s = None"
  | (retained) r where "db' = db" "ok_isolation kit = ''read committed''"
      "find (seal_key org plugin KindObservation (oq_request rq)) (seals db) = None"
      "find (receipt_key org plugin (oq_request rq)) (observation_receipts db) = Some r"
      "obs_request_sha256 r = ok_request_sha kit rq" "obs_actor r = actor"
      "case rec_disposition (obs_receipt r) of
         DispositionAccepted \<Rightarrow> res = AcceptedAs (obs_receipt r) \<and> rec_run (obs_receipt r) \<noteq> None \<and> rec_run (obs_receipt r) \<noteq> Some uuid_nil
       | DispositionSkipped \<Rightarrow> res = NotStarted \<and> rec_run (obs_receipt r) = None \<and> obs_deployment r = None"
  | (sealing) "res = NotStarted" "ok_isolation kit = ''read committed''"
      "find (receipt_key org plugin (oq_request rq)) (observation_receipts db) = None"
      "find (seal_key org plugin KindObservation (oq_request rq)) (seals db) = None"
      "sealObservationRequest db KindObservation org plugin (oq_request rq) actor uuid_nil (ok_request_sha kit rq) = Inr db'"
  using assms
  unfolding ResolveObservationRequest_def Let_def LockObservationRequest_def ReplayObservationRequest_def
    RequireObservationRequestUnsealed_def ReadObservationReceipt_def
  by (auto split: option.splits if_splits receipt_disposition.splits simp: NewErrConflict_def)

lemma ResolveObservationRequest_kept:
  assumes "ResolveObservationRequest kit db org plugin actor rq = Inr (res, db')"
  shows "requests_kept db db'"
  using assms by (cases rule: ResolveObservationRequest_cases) (auto intro: requests_kept_same sealObservationRequest_kept)

lemma ResolveObservationRedeploy_kept:
  assumes "ResolveObservationRedeploy kit sha db org plugin actor run rq = Inr (res, db')"
  shows "requests_kept db db'"
proof -
  from assms have "db' = db \<or> sealObservationRequest db KindRedeploy org plugin (rr_request rq) actor run (sha rq) = Inr db'"
    unfolding ResolveObservationRedeploy_def Let_def by (auto split: sum.splits option.splits if_splits)
  then show ?thesis by (auto intro: requests_kept_same sealObservationRequest_kept)
qed

lemma DeleteDeployments_receipts:
  assumes "DeleteDeploymentsForEnv db org project env force expected = Inr db'"
  shows "requests_kept db db'"
proof -
  have cascade: "requests_kept x y" if "cascade_deployments p x = Inr y" for p x y
    using that unfolding cascade_deployments_def Let_def requests_kept_def
    by (auto simp: find_map_rows receipt_key_def receipt_kept_def split: if_splits option.splits)
  from assms obtain p x where c: "cascade_deployments p x = Inr db'"
    and "observation_receipts x = observation_receipts db" "seals x = seals db"
    unfolding DeleteDeploymentsForEnv_def delete_environment_def cascade_nodes_def Let_def
    by (auto split: option.splits if_splits)
  with requests_kept_trans [OF requests_kept_same cascade [OF c]] show ?thesis by blast
qed

text \<open>
  The transactions that touch receipts and seals, and every other transaction (\<open>obs_other\<close>).
\<close>

inductive obs_step :: "database \<Rightarrow> database \<Rightarrow> bool" where
  obs_start: "TryStartObservation kit now clock fresh db org plugin actor rq runner limit supported = Inr (receipt, db') \<Longrightarrow> obs_step db db'"
| obs_resolve: "ResolveObservationRequest kit db org plugin actor rq = Inr (res, db') \<Longrightarrow> obs_step db db'"
| obs_resolve_redeploy: "ResolveObservationRedeploy kit sha db org plugin actor run rrq = Inr (rres, db') \<Longrightarrow> obs_step db db'"
| obs_store: "StoreObservationResult now db i r = Inr db' \<Longrightarrow> obs_step db db'"
| obs_complete: "RecordObservationCompletion sha now db i (body :: string) = Inr (replayed, db') \<Longrightarrow> obs_step db db'"
| obs_clean: "DeleteExpiredObservationResults locked now db batch = Inr (n, db') \<Longrightarrow> obs_step db db'"
| obs_delete: "DeleteDeploymentsForEnv db org project env force expected = Inr db' \<Longrightarrow> obs_step db db'"
| obs_other: "observation_receipts db' = observation_receipts db \<Longrightarrow> seals db' = seals db \<Longrightarrow> obs_step db db'"

lemma obs_step_kept: "obs_step db db' \<Longrightarrow> requests_kept db db'"
proof (induction rule: obs_step.induct)
  case (obs_store now db i r db')
  then show ?case
    by (auto simp: StoreObservationResult_def receipt_kept_def receipt_key_def split: if_splits intro!: requests_kept_update)
next
  case (obs_complete sha now db i body replayed db')
  then consider "db' = db" | "db' = RecordDeploymentCompletion now i
      (db\<lparr>observation_receipts := update_rows (\<lambda>x. obs_deployment x = Some i)
         (\<lambda>x. x\<lparr>obs_completion_sha256 := Some (sha body)\<rparr>) (observation_receipts db)\<rparr>)"
    unfolding RecordObservationCompletion_def by (auto split: option.splits if_splits)
  then show ?case
  proof cases
    case 2
    then show ?thesis
      by (auto simp: receipt_kept_def receipt_key_def RecordDeploymentCompletion_def ReleaseRunnerJob_def intro!: requests_kept_update)
  qed (simp add: requests_kept_same)
next
  case (obs_clean locked now db batch n db')
  then show ?case
    by (auto simp: DeleteExpiredObservationResults_def Let_def receipt_kept_def receipt_key_def split: if_splits intro!: requests_kept_update)
qed (blast intro: TryStartObservation_kept ResolveObservationRequest_kept ResolveObservationRedeploy_kept
    DeleteDeployments_receipts requests_kept_same)+

interpretation requests: guarantee obs_step "\<lambda>_. True" requests_kept
  by unfold_locales (auto intro: requests_kept_same requests_kept_trans obs_step_kept)

text \<open>The answers for a request that is sealed, and for one that has its receipt.\<close>

lemma sealed_answers:
  assumes "find (seal_key org plugin KindObservation (oq_request rq)) (seals db) = Some s"
    and "seal_actor s = actor" "seal_request_sha256 s = ok_request_sha kit rq" "seal_run s = None" "ok_isolation kit = ''read committed''"
  shows "ResolveObservationRequest kit db org plugin actor rq = Inr (NotStarted, db)"
    "TryStartObservation kit now clock fresh db org plugin actor rq runner limit supported = Inl ErrObservationRequestSealed"
  using assms
  by (simp_all add: ResolveObservationRequest_def TryStartObservation_def LockObservationRequest_def
      RequireObservationRequestUnsealed_def Let_def)

lemma retained_answers:
  assumes "find (receipt_key org plugin (oq_request rq)) (observation_receipts db) = Some r"
    and "find (seal_key org plugin KindObservation (oq_request rq)) (seals db) = None"
    and "obs_request_sha256 r = ok_request_sha kit rq" "obs_actor r = actor" "ok_isolation kit = ''read committed''"
  shows "TryStartObservation kit now clock fresh db org plugin actor rq runner limit supported = Inr (obs_receipt r, db)"
    "ReplayObservationRequest kit db org plugin actor rq = Inr (obs_receipt r)"
  using assms
  by (simp_all add: TryStartObservation_def ReplayObservationRequest_def LockObservationRequest_def
      RequireObservationRequestUnsealed_def ReadObservationReceipt_def Let_def)

text \<open>
  (C17) The resolution of an observation request is final. Once a caller is told that its request
  did not start, it never starts, whatever transactions follow: a repeated start is refused or
  answered with the receipt that skipped it, and changes nothing. Once it is told that the request
  was accepted, every repetition and every resolution names the same run.
\<close>

theorem resolution_final:
  assumes "ResolveObservationRequest kit db org plugin actor rq = Inr (res, db1)" "obs_step\<^sup>*\<^sup>* db1 db2"
  shows "ResolveObservationRequest kit db2 org plugin actor rq = Inr (res, db2) \<and>
     (case TryStartObservation kit now clock fresh db2 org plugin actor rq runner limit supported of
        Inl e \<Rightarrow> e = ErrObservationRequestSealed \<and> res = NotStarted
      | Inr (receipt, db3) \<Rightarrow> db3 = db2 \<and>
          (case res of NotStarted \<Rightarrow> rec_run receipt = None | AcceptedAs accepted \<Rightarrow> receipt = accepted \<and> rec_run accepted \<noteq> None))"
  using assms(1)
proof (cases rule: ResolveObservationRequest_cases)
  case (sealed s)
  have "find (seal_key org plugin KindObservation (oq_request rq)) (seals db2) = Some s"
    using requests.run_kept [OF assms(2) TrueI, THEN conjunct1] sealed(2,4) by (simp add: requests_kept_def)
  from sealed_answers [OF this sealed(5-7,3)] sealed(1) show ?thesis by simp
next
  case (retained r)
  then obtain r' where r': "find (receipt_key org plugin (oq_request rq)) (observation_receipts db2) = Some r'" "receipt_kept r r'"
    "find (seal_key org plugin KindObservation (oq_request rq)) (seals db2) = None"
    using requests.run_kept [OF assms(2) TrueI, THEN conjunct1] unfolding requests_kept_def by metis
  then have k: "obs_receipt r' = obs_receipt r" "obs_request_sha256 r' = ok_request_sha kit rq" "obs_actor r' = actor"
    "obs_deployment r = None \<Longrightarrow> obs_deployment r' = None"
    using retained(5,6) by (auto simp: receipt_kept_def)
  note ans = retained_answers [OF r'(1,3) k(2,3) retained(2)]
  show ?thesis
    using retained(2,7) r'(1,3) ans(2) k(4)
    by (auto simp: ans(1) k(1) ResolveObservationRequest_def LockObservationRequest_def RequireObservationRequestUnsealed_def Let_def
        split: receipt_disposition.splits)
next
  case sealing
  then have "find (seal_key org plugin KindObservation (oq_request rq)) (seals db1) =
      Some \<lparr>seal_org = org, seal_plugin = plugin, seal_kind = KindObservation, seal_request = oq_request rq, seal_actor = actor,
        seal_request_sha256 = ok_request_sha kit rq, seal_run = None\<rparr>"
    by (auto simp: sealObservationRequest_def find_append seal_key_def split: if_splits)
  with requests.run_kept [OF assms(2) TrueI, THEN conjunct1] have "find (seal_key org plugin KindObservation (oq_request rq)) (seals db2) =
      Some \<lparr>seal_org = org, seal_plugin = plugin, seal_kind = KindObservation, seal_request = oq_request rq, seal_actor = actor,
        seal_request_sha256 = ok_request_sha kit rq, seal_run = None\<rparr>"
    by (simp add: requests_kept_def)
  from sealed_answers [OF this _ _ _ sealing(2)] sealing(1) show ?thesis by simp
qed

section \<open>Admission\<close>

text \<open>The baseline is the completed, succeeded state head of an Environment nobody else uses.\<close>

lemma observationBaseline_Baseline:
  assumes "observationBaseline kit now db org rq = Inr (Baseline (base, manifest, tofu, graph))"
  obtains e b where "find_env org (oq_project rq) (oq_env rq) db = Some e" "find_deployment (env_last_state e) db = Some b"
    "sum_id base = dep_id b" "dep_de_id b = oq_environment rq" "dep_status b = StatusSucceeded" "dep_completed_at b \<noteq> None"
    "dep_mode b = ModeDeploy \<or> dep_mode b = ModeRollback" "manifest = dep_manifest b" "tofu = dep_tofu b" "graph = dep_graph b"
    "sum_module_artifacts base = dep_module_artifacts b" "\<not> environment_busy now db (oq_environment rq)"
    "\<not> uncertain_owner db (oq_environment rq)" "CompleteDeploymentSnapshot manifest tofu graph"
    "list_all (HasObservationProvenance (ok_parse_url kit)) (dep_module_artifacts b)"
proof -
  from assms have idle: "\<not> environment_busy now db (oq_environment rq)" "\<not> uncertain_owner db (oq_environment rq)"
    and last: "\<exists>head rest. GetLastDeployment db org (oq_project rq) (oq_env rq) True = Inr (head, rest) \<and>
      GetDeployment db org (sum_id head) = Inr (base, manifest, tofu, graph) \<and>
      sum_env_uuid base = oq_environment rq \<and> sum_status base = StatusSucceeded \<and> sum_completed_at base \<noteq> None \<and>
      (sum_mode base = ModeDeploy \<or> sum_mode base = ModeRollback) \<and>
      snapshot_baseline kit (base, manifest, tofu, graph) = Baseline (base, manifest, tofu, graph)"
    unfolding observationBaseline_def
    by (auto simp: snapshot_baseline_def split: sum.splits if_splits prod.splits)
  then obtain head rest where g: "GetLastDeployment db org (oq_project rq) (oq_env rq) True = Inr (head, rest)"
    "GetDeployment db org (sum_id head) = Inr (base, manifest, tofu, graph)"
    and b: "sum_env_uuid base = oq_environment rq" "sum_status base = StatusSucceeded" "sum_completed_at base \<noteq> None"
      "sum_mode base = ModeDeploy \<or> sum_mode base = ModeRollback"
      "snapshot_baseline kit (base, manifest, tofu, graph) = Baseline (base, manifest, tofu, graph)" by blast
  from g(1) obtain e d where e: "find_env org (oq_project rq) (oq_env rq) db = Some e" "last_deployment True db e = Some d" "sum_id head = dep_id d"
    by (auto simp: GetLastDeployment_def blank_summary_def split: option.splits)
  then have "dep_id d = env_last_state e" by (auto simp: last_deployment_def dest: find_SomeD)
  with g(2) e(3) obtain d' e' where d': "find_deployment (env_last_state e) db = Some d'" "env_id e' = dep_de_id d'"
    "base = full_summary org e' d'" "manifest = dep_manifest d'" "tofu = dep_tofu d'" "graph = dep_graph d'"
    by (auto simp: GetDeployment_def split: option.splits if_splits dest: lookup_row_key)
  from b(5) have "CompleteDeploymentSnapshot manifest tofu graph" "list_all (HasObservationProvenance (ok_parse_url kit)) (sum_module_artifacts base)"
    by (auto simp: snapshot_baseline_def split: if_splits sum.splits)
  with that [OF e(1) d'(1)] d' b idle show ?thesis
    by (simp add: full_summary_def blank_summary_def)
qed

lemma TryStartObservation_steps:
  assumes "TryStartObservation kit now clock fresh db org plugin actor rq runner limit supported = Inr (receipt, db')"
    and "env_identity db org (oq_project rq) (oq_env rq) (oq_environment rq)" "limit_of org runner = limit"
  shows "(dp_step limit_of)\<^sup>*\<^sup>* db db'"
  using assms(1)
proof (cases rule: TryStartObservation_cases)
  case (decided db1 r)
  from decided(3) have "(dp_step limit_of)\<^sup>*\<^sup>* db db1"
  proof (cases rule: decide_observation_cases)
    case (accepted base manifest tofu graph dep db0)
    let ?p = "observation_params actor rq runner (base, manifest, tofu, graph)"
    have "cp_env_uuid ?p = oq_environment rq" "cp_runner_id ?p = runner" by (simp_all add: observation_params_def)
    moreover from accepted(5) have "dep = created_summary (clock 2) org (oq_project rq) (oq_env rq) ?p fresh"
      by (rule CreateDeployment_cases)
    ultimately have "dp_step limit_of db db0" "dp_step limit_of db0 db1"
      using step_create [OF accepted(5)] step_reserve [of now db0 dep limit_of db1] accepted(6) assms(2,3)
      by (simp_all add: created_summary_def)
    then show ?thesis by (meson r_into_rtranclp rtranclp.rtrancl_into_rtrancl)
  qed simp
  moreover from decided(4) have "dp_step limit_of db1 db'"
    by (intro step_other) (auto simp: insert_receipt_def same_core_def split: if_splits)
  ultimately show ?thesis by (rule rtranclp.rtrancl_into_rtrancl)
qed simp

lemma idle_waiting: "\<not> environment_busy now db e \<Longrightarrow> running db e = None \<and> waiting db e = []"
  by (auto simp: environment_busy_def running_None executing_in_def waiting_def waiting_row_def filter_empty_conv)

lemma observation_upsert:
  assumes "CreateDeployment row_ok now wall fresh db org project env p = Inr (s, db')" "cp_mode p = ModeObservation"
    and "find_env org project env db = Some e"
  shows "\<exists>e'. find_env org project env db' = Some e' \<and> env_id e' = env_id e \<and> env_last_state e' = env_last_state e"
  using assms(1)
proof (rule CreateDeployment_cases)
  fix db1 db2
  assume l: "if RequiresEnvironmentLease (cp_mode p)
     then acquire_lease now (new_lease now (cp_env_uuid p) org project env fresh) db = Inr db1 else db1 = db"
    and u: "upsert_environment wall org project env p fresh db1 = Inr db2"
    and db': "db' = db2\<lparr>deployments := deployments db @ [new_deployment wall p fresh],
       budgets := budgets db @ [\<lparr>bud_deployment = fresh, bud_revision = 1, bud_first_attempt_at = None,
         bud_deadline = None, bud_completion_received_at = None, bud_legacy = False\<rparr>]\<rparr>"
  have "environments db1 = environments db" using l by (auto split: if_splits elim!: acquire_lease_cases)
  with u assms(2,3) have "environments db' = update_rows (same_env org project env)
      (\<lambda>e. e\<lparr>env_last_executing := fresh, env_last_executing_at := wall\<rparr>) (environments db)"
    by (auto simp: db' upsert_environment_def find_env_def IsPlanDeployment_def)
  then show ?thesis
    using assms(3) by (auto simp: find_env_def find_update_rows same_env_def)
qed

text \<open>
  (C16) An observation is admitted only where it can be read as what it says: the Environment runs
  nothing and nobody waits for it, its state head is a completed and succeeded deploy or rollback of
  this Environment whose snapshot the run copies and whose modules all have provenance, and the
  Runner has a free slot. Admission adds exactly one executing Deployment in observation mode, holds
  one slot for it, moves no state head and is made of transactions the system allows.
\<close>

theorem observation_admission:
  assumes "TryStartObservation kit now clock fresh db org plugin actor rq runner limit supported = Inr (receipt, db')"
    and "find (receipt_key org plugin (oq_request rq)) (observation_receipts db) = None" "rec_run receipt = Some run"
    and "env_identity db org (oq_project rq) (oq_env rq) (oq_environment rq)" "sys_inv limit_of db" "limit_of org runner = limit"
  shows "\<exists>e b row e'. find_env org (oq_project rq) (oq_env rq) db = Some e \<and> find_deployment (env_last_state e) db = Some b \<and>
     running db (oq_environment rq) = None \<and> waiting db (oq_environment rq) = [] \<and>
     rec_baseline receipt = Some (dep_id b) \<and> dep_status b = StatusSucceeded \<and> dep_completed_at b \<noteq> None \<and>
     dep_de_id b = oq_environment rq \<and> (dep_mode b = ModeDeploy \<or> dep_mode b = ModeRollback) \<and>
     list_all (HasObservationProvenance (ok_parse_url kit)) (dep_module_artifacts b) \<and>
     deployments db' = deployments db @ [row] \<and> dep_id row = run \<and> dep_mode row = ModeObservation \<and>
     dep_status row = StatusExecuting \<and> dep_de_id row = oq_environment rq \<and> dep_manifest row = dep_manifest b \<and>
     dep_graph row = dep_graph b \<and> dep_tofu row = dep_tofu b \<and>
     find_env org (oq_project rq) (oq_env rq) db' = Some e' \<and> env_last_state e' = env_last_state e \<and>
     exists_row (live_reservation run) (reservations db') \<and>
     int (count_rows (live_on_runner org runner) (reservations db')) \<le> limit \<and> sys_inv limit_of db'"
  using assms(1)
proof (cases rule: TryStartObservation_cases)
  case (decided db2 r)
  from decided(3) show ?thesis
  proof (cases rule: decide_observation_cases)
    case (skipped reason)
    with assms(3) show ?thesis by (simp add: skipped_receipt_def)
  next
    case (accepted base manifest tofu graph dep db1)
    let ?p = "observation_params actor rq runner (base, manifest, tofu, graph)"
    from accepted(4) obtain e b where e: "find_env org (oq_project rq) (oq_env rq) db = Some e" "find_deployment (env_last_state e) db = Some b"
      and b: "sum_id base = dep_id b" "dep_de_id b = oq_environment rq" "dep_status b = StatusSucceeded" "dep_completed_at b \<noteq> None"
        "dep_mode b = ModeDeploy \<or> dep_mode b = ModeRollback" "manifest = dep_manifest b" "tofu = dep_tofu b" "graph = dep_graph b"
        "list_all (HasObservationProvenance (ok_parse_url kit)) (dep_module_artifacts b)"
      and idle: "\<not> environment_busy now db (oq_environment rq)"
      by (rule observationBaseline_Baseline)
    from accepted(5) have row: "deployments db1 = deployments db @ [new_deployment (clock 2) ?p fresh]"
      "dep = created_summary (clock 2) org (oq_project rq) (oq_env rq) ?p fresh" by (rule CreateDeployment_cases; simp)+
    have run: "run = fresh" using accepted(9) assms(3) row(2) by (simp add: created_summary_def)
    obtain e' where e': "find_env org (oq_project rq) (oq_env rq) db1 = Some e'" "env_last_state e' = env_last_state e"
      using observation_upsert [OF accepted(5) _ e(1)] by (auto simp: observation_params_def)
    have t: "deployments db2 = deployments db1" "environments db2 = environments db1"
      using ReserveRunnerJob_tables(1,2) [OF accepted(6)] by simp_all
    have db': "deployments db' = deployments db2" "environments db' = environments db2" "reservations db' = reservations db2"
      using decided(4) by (auto simp: insert_receipt_def split: if_splits)
    have inv: "sys_inv limit_of db'"
      using lifecycle.run_inv [OF TryStartObservation_steps [where limit_of = limit_of, OF assms(1,4,6)] assms(5)] .
    have slot: "exists_row (live_reservation run) (reservations db2)"
      using accepted(6)
    proof (cases rule: ReserveRunnerJob_cases)
      case claimed
      then show ?thesis by (simp add: live_reservation_def run row(2) created_summary_def)
    qed (simp add: run row(2) created_summary_def)
    have cap: "int (count_rows (live_on_runner org runner) (reservations db')) \<le> limit"
      using inv accepted(3) assms(6) by (auto simp: sys_inv_def capacity_inv_def)
    show ?thesis
      using e b idle_waiting [OF idle] accepted(10) e' slot cap inv
      by (intro exI [of _ e] exI [of _ b] exI [of _ "new_deployment (clock 2) ?p fresh"] exI [of _ e'])
        (simp add: db' t row(1) run new_deployment_def observation_params_def find_env_def)
  qed
qed (use assms(2) in simp)

section \<open>Fingerprints\<close>

lemma digits_no_colon: "c \<in> set (format_nat n) \<Longrightarrow> c \<noteq> CHR '':''"
proof (induction n rule: format_nat.induct)
  case (1 n)
  have d: "digit_char d \<noteq> CHR '':''" if "d < 10" for d
    using of_char_digit_char [OF that] that by auto
  show ?case
  proof (cases "n < 10")
    case True
    with "1.prems" d [of n] show ?thesis by (simp add: format_nat.simps [of n])
  next
    case False
    with "1.prems" have "c \<in> set (format_nat (n div 10)) \<or> c = digit_char (n mod 10)" by (auto simp: format_nat.simps [of n])
    with "1.IH" [OF False] d [of "n mod 10"] show ?thesis by auto
  qed
qed

text \<open>A part with its length in front is read back from whatever follows.\<close>

lemma part_injective:
  assumes "format_nat (length p) @ '':'' @ p @ rest = format_nat (length q) @ '':'' @ q @ rest'"
  shows "p = q \<and> rest = rest'"
proof -
  have tw: "takeWhile (\<lambda>c. c \<noteq> CHR '':'') (format_nat n @ '':'' @ x) = format_nat n" for n x
    using digits_no_colon [of _ n] by (simp add: takeWhile_append)
  from arg_cong [OF assms, of "takeWhile (\<lambda>c. c \<noteq> CHR '':'')"]
  have len: "format_nat (length p) = format_nat (length q)" by (simp only: tw)
  from arg_cong [OF len, of parse_nat] have "length p = length q" by (simp only: parse_nat_format_nat option.inject)
  with assms [unfolded len] show ?thesis by (simp add: append_eq_append_conv)
qed

lemma baseline_text_injective:
  "length ps = length qs \<Longrightarrow> baseline_text ps = baseline_text qs \<Longrightarrow> ps = qs"
proof (induction ps qs rule: list_induct2)
  case (Cons p ps q qs)
  from Cons.prems have "format_nat (length p) @ '':'' @ p @ baseline_text ps = format_nat (length q) @ '':'' @ q @ baseline_text qs"
    by (simp add: baseline_text_def)
  from part_injective [OF this] Cons.IH show ?case by simp
qed simp

text \<open>
  A fingerprint identifies its snapshot: when two baselines have one fingerprint, either they
  have the same manifest, code, graph and artifact list, or the two texts that were hashed differ and
  are a collision of the hash function. The length before each part rules out that different
  snapshots are hashed as one text.
\<close>

lemma fingerprint_identifies:
  assumes "ObservationBaselineFingerprint sha txt m t g a = ObservationBaselineFingerprint sha txt m' t' g' a'"
  shows "(m = m' \<and> t = t' \<and> g = g' \<and> txt a = txt a') \<noteq>
     (baseline_text [m, t, g, txt a] \<noteq> baseline_text [m', t', g', txt a'] \<and>
      sha (baseline_text [m, t, g, txt a]) = sha (baseline_text [m', t', g', txt a']))"
proof -
  have "sha (baseline_text [m, t, g, txt a]) = sha (baseline_text [m', t', g', txt a'])"
    using assms by (simp add: ObservationBaselineFingerprint_def)
  with baseline_text_injective [of "[m, t, g, txt a]" "[m', t', g', txt a']"] show ?thesis by auto
qed

lemma fingerprint_identifies_witness:
  "ObservationBaselineFingerprint (\<lambda>x. ''0'') (\<lambda>a. '''') ''a'' ''b'' ''c'' [] = ObservationBaselineFingerprint (\<lambda>x. ''0'') (\<lambda>a. '''') ''ab'' '''' ''c'' [] \<and>
   baseline_text [''a'', ''b'', ''c'', ''''] \<noteq> baseline_text [''ab'', '''', ''c'', '''']"
proof -
  have e: "ObservationBaselineFingerprint (\<lambda>x. ''0'') (\<lambda>a. '''') ''a'' ''b'' ''c'' [] = ObservationBaselineFingerprint (\<lambda>x. ''0'') (\<lambda>a. '''') ''ab'' '''' ''c'' []"
    by (simp add: ObservationBaselineFingerprint_def)
  with fingerprint_identifies [OF e] show ?thesis by auto
qed

section \<open>A sample observation\<close>

definition sample_kit :: observation_kit where
  "sample_kit = \<lparr>ok_isolation = ''read committed'', ok_request_sha = (\<lambda>rq. oq_env rq), ok_sha = id,
     ok_artifacts_text = (\<lambda>a. ''[]''), ok_graph_of = (\<lambda>s. Inr \<lparr>g_nodes = [], g_edges = []\<rparr>), ok_parse_url = (\<lambda>s. None),
     ok_row_ok = (\<lambda>d. True)\<rparr>"

definition sample_observation :: observation_request where
  "sample_observation = \<lparr>oq_admission_deadline = 900, oq_env = ''prod'', oq_environment = 7, oq_grant = 3, oq_grant_revision = 1,
     oq_occurrence = 500, oq_project = ''shop'', oq_project_uuid = 4, oq_request = 30\<rparr>"

definition sample_deployed :: database where
  "sample_deployed = snd (projr (UpdateDeploymentStatusAndOutputs 200 200 sample_created 21
     (sample_failure\<lparr>up_status := StatusSucceeded, up_completion_proven := True\<rparr>)))"

definition sample_start :: "database \<Rightarrow> (observation_receipt \<times> database) result" where
  "sample_start db = TryStartObservation sample_kit 510 (\<lambda>k. 510 + int k) 40 db ''acme'' ''p'' 9 sample_observation ''r1'' 1 True"

lemma sample_started:
  "case sample_start sample_deployed of Inr (receipt, db') \<Rightarrow> rec_run receipt = Some 40 | Inl e \<Rightarrow> False"
  "find (receipt_key ''acme'' ''p'' (oq_request sample_observation)) (observation_receipts sample_deployed) = None"
  by code_simp+

lemma sample_deployed_inv: "sys_inv (\<lambda>o' r. 1) sample_deployed"
proof -
  let ?p = "sample_failure\<lparr>up_status := StatusSucceeded, up_completion_proven := True\<rparr>"
  have "case UpdateDeploymentStatusAndOutputs 200 200 sample_created 21 ?p of Inr x \<Rightarrow> True | Inl e \<Rightarrow> False" by code_simp
  then obtain s' where "UpdateDeploymentStatusAndOutputs 200 200 sample_created 21 ?p = Inr (s', sample_deployed)"
    by (auto simp: sample_deployed_def split: sum.splits)
  from sys_inv_update [OF this] sys_inv_reachable [OF sample_created_reachable] show ?thesis by simp
qed

lemma observation_admission_witness:
  "\<exists>receipt db' row. sample_start sample_deployed = Inr (receipt, db') \<and> deployments db' = deployments sample_deployed @ [row] \<and>
     dep_mode row = ModeObservation \<and> sys_inv (\<lambda>o' r. 1) db'"
proof -
  obtain receipt db' where s: "sample_start sample_deployed = Inr (receipt, db')" "rec_run receipt = Some 40"
    using sample_started(1) by (auto split: sum.splits)
  have i: "env_identity sample_deployed ''acme'' (oq_project sample_observation) (oq_env sample_observation) (oq_environment sample_observation)"
    by code_simp
  from observation_admission [OF s(1) [unfolded sample_start_def] sample_started(2) s(2) i sample_deployed_inv] s(1)
  show ?thesis by auto
qed

lemma sample_resolved:
  "case ResolveObservationRequest sample_kit sample_deployed ''acme'' ''p'' 9 sample_observation of Inr (res, db1) \<Rightarrow> res = NotStarted | Inl e \<Rightarrow> False"
  by code_simp

lemma resolution_final_witness:
  "\<exists>db1. ResolveObservationRequest sample_kit sample_deployed ''acme'' ''p'' 9 sample_observation = Inr (NotStarted, db1) \<and>
     (case sample_start db1 of Inl e \<Rightarrow> e = ErrObservationRequestSealed | Inr (receipt, db3) \<Rightarrow> db3 = db1 \<and> rec_run receipt = None)"
proof -
  obtain db1 where r: "ResolveObservationRequest sample_kit sample_deployed ''acme'' ''p'' 9 sample_observation = Inr (NotStarted, db1)"
    using sample_resolved by (auto split: sum.splits)
  note resolution_final [OF r rtranclp.rtrancl_refl, of 510 "\<lambda>k. 510 + int k" 40 "''r1''" 1 True, folded sample_start_def]
  with r show ?thesis by (auto split: sum.splits)
qed

end
