(* ===== verification/Runner_Steps.thy ===== *)
theory Runner_Steps
  imports Runner_Workers Observation_Contract
begin

text \<open>
  Every handler of a Runner result is made of transactions the system allows, leaves completed
  Deployments as they are and forgets no event: the case analyses of the handlers and the relation
  \<open>allowed\<close> they all respect. The invariant \<open>result_inv\<close> adds to the one of the
  system that a Deployment executes exactly at its first revision and that no lease names an ended
  Deployment.
\<close>

section \<open>Revisions\<close>

text \<open>A Deployment is executing exactly at its first revision, and completed exactly when it is not executing.\<close>

definition row_wf :: "deployment_row \<Rightarrow> bool" where
  "row_wf d \<longleftrightarrow> 1 \<le> dep_revision d \<and> (dep_status d = StatusExecuting \<longleftrightarrow> dep_completed_at d = None) \<and>
     (dep_status d = StatusExecuting \<longleftrightarrow> dep_revision d = 1)"

definition row_inv :: "database \<Rightarrow> bool" where
  "row_inv db \<longleftrightarrow> (\<forall>d \<in> set (deployments db). row_wf d)"

lemma row_wf_new: "row_wf (new_deployment wall p i)"
  by (simp add: row_wf_def new_deployment_def)

lemma row_wf_settled: "row_wf d \<Longrightarrow> up_status p \<noteq> StatusExecuting \<Longrightarrow> row_wf (settled_row wall p d)"
  by (simp add: row_wf_def settled_row_def)

lemma row_inv_subset: "row_inv db \<Longrightarrow> set (deployments db') \<subseteq> set (deployments db) \<Longrightarrow> row_inv db'"
  by (auto simp: row_inv_def)

lemma row_inv_step:
  assumes "dp_step limit_of db db'" "row_inv db"
  shows "row_inv db'"
  using assms(1)
proof cases
  case (step_create row_ok now wall fresh org project env p s)
  from step_create(1) have "deployments db' = deployments db @ [new_deployment wall p fresh]" by (rule CreateDeployment_cases; simp)
  with assms(2) show ?thesis by (auto simp: row_inv_def row_wf_new)
next
  case (step_update now wall i p s)
  from step_update have "deployments db' = update_rows (\<lambda>d. dep_id d = i) (settled_row wall p) (deployments db)"
    by (rule UpdateDeployment_cases; simp)
  with assms(2) step_update(2) show ?thesis
    unfolding row_inv_def by (auto elim!: update_rowsE intro: row_wf_settled)
next
  case (step_renew now i ttl r)
  then show ?thesis using assms(2) by (auto simp: RenewDeploymentLease_def Let_def row_inv_def)
next
  case (step_dispatch now wall dep deadline)
  then have "db' = start_budget now (sum_id dep) (sum_revision dep) db" by (blast elim: BeginDeploymentDispatch_cases)
  then show ?thesis using assms(2) by (simp add: row_inv_def)
next
  case (step_late sha now dep body handled)
  from step_late(1) show ?thesis using assms(2) by (cases rule: RecordLate_cases) (simp_all add: row_inv_def)
next
  case (step_delete org project env force expected)
  from step_delete show ?thesis
  proof (rule DeleteDeploymentsForEnv_cases)
    fix db2 assume "delete_environment org project env expected db2 = Inr db'" "deployments db2 = deployments db"
    then have "set (deployments db') \<subseteq> set (deployments db)"
      unfolding delete_environment_def Let_def by (auto dest!: cascade_tables(1) simp: delete_rows_def)
    with assms(2) show ?thesis by (rule row_inv_subset)
  qed
next
  case (step_history dep)
  then show ?thesis using assms(2) by (auto simp: CreateDeploymentHistoryRecord_def row_inv_def split: sum.splits if_splits)
next
  case (step_event event org runner i kind applied)
  then show ?thesis using assms(2) by (auto simp: TryRecordRunnerEvent_def row_inv_def split: if_splits)
next
  case (step_enqueue qsha now wall fresh request maxDepth item replayed)
  from EnqueueDeployment_tables(1) [OF step_enqueue] show ?thesis using assms(2) by (simp add: row_inv_def)
next
  case (step_settle K)
  from queue_settle_tables(1) [OF step_settle] show ?thesis using assms(2) by (simp add: row_inv_def)
qed (use assms(2) in \<open>auto simp: same_core_def row_inv_def dest: ReserveRunnerJob_tables(1)\<close>)

lemma row_inv_steps: "(dp_step limit_of)\<^sup>*\<^sup>* db db' \<Longrightarrow> row_inv db \<Longrightarrow> row_inv db'"
  by (induction rule: rtranclp_induct) (auto intro: row_inv_step)

lemma row_inv_reachable: "dp_reachable limit_of db \<Longrightarrow> row_inv db"
  unfolding dp_reachable_def by (erule row_inv_steps) (simp add: row_inv_def empty_database_def)

text \<open>No lease names a Deployment that has ended.\<close>

definition lease_live :: "database \<Rightarrow> bool" where
  "lease_live db \<longleftrightarrow> (\<forall>l \<in> set (leases db). \<forall>d \<in> set (deployments db). lease_deployment l = Some (dep_id d) \<longrightarrow> dep_status d = StatusExecuting)"

lemma lease_live_mono:
  assumes "lease_live db" "set (deployments db') \<subseteq> set (deployments db)"
    and "\<And>l. l \<in> set (leases db') \<Longrightarrow> \<exists>l' \<in> set (leases db). lease_deployment l' = lease_deployment l"
  shows "lease_live db'"
  using assms unfolding lease_live_def by (metis subsetD)

lemma CreateDeployment_lease_live:
  assumes "CreateDeployment row_ok now wall fresh db org project env p = Inr (s, db')" "lease_live db"
  shows "lease_live db'"
  using assms(1)
proof (rule CreateDeployment_cases)
  fix db1 db2
  assume l: "if RequiresEnvironmentLease (cp_mode p)
      then acquire_lease now (new_lease now (cp_env_uuid p) org project env fresh) db = Inr db1 else db1 = db"
    and u: "upsert_environment wall org project env p fresh db1 = Inr db2"
    and db': "db' = db2\<lparr>deployments := deployments db @ [new_deployment wall p fresh],
       budgets := budgets db @ [\<lparr>bud_deployment = fresh, bud_revision = 1, bud_first_attempt_at = None,
         bud_deadline = None, bud_completion_received_at = None, bud_legacy = False\<rparr>]\<rparr>"
    and new: "fresh \<notin> dep_id ` set (deployments db)"
  have "lease_deployment x = Some fresh \<or> x \<in> set (leases db)" if "x \<in> set (leases db1)" for x
    using l that
    by (auto split: if_splits elim!: acquire_lease_cases update_rowsE simp: new_lease_def)
  moreover have "leases db2 = leases db1" using u by (auto simp: upsert_environment_def split: option.splits if_splits)
  ultimately show ?thesis
    using assms(2) new unfolding lease_live_def db' by (fastforce simp: new_deployment_def)
qed

lemma lease_live_step:
  assumes "dp_step limit_of db db'" "lease_live db"
  shows "lease_live db'"
  using assms(1)
proof cases
  case (step_create row_ok now wall fresh org project env p s)
  with assms(2) show ?thesis by (blast intro: CreateDeployment_lease_live)
next
  case (step_update now wall i p s)
  from step_update have "db' = terminal_effects now i (up_completion_proven p)
     (db\<lparr>deployments := update_rows (\<lambda>d. dep_id d = i) (settled_row wall p) (deployments db)\<rparr>)"
    by (blast elim: UpdateDeployment_cases)
  then have "deployments db' = update_rows (\<lambda>d. dep_id d = i) (settled_row wall p) (deployments db)"
    "leases db' = delete_rows (\<lambda>l. lease_deployment l = Some i) (leases db)"
    by (simp_all add: terminal_effects_def Let_def RecordDeploymentCompletion_def)
  with assms(2) show ?thesis
    unfolding lease_live_def by (auto elim!: update_rowsE simp: settled_row_def delete_rows_def)
next
  case (step_renew now i ttl r)
  with assms(2) show ?thesis
    by (intro lease_live_mono [OF assms(2)]) (fastforce simp: RenewDeploymentLease_def Let_def elim!: update_rowsE)+
next
  case (step_dispatch now wall dep deadline)
  then have "db' = start_budget now (sum_id dep) (sum_revision dep) db" by (blast elim: BeginDeploymentDispatch_cases)
  then show ?thesis using assms(2) by (simp add: lease_live_def)
next
  case (step_late sha now dep body handled)
  from step_late(1) show ?thesis using assms(2) by (cases rule: RecordLate_cases) (simp_all add: lease_live_def RecordDeploymentCompletion_def)
next
  case (step_delete org project env force expected)
  from step_delete show ?thesis
  proof (rule DeleteDeploymentsForEnv_cases)
    fix db2 assume d: "delete_environment org project env expected db2 = Inr db'" "deployments db2 = deployments db" "leases db2 = leases db"
    from d have "set (deployments db') \<subseteq> set (deployments db)"
      unfolding delete_environment_def Let_def by (auto dest!: cascade_tables(1) simp: delete_rows_def)
    moreover from d have "leases db' = leases db" unfolding delete_environment_def Let_def by (auto dest!: cascade_tables(3))
    ultimately show ?thesis using assms(2) unfolding lease_live_def by auto
  qed
next
  case (step_history dep)
  then show ?thesis using assms(2) by (auto simp: CreateDeploymentHistoryRecord_def lease_live_def split: sum.splits if_splits)
next
  case (step_event event org runner i kind applied)
  then show ?thesis using assms(2) by (auto simp: TryRecordRunnerEvent_def lease_live_def split: if_splits)
next
  case (step_enqueue qsha now wall fresh request maxDepth item replayed)
  from EnqueueDeployment_tables(1,3) [OF step_enqueue] show ?thesis using assms(2) by (simp add: lease_live_def)
next
  case (step_settle K)
  from queue_settle_tables(1,3) [OF step_settle] show ?thesis using assms(2) by (simp add: lease_live_def)
next
  case (step_reserve now dep)
  with assms(2) ReserveRunnerJob_tables(1,3) [OF step_reserve] show ?thesis by (simp add: lease_live_def)
qed (use assms(2) in \<open>auto simp: same_core_def lease_live_def RecordDeploymentCompletion_def\<close>)

text \<open>What the handlers of this theory start from: it holds in every reachable state.\<close>

definition result_inv :: "(string \<Rightarrow> string \<Rightarrow> int) \<Rightarrow> database \<Rightarrow> bool" where
  "result_inv limit_of db \<longleftrightarrow> sys_inv limit_of db \<and> row_inv db \<and> lease_live db"

lemma result_inv_steps: "(dp_step limit_of)\<^sup>*\<^sup>* db db' \<Longrightarrow> result_inv limit_of db \<Longrightarrow> result_inv limit_of db'"
  by (induction rule: rtranclp_induct) (auto simp: result_inv_def intro: row_inv_step lease_live_step sys_inv_step)

lemma result_inv_reachable: "dp_reachable limit_of db \<Longrightarrow> result_inv limit_of db"
  unfolding dp_reachable_def
  by (erule result_inv_steps) (use sys_inv_empty in \<open>simp add: result_inv_def row_inv_def lease_live_def; simp add: empty_database_def\<close>)

section \<open>Results are made of transactions\<close>

abbreviation dp_steps :: "(string \<Rightarrow> string \<Rightarrow> int) \<Rightarrow> database \<Rightarrow> database \<Rightarrow> bool" where
  "dp_steps limit_of \<equiv> (dp_step limit_of)\<^sup>*\<^sup>*"

lemma other_steps: "same_core db db' \<Longrightarrow> dp_steps limit_of db db'"
  by (blast intro: step_other)

lemma late_text:
  "RecordLateOrdinaryRunnerCompletion sha now db dep body = RecordLateOrdinaryRunnerCompletion id now db dep (sha body)"
  unfolding RecordLateOrdinaryRunnerCompletion_def id_apply ..

lemma late_steps:
  "RecordLateOrdinaryRunnerCompletion sha now db dep body = Inr (handled, db') \<Longrightarrow> dp_steps limit_of db db'"
  unfolding late_text [of sha] by (blast intro: step_late)

lemma completion_steps:
  assumes "RecordObservationCompletion sha now db i body = Inr (replayed, db')"
  shows "dp_steps limit_of db db'"
proof (cases replayed)
  case False
  with assms obtain o' where "db' = RecordDeploymentCompletion now i (db\<lparr>observation_receipts := o'\<rparr>)"
    unfolding RecordObservationCompletion_def by (auto split: option.splits if_splits)
  moreover have "dp_step limit_of db (db\<lparr>observation_receipts := o'\<rparr>)" by (rule step_other) (simp add: same_core_def)
  ultimately show ?thesis using step_complete [of limit_of "db\<lparr>observation_receipts := o'\<rparr>" now i]
    by (meson r_into_rtranclp rtranclp.rtrancl_into_rtrancl)
qed (use assms in \<open>auto simp: RecordObservationCompletion_def split: option.splits if_splits\<close>)

lemma store_observation_cases:
  assumes "store_observation now db i body p = Inr (p', db')"
  obtains r where "same_core db db'" "up_status p' = up_status p \<or> up_status p' = StatusFailed" "up_outputs p' = None"
    "up_status p' = StatusSucceeded \<Longrightarrow> rb_observation body = Some r \<and> ValidateObservationResult r = Inr () \<and>
       StoreObservationResult now db i r = Inr db'"
    "db' = db\<lparr>observation_receipts := observation_receipts db'\<rparr>"
proof (cases "rb_observation body")
  case (Some r)
  show ?thesis
  proof (rule that)
    show "same_core db db'" "up_status p' = up_status p \<or> up_status p' = StatusFailed" "up_outputs p' = None"
      "up_status p' = StatusSucceeded \<Longrightarrow> rb_observation body = Some r \<and> ValidateObservationResult r = Inr () \<and>
         StoreObservationResult now db i r = Inr db'"
      "db' = db\<lparr>observation_receipts := observation_receipts db'\<rparr>"
      using assms Some by (auto simp: store_observation_def Let_def StoreObservationResult_def same_core_def split: if_splits)
  qed
next
  case None
  with assms show ?thesis by (intro that) (auto simp: store_observation_def Let_def same_core_def)
qed

lemma observation_stage_steps:
  assumes "observation_stage kit now db dep body p proven = Inr st"
  shows "dp_steps limit_of db (case st of Handled db' \<Rightarrow> db' | Apply p' m db' \<Rightarrow> db') \<and>
    (case st of Handled db' \<Rightarrow> True | Apply p' m db' \<Rightarrow> up_status p' = up_status p \<or> up_status p' = StatusFailed)"
proof (cases "sum_mode dep = ModeObservation")
  case True
  with assms obtain replayed db1 where
    r: "(if proven then RecordObservationCompletion (rk_body_sha kit) now db (sum_id dep) body else Inr (False, db)) = Inr (replayed, db1)"
    and st: "(if proven \<and> (replayed \<or> sum_completed_at dep \<noteq> None) then Inr (Handled db1)
        else bindR (store_observation now db1 (sum_id dep) body p) (\<lambda>(p', db2). Inr (Apply p' [] db2))) = Inr st"
    by (auto simp: observation_stage_def)
  have s1: "dp_steps limit_of db db1" using r by (cases proven) (auto intro: completion_steps)
  show ?thesis
  proof (cases "proven \<and> (replayed \<or> sum_completed_at dep \<noteq> None)")
    case False
    with st obtain p' db2 where o': "store_observation now db1 (sum_id dep) body p = Inr (p', db2)" "st = Apply p' [] db2" by auto
    from o'(1) have "same_core db1 db2" "up_status p' = up_status p \<or> up_status p' = StatusFailed"
      by (rule store_observation_cases; simp)+
    with s1 o'(2) show ?thesis by (auto intro: rtranclp_trans [OF _ other_steps])
  qed (use st s1 in auto)
qed (use assms in \<open>auto simp: observation_stage_def split: if_splits\<close>)

lemma settle_result_cases:
  assumes "settle_result now wall db i p metadata = Inr (dep, db')"
  obtains db1 db2 where "UpdateDeploymentStatusAndOutputs now wall db i p = Inr (dep, db1)"
    "CreateDeploymentHistoryRecord db1 dep = Inr db2" "same_core db2 db'" "db' = db2\<lparr>nodes := nodes db', edges := edges db'\<rparr>"
    "\<not> IsPlanDeployment (sum_mode dep) \<and> up_status p = StatusSucceeded \<longrightarrow>
       (\<forall>n \<in> set (nodes db'). nod_environment n = sum_env_uuid dep \<longrightarrow> nod_deployment n = sum_id dep)"
proof -
  from assms obtain db1 db2 where u: "UpdateDeploymentStatusAndOutputs now wall db i p = Inr (dep, db1)"
    "CreateDeploymentHistoryRecord db1 dep = Inr db2"
    by (auto simp: settle_result_def Let_def)
  let ?keep = "\<not> IsPlanDeployment (sum_mode dep) \<and> up_status p = StatusSucceeded"
  let ?db3 = "if ?keep then DiscardOldActiveResources db2 (sum_env_uuid dep) (sum_id dep) else db2"
  let ?updates = "map (\<lambda>(h, fs). (h, Some (JObj fs))) (filter (\<lambda>(h, fs). fs \<noteq> []) metadata)"
  have db': "db' = (if ?updates \<noteq> [] then BulkUpdateActiveResources ?db3 (sum_env_uuid dep) (sum_id dep) ?updates else ?db3)"
    using assms u by (simp add: settle_result_def Let_def)
  have "same_core db2 db'" "db' = db2\<lparr>nodes := nodes db', edges := edges db'\<rparr>"
    unfolding db' by (simp_all add: same_core_def DiscardOldActiveResources_def BulkUpdateActiveResources_def Let_def)
  moreover have "\<forall>n \<in> set (nodes db'). nod_environment n = sum_env_uuid dep \<longrightarrow> nod_deployment n = sum_id dep" if ?keep
    using that unfolding db'
    by (auto simp: DiscardOldActiveResources_def BulkUpdateActiveResources_def Let_def elim!: update_rowsE)
  ultimately show ?thesis using u that by blast
qed

lemma settle_result_steps:
  assumes "settle_result now wall db i p metadata = Inr (dep, db')" "up_status p \<noteq> StatusExecuting"
  shows "dp_steps limit_of db db'"
  using assms(1)
proof (rule settle_result_cases)
  fix db1 db2
  assume "UpdateDeploymentStatusAndOutputs now wall db i p = Inr (dep, db1)" "CreateDeploymentHistoryRecord db1 dep = Inr db2" "same_core db2 db'"
  then have "dp_step limit_of db db1" "dp_step limit_of db1 db2" "dp_step limit_of db2 db'"
    using assms(2) by (auto intro: step_update step_history step_other)
  then show ?thesis by (meson r_into_rtranclp rtranclp.rtrancl_into_rtrancl)
qed

text \<open>Recording the event, when there is one.\<close>

definition record_event :: "database \<Rightarrow> string \<Rightarrow> uuid \<Rightarrow> runner_event option \<Rightarrow> bool \<times> database" where
  "record_event db org i event = (case event of None \<Rightarrow> (True, db)
     | Some ev \<Rightarrow> TryRecordRunnerEvent db (re_event ev) org (re_runner ev) i (re_type ev))"

lemma record_event_facts:
  assumes "record_event db org i event = (inserted, db')"
  shows "same_core db db'" "db' = db\<lparr>runner_inbox := runner_inbox db'\<rparr>"
    and "\<not> inserted \<Longrightarrow> db' = db \<and> (\<exists>ev. event = Some ev \<and> exists_row (\<lambda>r. inb_event r = re_event ev) (runner_inbox db))"
    and "inserted \<Longrightarrow> event = Some ev \<Longrightarrow> runner_inbox db' = runner_inbox db @
       [\<lparr>inb_event = re_event ev, inb_org = org, inb_runner = re_runner ev, inb_deployment = i, inb_type = re_type ev\<rparr>]"
  using assms by (auto simp: record_event_def TryRecordRunnerEvent_def same_core_def split: option.splits if_splits)

lemma record_event_inbox:
  assumes "record_event db org i event = (True, db')"
  shows "set (runner_inbox db) \<subseteq> set (runner_inbox db') \<and> (\<forall>ev. event = Some ev \<longrightarrow> exists_row (\<lambda>r. inb_event r = re_event ev) (runner_inbox db'))"
  using assms by (auto simp: record_event_def TryRecordRunnerEvent_def split: option.splits if_splits)

lemma late_stage_not_handled: "late_stage kit now db dep body proven = Inr (False, db') \<Longrightarrow> db' = db"
  by (auto simp: late_stage_def RecordLateOrdinaryRunnerCompletion_def split: if_splits option.splits)

lemma common_cases:
  assumes "commonUpdateDeploymentResults kit now wall db org i body p event proven = Inr (s, db')"
  obtains (duplicate) ev where "event = Some ev" "exists_row (\<lambda>r. inb_event r = re_event ev) (runner_inbox db)" "db' = db"
  | (late) dep rest db1 where "GetDeployment db org i = Inr (dep, rest)" "record_event db org i event = (True, db1)"
      "late_stage kit now db1 dep body proven = Inr (True, db')" "s = dep"
  | (handled) dep rest db1 where "GetDeployment db org i = Inr (dep, rest)" "record_event db org i event = (True, db1)"
      "observation_stage kit now db1 dep body p proven = Inr (Handled db')" "s = dep"
  | (settled) dep rest db1 p' metadata db3 where "GetDeployment db org i = Inr (dep, rest)" "record_event db org i event = (True, db1)"
      "observation_stage kit now db1 dep body p proven = Inr (Apply p' metadata db3)" "sum_completed_at dep = None"
      "settle_result now wall db3 i (p'\<lparr>up_completion_proven := proven \<and> event = None,
         up_metrics := result_metrics (sum_metrics dep) body\<rparr>) metadata = Inr (s, db')"
      "\<And>ev. event = Some ev \<Longrightarrow> re_runner ev = sum_runner_id dep"
proof -
  from assms obtain dep rest where g: "GetDeployment db org i = Inr (dep, rest)"
    by (auto simp: commonUpdateDeploymentResults_def Let_def split: sum.splits)
  obtain inserted db1 where r: "record_event db org i event = (inserted, db1)" by fastforce
  from assms g r have own: "\<And>ev. event = Some ev \<Longrightarrow> re_runner ev = sum_runner_id dep"
    and body: "(if \<not> inserted then Inr (dep, db1)
      else bindR (lift_plain (late_stage kit now db1 dep body proven)) (\<lambda>(handled, db2).
        if handled then Inr (dep, db2)
        else bindR (lift_plain (observation_stage kit now db2 dep body p proven)) (\<lambda>st.
          case st of Handled db3 \<Rightarrow> Inr (dep, db3)
          | Apply p' metadata db3 \<Rightarrow>
              if sum_completed_at dep \<noteq> None then Inl (if event \<noteq> None then TargetInvalid (NewErrConflict ''deployment already completed'')
                else Plain (NewErrConflict ''deployment already completed''))
              else lift_plain (settle_result now wall db3 i
                (p'\<lparr>up_completion_proven := proven \<and> event = None, up_metrics := result_metrics (sum_metrics dep) body\<rparr>) metadata)))) = Inr (s, db')"
    by (auto simp: commonUpdateDeploymentResults_def Let_def record_event_def split: if_splits)
  show ?thesis
  proof (cases inserted)
    case False
    from record_event_facts(3) [OF r False] obtain ev where "db1 = db" "event = Some ev"
      "exists_row (\<lambda>r. inb_event r = re_event ev) (runner_inbox db)" by blast
    with body False show ?thesis by (intro duplicate) auto
  next
    case True
    with body obtain h db2 where l: "late_stage kit now db1 dep body proven = Inr (h, db2)" by auto
    show ?thesis
    proof (cases h)
      case True
      with body \<open>inserted\<close> l g r show ?thesis by (intro late) auto
    next
      case False
      with l have "db2 = db1" by (auto dest: late_stage_not_handled)
      with body \<open>inserted\<close> l False obtain st where st: "observation_stage kit now db1 dep body p proven = Inr st" by auto
      show ?thesis
      proof (cases st)
        case (Handled db3)
        with body \<open>inserted\<close> l False \<open>db2 = db1\<close> st g r show ?thesis by (intro handled) auto
      next
        case (Apply p' metadata db3)
        with body \<open>inserted\<close> l False \<open>db2 = db1\<close> st g r own show ?thesis by (intro settled) (auto split: if_splits)
      qed
    qed
  qed
qed

lemma record_event_steps: "record_event db org i event = (inserted, db') \<Longrightarrow> dp_steps limit_of db db'"
  by (drule record_event_facts(1)) (rule other_steps)

lemma common_steps:
  assumes "commonUpdateDeploymentResults kit now wall db org i body p event proven = Inr (s, db')" "up_status p \<noteq> StatusExecuting"
  shows "dp_steps limit_of db db'"
  using assms(1)
proof (cases rule: common_cases)
  case (late dep rest db1)
  from late(3) have "dp_steps limit_of db1 db'" by (auto simp: late_stage_def split: if_splits intro: late_steps)
  with record_event_steps [OF late(2)] show ?thesis by (rule rtranclp_trans)
next
  case (handled dep rest db1)
  from observation_stage_steps [OF handled(3), of limit_of] have "dp_steps limit_of db1 db'" by simp
  with record_event_steps [OF handled(2)] show ?thesis by (rule rtranclp_trans)
next
  case (settled dep rest db1 p' metadata db3)
  from observation_stage_steps [OF settled(3), of limit_of] assms(2)
  have s: "dp_steps limit_of db1 db3" "up_status p' \<noteq> StatusExecuting" by auto
  have "dp_steps limit_of db3 db'" by (rule settle_result_steps [OF settled(5)]) (use s(2) in simp)
  with record_event_steps [OF settled(2)] s(1) show ?thesis by (meson rtranclp_trans)
qed simp

section \<open>Late results are made of transactions\<close>

lemma GetDeployment_Inr:
  assumes "GetDeployment db org i = Inr (dep, rest)"
  obtains d e where "find_deployment i db = Some d" "lookup_row env_id (dep_de_id d) (environments db) = Some e" "env_org e = org"
    "dep = full_summary org e d" "env_id e = dep_de_id d"
  using assms by (auto simp: GetDeployment_def split: option.splits if_splits dest: lookup_row_Some)

lemma full_summary_fields [simp]:
  "sum_id (full_summary org e d) = dep_id d" "sum_status (full_summary org e d) = dep_status d"
  "sum_completed_at (full_summary org e d) = dep_completed_at d" "sum_revision (full_summary org e d) = dep_revision d"
  "sum_mode (full_summary org e d) = dep_mode d" "sum_runner_id (full_summary org e d) = dep_runner_id d"
  "sum_org (full_summary org e d) = org" "sum_env_uuid (full_summary org e d) = env_id e"
  "sum_outputs_recipient (full_summary org e d) = dep_outputs_recipient d"
  by (simp_all add: full_summary_def blank_summary_def)

lemma check_late_attempt_cases:
  assumes "check_late_attempt db previous runner envelope body = Inr dep"
  obtains d e where "find_deployment (sum_id previous) db = Some d" "lookup_row env_id (dep_de_id d) (environments db) = Some e"
    "dep = full_summary (sum_org previous) e d" "env_org e = sum_org previous" "dep_runner_id d = runner"
    "dep_status d = StatusFailed" "dep_completed_at d \<noteq> None" "status_valid (rb_status body)"
    "\<not> exists_row (\<lambda>l. lease_environment l = dep_de_id d \<and> (lease_holder l \<noteq> dep_id d \<or> lease_deployment l \<noteq> Some (dep_id d))) (leases db)"
proof -
  from assms obtain rest where g: "GetDeployment db (sum_org previous) (sum_id previous) = Inr (dep, rest)"
    and c: "sum_runner_id dep = runner" "sum_status dep = StatusFailed" "sum_completed_at dep \<noteq> None" "status_valid (rb_status body)"
      "\<not> exists_row (\<lambda>l. lease_environment l = sum_env_uuid dep \<and> (lease_holder l \<noteq> sum_id dep \<or> lease_deployment l \<noteq> Some (sum_id dep))) (leases db)"
    unfolding check_late_attempt_def Let_def by (auto split: option.splits if_splits)
  from g show ?thesis by (rule GetDeployment_Inr) (use c in \<open>auto intro!: that\<close>)
qed

lemma retainLate_cases:
  assumes "retainLateRunnerResult kit now db previous runner envelope digest body = Inr db'"
  obtains (replayed) l where "db' = db" "l \<in> set (late_results db)" "late_deployment l = sum_id previous" "late_org l = sum_org previous"
      "late_runner l = runner" "late_payload_sha256 l = digest" "late_event l = ee_event envelope"
  | (applied) "db' = db" "exists_row (\<lambda>x. inb_event x = ee_event envelope \<and> inb_org x = sum_org previous \<and> inb_runner x = runner \<and>
      inb_deployment x = sum_id previous \<and> inb_type x = ''deployment-result'') (runner_inbox db)"
  | (retained) dep db1 l where "check_late_attempt db previous runner envelope body = Inr dep" "check_late_base db dep = Inr ()"
      "check_late_outputs kit db dep (rb_outputs body) = Inr ()" "insert_late_result db l = Inr db1"
      "late_deployment l = sum_id dep" "late_org l = sum_org dep" "late_runner l = runner" "late_event l = ee_event envelope"
      "late_payload_sha256 l = digest" "ee_event envelope = late_event_id (sum_id previous)"
      "db' = (RecordDeploymentCompletion now (sum_id dep) db1)\<lparr>leases := delete_rows (\<lambda>l. lease_deployment l = Some (sum_id dep) \<and>
         lease_holder l = sum_id dep) (leases (RecordDeploymentCompletion now (sum_id dep) db1))\<rparr>"
proof -
  let ?find = "find (\<lambda>l. late_deployment l = sum_id previous \<and> late_org l = sum_org previous \<and> late_runner l = runner \<and>
      late_event l = ee_event envelope) (late_results db)"
  let ?inbox = "exists_row (\<lambda>x. inb_event x = ee_event envelope \<and> inb_org x = sum_org previous \<and> inb_runner x = runner \<and>
      inb_deployment x = sum_id previous \<and> inb_type x = ''deployment-result'') (runner_inbox db)"
  let ?l = "\<lambda>dep. \<lparr>late_deployment = sum_id dep, late_event = ee_event envelope, late_org = sum_org dep,
      late_runner = runner, late_payload_sha256 = digest, late_success = (rb_status body = ''success''),
      late_occurred_at = opt_or (ee_created_at envelope) 0, late_received_at = now, late_outputs = rb_outputs body,
      late_recipient = sum_outputs_recipient dep\<rparr>"
  have event: "ee_event envelope = late_event_id (sum_id previous)"
    using assms unfolding retainLateRunnerResult_def Let_def by (auto split: if_splits)
  show ?thesis
  proof (cases ?find)
    case (Some l)
    then have "l \<in> set (late_results db)" "late_deployment l = sum_id previous" "late_org l = sum_org previous"
      "late_runner l = runner" "late_event l = ee_event envelope" by (auto simp: find_Some_iff)
    with assms Some event show ?thesis unfolding retainLateRunnerResult_def Let_def by (auto split: if_splits intro: replayed)
  next
    case None
    show ?thesis
    proof (cases ?inbox)
      case True
      with assms None event have "db' = db" unfolding retainLateRunnerResult_def Let_def by simp
      with True show ?thesis by (intro applied)
    next
      case False
      from assms None False event obtain dep db1 where "check_late_attempt db previous runner envelope body = Inr dep"
        "check_late_base db dep = Inr ()" "check_late_outputs kit db dep (rb_outputs body) = Inr ()"
        "insert_late_result db (?l dep) = Inr db1"
        "db' = (RecordDeploymentCompletion now (sum_id dep) db1)\<lparr>leases := delete_rows (\<lambda>l. lease_deployment l = Some (sum_id dep) \<and>
           lease_holder l = sum_id dep) (leases (RecordDeploymentCompletion now (sum_id dep) db1))\<rparr>"
        unfolding retainLateRunnerResult_def Let_def by (simp only: refl if_False if_True None False not_True_eq_False option.case) auto
      with event show ?thesis by (intro retained [of dep "?l dep" db1]) simp_all
    qed
  qed
qed

lemma insert_late_facts:
  assumes "insert_late_result db l = Inr db1"
  shows "same_core db db1" "db1 = db\<lparr>late_results := late_results db1\<rparr>"
    "exists_row (\<lambda>x. late_deployment x = late_deployment l \<and> late_org x = late_org l \<and> late_runner x = late_runner l \<and>
       late_event x = late_event l \<and> late_payload_sha256 x = late_payload_sha256 l) (late_results db1)"
  using assms by (auto simp: insert_late_result_def same_core_def split: if_splits)

lemma late_result_steps:
  assumes "retainLateRunnerResult kit now db previous runner envelope digest body = Inr db'" "lease_live db"
  shows "dp_steps limit_of db db' \<and> deployments db' = deployments db"
  using assms(1)
proof (cases rule: retainLate_cases)
  case (retained dep db1 l)
  note core = insert_late_facts(1) [OF retained(4)]
  let ?db2 = "RecordDeploymentCompletion now (sum_id dep) db1"
  from retained(1) obtain d where d: "d \<in> set (deployments db)" "dep_id d = sum_id dep" "dep_status d = StatusFailed"
    by (rule check_late_attempt_cases) (auto dest: find_deployment_Some)
  with assms(2) have "\<not> (lease_deployment x = Some (sum_id dep) \<and> lease_holder x = sum_id dep)" if "x \<in> set (leases db)" for x
    using that unfolding lease_live_def by force
  then have "delete_rows (\<lambda>l. lease_deployment l = Some (sum_id dep) \<and> lease_holder l = sum_id dep) (leases ?db2) = leases ?db2"
    using core by (auto simp: delete_rows_def same_core_def RecordDeploymentCompletion_def intro: filter_True)
  with retained(11) have db': "db' = ?db2" by simp
  have "dp_step limit_of db db1" "dp_step limit_of db1 db'" unfolding db' by (rule step_other [OF core], rule step_complete)
  then have "dp_steps limit_of db db'" by (meson r_into_rtranclp rtranclp.rtrancl_into_rtrancl)
  with core show ?thesis by (simp add: db' same_core_def RecordDeploymentCompletion_def)
qed simp_all

lemma late_ordinary_steps:
  assumes "retainLateOrdinaryCapacityCompletion kit now db previous runner body envelope = Inr (handled, db')"
  shows "dp_steps limit_of db db' \<and> deployments db' = deployments db"
proof (cases handled)
  case True
  with assms obtain dep where l: "RecordLateOrdinaryRunnerCompletion (rk_body_sha kit) now db dep body = Inr (True, db')"
    unfolding retainLateOrdinaryCapacityCompletion_def by (auto split: if_splits)
  from l have "deployments db' = deployments db"
    by (cases rule: RecordLate_cases) (simp_all add: RecordDeploymentCompletion_def)
  with late_steps [OF l] show ?thesis by simp
qed (use assms in \<open>auto simp: retainLateOrdinaryCapacityCompletion_def split: if_splits\<close>)

section \<open>Completed Deployments stay as they are\<close>

definition completed_kept :: "database \<Rightarrow> database \<Rightarrow> bool" where
  "completed_kept db db' \<longleftrightarrow> (\<forall>k d. find_deployment k db = Some d \<longrightarrow> dep_completed_at d \<noteq> None \<longrightarrow> find_deployment k db' = Some d)"

lemma completed_kept_same: "deployments db' = deployments db \<Longrightarrow> completed_kept db db'"
  by (simp add: completed_kept_def find_deployment_def)

lemma completed_kept_trans: "completed_kept db db1 \<Longrightarrow> completed_kept db1 db' \<Longrightarrow> completed_kept db db'"
  by (simp add: completed_kept_def)

lemma find_deployment_update:
  "deployments db' = update_rows (\<lambda>d. dep_id d = i) f (deployments db) \<Longrightarrow> (\<And>d. dep_id (f d) = dep_id d) \<Longrightarrow>
     find_deployment k db' = map_option (\<lambda>d. if dep_id d = i then f d else d) (find_deployment k db)"
  by (simp add: find_deployment_def lookup_row_update_rows)

lemma update_deployments:
  assumes "UpdateDeploymentStatusAndOutputs now wall db i p = Inr (s, db')" "up_status p \<noteq> StatusExecuting"
  shows "deployments db' = update_rows (\<lambda>d. dep_id d = i) (settled_row wall p) (deployments db)"
    and "find_deployment k db' = map_option (\<lambda>d. if dep_id d = i then settled_row wall p d else d) (find_deployment k db)"
proof -
  from assms show d: "deployments db' = update_rows (\<lambda>d. dep_id d = i) (settled_row wall p) (deployments db)"
    by (rule UpdateDeployment_cases; simp)
  show "find_deployment k db' = map_option (\<lambda>d. if dep_id d = i then settled_row wall p d else d) (find_deployment k db)"
    by (rule find_deployment_update [OF d]) (simp add: settled_row_def)
qed

lemma update_completed_kept:
  assumes "UpdateDeploymentStatusAndOutputs now wall db i p = Inr (s, db')" "up_status p \<noteq> StatusExecuting"
    and "\<And>d. find_deployment i db = Some d \<Longrightarrow> dep_completed_at d = None"
  shows "completed_kept db db'"
  unfolding completed_kept_def update_deployments(2) [OF assms(1,2)]
proof (intro allI impI)
  fix k d assume d: "find_deployment k db = Some d" "dep_completed_at d \<noteq> None"
  with assms(3) [of d] find_deployment_Some [OF d(1)] have "dep_id d \<noteq> i" by auto
  with d(1) show "map_option (\<lambda>d. if dep_id d = i then settled_row wall p d else d) (find_deployment k db) = Some d" by simp
qed

lemma history_record_cases:
  assumes "CreateDeploymentHistoryRecord db dep = Inr db'"
  obtains h t where "db' = db\<lparr>history := history db @ [h]\<rparr>" "sum_completed_at dep = Some t"
    "h = \<lparr>his_id = sum_id dep, his_org = sum_org dep, his_project = sum_project dep, his_env = sum_env dep,
       his_env_uuid = sum_env_uuid dep, his_mode = sum_mode dep, his_created_by = sum_created_by dep,
       his_created_at = sum_created_at dep, his_completed_at = t, his_status = sum_status dep, his_metrics = sum_metrics dep\<rparr>"
  using assms by (cases "sum_completed_at dep") (auto simp: CreateDeploymentHistoryRecord_def opt_must_def split: if_splits)

lemma completion_deployments:
  "RecordObservationCompletion sha now db i body = Inr (replayed, db') \<Longrightarrow> deployments db' = deployments db"
  by (auto simp: RecordObservationCompletion_def RecordDeploymentCompletion_def split: option.splits if_splits)

lemma observation_stage_deployments:
  assumes "observation_stage kit now db dep body p proven = Inr st"
  shows "deployments (case st of Handled db' \<Rightarrow> db' | Apply p' m db' \<Rightarrow> db') = deployments db"
  using assms
  by (auto simp: observation_stage_def same_core_def split: if_splits dest!: completion_deployments elim!: store_observation_cases)

lemma common_completed_kept:
  assumes "commonUpdateDeploymentResults kit now wall db org i body p event proven = Inr (s, db')" "up_status p \<noteq> StatusExecuting"
  shows "completed_kept db db'"
  using assms(1)
proof (cases rule: common_cases)
  case (late dep rest db1)
  from late(3) have "deployments db' = deployments db1"
    by (auto simp: late_stage_def split: if_splits elim!: RecordLate_cases simp: RecordDeploymentCompletion_def)
  with record_event_facts(1) [OF late(2)] show ?thesis by (intro completed_kept_same) (simp add: same_core_def)
next
  case (handled dep rest db1)
  from observation_stage_deployments [OF handled(3)] record_event_facts(1) [OF handled(2)] show ?thesis
    by (intro completed_kept_same) (simp add: same_core_def)
next
  case (settled dep rest db1 p' metadata db3)
  have d3: "deployments db3 = deployments db"
    using observation_stage_deployments [OF settled(3)] record_event_facts(1) [OF settled(2)] by (simp add: same_core_def)
  have st: "up_status p' \<noteq> StatusExecuting" using observation_stage_steps [OF settled(3)] assms(2) by auto
  from settled(1) have none: "dep_completed_at d = None" if "find_deployment i db = Some d" for d
    using that settled(4) by (auto elim!: GetDeployment_Inr)
  from settled(5) show ?thesis
  proof (rule settle_result_cases)
    fix db4 db5
    assume u: "UpdateDeploymentStatusAndOutputs now wall db3 i (p'\<lparr>up_completion_proven := proven \<and> event = None,
        up_metrics := result_metrics (sum_metrics dep) body\<rparr>) = Inr (s, db4)" and h: "CreateDeploymentHistoryRecord db4 s = Inr db5"
      and c: "same_core db5 db'"
    have "completed_kept db3 db4" by (rule update_completed_kept [OF u]) (use st none d3 in \<open>simp_all add: find_deployment_def\<close>)
    moreover have "deployments db' = deployments db4" using c h by (auto simp: same_core_def elim!: history_record_cases)
    ultimately show ?thesis using d3 unfolding completed_kept_def find_deployment_def by simp
  qed
qed (simp add: completed_kept_same)

text \<open>
  What every handler does: transactions the system allows, no change of a completed Deployment, and
  no event forgotten.
\<close>

definition inbox_kept :: "database \<Rightarrow> database \<Rightarrow> bool" where
  "inbox_kept db db' \<longleftrightarrow> set (runner_inbox db) \<subseteq> set (runner_inbox db')"

definition allowed :: "(string \<Rightarrow> string \<Rightarrow> int) \<Rightarrow> database \<Rightarrow> database \<Rightarrow> bool" where
  "allowed limit_of db db' \<longleftrightarrow> dp_steps limit_of db db' \<and> completed_kept db db' \<and> inbox_kept db db'"

lemma inbox_kept_same [simp]: "runner_inbox db' = runner_inbox db \<Longrightarrow> inbox_kept db db'"
  by (simp add: inbox_kept_def)

lemma allowed_refl [simp]: "allowed limit_of db db"
  by (simp add: allowed_def completed_kept_same)

lemma allowed_trans [trans]: "allowed limit_of db db1 \<Longrightarrow> allowed limit_of db1 db' \<Longrightarrow> allowed limit_of db db'"
  unfolding allowed_def inbox_kept_def by (meson rtranclp_trans completed_kept_trans subset_trans)

lemma completion_inbox [simp]:
  "runner_inbox (ReleaseRunnerJob now i db) = runner_inbox db" "runner_inbox (RecordDeploymentCompletion now i db) = runner_inbox db"
  "runner_inbox (terminal_effects now i proven db) = runner_inbox db"
  by (simp_all add: ReleaseRunnerJob_def RecordDeploymentCompletion_def terminal_effects_def Let_def)

lemma RecordLate_inbox:
  "RecordLateOrdinaryRunnerCompletion sha now db dep body = Inr (handled, db') \<Longrightarrow> runner_inbox db' = runner_inbox db"
  by (erule RecordLate_cases) simp_all

lemma update_inbox:
  assumes "UpdateDeploymentStatusAndOutputs now wall db i p = Inr (s, db')" "up_status p \<noteq> StatusExecuting"
  shows "runner_inbox db' = runner_inbox db"
  using assms by (rule UpdateDeployment_cases; simp)

lemma observation_stage_inbox:
  assumes "observation_stage kit now db dep body p proven = Inr st"
  shows "runner_inbox (case st of Handled db' \<Rightarrow> db' | Apply p' m db' \<Rightarrow> db') = runner_inbox db"
proof -
  have s: "runner_inbox db2 = runner_inbox db1" if "store_observation now db1 i body p = Inr (p', db2)" for i p' db1 db2
    using that by (rule store_observation_cases) (metis database.simps(6) database.surjective database.update_convs(11))
  have c: "runner_inbox db1 = runner_inbox db" if "RecordObservationCompletion sha now db i body = Inr (r, db1)" for sha i r db1
    using that by (auto simp: RecordObservationCompletion_def split: option.splits if_splits)
  show ?thesis using assms by (auto simp: observation_stage_def split: if_splits dest!: s c)
qed

lemma settle_result_inbox:
  assumes "settle_result now wall db i p metadata = Inr (dep, db')" "up_status p \<noteq> StatusExecuting"
  shows "runner_inbox db' = runner_inbox db"
  using assms(1)
proof (rule settle_result_cases)
  fix db1 db2
  assume u: "UpdateDeploymentStatusAndOutputs now wall db i p = Inr (dep, db1)" and h: "CreateDeploymentHistoryRecord db1 dep = Inr db2"
    and d: "db' = db2\<lparr>nodes := nodes db', edges := edges db'\<rparr>"
  have "runner_inbox db' = runner_inbox db2" by (subst d) simp
  also have "\<dots> = runner_inbox db1" using h by (auto elim!: history_record_cases)
  finally show ?thesis using update_inbox [OF u assms(2)] by simp
qed

lemma common_inbox:
  assumes "commonUpdateDeploymentResults kit now wall db org i body p event proven = Inr (s, db')" "up_status p \<noteq> StatusExecuting"
  shows "inbox_kept db db' \<and> (\<forall>ev. event = Some ev \<longrightarrow> exists_row (\<lambda>r. inb_event r = re_event ev) (runner_inbox db'))"
  using assms(1)
proof (cases rule: common_cases)
  case (late dep rest db1)
  from late(3) have "runner_inbox db' = runner_inbox db1" by (auto simp: late_stage_def split: if_splits dest: RecordLate_inbox)
  with record_event_inbox [OF late(2)] show ?thesis by (simp add: inbox_kept_def)
next
  case (handled dep rest db1)
  from observation_stage_inbox [OF handled(3)] record_event_inbox [OF handled(2)] show ?thesis by (simp add: inbox_kept_def)
next
  case (settled dep rest db1 p' metadata db3)
  have "up_status p' \<noteq> StatusExecuting" using observation_stage_steps [OF settled(3)] assms(2) by auto
  then have "runner_inbox db' = runner_inbox db3" by (intro settle_result_inbox [OF settled(5)]) simp
  with observation_stage_inbox [OF settled(3)] record_event_inbox [OF settled(2)] show ?thesis by (simp add: inbox_kept_def)
qed (auto simp: inbox_kept_def)

lemma common_allowed:
  "commonUpdateDeploymentResults kit now wall db org i body p event proven = Inr (s, db') \<Longrightarrow> up_status p \<noteq> StatusExecuting \<Longrightarrow>
     allowed limit_of db db'"
  by (simp add: allowed_def common_steps common_completed_kept common_inbox)

lemma late_result_inbox:
  assumes "retainLateRunnerResult kit now db previous runner envelope digest body = Inr db'"
  shows "runner_inbox db' = runner_inbox db"
  using assms
proof (cases rule: retainLate_cases)
  case (retained dep db1 l)
  have "runner_inbox db1 = runner_inbox db" by (subst insert_late_facts(2) [OF retained(4)]) simp
  with retained(11) show ?thesis by simp
qed simp_all

lemma late_result_allowed:
  "retainLateRunnerResult kit now db previous runner envelope digest body = Inr db' \<Longrightarrow> lease_live db \<Longrightarrow> allowed limit_of db db'"
  by (simp add: allowed_def late_result_steps completed_kept_same late_result_inbox)

lemma late_ordinary_allowed:
  assumes "retainLateOrdinaryCapacityCompletion kit now db previous runner body envelope = Inr (handled, db')"
  shows "allowed limit_of db db'"
proof -
  from assms have "runner_inbox db' = runner_inbox db"
    by (auto simp: retainLateOrdinaryCapacityCompletion_def split: if_splits dest: RecordLate_inbox)
  with late_ordinary_steps [OF assms] show ?thesis by (simp add: allowed_def completed_kept_same)
qed

lemma params_status:
  "deploymentResultUpdateParams kit db org i body = Inr p \<Longrightarrow>
     up_status p = (if rb_status body = ''success'' then StatusSucceeded else StatusFailed)"
  unfolding deploymentResultUpdateParams_def Let_def
  by (cases "enrichDeploymentError kit db org i (fst (the (rb_error body))) (snd (the (rb_error body)))")
    (auto split: if_splits option.splits prod.splits)

lemma params_not_executing: "deploymentResultUpdateParams kit db org i body = Inr p \<Longrightarrow> up_status p \<noteq> StatusExecuting"
  by (simp add: params_status)

lemma applyRunner_allowed:
  assumes "applyRunnerDeploymentResult kit now wall db org runner i event body envelope = Inr db'" "lease_live db"
  shows "allowed limit_of db db'"
proof -
  from assms(1) obtain p where p: "deploymentResultUpdateParams kit db org i body = Inr p"
    by (auto simp: applyRunnerDeploymentResult_def split: sum.splits result_error.splits)
  let ?ordinary = "commonUpdateDeploymentResults kit now wall db org i body p
      (Some \<lparr>re_event = event, re_runner = runner, re_type = ''deployment-result''\<rparr>) True"
  have ordinary: "?ordinary = Inr (s, db') \<Longrightarrow> allowed limit_of db db'" for s
    by (rule common_allowed [OF _ params_not_executing [OF p]])
  show ?thesis
  proof (cases envelope)
    case None
    with assms(1) p ordinary show ?thesis by (auto simp: applyRunnerDeploymentResult_def Let_def)
  next
    case (Some env)
    with assms(1) p obtain dep rest where g: "GetDeployment db org i = Inr (dep, rest)"
      by (auto simp: applyRunnerDeploymentResult_def Let_def split: sum.splits)
    show ?thesis
    proof (cases "sum_completed_at dep \<noteq> None \<and> sum_status dep = StatusFailed \<and> sum_mode dep \<noteq> ModeObservation")
      case True
      with assms(1) p Some g obtain handled db1 where
        l: "retainLateOrdinaryCapacityCompletion kit now db dep runner body env = Inr (handled, db1)"
        and r: "(if handled then Inr db1 else retainLateRunnerResult kit now db dep runner env (rk_envelope_sha kit env) body) = Inr db'"
        by (auto simp: applyRunnerDeploymentResult_def Let_def)
      then show ?thesis using assms(2) by (cases handled) (auto intro: late_result_allowed late_ordinary_allowed)
    next
      case False
      show ?thesis
      proof (cases ?ordinary)
        case (Inl e)
        with assms(1) p Some g False have "retainLateRunnerResult kit now db dep runner env (rk_envelope_sha kit env) body = Inr db'"
          by (auto simp: applyRunnerDeploymentResult_def Let_def split: if_splits)
        then show ?thesis using assms(2) by (rule late_result_allowed)
      next
        case (Inr x)
        with assms(1) p Some g False have "?ordinary = Inr (fst x, db')"
          by (auto simp: applyRunnerDeploymentResult_def Let_def split: if_splits prod.splits)
        then show ?thesis by (rule ordinary)
      qed
    qed
  qed
qed

lemma runner_error_allowed:
  "ApplyRunnerError kit now wall db org runner i event code message = Inr db' \<Longrightarrow> allowed limit_of db db'"
  unfolding ApplyRunnerError_def by (auto dest: common_allowed)

lemma runner_event_allowed:
  assumes "handle_runner_event kit now wall db subject data = (v, db')" "lease_live db"
  shows "allowed limit_of db db'"
  using assms
  by (auto simp: handle_runner_event_def apply_verdict_def ApplyRunnerDeploymentResultEnvelope_def
      split: option.splits if_splits sum.splits intro: applyRunner_allowed runner_error_allowed)

lemma http_result_allowed:
  "UpdateDeploymentResults kit now wall db org i token body = (a, db') \<Longrightarrow> allowed limit_of db db'"
  by (auto simp: UpdateDeploymentResults_def split: if_splits sum.splits dest: params_not_executing intro: common_allowed)

lemma force_fail_allowed:
  "InternalForceFailDeployment kit now wall db is_system org i = (a, db') \<Longrightarrow> allowed limit_of db db'"
  unfolding InternalForceFailDeployment_def by (auto split: if_splits sum.splits dest: common_allowed)

section \<open>The workers\<close>

text \<open>The Control Plane reports the configured limits.\<close>

definition configured :: "(string \<Rightarrow> string \<Rightarrow> int) \<Rightarrow> runner_services \<Rightarrow> bool" where
  "configured limit_of sv \<longleftrightarrow> (\<forall>org runner conf limit supported. rs_runner sv org runner = Some (200, conf) \<longrightarrow>
     RunnerAdmissionConfiguration (rc_max_parallel_jobs conf) (rc_protocols conf) = Inr (limit, supported) \<longrightarrow> limit_of org runner = limit)"

lemma failDeployment_cases:
  assumes "failDeployment now wall db dep message = Inr db'"
  obtains s db1 where "UpdateDeploymentStatusAndOutputs now wall db (sum_id dep)
      \<lparr>up_status = StatusFailed, up_status_message = message, up_outputs = None, up_metrics = sum_metrics dep,
       up_expected_revision = Some (sum_revision dep), up_completion_proven = False\<rparr> = Inr (s, db1)"
    "CreateDeploymentHistoryRecord db1 s = Inr db'"
  using assms by (auto simp: failDeployment_def)

lemma revision_one_executing:
  assumes "row_inv db" "find_deployment i db = Some d" "dep_revision d = 1"
  shows "dep_status d = StatusExecuting \<and> dep_completed_at d = None"
  using assms find_deployment_Some [OF assms(2)] by (auto simp: row_inv_def row_wf_def)

lemma update_revision:
  assumes "UpdateDeploymentStatusAndOutputs now wall db i p = Inr (s, db')" "up_status p \<noteq> StatusExecuting" "up_expected_revision p = Some r"
  obtains d where "find_deployment i db = Some d" "dep_revision d = r"
  using assms by (rule_tac UpdateDeployment_cases [OF assms(1,2)]) auto

lemma failDeployment_allowed:
  assumes "failDeployment now wall db dep message = Inr db'" "row_inv db" "sum_revision dep = 1"
  shows "allowed limit_of db db'"
  using assms(1)
proof (rule failDeployment_cases)
  fix s db1
  let ?p = "\<lparr>up_status = StatusFailed, up_status_message = message, up_outputs = None, up_metrics = sum_metrics dep,
       up_expected_revision = Some (sum_revision dep), up_completion_proven = False\<rparr>"
  assume u: "UpdateDeploymentStatusAndOutputs now wall db (sum_id dep) ?p = Inr (s, db1)" and h: "CreateDeploymentHistoryRecord db1 s = Inr db'"
  have "completed_kept db db1"
  proof (rule update_completed_kept [OF u])
    fix d assume "find_deployment (sum_id dep) db = Some d"
    moreover from update_revision [OF u] obtain d' where "find_deployment (sum_id dep) db = Some d'" "dep_revision d' = 1"
      using assms(3) by auto
    ultimately show "dep_completed_at d = None" using revision_one_executing [OF assms(2)] by auto
  qed simp
  moreover have "deployments db' = deployments db1" using h by (auto elim!: history_record_cases)
  moreover have "dp_step limit_of db db1" "dp_step limit_of db1 db'" by (rule step_update [OF u], simp, rule step_history [OF h])
  moreover have "runner_inbox db' = runner_inbox db" using h update_inbox [OF u] by (auto elim!: history_record_cases)
  ultimately show ?thesis
    unfolding allowed_def by (auto intro: completed_kept_trans completed_kept_same)
qed

lemma fail_verdict_allowed:
  assumes "fail_verdict now wall db dep message = (v, db')" "row_inv db" "sum_revision dep = 1"
  shows "allowed limit_of db db'"
  using assms by (auto simp: fail_verdict_def split: sum.splits intro: failDeployment_allowed)

lemma renew_allowed: "RenewDeploymentLease now db i ttl = (r, db') \<Longrightarrow> allowed limit_of db db'"
  by (auto simp: allowed_def RenewDeploymentLease_def Let_def intro!: completed_kept_same step_renew)

lemma begin_dispatch_allowed:
  assumes "BeginDeploymentDispatch now wall db d = Inr (deadline, db')"
  shows "allowed limit_of db db'"
proof -
  from assms have "deployments db' = deployments db" "runner_inbox db' = runner_inbox db"
    by (rule BeginDeploymentDispatch_cases; simp add: start_budget_def)+
  with step_dispatch [OF assms] show ?thesis by (auto simp: allowed_def intro: completed_kept_same)
qed

lemma reserve_allowed:
  assumes "ReserveRunnerJob now db d (limit_of (sum_org d) (sum_runner_id d)) = Inr db'"
  shows "allowed limit_of db db'"
  using step_reserve [where limit_of = limit_of, OF assms] ReserveRunnerJob_tables(1,7) [OF assms]
  by (auto simp: allowed_def intro: completed_kept_same)

lemma handleInner_cases:
  assumes "handleInner sv clock now db d = (e, effects, db')"
  obtains (nothing) "db' = db" "effects = []"
  | (reserved) conf limit supported db1 where "rs_runner sv (sum_org d) (sum_runner_id d) = Some (200, conf)"
      "RunnerAdmissionConfiguration (rc_max_parallel_jobs conf) (rc_protocols conf) = Inr (limit, supported)"
      "sum_mode d = ModeObservation \<Longrightarrow> supported \<and> limit \<noteq> 0"
      "ReserveRunnerJob now db d limit = Inr db1" "dispatch_reserved sv clock now db1 d = (e, effects, db')"
  using assms unfolding handleInner_def
  by (auto split: option.splits if_splits sum.splits prod.splits)

lemma dispatch_cases:
  assumes "dispatch_reserved sv clock now db d = (e, effects, db')"
  obtains (waiting) "db' = db" "\<forall>i t. StartRequested i t \<notin> set effects"
  | (started) deadline where "BeginDeploymentDispatch now (clock 1) db d = Inr (deadline, db')" "rs_running sv d = Some False"
      "prepare_bundle sv d = None" "\<forall>i t. StartRequested i t \<in> set effects \<longrightarrow> i = sum_id d \<and> t = deadline"
  using assms unfolding dispatch_reserved_def start_runner_def scheduleStatusCheck_def
  by (auto split: option.splits if_splits sum.splits prod.splits bool.splits start_outcome.splits)

lemma handleInner_allowed:
  assumes "handleInner sv clock now db d = (e, effects, db')" "configured limit_of sv"
  shows "allowed limit_of db db'"
  using assms(1)
proof (cases rule: handleInner_cases)
  case (reserved conf limit supported db1)
  have "limit_of (sum_org d) (sum_runner_id d) = limit" using assms(2) reserved(1,2) unfolding configured_def by blast
  with reserved(4) have 1: "allowed limit_of db db1" by (auto intro: reserve_allowed)
  from reserved(5) have "allowed limit_of db1 db'" by (cases rule: dispatch_cases) (auto intro: begin_dispatch_allowed)
  with 1 show ?thesis by (rule allowed_trans)
qed simp

lemma allowed_row_inv: "allowed limit_of db db' \<Longrightarrow> row_inv db \<Longrightarrow> row_inv db'"
  unfolding allowed_def by (blast intro: row_inv_steps)

lemma handle_created_allowed:
  assumes "handle_created sv clock now wall db org i revision = (v, effects, db')" "configured limit_of sv" "row_inv db"
  shows "allowed limit_of db db'"
proof (cases "GetDeployment db org i")
  case (Inl e)
  with assms(1) show ?thesis by (auto simp: handle_created_def)
next
  case (Inr x)
  obtain d rest where x: "x = (d, rest)" by (cases x) simp
  show ?thesis
  proof (cases "sum_runner_id d = '''' \<or> (revision > 0 \<and> sum_revision d \<noteq> revision) \<or> sum_status d \<noteq> StatusExecuting")
    case True
    with assms(1) Inr x show ?thesis by (auto simp: handle_created_def split: if_splits)
  next
    case False
    from Inr x have one: "sum_revision d = 1"
      using False assms(3) by (auto elim!: GetDeployment_Inr dest!: find_deployment_Some simp: row_inv_def row_wf_def)
    obtain renewed db1 where r: "(if RequiresEnvironmentLease (sum_mode d) then RenewDeploymentLease now db i DefaultEnvironmentLeaseTTL
        else (Inr (), db)) = (renewed, db1)" by (metis surj_pair)
    then have 1: "allowed limit_of db db1" by (auto split: if_splits intro: renew_allowed)
    note inv1 = allowed_row_inv [OF 1 assms(3)]
    have "allowed limit_of db1 db'"
    proof (cases renewed)
      case (Inl e)
      with assms(1) \<open>GetDeployment db org i = Inr x\<close> x False r show ?thesis
        by (auto simp: handle_created_def split: if_splits prod.splits intro: fail_verdict_allowed [OF _ inv1 one])
    next
      case (Inr u)
      obtain e effects2 db2 where h: "handleInner sv clock now db1 d = (e, effects2, db2)" by (metis prod_cases3)
      note 2 = handleInner_allowed [OF h assms(2)]
      have "allowed limit_of db2 db'"
        using assms(1) \<open>GetDeployment db org i = Inr x\<close> x False r Inr h
        by (auto simp: handle_created_def split: if_splits prod.splits option.splits
            intro: fail_verdict_allowed [OF _ allowed_row_inv [OF 2 inv1] one])
      with 2 show ?thesis by (rule allowed_trans)
    qed
    with 1 show ?thesis by (rule allowed_trans)
  qed
qed

lemma check_runner_allowed:
  assumes "check_runner sv now wall db d org runner = (v, db')" "row_inv db" "sum_revision d = 1"
  shows "allowed limit_of db db'"
  using assms(1)
  by (auto simp: check_runner_def split: option.splits if_splits check_outcome.splits prod.splits
      intro: fail_verdict_allowed [OF _ assms(2,3)])

lemma handle_status_allowed:
  assumes "handle_status sv now wall db org i runner = (v, db')" "row_inv db"
  shows "allowed limit_of db db'"
proof (cases "GetDeployment db org i")
  case (Inl e)
  with assms(1) show ?thesis by (auto simp: handle_status_def)
next
  case (Inr x)
  obtain d rest where x: "x = (d, rest)" by (cases x) simp
  show ?thesis
  proof (cases "sum_status d = StatusExecuting")
    case False
    with assms(1) Inr x show ?thesis by (auto simp: handle_status_def)
  next
    case True
    from Inr x have one: "sum_revision d = 1"
      using True assms(2) by (auto elim!: GetDeployment_Inr dest!: find_deployment_Some simp: row_inv_def row_wf_def)
    obtain renewed db1 where r: "(if RequiresEnvironmentLease (sum_mode d) then RenewDeploymentLease now db i DefaultEnvironmentLeaseTTL
        else (Inr (), db)) = (renewed, db1)" by (metis surj_pair)
    then have 1: "allowed limit_of db db1" by (auto split: if_splits intro: renew_allowed)
    note inv1 = allowed_row_inv [OF 1 assms(2)]
    have "db' = db \<or> fail_verdict now wall db d ''deployment timeout - runner did not complete within expected time'' = (v, db') \<or>
       db' = db1 \<or> (\<exists>m. fail_verdict now wall db1 d m = (v, db')) \<or> check_runner sv now wall db1 d org runner = (v, db')"
      using assms(1) Inr x True r
      by (auto simp: handle_status_def split: if_splits sum.splits option.splits prod.splits)
    then show ?thesis
      using 1 fail_verdict_allowed [OF _ assms(2) one] fail_verdict_allowed [OF _ inv1 one] check_runner_allowed [OF _ inv1 one]
      by (auto intro: allowed_trans)
  qed
qed

end
