(* ===== verification/Runner_Contract.thy ===== *)
theory Runner_Contract
  imports Runner_Steps
begin

text \<open>
  What the Data Plane promises about Runner results: they are made of transactions the system
  allows, a completed Deployment is never rewritten by any of them, a bus event is applied once, a
  result settles its Deployment, a late result lifts the fence without changing the failure, and a
  Runner is started only with a slot and an open budget.
\<close>

section \<open>Every handler\<close>

inductive result_step :: "(string \<Rightarrow> string \<Rightarrow> int) \<Rightarrow> database \<Rightarrow> database \<Rightarrow> bool" for limit_of where
  res_http: "UpdateDeploymentResults kit now wall db org i token body = (a, db') \<Longrightarrow> result_step limit_of db db'"
| res_event: "handle_runner_event kit now wall db subject data = (v, db') \<Longrightarrow> result_step limit_of db db'"
| res_force: "InternalForceFailDeployment kit now wall db is_system org i = (a, db') \<Longrightarrow> result_step limit_of db db'"
| res_created: "handle_created sv clock now wall db org i revision = (w, effects, db') \<Longrightarrow> configured limit_of sv \<Longrightarrow>
    result_step limit_of db db'"
| res_status: "handle_status sv now wall db org i runner = (w, db') \<Longrightarrow> result_step limit_of db db'"

lemma result_step_allowed:
  assumes "result_step limit_of db db'" "result_inv limit_of db"
  shows "allowed limit_of db db'"
  using assms(1) assms(2)[unfolded result_inv_def]
  by cases (auto intro: http_result_allowed runner_event_allowed force_fail_allowed handle_created_allowed handle_status_allowed)

interpretation results: guarantee "result_step limit_of" "result_inv limit_of" "allowed limit_of" for limit_of
proof
  show "result_inv limit_of t" if "allowed limit_of s t" "result_inv limit_of s" for s t
    using that by (auto simp: allowed_def intro: result_inv_steps)
qed (fact allowed_refl allowed_trans result_step_allowed)+

text \<open>
  (C1) A completed Deployment is final: whatever results, late results, Runner errors, forced
  failures, dispatches and status checks are handled afterwards, in any order and number, its row
  stays as it is; and every such history is one of the transactions the system allows, so that all
  invariants of the system hold after it.
\<close>

theorem completed_never_rewritten:
  assumes "dp_reachable limit_of db" "(result_step limit_of)\<^sup>*\<^sup>* db db'"
    and "find_deployment i db = Some d" "dep_completed_at d \<noteq> None"
  shows "find_deployment i db' = Some d \<and> dp_reachable limit_of db'"
proof -
  from results.run_kept [OF assms(2) result_inv_reachable [OF assms(1)]]
  have "dp_steps limit_of db db'" "completed_kept db db'" by (simp_all add: allowed_def)
  with assms show ?thesis unfolding dp_reachable_def completed_kept_def by (meson rtranclp_trans)
qed


section \<open>What a result does\<close>

lemma settled_slots:
  assumes "UpdateDeploymentStatusAndOutputs now wall db i p = Inr (s, db')" "up_status p \<noteq> StatusExecuting" "budget_inv db"
    and "up_completion_proven p \<or> result_received db org runner i"
    and "r \<in> set (reservations db')" "res_deployment r = i" "res_org r = org" "res_runner r = runner"
  shows "res_released_at r \<noteq> None"
proof
  assume live: "res_released_at r = None"
  let ?u = "db\<lparr>deployments := update_rows (\<lambda>d. dep_id d = i) (settled_row wall p) (deployments db)\<rparr>"
  let ?x = "if up_completion_proven p then RecordDeploymentCompletion now i ?u else ?u"
  from assms(1,2) obtain d where d: "find_deployment i db = Some d" and db': "db' = terminal_effects now i (up_completion_proven p) ?u"
    by (rule UpdateDeployment_cases)
  from assms(5) have "r \<in> set (reservations (ReleaseRunnerJob now i ?x))" by (simp add: db' terminal_effects_def Let_def)
  from ReleaseRunnerJob_live [OF this live] assms(6) have no: "\<not> release_proven ?x r" by simp
  show False
  proof (cases "up_completion_proven p")
    case True
    from find_deployment_Some [OF d] assms(3) have "i \<in> bud_deployment ` set (budgets db)" by (auto simp: budget_inv_def)
    then obtain b where "b \<in> set (budgets db)" "bud_deployment b = i" by auto
    then have "b\<lparr>bud_completion_received_at := Some (opt_or (bud_completion_received_at b) now)\<rparr> \<in> set (budgets ?x)"
      using True by (simp add: RecordDeploymentCompletion_def set_update_rows)
    with no \<open>bud_deployment b = i\<close> assms(6) show False unfolding release_proven_def by force
  next
    case False
    with assms(4) no assms(6-8) show False by (simp add: release_proven_def result_received_def)
  qed
qed

lemma settle_effects:
  assumes "settle_result now wall db i p metadata = Inr (s, db')" "up_status p \<noteq> StatusExecuting" "dep_inv db"
    and "find_deployment i db = Some d" "dep_status d = StatusExecuting"
    and "up_completion_proven p \<or> result_received db org runner i"
  shows "find_deployment i db' = Some (settled_row wall p d)" "\<not> exists_row (\<lambda>l. lease_deployment l = Some i) (leases db')"
    and "running db' (dep_de_id d) = None"
    and "\<forall>r \<in> set (reservations db'). res_deployment r = i \<and> res_org r = org \<and> res_runner r = runner \<longrightarrow> res_released_at r \<noteq> None"
    and "\<exists>h. history db' = history db @ [h] \<and> his_id h = i \<and> his_status h = up_status p \<and> his_completed_at h = wall \<and> his_created_by h = uuid_nil"
    and "up_status p = StatusSucceeded \<and> \<not> IsPlanDeployment (dep_mode d) \<longrightarrow>
      (\<forall>n \<in> set (nodes db'). nod_environment n = dep_de_id d \<longrightarrow> nod_deployment n = i)"
proof -
  from assms(1) obtain db4 db5 where u: "UpdateDeploymentStatusAndOutputs now wall db i p = Inr (s, db4)"
    and h: "CreateDeploymentHistoryRecord db4 s = Inr db5" and c: "same_core db5 db'" and n: "db' = db5\<lparr>nodes := nodes db', edges := edges db'\<rparr>"
    and act: "\<not> IsPlanDeployment (sum_mode s) \<and> up_status p = StatusSucceeded \<longrightarrow>
      (\<forall>n \<in> set (nodes db'). nod_environment n = sum_env_uuid s \<longrightarrow> nod_deployment n = sum_id s)"
    by (rule settle_result_cases)
  note f = terminal_update_frees [OF u assms(2-5)]
  from u assms(2) obtain d' e' where s: "s = (blank_summary (env_org e') e' (settled_row wall p d'))\<lparr>sum_created_by := uuid_nil\<rparr>"
    and de: "find_deployment i db = Some d'" "lookup_row env_id (dep_de_id d') (environments db) = Some e'"
    and db4: "db4 = terminal_effects now i (up_completion_proven p)
      (db\<lparr>deployments := update_rows (\<lambda>d. dep_id d = i) (settled_row wall p) (deployments db)\<rparr>)"
    by (rule UpdateDeployment_cases)
  have sf: "sum_id s = i" "sum_env_uuid s = dep_de_id d" "sum_mode s = dep_mode d" "sum_status s = up_status p"
    "sum_completed_at s = Some wall" "sum_created_by s = uuid_nil"
    using s de assms(4) find_deployment_Some [OF assms(4)] lookup_row_Some [OF de(2)] by (auto simp: blank_summary_def settled_row_def)
  from h obtain hist t where hist: "db5 = db4\<lparr>history := history db4 @ [hist]\<rparr>" "sum_completed_at s = Some t"
    "his_id hist = sum_id s" "his_status hist = sum_status s" "his_completed_at hist = t" "his_created_by hist = sum_created_by s"
    by (rule history_record_cases) auto
  have h4: "history db4 = history db"
    by (simp add: db4 terminal_effects_def Let_def RecordDeploymentCompletion_def ReleaseRunnerJob_def)
  have tables: "deployments db' = deployments db4" "leases db' = leases db4" "reservations db' = reservations db4"
    using c hist(1) by (simp_all add: same_core_def)
  have budget: "budget_inv db" using assms(3) by (simp add: dep_inv_def)
  show "find_deployment i db' = Some (settled_row wall p d)" "\<not> exists_row (\<lambda>l. lease_deployment l = Some i) (leases db')"
    "running db' (dep_de_id d) = None"
    using f by (auto simp: tables find_deployment_def running_None executing_in_def)
  show "\<forall>r \<in> set (reservations db'). res_deployment r = i \<and> res_org r = org \<and> res_runner r = runner \<longrightarrow> res_released_at r \<noteq> None"
    using settled_slots [OF u assms(2) budget assms(6)] by (auto simp: tables)
  have "history db' = history db @ [hist]" by (subst n) (simp add: hist(1) h4)
  with hist(2-) sf show "\<exists>h. history db' = history db @ [h] \<and> his_id h = i \<and> his_status h = up_status p \<and> his_completed_at h = wall \<and> his_created_by h = uuid_nil"
    by simp
  show "up_status p = StatusSucceeded \<and> \<not> IsPlanDeployment (dep_mode d) \<longrightarrow>
      (\<forall>n \<in> set (nodes db'). nod_environment n = dep_de_id d \<longrightarrow> nod_deployment n = i)"
    using act sf by simp
qed


text \<open>
  (C40) The history of completed Deployments does not know who created them: the update that
  completes a Deployment does not read its creator back, so that the record which is written from it
  names the nil user, whoever created the Deployment.
\<close>

theorem history_loses_author:
  assumes "settle_result now wall db i p metadata = Inr (s, db') \<or> failDeployment now wall db dep message = Inr db' \<and> i = sum_id dep"
    and "up_status p \<noteq> StatusExecuting" "find_deployment i db = Some d"
  shows "\<exists>h. history db' = history db @ [h] \<and> his_id h = i \<and> his_created_by h = uuid_nil \<and>
     (\<exists>d'. find_deployment i db' = Some d' \<and> dep_created_by d' = dep_created_by d)"
proof -
  obtain q s1 db1 db2 where u: "UpdateDeploymentStatusAndOutputs now wall db i q = Inr (s1, db1)" "up_status q \<noteq> StatusExecuting"
    and h: "CreateDeploymentHistoryRecord db1 s1 = Inr db2"
    and db': "history db' = history db2" "deployments db' = deployments db2"
    using assms(1)
  proof
    assume "settle_result now wall db i p metadata = Inr (s, db')"
    then show ?thesis
    proof (rule settle_result_cases)
      fix db1 db2
      assume a: "UpdateDeploymentStatusAndOutputs now wall db i p = Inr (s, db1)" "CreateDeploymentHistoryRecord db1 s = Inr db2"
        and n: "db' = db2\<lparr>nodes := nodes db', edges := edges db'\<rparr>"
      have "history db' = history db2" "deployments db' = deployments db2" by (subst n, simp)+
      with a assms(2) show ?thesis by (intro that)
    qed
  next
    assume "failDeployment now wall db dep message = Inr db' \<and> i = sum_id dep"
    then have f: "failDeployment now wall db dep message = Inr db'" and i: "i = sum_id dep" by simp_all
    let ?q = "\<lparr>up_status = StatusFailed, up_status_message = message, up_outputs = None, up_metrics = sum_metrics dep,
         up_expected_revision = Some (sum_revision dep), up_completion_proven = False\<rparr>"
    from f obtain s1 db1 where u: "UpdateDeploymentStatusAndOutputs now wall db i ?q = Inr (s1, db1)"
      and h: "CreateDeploymentHistoryRecord db1 s1 = Inr db'" unfolding i by (rule failDeployment_cases)
    have "up_status ?q \<noteq> StatusExecuting" by simp
    from that [OF u this h refl refl] show ?thesis .
  qed
  from u obtain d1 e1 where s1: "s1 = (blank_summary (env_org e1) e1 (settled_row wall q d1))\<lparr>sum_created_by := uuid_nil\<rparr>"
    and d1: "find_deployment i db = Some d1"
    and db1: "db1 = terminal_effects now i (up_completion_proven q)
      (db\<lparr>deployments := update_rows (\<lambda>d. dep_id d = i) (settled_row wall q) (deployments db)\<rparr>)"
    by (rule UpdateDeployment_cases)
  have "history db1 = history db"
    by (simp add: db1 terminal_effects_def Let_def RecordDeploymentCompletion_def ReleaseRunnerJob_def)
  moreover from h obtain r where "db2 = db1\<lparr>history := history db1 @ [r]\<rparr>" "his_id r = sum_id s1" "his_created_by r = sum_created_by s1"
    by (rule history_record_cases) auto
  moreover have "sum_id s1 = i" "sum_created_by s1 = uuid_nil"
    using s1 find_deployment_Some [OF d1] by (simp_all add: blank_summary_def settled_row_def)
  moreover have "find_deployment i db1 = Some (settled_row wall q d)"
    using update_deployments(2) [OF u, of i] assms(3) find_deployment_Some [OF assms(3)] by simp
  ultimately show ?thesis using db' by (auto simp: find_deployment_def settled_row_def)
qed

lemma watchdog_facts:
  assumes "dp_reachable limit_of db0" "GetDeployment db0 org i = Inr (dep, rest)" "sum_status dep = StatusExecuting"
    and "dp_reachable limit_of db" "failDeployment now wall db dep message = Inr db'"
  shows "\<exists>d d'. find_deployment i db = Some d \<and> dep_status d = StatusExecuting \<and> dep_completed_at d = None \<and>
     find_deployment i db' = Some d' \<and> dep_status d' = StatusFailed \<and> dep_status_message d' = message \<and> dep_completed_at d' = Some wall \<and>
     running db' (dep_de_id d) = None \<and>
     (\<forall>r \<in> set (reservations db). res_released_at r = None \<longrightarrow> r \<in> set (reservations db') \<or> (res_deployment r = i \<and> release_proven db r))"
proof -
  note inv = result_inv_reachable [OF assms(4), unfolded result_inv_def sys_inv_def]
  from assms(2,3) row_inv_reachable [OF assms(1)] have dep: "sum_revision dep = 1" "sum_id dep = i"
    by (auto elim!: GetDeployment_Inr dest!: find_deployment_Some simp: row_inv_def row_wf_def)
  let ?p = "\<lparr>up_status = StatusFailed, up_status_message = message, up_outputs = None, up_metrics = sum_metrics dep,
       up_expected_revision = Some 1, up_completion_proven = False\<rparr>"
  from assms(5) obtain s db1 where u: "UpdateDeploymentStatusAndOutputs now wall db i ?p = Inr (s, db1)"
    and h: "CreateDeploymentHistoryRecord db1 s = Inr db'"
    using dep by (auto elim!: failDeployment_cases)
  from update_revision [OF u] obtain d where d: "find_deployment i db = Some d" "dep_revision d = 1" by auto
  from revision_one_executing [OF _ d] inv have ex: "dep_status d = StatusExecuting" "dep_completed_at d = None" by simp_all
  have f: "find_deployment i db1 = Some (settled_row wall ?p d)" "\<not> exists_row (\<lambda>x. dep_de_id x = dep_de_id d \<and> dep_status x = StatusExecuting) (deployments db1)"
    using terminal_update_frees [OF u _ _ d(1) ex(1)] inv by simp_all
  have t: "deployments db' = deployments db1" "reservations db' = reservations db1" using h by (auto elim!: history_record_cases)
  let ?u = "db\<lparr>deployments := update_rows (\<lambda>d. dep_id d = i) (settled_row wall ?p) (deployments db)\<rparr>"
  have r1: "reservations db1 = reservations (ReleaseRunnerJob now i ?u)"
    using u by (rule UpdateDeployment_cases) (simp_all add: terminal_effects_def Let_def)
  have slots: "r \<in> set (reservations db') \<or> (res_deployment r = i \<and> release_proven db r)"
    if "r \<in> set (reservations db)" "res_released_at r = None" for r
    using ReleaseRunnerJob_kept [of r ?u now i] that by (auto simp: t r1 release_proven_def result_received_def)
  have row: "find_deployment i db' = Some (settled_row wall ?p d)" using f(1) by (simp add: find_deployment_def t)
  have idle: "running db' (dep_de_id d) = None" using f(2) by (auto simp: running_None executing_in_def t)
  show ?thesis
    by (rule exI [of _ d], rule exI [of _ "settled_row wall ?p d"]) (use d ex row idle slots in \<open>simp add: settled_row_def\<close>)
qed

text \<open>
  (C22) A watchdog never overwrites a result: a worker that read a Deployment as executing, at any
  time, and fails it later does so only while the Deployment is still executing; it frees no Runner
  slot without proof that the attempt stopped or never began.
\<close>

theorem watchdog_never_overwrites:
  assumes "dp_reachable limit_of db0" "GetDeployment db0 org i = Inr (dep, rest)" "sum_status dep = StatusExecuting"
    and "dp_reachable limit_of db" "failDeployment now wall db dep message = Inr db'"
  shows "\<exists>d d'. find_deployment i db = Some d \<and> dep_status d = StatusExecuting \<and> dep_completed_at d = None \<and>
     find_deployment i db' = Some d' \<and> dep_status d' = StatusFailed \<and> dep_status_message d' = message \<and> dep_completed_at d' = Some wall \<and>
     running db' (dep_de_id d) = None \<and>
     (\<forall>r \<in> set (reservations db). res_released_at r = None \<longrightarrow> r \<in> set (reservations db') \<or> (res_deployment r = i \<and> release_proven db r))"
  using assms by (rule watchdog_facts)

text \<open>
  (C23) The budget ends an attempt: once the deadline of its dispatch has passed, the next status check
  fails the Deployment, whatever the Control Plane and the Runner would answer.
\<close>

theorem status_check_times_out:
  assumes "dp_reachable limit_of db" "GetDeployment db org i = Inr (dep, rest)" "sum_status dep = StatusExecuting"
    and "lookup_row bud_deployment i (budgets db) = Some b" "bud_deadline b = Some deadline" "deadline \<le> wall"
    and "\<not> exists_row (\<lambda>h. his_id h = i) (history db)"
  shows "\<exists>db' d'. handle_status sv now wall db org i runner = (Acked, db') \<and> find_deployment i db' = Some d' \<and>
     dep_status d' = StatusFailed \<and> dep_completed_at d' = Some wall \<and> running db' (sum_env_uuid dep) = None"
proof -
  let ?m = "''deployment timeout - runner did not complete within expected time''"
  from assms(2) obtain d e where d: "find_deployment i db = Some d" "lookup_row env_id (dep_de_id d) (environments db) = Some e"
    "dep = full_summary org e d" "env_id e = dep_de_id d" by (rule GetDeployment_Inr)
  have id: "dep_id d = i" using find_deployment_Some [OF d(1)] by simp
  obtain s db1 where u: "UpdateDeploymentStatusAndOutputs now wall db i
      \<lparr>up_status = StatusFailed, up_status_message = ?m, up_outputs = None, up_metrics = sum_metrics dep,
       up_expected_revision = Some (dep_revision d), up_completion_proven = False\<rparr> = Inr (s, db1)"
    and s: "sum_completed_at s = Some wall" "sum_id s = i"
    using d(1,2) id by (auto simp: UpdateDeploymentStatusAndOutputs_def blank_summary_def settled_row_def)
  have "history db1 = history db"
    using u by (rule UpdateDeployment_cases) (simp_all add: terminal_effects_def Let_def ReleaseRunnerJob_def)
  with s assms(7) obtain db' where "CreateDeploymentHistoryRecord db1 s = Inr db'"
    by (auto simp: CreateDeploymentHistoryRecord_def opt_must_def)
  with u have f: "failDeployment now wall db dep ?m = Inr db'" by (simp add: failDeployment_def d(3) id)
  have "handle_status sv now wall db org i runner = (Acked, db')"
    using assms(2-6) f by (simp add: handle_status_def ReadDeploymentDispatchBudget_def fail_verdict_def)
  moreover from watchdog_facts [OF assms(1-3,1) f] d obtain d' where "find_deployment i db' = Some d'" "dep_status d' = StatusFailed"
    "dep_completed_at d' = Some wall" "running db' (dep_de_id d) = None" by auto
  ultimately show ?thesis using d(3,4) by auto
qed

section \<open>Starting a Runner\<close>


section \<open>Late results\<close>

lemma late_completion_releases:
  assumes "r \<in> set (reservations (RecordDeploymentCompletion now i db))" "res_deployment r = i"
    and "exists_row (\<lambda>x. late_deployment x = i) (late_results db)"
  shows "res_released_at r \<noteq> None"
proof
  assume live: "res_released_at r = None"
  from ReleaseRunnerJob_live [OF assms(1) [unfolded RecordDeploymentCompletion_def] live] assms(2,3)
  show False by (auto simp: release_proven_def)
qed

text \<open>
  (C20) A late result lifts the fence and rewrites nothing: retaining the result of an attempt that a
  watchdog had failed leaves every Deployment as it is, turns the outcome into a reconciled one so
  that the Environment accepts a replacement, and frees the slot; a redelivery with the same content
  changes nothing and other content is refused.
\<close>

theorem late_result_lifts_fence:
  assumes "retainLateRunnerResult kit now db previous runner envelope digest body = Inr db'" "dp_reachable limit_of db"
    and "\<not> exists_row (\<lambda>l. late_deployment l = sum_id previous) (late_results db)"
    and "\<not> exists_row (\<lambda>x. inb_event x = ee_event envelope) (runner_inbox db)"
  shows "deployments db' = deployments db \<and> dp_reachable limit_of db' \<and>
     (\<exists>ev. ReadDeploymentStopEvidence db' (sum_id previous) = Inr ev \<and> \<not> OutcomeUnreconciled ev) \<and>
     requireReplaceableStateHead db' (sum_id previous) = Inr () \<and>
     (\<forall>r \<in> set (reservations db'). res_deployment r = sum_id previous \<longrightarrow> res_released_at r \<noteq> None) \<and>
     (\<forall>now'. retainLateRunnerResult kit now' db' previous runner envelope digest body = Inr db') \<and>
     (\<forall>now' digest' body'. digest' \<noteq> digest \<longrightarrow> (\<exists>reason. retainLateRunnerResult kit now' db' previous runner envelope digest' body' = Inl (TargetReason reason)))"
  using assms(1)
proof (cases rule: retainLate_cases)
  case (replayed l)
  with assms(3) show ?thesis by auto
next
  case applied
  with assms(4) show ?thesis by auto
next
  case (retained dep db1 l)
  have inv: "lease_live db" using result_inv_reachable [OF assms(2)] by (simp add: result_inv_def)
  from late_result_steps [OF assms(1) inv] have steps: "dp_steps limit_of db db'" "deployments db' = deployments db" by simp_all
  from retained(1) obtain d e where d: "find_deployment (sum_id previous) db = Some d" "lookup_row env_id (dep_de_id d) (environments db) = Some e"
    "dep = full_summary (sum_org previous) e d" "env_org e = sum_org previous" "dep_runner_id d = runner"
    by (rule check_late_attempt_cases)
  have id: "sum_id dep = sum_id previous" "sum_org dep = sum_org previous" using find_deployment_Some [OF d(1)] by (simp_all add: d(3))
  have late: "exists_row (\<lambda>x. late_deployment x = sum_id previous \<and> late_org x = sum_org previous \<and> late_runner x = runner \<and>
      late_event x = ee_event envelope \<and> late_payload_sha256 x = digest) (late_results db1)"
    using insert_late_facts(3) [OF retained(4)] retained(5-9) id by simp
  have tables: "environments db' = environments db" "late_results db' = late_results db1"
    "reservations db' = reservations (RecordDeploymentCompletion now (sum_id previous) db1)" "runner_inbox db' = runner_inbox db"
    using retained(11) insert_late_facts(1) [OF retained(4)] late_result_inbox [OF assms(1)]
    by (simp_all add: same_core_def id RecordDeploymentCompletion_def)
  have ev: "\<exists>ev. ReadDeploymentStopEvidence db' (sum_id previous) = Inr ev \<and> \<not> OutcomeUnreconciled ev"
    using d(1,2,4,5) late unfolding ReadDeploymentStopEvidence_def OutcomeUnreconciled_def
    by (auto simp: find_deployment_def steps(2) tables Let_def)
  then have replaceable: "requireReplaceableStateHead db' (sum_id previous) = Inr ()"
    by (auto simp: requireReplaceableStateHead_Inr BlocksReplacement_def)
  have released: "res_released_at r \<noteq> None" if "r \<in> set (reservations db')" "res_deployment r = sum_id previous" for r
    using late_completion_releases [OF that(1) [unfolded tables] that(2)] late by auto
  have "late_payload_sha256 x = digest" if "x \<in> set (late_results db')" "late_deployment x = sum_id previous" for x
    using that assms(3) retained(4,5,9) id by (auto simp: tables insert_late_result_def split: if_splits)
  moreover have "\<exists>x. find (\<lambda>l. late_deployment l = sum_id previous \<and> late_org l = sum_org previous \<and> late_runner l = runner \<and>
      late_event l = ee_event envelope) (late_results db') = Some x"
    using late by (auto simp: tables find_None_iff simp flip: not_None_eq)
  ultimately obtain x where "find (\<lambda>l. late_deployment l = sum_id previous \<and> late_org l = sum_org previous \<and> late_runner l = runner \<and>
      late_event l = ee_event envelope) (late_results db') = Some x" "late_payload_sha256 x = digest"
    by (metis (mono_tags, lifting) find_Some_iff nth_mem)
  then have replay: "retainLateRunnerResult kit now' db' previous runner envelope digest' body' =
      (if digest' = digest then Inr db' else Inl (TargetReason ''late completion conflicts with an immutable retained result''))" for now' digest' body'
    using retained(10) by (auto simp: retainLateRunnerResult_def Let_def)
  have "dp_reachable limit_of db'" using assms(2) steps(1) unfolding dp_reachable_def by (rule rtranclp_trans)
  with steps(2) ev replaceable released replay show ?thesis by simp
qed

section \<open>Samples\<close>

lemma reachable_create:
  assumes "dp_reachable limit_of db" "\<not> isl (CreateDeployment row_ok now wall fresh db org project env p)" "env_identity db org project env (cp_env_uuid p)"
  shows "dp_reachable limit_of (snd (projr (CreateDeployment row_ok now wall fresh db org project env p)))"
  using assms step_create [of row_ok now wall fresh db org project env p "fst (projr (CreateDeployment row_ok now wall fresh db org project env p))"]
  unfolding dp_reachable_def by (metis prod.collapse rtranclp.rtrancl_into_rtrancl sum.collapse(2))

lemma reachable_update:
  assumes "dp_reachable limit_of db" "\<not> isl (UpdateDeploymentStatusAndOutputs now wall db i p)" "up_status p \<noteq> StatusExecuting"
  shows "dp_reachable limit_of (snd (projr (UpdateDeploymentStatusAndOutputs now wall db i p)))"
  using assms step_update [of now wall db i p "fst (projr (UpdateDeploymentStatusAndOutputs now wall db i p))"]
  unfolding dp_reachable_def by (metis prod.collapse rtranclp.rtrancl_into_rtrancl sum.collapse(2))

lemma reachable_dispatch:
  assumes "dp_reachable limit_of db" "\<not> isl (BeginDeploymentDispatch now wall db dep)"
  shows "dp_reachable limit_of (snd (projr (BeginDeploymentDispatch now wall db dep)))"
  using assms step_dispatch [of now wall db dep "fst (projr (BeginDeploymentDispatch now wall db dep))"]
  unfolding dp_reachable_def by (metis prod.collapse rtranclp.rtrancl_into_rtrancl sum.collapse(2))

lemma reachable_other: "dp_reachable limit_of db \<Longrightarrow> same_core db db' \<Longrightarrow> dp_reachable limit_of db'"
  unfolding dp_reachable_def by (blast intro: rtranclp.rtrancl_into_rtrancl step_other)

abbreviation sample_limit :: "string \<Rightarrow> string \<Rightarrow> int" where "sample_limit \<equiv> \<lambda>org runner. 1"

definition sample_runner_kit :: runner_kit where
  "sample_runner_kit = \<lparr>rk_body_sha = rb_status, rk_envelope_sha = ee_payload, rk_parse_object = (\<lambda>s. None), rk_marshal = (\<lambda>j. ''''),
     rk_graph_of = (\<lambda>s. Inl ''''), rk_base64_reader = (\<lambda>s. True), rk_base64_decode = (\<lambda>s. None), rk_token_sha = (\<lambda>s. ''t''),
     rk_token_salt = '''', rk_parse_uuid = (\<lambda>s. None), rk_body_of = (\<lambda>s. None), rk_error_of = (\<lambda>s. None),
     rk_envelope_of = (\<lambda>s. None), rk_protocol = ''v1'', rk_subject = (\<lambda>o' r t. None)\<rparr>"

definition sample_body :: result_body where
  "sample_body = empty_body\<lparr>rb_status := ''success'', rb_resources := 3, rb_metadata := [(''h'', [(''k'', JNum 1)])]\<rparr>"

definition sample_success :: update_params where
  "sample_success = \<lparr>up_status = StatusSucceeded, up_status_message = '''', up_outputs = None, up_metrics = zero_metrics,
     up_expected_revision = None, up_completion_proven = False\<rparr>"

definition sample_event :: runner_event where
  "sample_event = \<lparr>re_event = ''e1'', re_runner = ''r1'', re_type = ''deployment-result''\<rparr>"

definition sample_apply :: "database \<Rightarrow> (deployment_summary \<times> database) outcome" where
  "sample_apply db = commonUpdateDeploymentResults sample_runner_kit 200 200 db ''acme'' 21 sample_body sample_success (Some sample_event) True"

lemma sample_applied: "\<not> isl (sample_apply sample_reserved)" "\<not> isl (sample_apply (snd (projr (sample_apply sample_reserved))))"
  by code_simp+

lemma completed_never_rewritten_witness:
  "find_deployment 21 (snd (UpdateDeploymentResults sample_runner_kit 300 300 sample_failed ''acme'' 21 ''t'' sample_body)) =
     find_deployment 21 sample_failed \<and> find_deployment 21 sample_failed \<noteq> None"
proof -
  have "\<not> isl (UpdateDeploymentStatusAndOutputs 200 200 sample_created 21 sample_failure)" "up_status sample_failure \<noteq> StatusExecuting"
    by (simp add: sample_update) (simp add: sample_failure_def)
  then have r: "dp_reachable sample_limit sample_failed"
    unfolding sample_failed_def by (rule reachable_update [OF sample_created_reachable])
  have f: "(case find_deployment 21 sample_failed of None \<Rightarrow> False | Some d \<Rightarrow> dep_completed_at d \<noteq> None)" by code_simp
  have "(result_step sample_limit)\<^sup>*\<^sup>* sample_failed (snd (UpdateDeploymentResults sample_runner_kit 300 300 sample_failed ''acme'' 21 ''t'' sample_body))"
    by (rule r_into_rtranclp, rule res_http, rule prod.collapse [symmetric])
  from completed_never_rewritten [OF r this] f show ?thesis by (auto split: option.splits)
qed



definition sample_failing :: "database result" where
  "sample_failing = failDeployment 200 200 sample_reserved sample_summary ''stuck''"

lemma sample_failing_ok: "\<not> isl sample_failing"
  by code_simp

lemma history_loses_author_witness:
  "\<exists>db' h. sample_failing = Inr db' \<and> history db' = history sample_reserved @ [h] \<and> his_created_by h = uuid_nil \<and>
     (\<exists>d. find_deployment 21 db' = Some d \<and> dep_created_by d = 1)"
proof -
  obtain db' where f: "sample_failing = Inr db'" using sample_failing_ok by (metis sum.collapse(2))
  then have g: "settle_result 200 200 sample_reserved 21 sample_success [] = Inr (undefined, db') \<or>
      failDeployment 200 200 sample_reserved sample_summary ''stuck'' = Inr db' \<and> 21 = sum_id sample_summary"
    by (simp add: sample_failing_def sample_summary_def created_summary_def)
  have "up_status sample_success \<noteq> StatusExecuting" by (simp add: sample_success_def)
  moreover have "find_deployment 21 sample_reserved = Some (new_deployment 100 sample_params 21)" by code_simp
  ultimately show ?thesis
    using history_loses_author [OF g] f by (auto simp: new_deployment_def sample_params_def)
qed

lemma watchdog_never_overwrites_witness:
  "\<exists>db' d. sample_failing = Inr db' \<and> find_deployment 21 db' = Some d \<and> dep_status d = StatusFailed \<and> dep_status_message d = ''stuck'' \<and>
     (\<forall>r \<in> set (reservations sample_reserved). r \<in> set (reservations db'))"
proof -
  obtain db' where f: "sample_failing = Inr db'" using sample_failing_ok by (metis sum.collapse(2))
  have "\<not> isl (GetDeployment sample_reserved ''acme'' 21)"
    "fst (projr (GetDeployment sample_reserved ''acme'' 21)) = sample_summary\<lparr>sum_runner_log_level := ''info''\<rparr>" by code_simp+
  then obtain rest where g: "GetDeployment sample_reserved ''acme'' 21 = Inr (sample_summary\<lparr>sum_runner_log_level := ''info''\<rparr>, rest)"
    by (metis prod.collapse sum.collapse(2))
  have f': "failDeployment 200 200 sample_reserved (sample_summary\<lparr>sum_runner_log_level := ''info''\<rparr>) ''stuck'' = Inr db'"
    using f by (simp add: sample_failing_def failDeployment_def)
  have live: "\<forall>r \<in> set (reservations sample_reserved). res_released_at r = None \<and> \<not> release_proven sample_reserved r" by code_simp
  from watchdog_never_overwrites [OF sample_reserved_reachable g _ sample_reserved_reachable f'] f live show ?thesis
    by (auto simp: sample_summary_def created_summary_def)
qed

definition sample_services :: runner_services where
  "sample_services = \<lparr>rs_runner = (\<lambda>org runner. Some (200, \<lparr>rc_max_parallel_jobs = Some 1, rc_protocols = []\<rparr>)),
     rs_create_error = (\<lambda>d. None), rs_running = (\<lambda>d. Some False), rs_bundle = (\<lambda>d. NoBundleStore),
     rs_start = (\<lambda>d t. StartOk), rs_publish = (\<lambda>d. True),
     rs_check = (\<lambda>d. CheckedStatus \<lparr>rst_completed = False, rst_stuck = False, rst_message = []\<rparr>)\<rparr>"

lemma status_check_times_out_witness:
  "\<exists>db' d. handle_status sample_services 3600000000150 3600000000150 sample_reserved ''acme'' 21 ''r1'' = (Acked, db') \<and>
     find_deployment 21 db' = Some d \<and> dep_status d = StatusFailed"
proof -
  have "case GetDeployment sample_reserved ''acme'' 21 of Inl e \<Rightarrow> False | Inr (dep, rest) \<Rightarrow> sum_status dep = StatusExecuting" by code_simp
  then obtain dep rest where g: "GetDeployment sample_reserved ''acme'' 21 = Inr (dep, rest)" "sum_status dep = StatusExecuting"
    by (auto split: sum.splits)
  have b: "lookup_row bud_deployment 21 (budgets sample_reserved) = Some (hd (budgets sample_reserved))"
    "bud_deadline (hd (budgets sample_reserved)) = Some 3600000000150"
    and h: "\<not> exists_row (\<lambda>h. his_id h = 21) (history sample_reserved)" by code_simp+
  from status_check_times_out [OF sample_reserved_reachable g b order_refl h] show ?thesis by blast
qed


definition sample_forward :: database where
  "sample_forward = snd (projr (CreateDeployment sample_ok 300 300 22 sample_deployed ''acme'' ''shop'' ''prod'' sample_params))"

definition sample_forward_dispatched :: database where
  "sample_forward_dispatched = snd (projr (BeginDeploymentDispatch 310 310 sample_forward (created_summary 300 ''acme'' ''shop'' ''prod'' sample_params 22)))"

definition sample_forward_failed :: database where
  "sample_forward_failed = snd (projr (UpdateDeploymentStatusAndOutputs 400 400 sample_forward_dispatched 22 sample_failure))"

definition sample_fenced :: database where
  "sample_fenced = sample_forward_failed
     \<lparr>external_receipts := [\<lparr>ext_org = ''acme'', ext_plugin = ''p'', ext_operation_ref = ''op'', ext_fence = 1,
        ext_request = ''r'', ext_assertion_action = ''a'', ext_service_action = ''external-deployment.admit'',
        ext_body_sha256 = ''x'', ext_actor = ''1'', ext_project = ''shop'', ext_env = ''prod'', ext_project_uuid = Some 4,
        ext_environment_uuid = Some 7, ext_plan_snapshot = None, ext_base_deployment = None, ext_deployment = 22,
        ext_forward_deployment = None, ext_retry_of_rollback = None, ext_created_at = 100\<rparr>],
      anchors := [\<lparr>anc_org = ''acme'', anc_plugin = ''p'', anc_operation_ref = ''op'', anc_environment = 7, anc_project_uuid = 4,
        anc_project = ''shop'', anc_env = ''prod'', anc_first_forward = 22, anc_rollback_base = 21\<rparr>]\<rparr>"

definition sample_envelope :: event_envelope where
  "sample_envelope = \<lparr>ee_protocol = ''v1'', ee_type = ''deployment-result'', ee_event = late_event_id 22, ee_command = [],
     ee_org = ''acme'', ee_runner = ''r1'', ee_deployment = uuid_text 22, ee_created_at = Some 350, ee_payload = ''x''\<rparr>"

definition sample_late :: "database outcome" where
  "sample_late = retainLateRunnerResult sample_runner_kit 500 sample_fenced
     (created_summary 300 ''acme'' ''shop'' ''prod'' sample_params 22) ''r1'' sample_envelope ''d'' sample_body"

lemma sample_deployed_reachable: "dp_reachable sample_limit sample_deployed"
proof -
  let ?p = "sample_failure\<lparr>up_status := StatusSucceeded, up_completion_proven := True\<rparr>"
  have "\<not> isl (UpdateDeploymentStatusAndOutputs 200 200 sample_created 21 ?p)" "up_status ?p \<noteq> StatusExecuting" by code_simp+
  then show ?thesis unfolding sample_deployed_def by (rule reachable_update [OF sample_created_reachable])
qed

lemma sample_fenced_reachable: "dp_reachable sample_limit sample_fenced"
proof -
  have c: "\<not> isl (CreateDeployment sample_ok 300 300 22 sample_deployed ''acme'' ''shop'' ''prod'' sample_params)"
    "env_identity sample_deployed ''acme'' ''shop'' ''prod'' (cp_env_uuid sample_params)" by code_simp+
  have d: "\<not> isl (BeginDeploymentDispatch 310 310 sample_forward (created_summary 300 ''acme'' ''shop'' ''prod'' sample_params 22))" by code_simp
  have u: "\<not> isl (UpdateDeploymentStatusAndOutputs 400 400 sample_forward_dispatched 22 sample_failure)" "up_status sample_failure \<noteq> StatusExecuting"
    by code_simp+
  have "dp_reachable sample_limit sample_forward" unfolding sample_forward_def by (rule reachable_create [OF sample_deployed_reachable c])
  from reachable_dispatch [OF this d] have "dp_reachable sample_limit sample_forward_dispatched" unfolding sample_forward_dispatched_def .
  from reachable_update [OF this u] have "dp_reachable sample_limit sample_forward_failed" unfolding sample_forward_failed_def .
  then show ?thesis by (rule reachable_other) (simp add: sample_fenced_def same_core_def)
qed

lemma sample_late_facts:
  "\<not> isl sample_late" "\<not> exists_row (\<lambda>l. late_deployment l = 22) (late_results sample_fenced)"
  "\<not> exists_row (\<lambda>x. inb_event x = ee_event sample_envelope) (runner_inbox sample_fenced)"
  "isl (requireReplaceableStateHead sample_fenced 22)"
  by code_simp+

lemma late_result_lifts_fence_witness:
  "\<exists>db'. sample_late = Inr db' \<and> isl (requireReplaceableStateHead sample_fenced 22) \<and> requireReplaceableStateHead db' 22 = Inr () \<and>
     deployments db' = deployments sample_fenced"
proof -
  obtain db' where l: "sample_late = Inr db'" using sample_late_facts(1) by (metis sum.collapse(2))
  from late_result_lifts_fence [OF l [unfolded sample_late_def] sample_fenced_reachable] sample_late_facts(2-4) l show ?thesis
    by (auto simp: created_summary_def)
qed

end
