(* ===== verification/Lineage_Contract.thy ===== *)
theory Lineage_Contract
  imports External_Contract Request_Contract Graph_Contract Runner_Contract
begin

text \<open>
  The promises to plugins over whole histories: one rollback base per operation and Environment, one
  Deployment per request, and what a rollback restores.
\<close>

section \<open>One rollback base\<close>

definition same_operation :: "external_receipt_row \<Rightarrow> external_receipt_row \<Rightarrow> bool" where
  "same_operation r s \<longleftrightarrow> ext_org r = ext_org s \<and> ext_plugin r = ext_plugin s \<and> ext_operation_ref r = ext_operation_ref s \<and>
     ext_environment_uuid r = ext_environment_uuid s"

abbreviation rollback_receipt :: "external_receipt_row \<Rightarrow> bool" where
  "rollback_receipt r \<equiv> ext_service_action r = ExternalDeploymentRollbackAction"

lemma anchored_same: "anchored r a \<Longrightarrow> same_operation s r \<Longrightarrow> anchored s a"
  by (simp add: anchored_def same_operation_def)

lemma same_anchored: "anchored r a \<Longrightarrow> anchored s a \<Longrightarrow> same_operation s r"
  by (simp add: anchored_def same_operation_def)

lemma lineage_anchor:
  assumes "lineage_inv db" "r \<in> set (external_receipts db)" "rollback_receipt r"
  obtains a where "a \<in> set (anchors db)" "anchored r a" "ext_base_deployment r = Some (anc_rollback_base a)"
  using assms unfolding lineage_inv_def by metis

lemma lineage_reachable: "ext_step\<^sup>*\<^sup>* empty_database db \<Longrightarrow> lineage_inv db"
  using lineage.run_kept lineage_inv_empty by blast

lemma lineage_later: "ext_step\<^sup>*\<^sup>* db db' \<Longrightarrow> lineage_inv db \<Longrightarrow> lineage_inv db' \<and> lineage_kept db db'"
  using lineage.run_kept by (auto simp: lineage_step_def)

lemma anchor_kept:
  assumes "lineage_inv db" "lineage_kept db db'" "a \<in> set (anchors db)"
  shows "a \<in> set (anchors db')"
proof -
  have "lookup_row anchor_key (anchor_key a) (anchors db) = Some a"
    using assms(1,3) by (simp add: lineage_inv_def anchor_tab.keyed_def lookup_row_distinct)
  with assms(2) show ?thesis unfolding lineage_kept_def by (blast dest: lookup_row_in_set)
qed


section \<open>One Deployment per request\<close>

definition answer_of :: "(ext_error + deployment_summary \<times> bool) \<times> database \<Rightarrow> external_answer \<times> database" where
  "answer_of r = (case r of (Inl e, db) \<Rightarrow> (writeAdmissionError e, db)
     | (Inr (d, replayed), db) \<Rightarrow> (ExtAccepted (if replayed then 200 else 201) (sum_id d) replayed, db))"

lemma refusal_not_accepted [simp]: "writeAdmissionError e \<noteq> ExtAccepted c i b" "refused c m t \<noteq> ExtAccepted c' i b"
  by (cases e rule: writeAdmissionError.cases; simp add: refused_def) (simp add: refused_def)

lemma external_target_refused: "external_target kit org body = Inl answer \<Longrightarrow> answer \<noteq> ExtAccepted c i b"
  by (auto simp: external_target_def Let_def split: option.splits if_splits prod.splits)

text \<open>Everything before the admission only depends on the request.\<close>

lemma handle_admission_accepted:
  assumes "handle_admission kit now wall fresh db rq = (ExtAccepted c i b, db')"
  obtains assertion key claims body mode action environment where
    "xk_verify kit assertion (xr_org rq) (xr_plugin rq) (xr_body rq) key = Some claims"
    "\<forall>now wall fresh db. handle_admission kit now wall fresh db rq = answer_of (Admit (xk_authorize kit) (xk_parse_uuid kit) now db
       (admission_request_of kit now wall fresh (xr_org rq) (xr_plugin rq) claims body mode action environment))"
proof -
  from assms obtain key assertion claims body where
    h: "xk_configured kit \<and> \<not> xr_query rq" "xr_json rq" "singleHeader (xr_keys rq) = Some key" "\<not> (key = '''' \<or> length key > 128)"
      "singleHeader (xr_assertions rq) = Some assertion" "assertion \<noteq> ''''"
      "\<not> int (length (xr_body rq)) > maxExternalDeploymentAdmissionBodyBytes" "validExternalPathIdentity (xr_org rq) (xr_plugin rq)"
      "xk_verify kit assertion (xr_org rq) (xr_plugin rq) (xr_body rq) key = Some claims" "xk_body_of kit (xr_body rq) = Some body"
      and a: "admit_body kit now wall fresh db (xr_org rq) (xr_plugin rq) claims body = (ExtAccepted c i b, db')"
    by (auto simp: handle_admission_def Let_def split: if_splits option.splits)
  from a obtain mode action environment where
    b: "\<not> (ab_operation_ref body = uuid_nil \<or> ab_fence body \<le> 0)"
      "validateExternalDeploymentBody (xk_parse_uuid kit) body = Inr (mode, action)"
      "external_target kit (xr_org rq) body = Inr environment"
    by (auto simp: admit_body_def split: if_splits sum.splits dest: external_target_refused)
  show thesis by (rule that [OF h(9), of body mode action environment]) (simp add: handle_admission_def h admit_body_def b answer_of_def)
qed

text \<open>\<^verbatim>\<open>uuid.Parse\<close> of the text of a UUID can only be that UUID.\<close>

definition uuid_codec :: "(string \<Rightarrow> uuid option) \<Rightarrow> bool" where
  "uuid_codec parse \<longleftrightarrow> (\<forall>u v. parse (uuid_text u) = Some v \<longrightarrow> v = u)"

lemma authorized_actor:
  assumes "AuthorizeExternalDeployment gc claims rq = Inr au"
  shows "\<exists>u. pg_actor claims = uuid_text u"
proof -
  from assms obtain operation x where "grant_matches claims rq operation x"
    by (auto simp: AuthorizeExternalDeployment_def split: if_splits option.splits prod.splits)
  then have "pg_actor claims = uuid_text (da_actor x)" by (simp add: grant_matches_def)
  then show ?thesis ..
qed

lemma admitted_receipt:
  assumes "Admit authorize parse now db rq = (Inr (d, False), db')" "authorize = AuthorizeExternalDeployment gc" "uuid_codec parse"
  obtains actor au r where "validateExternalDeploymentAdmission rq = Inr ()" "parse (pg_actor (ar_claims rq)) = Some actor"
    "authorize (ar_claims rq) (grant_request_of rq) = Inr au" "externalDeploymentAuthorizationMatches au rq"
    "lookup_row ext_receipt_key (pg_org (ar_claims rq), pg_plugin (ar_claims rq), pg_request (ar_claims rq)) (external_receipts db') = Some r"
    "ext_deployment r = sum_id d" "externalDeploymentReceiptMatches r rq actor au"
  using assms(1)
proof (cases rule: Admit_cases)
  case (admitted actor au d')
  obtain x db1 r where x: "d' = xc_deployment x" "CreateExternalOperationDeploymentReceipt now db1 (receipt_of rq au x) = Inr (r, db')"
    using admit_new_cases [OF admitted(5)] by metis
  note rc = CreateReceipt_cases [OF x(2)]
  obtain u where u: "pg_actor (ar_claims rq) = uuid_text u" using authorized_actor admitted(2) assms(2) by blast
  have "actor = u" using assms(3) admitted(1) u by (auto simp: uuid_codec_def)
  moreover have "validateExternalDeploymentAdmission rq = Inr ()" using assms(1) by (auto simp: Admit_def split: sum.splits)
  moreover have "lookup_row ext_receipt_key (ext_receipt_key r) (external_receipts db') = Some r"
    using rc(2,3) by (simp add: lookup_row_append)
  ultimately show ?thesis using admitted x(1) u
    by (intro that [of actor au r]) (simp_all add: rc(1) receipt_of_def ext_receipt_key_def
        externalDeploymentReceiptMatches_def externalDeploymentAuthorizationMatches_def)
qed (use assms in auto)

lemma GetDeployment_sum_id: "GetDeployment db org i = Inr (d, rest) \<Longrightarrow> sum_id d = i"
  by (auto elim!: GetDeployment_Inr dest!: find_deployment_Some)

text \<open>A stored receipt answers for every later request of its identity.\<close>

lemma Admit_stored:
  assumes "lookup_row ext_receipt_key k (external_receipts db) = Some r" "(pg_org (ar_claims rq), pg_plugin (ar_claims rq), pg_request (ar_claims rq)) = k"
    and "Admit authorize parse now db rq = (answer, db')"
  shows "db' = db \<and> (\<forall>d replayed. answer = Inr (d, replayed) \<longrightarrow> replayed \<and> sum_id d = ext_deployment r)"
proof (intro conjI allI impI)
  show "db' = db" using assms by (auto simp: Admit_def GetExternalOperationDeploymentReceipt_def split: sum.splits option.splits if_splits)
  show "replayed" "sum_id d = ext_deployment r" if "answer = Inr (d, replayed)" for d replayed
    using assms that by (auto simp: Admit_def GetExternalOperationDeploymentReceipt_def replay_receipt_def split: sum.splits option.splits if_splits
      dest: GetDeployment_sum_id)
qed

text \<open>The creator is the only part of a request that depends on the time.\<close>

lemma creator_irrelevant [simp]:
  "validateExternalDeploymentAdmission (rq\<lparr>ar_create := f\<rparr>) = validateExternalDeploymentAdmission rq"
  "grant_request_of (rq\<lparr>ar_create := f\<rparr>) = grant_request_of rq"
  "externalDeploymentAuthorizationMatches au (rq\<lparr>ar_create := f\<rparr>) = externalDeploymentAuthorizationMatches au rq"
  "externalDeploymentReceiptMatches r (rq\<lparr>ar_create := f\<rparr>) actor au = externalDeploymentReceiptMatches r rq actor au"
  by (simp_all add: validateExternalDeploymentAdmission_def grant_request_of_def externalDeploymentAuthorizationMatches_def
      externalDeploymentReceiptMatches_def Let_def)

lemma claims_of: "ar_claims (admission_request_of kit now wall fresh org plugin claims body mode action environment) = claims"
  by (simp add: admission_request_of_def)

lemma Admit_replays:
  assumes "validateExternalDeploymentAdmission rq = Inr ()" "parse (pg_actor (ar_claims rq)) = Some actor"
    and "authorize (ar_claims rq) (grant_request_of rq) = Inr au" "externalDeploymentAuthorizationMatches au rq"
    and "lookup_row ext_receipt_key (pg_org (ar_claims rq), pg_plugin (ar_claims rq), pg_request (ar_claims rq)) (external_receipts db) = Some r"
    and "externalDeploymentReceiptMatches r rq actor au"
  shows "Admit authorize parse now db (rq\<lparr>ar_create := f\<rparr>) =
    (case GetDeployment db (pg_org (ar_claims rq)) (ext_deployment r) of
       Inr (d, _) \<Rightarrow> Inr (d, True)
     | Inl e \<Rightarrow> Inl (if IsErrNotFound e
         then ext_conflict ''external deployment receipt exists but its deployment is no longer retained'' else ExtFailure (ModelFailure e)), db)"
  using assms by (simp add: Admit_def GetExternalOperationDeploymentReceipt_def replay_receipt_def split: sum.split)


section \<open>Late results of operations\<close>

text \<open>The receipt of the first forward Deployment is the only one of that Deployment.\<close>

lemma first_receipt_unique:
  assumes "lineage_inv db" "a \<in> set (anchors db)" "r \<in> set (external_receipts db)" "ext_deployment r = anc_first_forward a"
  shows "ext_base_deployment r = Some (anc_rollback_base a)"
proof -
  obtain f where f: "f \<in> set (external_receipts db)" "first_receipt a f" using assms(1,2) unfolding lineage_inv_def by blast
  then have "ext_deployment f = ext_deployment r" using assms(4) by (simp add: first_receipt_def)
  with assms(1,3) f(1) have "f = r" unfolding lineage_inv_def by (meson distinct_map inj_onD)
  with f(2) show ?thesis by (simp add: first_receipt_def)
qed

lemma owned_lineage:
  assumes "lineage_inv db" "late_owned db dep"
  shows "\<exists>r \<in> set (external_receipts db). \<exists>a \<in> set (anchors db). anchored r a \<and> ext_deployment r = sum_id dep \<and>
    ext_base_deployment r = Some (anc_rollback_base a) \<and> (rollback_receipt r \<or> anc_first_forward a = sum_id dep)"
proof -
  from assms(2) obtain r a where r: "r \<in> set (external_receipts db)" "a \<in> set (anchors db)" "receipt_owns db dep r a"
    by (auto simp: late_owned_def exists_row_def)
  then have o: "anchored r a" "ext_deployment r = sum_id dep" by (simp_all add: receipt_owns_def)
  from assms(1) r(1) obtain b where b: "b \<in> set (anchors db)" "anchored r b"
    "if rollback_receipt r then ext_base_deployment r = Some (anc_rollback_base b) else ext_forward_deployment r = None"
    unfolding lineage_inv_def by (metis (no_types, lifting))
  have "b = a" using anchored_unique [OF assms(1) b(1) r(2) b(2) o(1)] .
  show ?thesis
  proof (cases "rollback_receipt r")
    case True
    with b(3) \<open>b = a\<close> r o show ?thesis by auto
  next
    case False
    with b(3) r(3) have "anc_first_forward a = sum_id dep" by (auto simp: receipt_owns_def action_defs)
    moreover have "ext_base_deployment r = Some (anc_rollback_base a)" using first_receipt_unique [OF assms(1) r(2,1)] calculation o(2) by simp
    ultimately show ?thesis using r o by blast
  qed
qed

text \<open>
  (C21) In every history of admissions a late Runner result is retained only for a rollback of an
  operation or for the first forward Deployment of one, and the base the operation can go back to is
  the one the receipt of that Deployment captured. A later forward attempt of the same operation
  never has its late result retained.
\<close>

theorem late_result_of_lineage:
  assumes "ext_step\<^sup>*\<^sup>* empty_database db" "retainLateRunnerResult kit now db previous runner envelope digest body = Inr db'" "db' \<noteq> db"
  shows "\<exists>r \<in> set (external_receipts db). \<exists>a \<in> set (anchors db). anchored r a \<and> ext_deployment r = sum_id previous \<and>
    ext_base_deployment r = Some (anc_rollback_base a) \<and> (rollback_receipt r \<or> anc_first_forward a = sum_id previous)"
  using assms(2)
proof (cases rule: retainLate_cases)
  case (retained dep db1 l)
  have "late_owned db dep" using retained(2) by (auto simp: check_late_base_def split: if_splits)
  moreover have "sum_id dep = sum_id previous" using retained(1) by (auto elim!: check_late_attempt_cases dest: find_deployment_Some)
  ultimately show ?thesis using owned_lineage [OF lineage_reachable [OF assms(1)]] by metis
qed (use assms(3) in simp_all)

section \<open>What is created\<close>

lemma operationRollbackAnchor_frame:
  assumes "operationRollbackAnchor db scope True = Inr (found, db')"
  shows "db' = db\<lparr>anchors := anchors db'\<rparr>"
  using assms by (cases rule: operationRollbackAnchor_cases) (auto dest: CreateAnchor_cases(1))

lemma anchored_reads:
  assumes "db' = db\<lparr>anchors := x\<rparr>"
  shows "GetDeployment db' org i = GetDeployment db org i" "GetLastDeployment db' org project env b = GetLastDeployment db org project env b"
    "plans db' = plans db" "last_executing db' org project env = last_executing db org project env"
  unfolding assms
  by (simp_all add: GetDeployment_def GetLastDeployment_def last_executing_def find_env_def find_deployment_def last_deployment_def split: option.split)

lemma checked_snapshot_cases:
  assumes "checked_snapshot kit db actor org plugin body plan = Inr p"
  shows "p \<in> set (plans db) \<and> plan_key p = (org, plugin, pln_request p) \<and> pln_fingerprint p = plr_fingerprint plan"
  using assms by (auto simp: checked_snapshot_def GetExternalDeploymentPlanSnapshotByID_def GetExternalDeploymentPlanSnapshot_def plan_key_def
      split: option.splits if_splits dest!: lookup_row_Some)

lemma compile_base:
  assumes "compile_request tk cl db rq ops runner = Inr cd" "rq_rollback_to rq = None"
  shows "case GetLastDeployment db (rq_org rq) (rq_project rq) (rq_env rq) True of
     Inl e \<Rightarrow> cd_base cd = uuid_nil | Inr (head, _) \<Rightarrow> sum_id head = cd_base cd"
proof -
  from assms(1) obtain rf where "find_reference tk db rq = Inr rf" "cd_base cd = rf_id rf" by (auto simp: compile_request_def)
  with assms(2) show ?thesis
    by (auto simp: find_reference_def no_reference_def conflictC_def split: sum.splits if_splits)
qed

lemma created_row:
  assumes "CreateDeployment row_ok now wall fresh db org project env (creation_params tk rq ops cd) = Inr (d, db1)" "deployments db' = deployments db1"
  obtains row where "find_deployment fresh db' = Some row" "dep_mode row = rq_mode rq" "dep_rollback_to row = rq_rollback_to rq"
    "dep_manifest row = cd_manifest cd" "dep_graph row = cd_graph_text cd" "dep_module_artifacts row = cd_artifacts cd"
proof (rule that)
  show "find_deployment fresh db' = Some (new_deployment wall (creation_params tk rq ops cd) fresh)"
    using assms(1)
  proof (rule CreateDeployment_cases)
    fix db2
    assume "fresh \<notin> dep_id ` set (deployments db)" and "db1 = db2\<lparr>deployments := deployments db @ [new_deployment wall (creation_params tk rq ops cd) fresh],
         budgets := budgets db @ [\<lparr>bud_deployment = fresh, bud_revision = 1, bud_first_attempt_at = None,
           bud_deadline = None, bud_completion_received_at = None, bud_legacy = False\<rparr>]\<rparr>"
    then show ?thesis using assms(2)
      by (simp add: find_deployment_def lookup_row_append new_deployment_def lookup_row_None [THEN iffD2])
  qed
qed (simp_all add: new_deployment_def creation_params_def)

lemma created_head:
  assumes "CreateDeployment row_ok now wall fresh db org project env p = Inr (d, db1)" "cp_expected_current p = Some head"
  shows "\<exists>e. last_executing db org project env = Some (e, head)"
  using assms(1)
proof (rule CreateDeployment_cases)
  assume "creation_checks db org project env p = Inr ()"
  then show ?thesis using assms(2)
    by (auto simp: creation_checks_def captured_base_check_def split: option.splits if_splits)
qed

lemma rollback_head_is:
  assumes "rollback_head db org plugin body scope base forward retry = Inr (head, retryOf)"
  shows "head = (case retry of None \<Rightarrow> forward | Some i \<Rightarrow> i)"
  using assms by (auto simp: rollback_head_def split: option.splits if_splits)

text \<open>
  (C11) A rollback of a plugin restores the base of the operation: the Deployment it creates goes back
  to the base its anchor names, a retained successful Deployment, resolves exactly the Module
  Versions of that base, and replaces the forward Deployment the request names, or the failed
  rollback it retries, as the head of the Environment.
\<close>

theorem rollback_restores_base:
  assumes "createExternalRollback kit now wall fresh db actor org plugin body rb environment recipient = Inr (x, db')"
  shows "\<exists>a base rest row versions expected. a \<in> set (anchors db') \<and> anchor_key a = anchor_key (externalRollbackScope org plugin body) \<and>
    xc_base x = Some (anc_rollback_base a) \<and>
    GetDeployment db org (anc_rollback_base a) = Inr (base, rest) \<and> sum_status base = StatusSucceeded \<and>
    find_deployment fresh db' = Some row \<and> dep_mode row = ModeRollback \<and> dep_rollback_to row = Some (anc_rollback_base a) \<and>
    immutableModuleVersions (dep_module_artifacts row) = Inr versions \<and>
    immutableModuleVersions (sum_module_artifacts base) = Inr expected \<and> set versions = set expected \<and>
    (\<exists>e. last_executing db org (ab_project body) (ab_env body) =
       Some (e, case rbr_retry_of rb of None \<Rightarrow> rbr_forward rb | Some i \<Rightarrow> i))"
  using assms
proof (rule createExternalRollback_cases)
  fix db1 forward head retryOf expected d and a :: anchor_row and base :: deployment_summary
  let ?rq = "external_request actor org body environment ModeRollback (Some (anc_rollback_base a)) empty_manifest recipient"
  let ?ops = "plain_options\<lparr>op_confirmations := map art_version_uuid (sum_module_artifacts base), op_expected_current := Some head,
         op_retry_of_rollback := retryOf, op_validate_plan := Some (validate_rollback_plan (anc_rollback_base a) expected)\<rparr>"
  assume o: "operationRollbackAnchor db (externalRollbackScope org plugin body) True = Inr (Some a, db1)"
    and f: "rollback_forward db1 org plugin body (rbr_forward rb) = Inr forward"
    and h: "rollback_head db1 org plugin body (externalRollbackScope org plugin body) (anc_rollback_base a) (sum_id forward) (rbr_retry_of rb) = Inr (head, retryOf)"
    and b: "rollback_base db1 org body (anc_rollback_base a) = Inr base" "immutableModuleVersions (sum_module_artifacts base) = Inr expected"
    and c: "create_external kit now wall fresh db1 ?rq ?ops = Inr (d, db')"
    and x: "xc_base x = Some (anc_rollback_base a)"
  obtain runner cd db2 where cd: "plan_refused ?ops cd = None"
    and n: "CreateDeployment (tk_row_ok (xk_tool kit)) now wall fresh db1 org (ab_project body) (ab_env body) (creation_params (xk_tool kit) ?rq ?ops cd) = Inr (d, db2)"
    and w: "db' = db2\<lparr>nodes := nodes db', edges := edges db'\<rparr>"
    using create_external_cases [OF c, simplified] by metis
  note same = anchored_reads [OF operationRollbackAnchor_frame [OF o]]
  obtain versions where v: "immutableModuleVersions (cd_artifacts cd) = Inr versions" "set versions = set expected"
    using cd by (auto simp: plan_refused_def validate_rollback_plan_def split: sum.splits if_splits)
  have g: "\<exists>rest. GetDeployment db org (anc_rollback_base a) = Inr (base, rest)" "sum_status base = StatusSucceeded"
    using b(1) by (auto simp: rollback_base_def same(1) split: sum.splits if_splits)
  have "deployments db' = deployments db2" by (subst w) simp
  then obtain row where row: "find_deployment fresh db' = Some row" "dep_mode row = ModeRollback" "dep_rollback_to row = Some (anc_rollback_base a)"
    "dep_module_artifacts row = cd_artifacts cd" by (rule created_row [OF n]) simp
  have fwd: "sum_id forward = rbr_forward rb" using f by (auto simp: rollback_forward_def split: sum.splits if_splits dest: GetDeployment_sum_id)
  have "a \<in> set (anchors db')" using found_anchor(3) [OF o] create_external_frame(2) [OF c] by (auto dest: lookup_row_in_set)
  moreover have "\<exists>e. last_executing db org (ab_project body) (ab_env body) = Some (e, head)"
    using created_head [OF n, of head] by (simp add: same(4) creation_params_def)
  ultimately show ?thesis
    using found_anchor(2) [OF o] x g row v [folded row(4)] b(2) unfolding rollback_head_is [OF h] fwd by blast
qed

text \<open>
  (C10) A forward Deployment of a plugin is the plan that was approved: the snapshot it names is
  stored for this plugin with the fingerprint the request repeats, the head of the Environment is
  the base of the plan, and the manifest, graph, difference and artifacts of the Deployment that is
  stored have that very fingerprint.
\<close>

theorem forward_realises_plan:
  assumes "createExternalDeploymentFromSnapshot kit now wall fresh db actor org plugin body plan environment recipient = Inr (x, db')"
  shows "\<exists>p row diff. p \<in> set (plans db) \<and> plan_key p = (org, plugin, pln_request p) \<and> pln_fingerprint p = plr_fingerprint plan \<and>
    find_deployment fresh db' = Some row \<and> dep_mode row = ModeDeploy \<and> dep_module_artifacts row = pln_artifacts p \<and>
    deploymentPlanFingerprint kit (pln_base p) (dep_manifest row) (dep_graph row) (xk_diff_text kit diff) (dep_module_artifacts row) =
      plr_fingerprint plan \<and>
    (case GetLastDeployment db org (ab_project body) (ab_env body) True of
       Inl e \<Rightarrow> pln_base p = uuid_nil | Inr (head, _) \<Rightarrow> sum_id head = pln_base p)"
  using assms
proof (rule createForward_cases)
  let ?scope = "externalRollbackScope org plugin body"
  fix anchor db1 p manifest d db2 and m :: plan_maps
  let ?rq = "external_request actor org body environment ModeDeploy None manifest recipient"
  let ?ops = "plain_options\<lparr>op_explicit := pm_explicit m, op_module_operation := Some (ab_operation_ref body),
         op_authorize := Some (authorize_target (pm_targets m)), op_validate_plan := Some (validate_forward_plan kit p)\<rparr>"
  assume o: "operationRollbackAnchor db ?scope True = Inr (anchor, db1)" and p: "checked_snapshot kit db1 actor org plugin body plan = Inr p"
    and c: "create_external kit now wall fresh db1 ?rq ?ops = Inr (d, db2)" and a: "anchor_first db2 anchor ?scope (sum_id d) (pln_base p) = Inr db'"
  obtain runner cd db3 where k: "compile_request (xk_tool kit) (xk_control kit) db1 ?rq ?ops runner = Inr cd" "plan_refused ?ops cd = None"
    and n: "CreateDeployment (tk_row_ok (xk_tool kit)) now wall fresh db1 org (ab_project body) (ab_env body) (creation_params (xk_tool kit) ?rq ?ops cd) = Inr (d, db3)"
    and w: "db2 = db3\<lparr>nodes := nodes db2, edges := edges db2\<rparr>"
    using create_external_cases [OF c, simplified] by metis
  note same = anchored_reads [OF operationRollbackAnchor_frame [OF o]]
  have cd: "cd_base cd = pln_base p" "cd_artifacts cd = pln_artifacts p"
    "deploymentPlanFingerprint kit (cd_base cd) (cd_manifest cd) (cd_graph_text cd) (xk_diff_text kit (cd_diff cd)) (cd_artifacts cd) = pln_fingerprint p"
    using k(2) by (auto simp: plan_refused_def validate_forward_plan_def split: if_splits)
  have p': "p \<in> set (plans db)" "plan_key p = (org, plugin, pln_request p)" "pln_fingerprint p = plr_fingerprint plan"
    using checked_snapshot_cases [OF p] same(3) by simp_all
  have "deployments db' = deployments db3"
    using a by (cases rule: anchor_first_cases; simp; subst w; simp)
  then obtain row where row: "find_deployment fresh db' = Some row" "dep_mode row = ModeDeploy" "dep_manifest row = cd_manifest cd"
    "dep_graph row = cd_graph_text cd" "dep_module_artifacts row = cd_artifacts cd" by (rule created_row [OF n]) simp
  have "case GetLastDeployment db org (ab_project body) (ab_env body) True of
       Inl e \<Rightarrow> pln_base p = uuid_nil | Inr (head, _) \<Rightarrow> sum_id head = pln_base p"
    using compile_base [OF k(1)] unfolding cd(1) by (simp add: same(2))
  with p' row show ?thesis using cd unfolding row(3-5) [symmetric] by (intro exI [of _ p] exI [of _ row] exI [of _ "cd_diff cd"]) simp
qed

section \<open>A sample plugin\<close>

definition sample_uuid_of :: "string \<Rightarrow> uuid option" where
  "sample_uuid_of s = find (\<lambda>u. uuid_text u = s) [5, 51, 81]"

definition sample_sha64 :: string where
  "sample_sha64 = replicate 64 (CHR ''0'')"

definition sample_grants :: grant_client where
  "sample_grants = \<lparr>gc_configured = True, gc_parse_uuid = sample_uuid_of, gc_call = (\<lambda>org plugin operation c. Some (200, Some
     \<lparr>da_operation = operation, da_fence = dc_fence c, da_action = dc_action c, da_dispatch = dc_dispatch c, da_plugin = plugin,
      da_org = org, da_project = dc_project c, da_environment = dc_environment c, da_digest = dc_digest c, da_actor = 5\<rparr>))\<rparr>"

definition sample_plan :: plan_row where
  "sample_plan = \<lparr>pln_id = 61, pln_org = ''acme'', pln_plugin = ''io.ci'', pln_request = ''p'', pln_actor = 5, pln_body_sha256 = sample_sha64,
     pln_project = ''shop'', pln_project_uuid = 3, pln_env = ''prod'', pln_environment = 7, pln_base = 21,
     pln_fingerprint = ''sha256:'' @ sample_sha64, pln_manifest = ''{}'', pln_graph = ''{}'', pln_diff = ''{}'', pln_artifacts = [],
     pln_targets = [\<lparr>tgt_module_id = ''pg'', tgt_module_uuid = 81, tgt_version = ''2'', tgt_version_uuid = 82, tgt_semantic_version = '''',
       tgt_digest = ''''\<rparr>], pln_created_at = 0\<rparr>"

definition sample_plan_reference :: plan_reference where
  "sample_plan_reference = \<lparr>plr_snapshot = 61, plr_fingerprint = ''sha256:'' @ sample_sha64, plr_expected = [(uuid_text 81, 82)]\<rparr>"

definition sample_external_body :: "bool \<Rightarrow> admission_body" where
  "sample_external_body rollback = \<lparr>ab_operation_ref = 51, ab_fence = 1, ab_mode = (if rollback then ExtRollback else ExtDeploy),
     ab_project = ''shop'', ab_env = ''prod'', ab_project_uuid = 3, ab_env_uuid = 7, ab_first_forward = None,
     ab_plan = (if rollback then None else Some sample_plan_reference),
     ab_rollback = (if rollback then Some \<lparr>rbr_forward = 22, rbr_retry_of = None\<rparr> else None), ab_log_level = None\<rparr>"

definition sample_external_kit :: external_kit where
  "sample_external_kit = \<lparr>xk_configured = True, xk_tool = sample_toolkit,
     xk_control = sample_control\<lparr>cl_published := (\<lambda>headers pinned ignored. Some \<lparr>cg_status = 200, cg_catalogue = Inr (Some \<lparr>cat_modules =
       [sample_definition\<lparr>cm_rules := [\<lparr>rule_class = ''default'', rule_id = None\<rparr>]\<rparr>], cat_providers = []\<rparr>), cg_not_found = None, cg_conflict = None\<rparr>)\<rparr>,
     xk_core = sample_core, xk_authorize = AuthorizeExternalDeployment sample_grants,
     xk_vault = \<lparr>va_key = Some (Some (True, False)), va_create_key = True, va_identity = Some (''i'', ''age1''), va_encrypt = Some,
       va_recipient_ok = (\<lambda>r. True)\<rparr>,
     xk_parse_uuid = sample_uuid_of, xk_sha = (\<lambda>t. sample_sha64), xk_canonical = (\<lambda>t. t), xk_artifacts_text = (\<lambda>artifacts. ''[]''),
     xk_diff_text = (\<lambda>d. ''{}''),
     xk_verify = (\<lambda>assertion org plugin body key. Some \<lparr>pg_audience = ExternalDeploymentAudience, pg_operation = ExternalDeploymentAction,
       pg_org = org, pg_plugin = plugin, pg_actor = uuid_text 5, pg_request = key, pg_body_sha256 = sample_sha64\<rparr>),
     xk_body_of = (\<lambda>t. Some (sample_external_body (t = ''rollback''))),
     xk_environment = (\<lambda>org project env. Some (200, Some \<lparr>xe_project = project, xe_env = env, xe_environment = sample_environment\<rparr>))\<rparr>"

definition sample_external_request :: "string \<Rightarrow> string \<Rightarrow> external_http_request" where
  "sample_external_request key body = \<lparr>xr_query = False, xr_json = True, xr_keys = [key], xr_assertions = [''jwt''], xr_org = ''acme'',
     xr_plugin = ''io.ci'', xr_body = body\<rparr>"

definition sample_planned :: database where
  "sample_planned = sample_succeeded\<lparr>plans := [sample_plan]\<rparr>"

definition sample_forwarding :: "external_answer \<times> database" where
  "sample_forwarding = handle_admission sample_external_kit 200 200 22 sample_planned (sample_external_request ''k1'' ''deploy'')"

definition sample_forwarded :: database where
  "sample_forwarded = (case UpdateDeploymentStatusAndOutputs 250 250 (snd sample_forwarding) 22 Request_Contract.sample_success of
     Inr (s, db) \<Rightarrow> db | Inl e \<Rightarrow> snd sample_forwarding)"

definition sample_undoing :: "external_answer \<times> database" where
  "sample_undoing = handle_admission sample_external_kit 300 300 23 sample_forwarded (sample_external_request ''k2'' ''rollback'')"

lemma sample_kit_bound: "claims_bound sample_external_kit"
  by (simp add: claims_bound_def sample_external_kit_def)

lemma sample_kit_authorize: "xk_authorize sample_external_kit = AuthorizeExternalDeployment sample_grants"
  by (simp add: sample_external_kit_def)

lemma sample_kit_codec: "uuid_codec (xk_parse_uuid sample_external_kit)"
  by (auto simp: uuid_codec_def sample_external_kit_def sample_uuid_of_def split: if_splits dest!: uuid_text_inj)

lemma sample_base_receipts: "external_receipts sample_planned = [] \<and> anchors sample_planned = []"
  by code_simp

lemma sample_forward_answer: "fst sample_forwarding = ExtAccepted 201 22 False"
  by code_simp

lemma UpdateDeployment_lineage:
  assumes "UpdateDeploymentStatusAndOutputs now wall db i p = Inr (s, db')" "up_status p \<noteq> StatusExecuting"
  shows "external_receipts db' = external_receipts db \<and> anchors db' = anchors db"
  using assms
  by (rule UpdateDeployment_cases) (simp, simp add: terminal_effects_def Let_def ReleaseRunnerJob_def RecordDeploymentCompletion_def)

lemma sample_forwarded_rest:
  "external_receipts sample_forwarded = external_receipts (snd sample_forwarding) \<and> anchors sample_forwarded = anchors (snd sample_forwarding)"
  by (auto simp: sample_forwarded_def Request_Contract.sample_success_def split: sum.splits dest!: UpdateDeployment_lineage)

lemma sample_forward_retained: "\<not> isl (GetDeployment sample_forwarded ''acme'' 22)"
  by code_simp

lemma sample_undoing_receipts:
  "map (\<lambda>r. (ext_deployment r, rollback_receipt r)) (external_receipts (snd sample_undoing)) = [(22, False), (23, True)]"
  by code_simp

lemma sample_planned_reached: "ext_step\<^sup>*\<^sup>* empty_database sample_planned"
  by (rule r_into_rtranclp, rule ext_rest) (simp_all add: sample_base_receipts empty_database_def)

lemma sample_forwarding_step:
  "handle_admission sample_external_kit 200 200 22 sample_planned (sample_external_request ''k1'' ''deploy'') =
     (ExtAccepted 201 22 False, snd sample_forwarding)"
  using sample_forward_answer by (simp add: sample_forwarding_def prod_eq_iff)

lemma sample_later: "ext_step\<^sup>*\<^sup>* (snd sample_forwarding) sample_forwarded"
  by (rule r_into_rtranclp, rule ext_rest) (simp_all add: sample_forwarded_rest)

lemma sample_undone_reached: "ext_step\<^sup>*\<^sup>* empty_database (snd sample_undoing)"
proof -
  have "ext_step sample_planned (snd sample_forwarding)" using ext_admission [OF sample_forwarding_step sample_kit_bound] .
  moreover have "ext_step sample_forwarded (snd sample_undoing)"
    by (rule ext_admission [of _ 300 300 23 _ _ "fst sample_undoing", OF _ sample_kit_bound]) (simp add: sample_undoing_def)
  ultimately show ?thesis using sample_planned_reached sample_later by (meson rtranclp.rtrancl_into_rtrancl rtranclp_trans)
qed



text \<open>The forward Deployment failed without proof that its Runner stopped, then its result arrives.\<close>

definition sample_lost :: database where
  "sample_lost = sample_fenced\<lparr>external_receipts := external_receipts (snd sample_forwarding), anchors := anchors (snd sample_forwarding)\<rparr>"

definition sample_lost_late :: "database outcome" where
  "sample_lost_late = retainLateRunnerResult sample_runner_kit 500 sample_lost
     (created_summary 300 ''acme'' ''shop'' ''prod'' sample_params 22) ''r1'' sample_envelope ''d'' Runner_Contract.sample_body"

lemma sample_lost_retained: "case sample_lost_late of Inl e \<Rightarrow> False | Inr db \<Rightarrow> length (late_results db) = 1"
  by code_simp

lemma sample_lost_empty: "late_results sample_lost = []"
  by code_simp

lemma late_result_of_lineage_witness:
  "\<exists>r \<in> set (external_receipts (snd sample_forwarding)). \<exists>a \<in> set (anchors (snd sample_forwarding)).
     ext_deployment r = 22 \<and> ext_base_deployment r = Some (anc_rollback_base a)"
proof -
  obtain db' where l: "sample_lost_late = Inr db'" "length (late_results db') = 1" using sample_lost_retained by (auto split: sum.splits)
  have "db' \<noteq> sample_lost" using l(2) sample_lost_empty by auto
  moreover have "ext_step\<^sup>*\<^sup>* empty_database sample_lost"
    using sample_planned_reached ext_admission [OF sample_forwarding_step sample_kit_bound] ext_rest [of sample_lost "snd sample_forwarding"]
    by (simp add: sample_lost_def)
  ultimately show ?thesis
    using late_result_of_lineage [OF _ l(1) [unfolded sample_lost_late_def]] by (fastforce simp: sample_lost_def created_summary_def)
qed

text \<open>The two creations of the sample.\<close>

definition sample_forward_creation :: "ext_error + external_creation \<times> database" where
  "sample_forward_creation = createExternalDeploymentFromSnapshot sample_external_kit 200 200 22 sample_planned 5 ''acme'' ''io.ci''
     (sample_external_body False) sample_plan_reference sample_environment ''age1''"

definition sample_rollback_creation :: "ext_error + external_creation \<times> database" where
  "sample_rollback_creation = createExternalRollback sample_external_kit 300 300 23 sample_forwarded 5 ''acme'' ''io.ci''
     (sample_external_body True) \<lparr>rbr_forward = 22, rbr_retry_of = None\<rparr> sample_environment ''age1''"

lemma sample_creations: "\<not> isl sample_forward_creation" "\<not> isl sample_rollback_creation"
  by code_simp+

lemma forward_realises_plan_witness:
  "\<exists>row. find_deployment 22 (snd (projr sample_forward_creation)) = Some row \<and> dep_mode row = ModeDeploy"
proof -
  obtain x db' where c: "sample_forward_creation = Inr (x, db')" using sample_creations(1) by (metis sum.collapse(2) prod.collapse)
  from forward_realises_plan [OF c [unfolded sample_forward_creation_def]] show ?thesis by (auto simp: c)
qed

lemma rollback_restores_base_witness:
  "\<exists>row. find_deployment 23 (snd (projr sample_rollback_creation)) = Some row \<and> dep_mode row = ModeRollback"
proof -
  obtain x db' where c: "sample_rollback_creation = Inr (x, db')" using sample_creations(2) by (metis sum.collapse(2) prod.collapse)
  from rollback_restores_base [OF c [unfolded sample_rollback_creation_def]] show ?thesis by (auto simp: c)
qed

end
