(* ===== verification/Spec2Isabelle.thy ===== *)
theory Spec2Isabelle
  imports Promotion_Contract Graph_Contract Lineage_Contract
begin

text \<open>
  \<^bold>\<open>Verification of the Platform Orchestrator Data Plane\<close>

  The Data Plane runs the Deployments of Environments. A request names an Environment and a manifest;
  the Data Plane compiles the manifest into a graph of resources, asks Core for admission, creates a
  Deployment in PostgreSQL, dispatches it to a Runner, and settles it when the Runner reports. While
  an Environment is occupied, requests wait in a queue. Plugins start Deployments through an
  endpoint of their own, and observe Environments without changing them. This library models the
  Go code that decides all of this, over one record \<open>database\<close> of the tables it keeps.

  \<^bold>\<open>Conventions.\<close> A table is a list of rows, \<^verbatim>\<open>internal/model/migrations\<close>
  gives the columns and the constraints; a query is a function of the database, a transaction returns
  the new database or an error, and an error leaves the old one. \<open>now\<close> is the SQL function
  \<^verbatim>\<open>now()\<close>, \<open>wall\<close> (or \<open>clock k\<close> where it is read several
  times) the clock of the process, and the fresh UUIDs are arguments. An advisory lock or
  \<^verbatim>\<open>FOR UPDATE\<close> is the atomicity of a step; rows that another transaction holds in a
  \<^verbatim>\<open>SKIP LOCKED\<close> query are given by a predicate \<open>locked\<close>. UUIDs are 128-bit
  words, instants and durations are nanoseconds as integers, with the 64-bit wrap-around written out
  where a request controls the value. Strings are byte strings in the C collation. A Go map is the
  list of its entries, in the order an iteration visits them. Message texts leave out interpolated
  identities. JSON, base64, SHA-256, UUID and URL codecs, the graph library, the OpenTofu text, Core,
  the Control Plane, IAM, Vault, the Runners and the message bus are parameters; a theorem that needs
  something of one of them has it as a hypothesis, and its witness shows a function that has it.
  Outbox messages, logs and telemetry are left out, and so are failures of the database itself.

  \<^bold>\<open>Foundations.\<close> \<open>Prelude\<close> has the results, the tables and their lemmas,
  the locale \<open>db_table\<close> of a keyed table, interpreted for every table in
  \<open>Schema\<close>, and the locale \<open>guarantee\<close>, by which what every step keeps is kept
  by every history. \<open>Opt_Values\<close> is \<^verbatim>\<open>internal/opt\<close>, \<open>Go_Text\<close>
  what is used of \<^verbatim>\<open>strconv\<close>, \<^verbatim>\<open>strings\<close> and
  \<^verbatim>\<open>json.Valid\<close>, \<open>Model_Errors\<close> and \<open>Api_Errors\<close> the errors and
  their HTTP answers, \<open>Schema\<close> the rows, parameters and summaries.

  \<^bold>\<open>Deployments and their Environment.\<close> \<open>Dispatch\<close> is the dispatch budget, the
  stop evidence and the fence of \<^verbatim>\<open>deployment_dispatch.go\<close>, \<open>Capacity\<close> the
  Runner slots of \<^verbatim>\<open>runner_capacity.go\<close>, \<open>Queue\<close> the table of
  \<^verbatim>\<open>internal/model/deployment_queue.go\<close>, \<open>Deployments\<close> and
  \<open>Deployment_Reads\<close> are \<^verbatim>\<open>internal/model/deployments.go\<close>.
  \<open>Queue_Order\<close>, \<open>Deployment_Invariant\<close> and \<open>System\<close> put them
  together: \<open>dp_step\<close> is one committed transaction, and reachable databases satisfy
  \<open>sys_inv\<close>: the references between the tables, at most one executing Deployment per
  Environment, its lease, its budget, its slot, and the capacity of every Runner.
  \<open>Queue_Contract\<close>, \<open>Deployment_Contract\<close> and \<open>Lifecycle\<close> draw the
  properties from it, among them the refinement of an Environment to an abstract machine that is idle,
  running or fenced. \<open>Acknowledgements\<close> lifts the fence by an operator.

  \<^bold>\<open>From a request to a Deployment.\<close> \<open>Admissions\<close> and
  \<open>Admission_Service\<close> are the receipts and the exchange with Core, with
  \<open>Admission_Contract\<close> (a receipt is bound or sealed, never both, and every receipt can be
  settled). \<open>Catalogue\<close>, \<open>Graph_Types\<close>, \<open>Graphs\<close>,
  \<open>Compilation\<close>, \<open>Active_Resources\<close> and \<open>Creation\<close> are the
  compilation of a manifest and \<^verbatim>\<open>CreateDeploymentWithOptions\<close>;
  \<open>Requests\<close> is the endpoint; \<open>Creation_Contract\<close>, \<open>Request_Contract\<close>,
  \<open>Resource_Contract\<close> and \<open>Graph_Contract\<close> hold their properties. The locale
  \<open>queue_creator\<close> of \<open>Promotion\<close> is what the promotion of the queue
  (\<^verbatim>\<open>deployment_queue_promotion.go\<close>) relies on, interpreted with the creation itself;
  \<open>Promotion_Contract\<close> shows its order, its termination and its agreement with the endpoint.

  \<^bold>\<open>Runners.\<close> \<open>Runner_Results\<close>, \<open>Late_Results\<close> and
  \<open>Runner_Workers\<close> are the results of Runners over HTTP and over the bus, late results, the
  worker that dispatches and the watchdog. \<open>Runner_Steps\<close> shows that all their handlers are
  made of transactions of \<open>System\<close>; \<open>Runner_Contract\<close> that a completed
  Deployment is never rewritten, that a result settles once, and what a start, a timeout and a late
  result do. \<open>Observations\<close>, \<open>Observation_Results\<close> and
  \<open>Observation_Contract\<close> are the observations of Environments.

  \<^bold>\<open>Plugins.\<close> \<open>External_Operations\<close>, \<open>External_Admission\<close> and
  \<open>External_Deployments\<close> are the receipts, plans, material and rollback anchors of plugin
  operations and their admission endpoint; \<open>External_Contract\<close> shows that a request is
  executed once and that an operation keeps its rollback base.

  \<^bold>\<open>Termination and bounds.\<close> Every definition is total. The promotion of a queue
  terminates because every round settles or defers a waiting item; the doubling of the retry delay by
  a measure; all other recursions are structural. The only fuel is the number of pages in the
  listing of the queue, and it is shown that enough pages list everything.

  \<^bold>\<open>Not modelled.\<close> Generated code, the assembly of the server, HTTP middleware,
  configuration and telemetry; the back ends of Runners, Kubernetes, ECS, AWS, GCP, Vault and OIDC
  clients and the archives sent to Runners, which are calls of other systems; the rendering of
  OpenTofu text; read-only projections (inspection for plugins, active resources, logs, bundles) and
  thin HTTP adapters over modelled operations; metadata keys. The transactions of one handler follow
  each other without another one in between; where a handler acts on a row it read before, the
  property \<open>watchdog_never_overwrites\<close> covers any change in the meantime.
\<close>

end
